(* ===== verification/Aod_Prelude.thy ===== *)
theory Aod_Prelude
  imports Main "HOL-Library.Word"
begin

text \<open>
  Shared vocabulary of the development: the C integer types of the tools as machine
  words, C character buffers as lists of characters of the declared length, the text a
  buffer holds, decimal printing as the reference for the digit loops of the code and for
  the \<open>%d\<close>/\<open>%u\<close> conversions of \<open>printf\<close>, and the collections of facts that carry the
  component proofs.
\<close>

unbundle bit_operations_syntax

section \<open>Types and collections\<close>

type_synonym u8 = "8 word"
type_synonym u16 = "16 word"
type_synonym u32 = "32 word"
type_synonym u64 = "64 word"
type_synonym s32 = "32 word"  \<comment> \<open>read with \<open>sint\<close>\<close>
type_synonym s64 = "64 word"  \<comment> \<open>read with \<open>sint\<close>\<close>
type_synonym ptr = "64 word"  \<comment> \<open>an address; 0 is NULL\<close>

named_theorems probe_defs
  \<open>definitions of the BPF programs and of the helpers they inline\<close>

named_theorems buf_simps
  \<open>lengths and contents of character buffers\<close>

section \<open>C strings in buffers\<close>

abbreviation NUL :: char where
  "NUL \<equiv> CHR 0x00"

definition c_str :: "char list \<Rightarrow> string" where
  "c_str buf = takeWhile (\<lambda>c. c \<noteq> NUL) buf"

definition zero_buf :: "nat \<Rightarrow> char list" where
  "zero_buf n = replicate n NUL"

text \<open>\<open>memcpy (dst, src, n)\<close> on disjoint buffers.\<close>

definition memcpy :: "char list \<Rightarrow> char list \<Rightarrow> nat \<Rightarrow> char list" where
  "memcpy dst src n = take n src @ drop n dst"

text \<open>
  A one byte store with the bounds the C compiler does not check: \<open>None\<close> is a store
  outside the buffer.
\<close>

definition put_char :: "char list \<Rightarrow> int \<Rightarrow> char \<Rightarrow> char list option" where
  "put_char buf pos c =
     (if 0 \<le> pos \<and> pos < int (length buf) then Some (buf[nat pos := c]) else None)"

section \<open>Decimal text\<close>

definition digit :: "nat \<Rightarrow> char" where
  "digit d = char_of (48 + d)"

fun dec :: "nat \<Rightarrow> string" where
  "dec n = (if n < 10 then [digit n] else dec (n div 10) @ [digit (n mod 10)])"

declare dec.simps [simp del]

definition sdec :: "int \<Rightarrow> string" where
  "sdec i = (if i < 0 then CHR ''-'' # dec (nat (- i)) else dec (nat i))"

section \<open>Facts about buffers\<close>

lemma length_zero_buf [simp, buf_simps]: "length (zero_buf n) = n"
  by (simp add: zero_buf_def)

lemma c_str_zero_buf [simp]: "c_str (zero_buf n) = []"
  by (cases n) (simp_all add: c_str_def zero_buf_def)

lemma length_memcpy [simp, buf_simps]:
  "n \<le> length src \<Longrightarrow> n \<le> length dst \<Longrightarrow> length (memcpy dst src n) = length dst"
  by (simp add: memcpy_def)

lemma c_str_no_nul: "NUL \<notin> set (c_str buf)"
  by (auto simp: c_str_def dest: set_takeWhileD)

lemma c_str_append_nul:
  "NUL \<notin> set s \<Longrightarrow> c_str (s @ NUL # rest) = s"
  by (auto simp: c_str_def takeWhile_append2 takeWhile_append)

lemma c_str_take_drop:
  "NUL \<notin> set s \<Longrightarrow> take (length s) buf = s \<Longrightarrow> length s < length buf \<Longrightarrow>
   buf ! length s = NUL \<Longrightarrow> c_str buf = s"
  by (metis Cons_nth_drop_Suc append_take_drop_id c_str_append_nul)

text \<open>Copying a terminated string into a zeroed longer buffer keeps its text.\<close>

lemma c_str_append_zeros: "c_str (s @ zero_buf k) = c_str s"
  by (induction s) (simp_all add: c_str_def zero_buf_def)

lemma c_str_memcpy_zero:
  assumes "length src = n" and "n \<le> m"
  shows "c_str (memcpy (zero_buf m) src n) = c_str src"
proof -
  have "memcpy (zero_buf m) src n = src @ zero_buf (m - n)"
    using assms by (simp add: memcpy_def zero_buf_def)
  then show ?thesis by (simp add: c_str_append_zeros)
qed

lemma put_char_in:
  "0 \<le> pos \<Longrightarrow> pos < int (length buf) \<Longrightarrow> put_char buf pos c = Some (buf[nat pos := c])"
  by (simp add: put_char_def)

lemma put_char_SomeD:
  "put_char buf pos c = Some b \<Longrightarrow>
   b = buf[nat pos := c] \<and> 0 \<le> pos \<and> pos < int (length buf)"
  by (auto simp: put_char_def split: if_splits)

section \<open>Facts about decimal text\<close>

lemma dec_small: "n < 10 \<Longrightarrow> dec n = [digit n]"
  by (simp add: dec.simps [of n])

lemma dec_large: "10 \<le> n \<Longrightarrow> dec n = dec (n div 10) @ [digit (n mod 10)]"
  by (simp add: dec.simps [of n])

lemma dec_not_Nil [simp]: "dec n \<noteq> []"
  by (subst dec.simps) simp

lemma length_dec_le: "n < 10 ^ k \<Longrightarrow> 0 < k \<Longrightarrow> length (dec n) \<le> k"
proof (induction k arbitrary: n)
  case 0
  then show ?case by simp
next
  case (Suc k)
  show ?case
  proof (cases "n < 10")
    case True
    then show ?thesis by (simp add: dec_small)
  next
    case False
    then have "0 < k" using Suc.prems by (cases k) auto
    moreover have "n div 10 < 10 ^ k" using Suc.prems by auto
    ultimately have "length (dec (n div 10)) \<le> k" by (rule Suc.IH [rotated])
    then show ?thesis using False by (simp add: dec_large)
  qed
qed

lemma of_char_digit: "d < 10 \<Longrightarrow> of_char (digit d) = 48 + d"
  by (simp add: digit_def take_bit_eq_mod)

lemma digit_not_nul [simp]: "d < 10 \<Longrightarrow> digit d \<noteq> NUL"
  using of_char_digit [of d] by auto

lemma nul_not_digit [simp]: "d < 10 \<Longrightarrow> NUL \<noteq> digit d"
  using digit_not_nul by metis

lemma dec_no_nul: "NUL \<notin> set (dec n)"
proof (induction n rule: dec.induct)
  case (1 n)
  show ?case
  proof (cases "n < 10")
    case True
    then have "digit n \<noteq> NUL" by simp
    with True show ?thesis by (auto simp: dec_small)
  next
    case False
    have "digit (n mod 10) \<noteq> NUL" by simp
    with False "1" show ?thesis by (auto simp: dec_large)
  qed
qed

lemma sdec_no_nul: "NUL \<notin> set (sdec i)"
  by (simp add: sdec_def dec_no_nul)

lemma length_dec_u64: "length (dec (unat (v :: u64))) \<le> 20"
proof -
  have "unat v < 2 ^ LENGTH(64)" by (rule unsigned_less)
  then have "unat v < 10 ^ 20" by simp
  then show ?thesis by (rule length_dec_le) simp
qed

section \<open>Facts about words\<close>

lemma bit_small_word:
  fixes w :: "'a::len word"
  assumes "unat w < 2 ^ k" and "bit w n"
  shows "n < k"
proof -
  have "take_bit k (unat w) = unat w" using assms(1) by (rule take_bit_nat_eq_self)
  moreover have "bit (unat w) n" using assms(2) by (simp add: bit_unsigned_iff)
  ultimately show ?thesis by (metis bit_take_bit_iff)
qed

lemma join_parts:
  fixes hi lo :: "'a::len word"
  assumes "unat lo < 2 ^ k" and "unat hi < 2 ^ (LENGTH('a) - k)" and "k \<le> LENGTH('a)"
  shows "drop_bit k (push_bit k hi OR lo) = hi" and "(push_bit k hi OR lo) AND mask k = lo"
proof -
  show "drop_bit k (push_bit k hi OR lo) = hi"
    using bit_small_word [OF assms(1)] bit_small_word [OF assms(2)] assms(3)
    by (intro bit_word_eqI) (fastforce simp: bit_simps dest: bit_imp_le_length)
  show "(push_bit k hi OR lo) AND mask k = lo"
    using bit_small_word [OF assms(1)]
    by (intro bit_word_eqI) (auto simp: bit_simps dest: bit_imp_le_length)
qed

lemma split_parts:
  fixes w :: "'a::len word"
  shows "push_bit k (drop_bit k w) OR (w AND mask k) = w"
  by (intro bit_word_eqI) (auto simp: bit_simps)

lemma mask20: "(mask 20 :: u32) = 1048575"
  by (simp add: mask_eq_exp_minus_1)

lemma ucast_scast_s32 [simp]: "ucast (scast (r :: s32) :: s64) = r"
  by (rule bit_word_eqI) (simp add: bit_simps)

lemma ucast_ucast_u32: "ucast (ucast (w :: u32) :: u64) = w"
  by (rule bit_word_eqI) (simp add: bit_simps)

lemma ucast_ucast_u8: "ucast (ucast (w :: u8) :: u32) = w"
  by (rule bit_word_eqI) (simp add: bit_simps)

lemma packed_dev_iff:
  fixes M m dev :: u32
  assumes "M < 2 ^ 12" and "m < 2 ^ 20"
  shows "M = drop_bit 20 dev \<and> m = dev AND mask 20 \<longleftrightarrow> dev = push_bit 20 M OR m"
proof -
  have lo: "unat m < 2 ^ 20" and hi: "unat M < 2 ^ (LENGTH(32) - 20)"
    using assms by (simp_all add: word_less_nat_alt)
  show ?thesis using join_parts [OF lo hi] split_parts [of 20 dev] by auto
qed

lemma unat_ucast_up:
  "unat (ucast (w :: u16) :: u64) = unat w" "unat (ucast (v :: u32) :: u64) = unat v"
proof -
  have "unat w < 2 ^ LENGTH(16)" and "unat v < 2 ^ LENGTH(32)" by (rule unsigned_less)+
  then show "unat (ucast w :: u64) = unat w" and "unat (ucast v :: u64) = unat v"
    by (simp_all add: unsigned_ucast_eq take_bit_nat_eq_self)
qed

lemma dec_01: "dec 0 = ''0''" "dec (Suc 0) = ''1''"
  by code_simp+

lemma zero_buf_first [simp]: "(zero_buf n)[0 := NUL] = zero_buf n"
  by (cases n) (simp_all add: zero_buf_def)

lemma length_dec_small: "length (dec (unat (w :: u16))) \<le> 20" "length (dec (unat (v :: u32))) \<le> 20"
  using length_dec_u64 [of "ucast w"] length_dec_u64 [of "ucast v"] by (simp_all add: unat_ucast_up)

lemma c_str_first_nul [simp]: "c_str (buf[0 := NUL]) = []"
  by (cases buf) (simp_all add: c_str_def)

lemma sint_uminus_s32:
  fixes r :: s32
  assumes "sint r < 0" and "r \<noteq> - (2 ^ 31)"
  shows "sint (- r) = - sint r"
proof -
  have r: "r = word_of_int (sint r)" by simp
  then have "sint r \<noteq> - (2 ^ 31)" using assms(2) by fastforce
  moreover have "- (2 ^ 31) \<le> sint r" using sint_greater_eq [of r] by simp
  ultimately have "signed_take_bit 31 (- sint r) = - sint r"
    using assms(1) by (intro signed_take_bit_int_eq_self) auto
  moreover have "sint (word_of_int (- sint r) :: s32) = signed_take_bit 31 (- sint r)"
    by (subst sint_sbintrunc') simp
  moreover have "- r = word_of_int (- sint r)" by simp
  ultimately show ?thesis by (simp only:)
qed

end
