(* ===== verification/C_Library.thy ===== *)
theory C_Library
  imports Aod_Prelude
begin

text \<open>
  The parts of the C library that the loaders use on their option arguments: \<open>strtok\<close> with the
  delimiter set ",", \<open>strtol\<close> and its relatives, \<open>atoi\<close> (as glibc defines it, a \<open>strtol\<close> cut to
  \<open>int\<close>) and \<open>bsearch\<close>. A string is the list of its characters without the terminating NUL.
\<close>

section \<open>Splitting\<close>

text \<open>The tokens that \<open>strtok (input, ",")\<close>, \<open>strtok (NULL, ",")\<close>, \<dots> return in turn.\<close>

fun strtok_comma :: "string \<Rightarrow> string \<Rightarrow> string list" where
  "strtok_comma acc [] = (if acc = [] then [] else [rev acc])"
| "strtok_comma acc (c # cs) =
     (if c = CHR '','' then (if acc = [] then strtok_comma [] cs else rev acc # strtok_comma [] cs)
      else strtok_comma (c # acc) cs)"

definition tokens :: "string \<Rightarrow> string list" where
  "tokens s = strtok_comma [] s"

section \<open>Numbers\<close>

definition isspace :: "char \<Rightarrow> bool" where
  "isspace c \<longleftrightarrow> c = CHR '' '' \<or> of_char c \<in> {9 ..< 14 :: nat}"

definition digit_val :: "char \<Rightarrow> nat" where
  "digit_val c =
     (let n = of_char c :: nat
      in if 48 \<le> n \<and> n < 58 then n - 48
         else if 97 \<le> n \<and> n < 123 then n - 87
         else if 65 \<le> n \<and> n < 91 then n - 55
         else 99)"

text \<open>The value and the rest of a digit sequence; \<open>None\<close> when there is no digit.\<close>

fun scan_digits :: "nat \<Rightarrow> nat \<Rightarrow> string \<Rightarrow> nat \<times> string" where
  "scan_digits base acc [] = (acc, [])"
| "scan_digits base acc (c # cs) =
     (if digit_val c < base then scan_digits base (acc * base + digit_val c) cs else (acc, c # cs))"

definition scan_number :: "nat \<Rightarrow> string \<Rightarrow> (nat \<times> string) option" where
  "scan_number base s =
     (case s of [] \<Rightarrow> None | c # cs \<Rightarrow> if digit_val c < base then Some (scan_digits base 0 s) else None)"

text \<open>The subject sequence after an optional sign: base 0 looks at the prefix.\<close>

definition scan_prefixed :: "nat \<Rightarrow> string \<Rightarrow> (nat \<times> string) option" where
  "scan_prefixed base s =
     (if (base = 0 \<or> base = 16) \<and> 3 \<le> length s \<and> s ! 0 = CHR ''0'' \<and>
         (s ! 1 = CHR ''x'' \<or> s ! 1 = CHR ''X'') \<and> digit_val (s ! 2) < 16
      then Some (scan_digits 16 0 (drop 2 s))
      else scan_number (if base \<noteq> 0 then base
                        else if s \<noteq> [] \<and> hd s = CHR ''0'' then 8 else 10) s)"

definition split_sign :: "string \<Rightarrow> bool \<times> string" where
  "split_sign t =
     (case t of
        [] \<Rightarrow> (False, [])
      | c # r \<Rightarrow> if c = CHR ''-'' then (True, r) else if c = CHR ''+'' then (False, r) else (False, t))"

text \<open>Sign, magnitude and rest; \<open>None\<close> when no conversion is possible.\<close>

definition scan_signed :: "nat \<Rightarrow> string \<Rightarrow> (bool \<times> nat \<times> string) option" where
  "scan_signed base s =
     (let (neg, u) = split_sign (dropWhile isspace s)
      in case scan_prefixed base u of None \<Rightarrow> None | Some (v, r) \<Rightarrow> Some (neg, v, r))"

record num_result =
  num_val :: int
  num_end :: string
  num_erange :: bool

text \<open>\<open>strtol\<close> and \<open>strtoll\<close>: both 64 bit here.\<close>

definition strtol :: "nat \<Rightarrow> string \<Rightarrow> num_result" where
  "strtol base s =
     (case scan_signed base s of
        None \<Rightarrow> \<lparr>num_val = 0, num_end = s, num_erange = False\<rparr>
      | Some (neg, v, r) \<Rightarrow>
          let i = (if neg then - int v else int v)
          in if i < - (2 ^ 63) then \<lparr>num_val = - (2 ^ 63), num_end = r, num_erange = True\<rparr>
             else if 2 ^ 63 \<le> i then \<lparr>num_val = 2 ^ 63 - 1, num_end = r, num_erange = True\<rparr>
             else \<lparr>num_val = i, num_end = r, num_erange = False\<rparr>)"

definition strtoull :: "nat \<Rightarrow> string \<Rightarrow> num_result" where
  "strtoull base s =
     (case scan_signed base s of
        None \<Rightarrow> \<lparr>num_val = 0, num_end = s, num_erange = False\<rparr>
      | Some (neg, v, r) \<Rightarrow>
          if 2 ^ 64 \<le> v then \<lparr>num_val = 2 ^ 64 - 1, num_end = r, num_erange = True\<rparr>
          else \<lparr>num_val = (if neg then - int v else int v) mod 2 ^ 64, num_end = r, num_erange = False\<rparr>)"

text \<open>A C conversion to \<open>int\<close>.\<close>

definition to_int :: "int \<Rightarrow> int" where
  "to_int i = signed_take_bit 31 i"

definition atoi :: "string \<Rightarrow> int" where
  "atoi s = to_int (num_val (strtol 10 s))"

section \<open>Binary search\<close>

text \<open>\<open>bsearch\<close> of glibc between the indices \<open>l\<close> and \<open>u\<close>; \<open>cmp\<close> compares the key with an element.\<close>

function bsearch :: "('a \<Rightarrow> int) \<Rightarrow> 'a list \<Rightarrow> nat \<Rightarrow> nat \<Rightarrow> nat option" where
  "bsearch cmp xs l u =
     (if u \<le> l then None
      else let idx = (l + u) div 2; c = cmp (xs ! idx)
           in if c < 0 then bsearch cmp xs l idx
              else if 0 < c then bsearch cmp xs (idx + 1) u
              else Some idx)"
  by pat_completeness auto
termination by (relation "measure (\<lambda>(cmp, xs, l, u). u - l)") auto

declare bsearch.simps [simp del]

section \<open>Facts about numbers\<close>

lemma to_int_small: "- (2 ^ 31) \<le> i \<Longrightarrow> i < 2 ^ 31 \<Longrightarrow> to_int i = i"
  by (simp add: to_int_def signed_take_bit_int_eq_self)

lemma digit_val_digit: "d < 10 \<Longrightarrow> digit_val (digit d) = d"
  by (simp add: digit_val_def of_char_digit Let_def)

lemma scan_digits_append:
  "\<forall>c \<in> set ds. digit_val c < base \<Longrightarrow>
   scan_digits base acc (ds @ r) =
     scan_digits base (foldl (\<lambda>a c. a * base + digit_val c) acc ds) r"
  by (induction ds arbitrary: acc) simp_all

lemma dec_digits: "\<forall>c \<in> set (dec n). digit_val c < 10"
proof (induction n rule: dec.induct)
  case (1 n)
  show ?case
  proof (cases "n < 10")
    case True
    then show ?thesis by (simp add: dec_small digit_val_digit)
  next
    case False
    with "1" show ?thesis by (simp add: dec_large digit_val_digit)
  qed
qed

lemma foldl_dec: "foldl (\<lambda>a c. a * 10 + digit_val c) 0 (dec n) = n"
proof (induction n rule: dec.induct)
  case (1 n)
  show ?case
  proof (cases "n < 10")
    case True
    then show ?thesis by (simp add: dec_small digit_val_digit)
  next
    case False
    with "1" show ?thesis by (simp add: dec_large digit_val_digit)
  qed
qed

text \<open>The digit loops of the tools and the scanner are inverse to each other.\<close>

lemma scan_number_dec:
  assumes "r = [] \<or> 10 \<le> digit_val (hd r)"
  shows "scan_number 10 (dec n @ r) = Some (n, r)"
proof -
  have "scan_digits 10 0 (dec n @ r) = scan_digits 10 n r"
    using scan_digits_append [OF dec_digits, of 0 n r] by (simp add: foldl_dec)
  also have "\<dots> = (n, r)" using assms by (cases r) auto
  finally have scan: "scan_digits 10 0 (dec n @ r) = (n, r)" .
  obtain c cs where "dec n = c # cs" by (cases "dec n") simp_all
  then show ?thesis using scan dec_digits [of n] by (simp add: scan_number_def)
qed

lemma digit_plain: "digit_val c < 10 \<Longrightarrow> \<not> isspace c \<and> c \<noteq> CHR ''-'' \<and> c \<noteq> CHR ''+''"
  by (auto simp: digit_val_def isspace_def Let_def split: if_splits)

lemma scan_signed_dec:
  assumes "r = [] \<or> 10 \<le> digit_val (hd r)"
  shows "scan_signed 10 (dec n @ r) = Some (False, n, r)"
proof -
  obtain c cs where c: "dec n = c # cs" by (cases "dec n") simp_all
  then have plain: "\<not> isspace c" "c \<noteq> CHR ''-''" "c \<noteq> CHR ''+''"
    using dec_digits [of n] digit_plain by simp_all
  then have "dropWhile isspace (dec n @ r) = dec n @ r" by (simp add: c)
  then show ?thesis
    using plain scan_number_dec [OF assms, of n]
    by (simp add: scan_signed_def scan_prefixed_def split_sign_def c)
qed

lemma strtol_dec:
  assumes "r = [] \<or> 10 \<le> digit_val (hd r)" and "n < 2 ^ 63"
  shows "strtol 10 (dec n @ r) = \<lparr>num_val = int n, num_end = r, num_erange = False\<rparr>"
proof -
  have "int n < 2 ^ 63" using assms(2) by (metis of_nat_less_numeral_power_cancel_iff)
  then show ?thesis by (simp add: strtol_def scan_signed_dec [OF assms(1)])
qed

lemma atoi_dec: "n < 2 ^ 31 \<Longrightarrow> atoi (dec n) = int n"
  using strtol_dec [of "[]" n] by (simp add: atoi_def to_int_small)

section \<open>Facts about tokens\<close>

lemma strtok_comma_plain:
  "CHR '','' \<notin> set t \<Longrightarrow> strtok_comma acc (t @ r) = strtok_comma (rev t @ acc) r"
  by (induction t arbitrary: acc) auto

text \<open>A comma separated list of non-empty items has just these items as tokens.\<close>

fun commas :: "string list \<Rightarrow> string" where
  "commas [] = []"
| "commas [t] = t"
| "commas (t # ts) = t @ CHR '','' # commas ts"

lemma tokens_commas:
  "\<forall>t \<in> set ts. t \<noteq> [] \<and> CHR '','' \<notin> set t \<Longrightarrow> tokens (commas ts) = ts"
proof (induction ts rule: commas.induct)
  case (2 t)
  then show ?case using strtok_comma_plain [of t "[]" "[]"] by (simp add: tokens_def)
next
  case (3 t u ts)
  then show ?case
    using strtok_comma_plain [of t "[]" "CHR '','' # commas (u # ts)"] by (simp add: tokens_def)
qed (simp add: tokens_def)

lemma tokens_no_comma: "t \<in> set (tokens s) \<Longrightarrow> t \<noteq> [] \<and> CHR '','' \<notin> set t"
proof -
  have "CHR '','' \<notin> set acc \<Longrightarrow> t \<in> set (strtok_comma acc s) \<Longrightarrow> t \<noteq> [] \<and> CHR '','' \<notin> set t" for acc
    by (induction acc s rule: strtok_comma.induct) (auto split: if_splits)
  from this [of "[]"] show "t \<in> set (tokens s) \<Longrightarrow> t \<noteq> [] \<and> CHR '','' \<notin> set t"
    by (simp add: tokens_def)
qed

section \<open>Facts about binary search\<close>

lemma bsearch_Some:
  "bsearch cmp xs l u = Some i \<Longrightarrow> l \<le> i \<and> i < u \<and> cmp (xs ! i) = 0"
proof (induction cmp xs l u rule: bsearch.induct)
  case (1 cmp xs l u)
  let ?m = "(l + u) div 2"
  have step: "bsearch cmp xs l u =
      (if u \<le> l then None
       else if cmp (xs ! ?m) < 0 then bsearch cmp xs l ?m
       else if 0 < cmp (xs ! ?m) then bsearch cmp xs (?m + 1) u else Some ?m)"
    by (subst bsearch.simps) (simp add: Let_def)
  show ?case
  proof (cases "u \<le> l")
    case True
    then show ?thesis using "1.prems" step by simp
  next
    case False
    then have m: "l \<le> ?m" "?m < u" by auto
    consider "cmp (xs ! ?m) < 0" | "0 < cmp (xs ! ?m)" | "cmp (xs ! ?m) = 0" by linarith
    then show ?thesis
    proof cases
      case 1
      then show ?thesis using "1.IH"(1) [OF False refl refl] "1.prems" step False m by auto
    next
      case 2
      then show ?thesis using "1.IH"(2) [OF False refl refl] "1.prems" step False m by auto
    next
      case 3
      then show ?thesis using "1.prems" step False m by auto
    qed
  qed
qed

text \<open>
  On a strictly ascending array, with a comparison as \<open>compare_ints\<close>, the search finds every
  element of the range.
\<close>

lemma bsearch_finds:
  fixes xs :: "int list"
  assumes "sorted_wrt (<) xs" and "\<And>x. cmp x < 0 \<longleftrightarrow> key < x" and "\<And>x. 0 < cmp x \<longleftrightarrow> x < key"
  shows "u \<le> length xs \<Longrightarrow> l \<le> j \<Longrightarrow> j < u \<Longrightarrow> xs ! j = key \<Longrightarrow> bsearch cmp xs l u = Some j"
  using assms
proof (induction cmp xs l u rule: bsearch.induct)
  case (1 cmp xs l u)
  let ?m = "(l + u) div 2"
  have less: "\<not> u \<le> l" using "1.prems" by simp
  then have m: "?m < length xs" using "1.prems"(1) by simp
  have step: "bsearch cmp xs l u =
      (if key < xs ! ?m then bsearch cmp xs l ?m
       else if xs ! ?m < key then bsearch cmp xs (?m + 1) u else Some ?m)"
    using less "1.prems"(6,7) by (subst bsearch.simps) (simp add: Let_def)
  have mono: "xs ! a < xs ! b" if "a < b" "b < length xs" for a b
    using sorted_wrt_nth_less [OF "1.prems"(5) that] .
  consider "j < ?m" | "?m < j" | "j = ?m" by linarith
  then show ?case
  proof cases
    case 1
    then have "key < xs ! ?m" using mono [OF 1 m] "1.prems"(4) by simp
    moreover have "?m \<le> length xs" using m by simp
    ultimately show ?thesis
      using "1.IH"(1) [OF less refl refl] "1.prems" 1 step by simp
  next
    case 2
    then have "xs ! ?m < key" using mono [OF 2] "1.prems" by simp
    moreover have "?m + 1 \<le> j" using 2 by simp
    ultimately show ?thesis
      using "1.IH"(2) [OF less refl refl] "1.prems" step by simp
  next
    case 3
    then show ?thesis using step "1.prems"(4) by simp
  qed
qed

lemma bsearch_iff:
  fixes xs :: "int list"
  assumes "sorted_wrt (<) xs" and "\<And>x. cmp x < 0 \<longleftrightarrow> key < x" and "\<And>x. 0 < cmp x \<longleftrightarrow> x < key"
  shows "bsearch cmp xs 0 (length xs) \<noteq> None \<longleftrightarrow> key \<in> set xs"
proof
  assume "bsearch cmp xs 0 (length xs) \<noteq> None"
  then obtain i where "i < length xs" "cmp (xs ! i) = 0" using bsearch_Some by blast
  moreover from this have "xs ! i = key" using assms(2,3) [of "xs ! i"] by linarith
  ultimately show "key \<in> set xs" by auto
next
  assume "key \<in> set xs"
  then obtain j where "j < length xs" "xs ! j = key" by (auto simp: in_set_conv_nth)
  then show "bsearch cmp xs 0 (length xs) \<noteq> None"
    using bsearch_finds [OF assms, of "length xs" 0 j] by simp
qed

end
