(* ===== verification/Bpf_Runtime.thy ===== *)
theory Bpf_Runtime
  imports Aod_Prelude
begin

text \<open>
  What the BPF programs of the tools see of the kernel, and the two interfaces the
  development is built on.

  The kernel is not part of the repository. What a helper call or a probe read returns is
  therefore an argument of every program: \<open>bpf_env\<close> holds the answers of the helpers in
  one run of a program, \<open>kernel_mem\<close> what CO-RE and probe reads find behind a pointer. A
  BPF hash map is the partial function from keys to values that the programs observe; that
  an update can fail (map full, allocation) is the argument \<open>update_rc\<close>.

  The locale \<open>keyed_store\<close> is the contract of a dictionary with failing inserts. The
  locale \<open>probe_table\<close> is the contract of a pair of entry and exit probes around a table
  of pending operations; its lemmas about interleaved runs are proved once here and used
  for every tool through the interpretations in the tools' theories.
\<close>

section \<open>Helper results\<close>

text \<open>
  \<open>ktime e i\<close> is the value of the \<open>i\<close>-th call of \<open>bpf_ktime_get_ns\<close> in the run,
  \<open>rb_avail e i\<close> that of the \<open>i\<close>-th \<open>bpf_ringbuf_query (_, BPF_RB_AVAIL_DATA)\<close>;
  \<open>rb_reserve e flags\<close> tells whether \<open>bpf_ringbuf_reserve\<close> called with these flags returns
  a record, and \<open>rb_mem e\<close> is what the reserved memory holds before the program writes it;
  \<open>stack_mem e\<close> is what a local array holds before it is initialised.
\<close>

record 'ev bpf_env =
  ktime :: "nat \<Rightarrow> u64"
  pid_tgid :: u64
  uid_gid :: u64
  comm :: "char list"
  update_rc :: int
  rb_reserve :: "u64 \<Rightarrow> bool"
  rb_avail :: "nat \<Rightarrow> s64"
  rb_mem :: 'ev
  stack_mem :: "nat \<Rightarrow> char"

text \<open>The two facts about \<open>bpf_ringbuf_reserve\<close> and \<open>bpf_get_current_comm\<close> the helper
  documentation states and that some results need.\<close>

definition reserve_wants_no_flags :: "'ev bpf_env \<Rightarrow> bool" where
  "reserve_wants_no_flags e \<longleftrightarrow> (\<forall>flags. flags \<noteq> 0 \<longrightarrow> \<not> rb_reserve e flags)"

definition uninit :: "'ev bpf_env \<Rightarrow> nat \<Rightarrow> char list" where
  "uninit e n = map (stack_mem e) [0..<n]"

definition comm_fits :: "'ev bpf_env \<Rightarrow> bool" where
  "comm_fits e \<longleftrightarrow> length (comm e) = 16"

text \<open>The probe family a loader selects: fentry/fexit programs or kprobe/kretprobe fallbacks.\<close>

datatype hook = Fentry | Kprobe

section \<open>Hash maps\<close>

datatype map_flag = BPF_ANY | BPF_NOEXIST

definition EEXIST :: int where "EEXIST = 17"

text \<open>
  \<open>rc\<close> is the outcome the kernel has for an insert that the flag permits: negative when
  there is no room or no memory.
\<close>

definition bpf_map_update_elem ::
    "int \<Rightarrow> map_flag \<Rightarrow> 'k \<Rightarrow> 'v \<Rightarrow> ('k \<rightharpoonup> 'v) \<Rightarrow> int \<times> ('k \<rightharpoonup> 'v)" where
  "bpf_map_update_elem rc flag k v m =
     (if flag = BPF_NOEXIST \<and> m k \<noteq> None then (- EEXIST, m)
      else if rc < 0 then (rc, m)
      else (0, m(k \<mapsto> v)))"

definition bpf_map_delete_elem :: "'k \<Rightarrow> ('k \<rightharpoonup> 'v) \<Rightarrow> ('k \<rightharpoonup> 'v)" where
  "bpf_map_delete_elem k m = m(k := None)"

section \<open>Kernel memory\<close>

text \<open>
  One reader per field that a program follows, 0 where the read faults (the probe read
  helpers clear their destination then). A \<open>struct path *\<close> is \<open>None\<close> for NULL and
  otherwise the \<open>dentry\<close> member found behind it.
\<close>

record kernel_mem =
  dentry_d_sb :: "ptr \<Rightarrow> ptr"
  dentry_d_name :: "ptr \<Rightarrow> ptr"
  sb_s_dev :: "ptr \<Rightarrow> u32"
  file_f_inode :: "ptr \<Rightarrow> ptr"
  file_f_path_dentry :: "ptr \<Rightarrow> ptr"
  file_f_flags :: "ptr \<Rightarrow> u32"
  inode_i_sb :: "ptr \<Rightarrow> ptr"
  renamedata_has_new_parent :: bool
  renamedata_new_parent :: "ptr \<Rightarrow> ptr"
  renamedata_new_dir :: "ptr \<Rightarrow> ptr"
  renamedata_new_dentry :: "ptr \<Rightarrow> ptr"
  kernel_s64 :: "ptr \<Rightarrow> s64"
  kernel_str :: "ptr \<Rightarrow> string option"
  user_str :: "ptr \<Rightarrow> string option"

record path = path_dentry :: ptr

text \<open>A read through the NULL page faults, so it yields 0.\<close>

definition null_reads_fault :: "kernel_mem \<Rightarrow> bool" where
  "null_reads_fault km \<longleftrightarrow>
     dentry_d_sb km 0 = 0 \<and> dentry_d_name km 0 = 0 \<and> sb_s_dev km 0 = 0 \<and>
     file_f_inode km 0 = 0 \<and> file_f_path_dentry km 0 = 0 \<and> inode_i_sb km 0 = 0"

text \<open>
  \<open>bpf_probe_read_kernel_str\<close> and its user-memory twin: the terminated string, cut to the
  destination, or a cleared destination and a negative code when the source faults.
\<close>

definition probe_read_str :: "string option \<Rightarrow> char list \<Rightarrow> nat \<Rightarrow> int \<times> char list" where
  "probe_read_str src dst sz =
     (case src of
        None \<Rightarrow> (- 14, zero_buf sz @ drop sz dst)
      | Some s \<Rightarrow> (let t = take (sz - 1) (c_str s) @ [NUL]
                  in (int (length t), t @ drop (length t) dst)))"

section \<open>Interface: a dictionary whose inserts may fail\<close>

locale keyed_store =
  fixes lookup :: "'m \<Rightarrow> 'k \<Rightarrow> 'v option"
    and put :: "'x \<Rightarrow> 'k \<Rightarrow> 'v \<Rightarrow> 'm \<Rightarrow> 'm"
    and del :: "'k \<Rightarrow> 'm \<Rightarrow> 'm"
    and invar :: "'m \<Rightarrow> bool"
    and accepts :: "'x \<Rightarrow> 'k \<Rightarrow> 'v \<Rightarrow> 'v option \<Rightarrow> bool"
    and stored :: "'v \<Rightarrow> 'v"
  assumes lookup_put:
      "invar m \<Longrightarrow> lookup (put x k v m) =
         (if accepts x k v (lookup m k) then (lookup m)(k \<mapsto> stored v) else lookup m)"
    and lookup_del: "invar m \<Longrightarrow> lookup (del k m) = (lookup m)(k := None)"
    and invar_put: "invar m \<Longrightarrow> invar (put x k v m)"
    and invar_del: "invar m \<Longrightarrow> invar (del k m)"

datatype ('x, 'k, 'v) store_op = Put 'x 'k 'v | Del 'k

fun store_run ::
    "('x \<Rightarrow> 'k \<Rightarrow> 'v \<Rightarrow> 'm \<Rightarrow> 'm) \<Rightarrow> ('k \<Rightarrow> 'm \<Rightarrow> 'm) \<Rightarrow> ('x, 'k, 'v) store_op list \<Rightarrow> 'm \<Rightarrow> 'm"
where
  "store_run put del [] m = m"
| "store_run put del (Put x k v # ops) m = store_run put del ops (put x k v m)"
| "store_run put del (Del k # ops) m = store_run put del ops (del k m)"

text \<open>The specification of a run: the same operations on a partial function.\<close>

fun store_spec ::
    "('x \<Rightarrow> 'k \<Rightarrow> 'v \<Rightarrow> 'v option \<Rightarrow> bool) \<Rightarrow> ('v \<Rightarrow> 'v) \<Rightarrow> ('x, 'k, 'v) store_op list \<Rightarrow>
     ('k \<rightharpoonup> 'v) \<Rightarrow> ('k \<rightharpoonup> 'v)"
where
  "store_spec acc st [] f = f"
| "store_spec acc st (Put x k v # ops) f =
     store_spec acc st ops (if acc x k v (f k) then f(k \<mapsto> st v) else f)"
| "store_spec acc st (Del k # ops) f = store_spec acc st ops (f(k := None))"

context keyed_store
begin

lemma lookup_put_same:
  "invar m \<Longrightarrow> accepts x k v (lookup m k) \<Longrightarrow> lookup (put x k v m) k = Some (stored v)"
  by (simp add: lookup_put)

lemma lookup_put_other: "invar m \<Longrightarrow> j \<noteq> k \<Longrightarrow> lookup (put x k v m) j = lookup m j"
  by (simp add: lookup_put)

lemma lookup_del_same: "invar m \<Longrightarrow> lookup (del k m) k = None"
  by (simp add: lookup_del)

lemma run_refines_spec:
  "invar m \<Longrightarrow> invar (store_run put del ops m) \<and>
     lookup (store_run put del ops m) = store_spec accepts stored ops (lookup m)"
proof (induction ops arbitrary: m)
  case Nil
  then show ?case by simp
next
  case (Cons op ops)
  show ?case
  proof (cases op)
    case (Put x k v)
    then show ?thesis
      using Cons.IH [of "put x k v m"] Cons.prems by (simp add: lookup_put invar_put)
  next
    case (Del k)
    then show ?thesis
      using Cons.IH [of "del k m"] Cons.prems by (simp add: lookup_del invar_del fun_upd_def)
  qed
qed

end

section \<open>Interface: entry and exit probes around a table of pending operations\<close>

text \<open>
  \<open>enter\<close> is the entry program, \<open>leave\<close> the exit program; \<open>key_in\<close> and \<open>key_out\<close> are the
  table key each one uses. The laws are what the two programs promise each other: an entry
  emits nothing and touches at most its own key; an exit always removes its key, emits at
  most one record, and emits none when no entry is pending.
\<close>

locale probe_table =
  fixes pending :: "'s \<Rightarrow> 'k \<Rightarrow> 'v option"
    and emitted :: "'s \<Rightarrow> 'e list"
    and enter :: "'i \<Rightarrow> 's \<Rightarrow> 's"
    and leave :: "'o \<Rightarrow> 's \<Rightarrow> 's"
    and key_in :: "'i \<Rightarrow> 'k"
    and key_out :: "'o \<Rightarrow> 'k"
  assumes enter_emitted: "emitted (enter i s) = emitted s"
    and enter_other: "k \<noteq> key_in i \<Longrightarrow> pending (enter i s) k = pending s k"
    and leave_pending: "pending (leave x s) = (pending s)(key_out x := None)"
    and leave_idle: "pending s (key_out x) = None \<Longrightarrow> emitted (leave x s) = emitted s"
    and leave_emitted: "\<exists>es. emitted (leave x s) = emitted s @ es \<and> length es \<le> 1"

text \<open>
  A table whose entry program inserts with \<open>BPF_NOEXIST\<close> promises more: the first entry stays
  until an exit removes it.
\<close>

locale first_entry_table = probe_table +
  assumes enter_keeps: "pending s k = Some v \<Longrightarrow> pending (enter i s) k = Some v"

datatype ('i, 'o) probe_call = Enter 'i | Leave 'o

fun probe_run :: "('i \<Rightarrow> 's \<Rightarrow> 's) \<Rightarrow> ('o \<Rightarrow> 's \<Rightarrow> 's) \<Rightarrow> ('i, 'o) probe_call list \<Rightarrow> 's \<Rightarrow> 's" where
  "probe_run ent lev [] s = s"
| "probe_run ent lev (Enter i # cs) s = probe_run ent lev cs (ent i s)"
| "probe_run ent lev (Leave x # cs) s = probe_run ent lev cs (lev x s)"

fun call_key :: "('i \<Rightarrow> 'k) \<Rightarrow> ('o \<Rightarrow> 'k) \<Rightarrow> ('i, 'o) probe_call \<Rightarrow> 'k" where
  "call_key kin kout (Enter i) = kin i"
| "call_key kin kout (Leave x) = kout x"

fun is_enter :: "('i, 'o) probe_call \<Rightarrow> bool" where
  "is_enter (Enter i) = True"
| "is_enter (Leave x) = False"

lemma probe_run_append:
  "probe_run ent lev (cs @ ds) s = probe_run ent lev ds (probe_run ent lev cs s)"
  by (induction ent lev cs s rule: probe_run.induct) simp_all

lemma probe_run_preserves:
  assumes "\<And>i s. f (ent i s) = f s" and "\<And>x s. f (lev x s) = f s"
  shows "f (probe_run ent lev cs s) = f s"
proof (induction cs arbitrary: s)
  case Nil
  then show ?case by simp
next
  case (Cons c cs)
  then show ?case by (cases c) (simp_all add: assms)
qed

context probe_table
begin

lemma enter_dom: "dom (pending (enter i s)) \<subseteq> insert (key_in i) (dom (pending s))"
  using enter_other by (metis (mono_tags, lifting) domIff insertCI subsetI)

text \<open>Frame: calls with other keys, in any order, leave an operation's entry alone.\<close>

lemma run_other_keys:
  "\<forall>c \<in> set cs. call_key key_in key_out c \<noteq> k \<Longrightarrow>
   pending (probe_run enter leave cs s) k = pending s k"
proof (induction cs arbitrary: s)
  case Nil
  then show ?case by simp
next
  case (Cons c cs)
  then show ?case by (cases c) (auto simp: enter_other leave_pending)
qed

text \<open>Calls only append to the records.\<close>

lemma run_only_appends: "\<exists>new. emitted (probe_run enter leave cs s) = emitted s @ new"
proof (induction cs arbitrary: s)
  case (Cons d cs)
  show ?case
  proof (cases d)
    case (Enter i)
    then show ?thesis using Cons.IH [of "enter i s"] by (simp add: enter_emitted)
  next
    case (Leave x)
    then show ?thesis using Cons.IH [of "leave x s"] leave_emitted [of x s] by auto
  qed
qed simp

text \<open>An exit is idempotent: with the entry gone a second exit emits nothing.\<close>

lemma leave_twice:
  "key_out x' = key_out x \<Longrightarrow> emitted (leave x' (leave x s)) = emitted (leave x s)"
  by (simp add: leave_idle leave_pending)

text \<open>Conservation: pending operations and records together never exceed the entries.\<close>

lemma enter_conserves:
  "finite (dom (pending s)) \<Longrightarrow>
   finite (dom (pending (enter i s))) \<and>
   card (dom (pending (enter i s))) \<le> card (dom (pending s)) + 1"
proof -
  assume fin: "finite (dom (pending s))"
  then have "finite (insert (key_in i) (dom (pending s)))" by simp
  then have "finite (dom (pending (enter i s)))"
    and "card (dom (pending (enter i s))) \<le> card (insert (key_in i) (dom (pending s)))"
    using enter_dom by (meson finite_subset card_mono)+
  then show ?thesis using fin by (auto simp: card_insert_if split: if_splits)
qed

lemma leave_conserves:
  assumes fin: "finite (dom (pending s))"
  shows "finite (dom (pending (leave x s))) \<and>
   length (emitted (leave x s)) + card (dom (pending (leave x s)))
     \<le> length (emitted s) + card (dom (pending s))"
proof (cases "pending s (key_out x) = None")
  case True
  then show ?thesis
    using fin by (simp add: leave_idle leave_pending domIff)
next
  case False
  then have k: "key_out x \<in> dom (pending s)" by auto
  obtain es where es: "emitted (leave x s) = emitted s @ es" "length es \<le> 1"
    using leave_emitted by blast
  have "card (dom (pending s) - {key_out x}) + 1 = card (dom (pending s))"
    using card_Suc_Diff1 [OF fin k] by simp
  with es fin show ?thesis by (simp add: leave_pending)
qed

lemma run_conserves:
  "finite (dom (pending s)) \<Longrightarrow>
   finite (dom (pending (probe_run enter leave cs s))) \<and>
   length (emitted (probe_run enter leave cs s)) + card (dom (pending (probe_run enter leave cs s)))
     \<le> length (emitted s) + card (dom (pending s)) + length (filter is_enter cs)"
proof (induction cs arbitrary: s)
  case Nil
  then show ?case by simp
next
  case (Cons c cs)
  show ?case
  proof (cases c)
    case (Enter i)
    then show ?thesis
      using Cons.IH [of "enter i s"] enter_conserves [OF Cons.prems, of i]
      by (simp add: enter_emitted)
  next
    case (Leave x)
    then show ?thesis
      using Cons.IH [of "leave x s"] leave_conserves [OF Cons.prems, of x] by simp
  qed
qed

end

context first_entry_table
begin

lemma run_keeps_first:
  "\<forall>x. Leave x \<in> set cs \<longrightarrow> key_out x \<noteq> k \<Longrightarrow> pending s k = Some v \<Longrightarrow>
   pending (probe_run enter leave cs s) k = Some v"
proof (induction cs arbitrary: s)
  case Nil
  then show ?case by simp
next
  case (Cons c cs)
  show ?case
  proof (cases c)
    case (Enter i)
    with Cons.prems enter_keeps [of s k v i] show ?thesis
      by (auto intro!: Cons.IH)
  next
    case (Leave x)
    with Cons.prems show ?thesis
      by (auto intro!: Cons.IH simp: leave_pending)
  qed
qed

end

section \<open>The hash map implements the dictionary\<close>

definition map_put :: "int \<times> map_flag \<Rightarrow> 'k \<Rightarrow> 'v \<Rightarrow> ('k \<rightharpoonup> 'v) \<Rightarrow> ('k \<rightharpoonup> 'v)" where
  "map_put x k v m = snd (bpf_map_update_elem (fst x) (snd x) k v m)"

definition map_accepts :: "int \<times> map_flag \<Rightarrow> 'k \<Rightarrow> 'v \<Rightarrow> 'v option \<Rightarrow> bool" where
  "map_accepts x k v old \<longleftrightarrow> 0 \<le> fst x \<and> (snd x = BPF_NOEXIST \<longrightarrow> old = None)"

lemma map_put_eq:
  "map_put x k v m = (if map_accepts x k v (m k) then m(k \<mapsto> v) else m)"
  by (auto simp: map_put_def map_accepts_def bpf_map_update_elem_def)

interpretation bpf_hash: keyed_store "\<lambda>m. m" map_put bpf_map_delete_elem "\<lambda>_. True"
    map_accepts "\<lambda>v. v"
  by unfold_locales (simp_all add: map_put_eq bpf_map_delete_elem_def)

lemma snd_map_update [simp]:
  "snd (bpf_map_update_elem rc flag k v m) =
     (if 0 \<le> rc \<and> (flag = BPF_NOEXIST \<longrightarrow> m k = None) then m(k \<mapsto> v) else m)"
  by (auto simp: bpf_map_update_elem_def)

lemma map_delete_apply [simp]: "bpf_map_delete_elem k m = m(k := None)"
  by (simp add: bpf_map_delete_elem_def)

section \<open>Facts about string reads\<close>

lemma length_uninit [simp, buf_simps]: "length (uninit e n) = n"
  by (simp add: uninit_def)

lemma length_probe_read_str [simp, buf_simps]:
  "0 < sz \<Longrightarrow> sz \<le> length dst \<Longrightarrow> length (snd (probe_read_str src dst sz)) = length dst"
  by (auto simp: probe_read_str_def Let_def split: option.splits)

lemma c_str_probe_read_Some:
  assumes "0 < sz" and "sz \<le> length dst"
  shows "c_str (snd (probe_read_str (Some s) dst sz)) = take (sz - 1) (c_str s)"
proof -
  have "NUL \<notin> set (take (sz - 1) (c_str s))"
    using c_str_no_nul by (meson in_set_takeD)
  then show ?thesis
    by (simp add: probe_read_str_def Let_def c_str_append_nul)
qed

lemma c_str_probe_read_None:
  assumes "0 < sz" and "sz \<le> length dst"
  shows "c_str (snd (probe_read_str None dst sz)) = []"
  using assms by (cases sz) (simp_all add: probe_read_str_def zero_buf_def c_str_def)

lemma probe_read_str_rc:
  "fst (probe_read_str src dst sz) < 0 \<longleftrightarrow> src = None"
  by (auto simp: probe_read_str_def Let_def split: option.splits)

end
