(* ===== verification/Aod_Event.thy ===== *)
theory Aod_Event
  imports Bpf_Runtime
begin

text \<open>
  What the four network tools (smbslower, smbiosnoop, nfsslower, nfsiosnoop) share: the record
  they put into the pinned ring buffer \<open>aodrb\<close> (\<open>src/src/common/aod_diag.h\<close>), the choice of the
  wake-up flag of a submission, the read-only configuration the loaders fill in, and the little
  endian conversions of \<open>src/src/common/bpf_endian_le.h\<close>.

  A union is the bytes of its largest member, here one 64 bit word; the tools are built for
  x86-64 (\<open>src/src/x86\<close>), where the \<open>int\<close> member is its low half. An entry of \<open>aodrb\<close> is a
  record with the flags it was submitted with.
\<close>

section \<open>Records\<close>

record event =
  ev_pid :: u32
  ev_command :: u16
  ev_tool :: u8
  ev_cmd_end_time_ns :: u64
  ev_rqst_id :: u64
  ev_metric :: u64
  ev_task :: "char list"

type_synonym aod_ring = "(u64 \<times> event) list"

definition metric_retval :: "u64 \<Rightarrow> s32" where
  "metric_retval m = ucast m"

definition set_metric_retval :: "s32 \<Rightarrow> u64 \<Rightarrow> u64" where
  "set_metric_retval r m = push_bit 32 (drop_bit 32 m) OR ucast r"

abbreviation (input) SMBSLOWER :: u8 where "SMBSLOWER \<equiv> 0"
abbreviation (input) SMBIOSNOOP :: u8 where "SMBIOSNOOP \<equiv> 1"
abbreviation (input) NFSSLOWER :: u8 where "NFSSLOWER \<equiv> 10"
abbreviation (input) NFSIOSNOOP :: u8 where "NFSIOSNOOP \<equiv> 11"

abbreviation (input) BPF_RB_NO_WAKEUP :: u64 where "BPF_RB_NO_WAKEUP \<equiv> 1"
abbreviation (input) BPF_RB_FORCE_WAKEUP :: u64 where "BPF_RB_FORCE_WAKEUP \<equiv> 2"

section \<open>Configuration\<close>

text \<open>The \<open>const volatile\<close> variables of the programs; the loader writes them before loading.\<close>

record slower_rodata =
  min_lat_ns :: u64
  slower_wakeup_data_size :: s32

record iosnoop_rodata =
  snoop_wakeup_data_size :: s32
  filter_errors :: u8
  filter_cmds :: u8

section \<open>Byte order\<close>

datatype byte_order = Little | Big

definition bswap16 :: "u16 \<Rightarrow> u16" where
  "bswap16 x = push_bit 8 x OR drop_bit 8 x"

definition bswap32 :: "u32 \<Rightarrow> u32" where
  "bswap32 x = push_bit 24 x OR (push_bit 8 x AND 0xff0000) OR (drop_bit 8 x AND 0xff00) OR drop_bit 24 x"

definition bswap64 :: "u64 \<Rightarrow> u64" where
  "bswap64 x = push_bit 32 (ucast (bswap32 (ucast x))) OR ucast (bswap32 (ucast (drop_bit 32 x)))"

definition bpf_le16_to_cpu :: "byte_order \<Rightarrow> u16 \<Rightarrow> u16" where
  "bpf_le16_to_cpu bo x = (case bo of Little \<Rightarrow> x | Big \<Rightarrow> bswap16 x)"

definition bpf_cpu_to_le16 :: "byte_order \<Rightarrow> u16 \<Rightarrow> u16" where
  "bpf_cpu_to_le16 bo x = (case bo of Little \<Rightarrow> x | Big \<Rightarrow> bswap16 x)"

definition bpf_le32_to_cpu :: "byte_order \<Rightarrow> u32 \<Rightarrow> u32" where
  "bpf_le32_to_cpu bo x = (case bo of Little \<Rightarrow> x | Big \<Rightarrow> bswap32 x)"

definition bpf_cpu_to_le32 :: "byte_order \<Rightarrow> u32 \<Rightarrow> u32" where
  "bpf_cpu_to_le32 bo x = (case bo of Little \<Rightarrow> x | Big \<Rightarrow> bswap32 x)"

definition bpf_le64_to_cpu :: "byte_order \<Rightarrow> u64 \<Rightarrow> u64" where
  "bpf_le64_to_cpu bo x = (case bo of Little \<Rightarrow> x | Big \<Rightarrow> bswap64 x)"

definition bpf_cpu_to_le64 :: "byte_order \<Rightarrow> u64 \<Rightarrow> u64" where
  "bpf_cpu_to_le64 bo x = (case bo of Little \<Rightarrow> x | Big \<Rightarrow> bswap64 x)"

section \<open>Reading a raw trace record\<close>

text \<open>A tracepoint program finds its record as bytes; multi-byte fields are little endian.\<close>

definition raw_u16 :: "(nat \<Rightarrow> u8) \<Rightarrow> nat \<Rightarrow> u16" where
  "raw_u16 ctx i = ucast (ctx i) OR push_bit 8 (ucast (ctx (i + 1)))"

definition raw_u32 :: "(nat \<Rightarrow> u8) \<Rightarrow> nat \<Rightarrow> u32" where
  "raw_u32 ctx i = ucast (raw_u16 ctx i) OR push_bit 16 (ucast (raw_u16 ctx (i + 2)))"

definition raw_u64 :: "(nat \<Rightarrow> u8) \<Rightarrow> nat \<Rightarrow> u64" where
  "raw_u64 ctx i = ucast (raw_u32 ctx i) OR push_bit 32 (ucast (raw_u32 ctx (i + 4)))"

text \<open>
  Where the C compiler for x86-64 puts the members of a struct of scalars: each at the next
  multiple of its size.
\<close>

definition align_up :: "nat \<Rightarrow> nat \<Rightarrow> nat" where
  "align_up a n = (n + a - 1) div a * a"

fun member_offsets :: "nat \<Rightarrow> nat list \<Rightarrow> nat list" where
  "member_offsets n [] = []"
| "member_offsets n (sz # szs) = align_up sz n # member_offsets (align_up sz n + sz) szs"

section \<open>Specification\<close>

text \<open>A wake-up choice as all four tools make it.\<close>

definition wakeup_flags :: "s32 \<Rightarrow> s64 \<Rightarrow> u64" where
  "wakeup_flags wakeup avail =
     (if wakeup = 0 then 0 else if sint wakeup \<le> sint avail then 2 else 1)"

text \<open>A run environment for concrete examples: time \<open>t\<close>, thread \<open>tid\<close>.\<close>

definition aod_example_env :: "u64 \<Rightarrow> u64 \<Rightarrow> event bpf_env" where
  "aod_example_env t tid =
     \<lparr>ktime = (\<lambda>i. t + of_nat i), pid_tgid = tid, uid_gid = 0, comm = zero_buf 16,
      update_rc = 0, rb_reserve = (\<lambda>flags. flags = 0), rb_avail = (\<lambda>_. 0),
      rb_mem = \<lparr>ev_pid = 0, ev_command = 0, ev_tool = 0, ev_cmd_end_time_ns = 0, ev_rqst_id = 0,
                 ev_metric = 0, ev_task = zero_buf 16\<rparr>,
      stack_mem = (\<lambda>_. NUL)\<rparr>"

section \<open>Facts\<close>

lemma metric_retval_set: "metric_retval (set_metric_retval r m) = r"
  by (rule bit_word_eqI)
     (auto simp: metric_retval_def set_metric_retval_def bit_simps dest: bit_imp_le_length)

lemma bswap16_twice: "bswap16 (bswap16 x) = x"
  by (rule bit_word_eqI) (auto simp: bswap16_def bit_simps dest: bit_imp_le_length)

lemma wakeup_flags_cases: "wakeup_flags w a \<in> {0, 1, 2}"
  by (simp add: wakeup_flags_def)

lemma wakeup_flags_zero: "wakeup_flags w a = 0 \<longleftrightarrow> w = 0"
  by (simp add: wakeup_flags_def)

lemma byte_mask: "(0xff0000 :: u32) = push_bit 16 (mask 8)" "(0xff00 :: u32) = push_bit 8 (mask 8)"
  by (simp_all add: mask_eq_exp_minus_1)

lemma bit_bswap32:
  assumes "n < 32"
  shows "bit (bswap32 x) n = bit x (if n < 8 then n + 24 else if n < 16 then n + 8
                                    else if n < 24 then n - 8 else n - 24)"
  using assms bit_imp_le_length [of x "n + 8"] bit_imp_le_length [of x "n + 24"]
  unfolding bswap32_def byte_mask bit_or_iff bit_and_iff bit_push_bit_iff bit_drop_bit_eq bit_mask_iff
  by (auto simp: bit_push_bit_iff bit_mask_iff add.commute)

lemma bswap32_twice: "bswap32 (bswap32 x) = x"
proof (rule bit_word_eqI)
  fix n assume n: "n < LENGTH(32)"
  then consider "n < 8" | "8 \<le> n" "n < 16" | "16 \<le> n" "n < 24" | "24 \<le> n" "n < 32" by fastforce
  then show "bit (bswap32 (bswap32 x)) n = bit x n"
    by cases (simp_all add: bit_bswap32 less_diff_conv2 less_diff_conv)
qed

lemma bswap64_twice: "bswap64 (bswap64 x) = x"
proof -
  have lo: "ucast (bswap64 x) = bswap32 (ucast (drop_bit 32 x))"
    by (rule bit_word_eqI) (auto simp: bswap64_def bit_simps dest: bit_imp_le_length)
  have hi: "ucast (drop_bit 32 (bswap64 x)) = bswap32 (ucast x)"
    by (rule bit_word_eqI) (auto simp: bswap64_def bit_simps dest: bit_imp_le_length)
  have "bswap64 (bswap64 x) = push_bit 32 (ucast (ucast (drop_bit 32 x) :: u32)) OR ucast (ucast x :: u32)"
    by (subst bswap64_def) (simp add: lo hi bswap32_twice)
  also have "\<dots> = x" by (rule bit_word_eqI) (auto simp: bit_simps dest: bit_imp_le_length)
  finally show ?thesis .
qed

text \<open>Reading back the little endian bytes of a word.\<close>

lemma join_halves:
  "ucast (ucast (a :: u16) :: u8) OR push_bit 8 (ucast (ucast (drop_bit 8 a) :: u8)) = a"
  "ucast (ucast (b :: u32) :: u16) OR push_bit 16 (ucast (ucast (drop_bit 16 b) :: u16)) = b"
  "ucast (ucast (c :: u64) :: u32) OR push_bit 32 (ucast (ucast (drop_bit 32 c) :: u32)) = c"
  by (rule bit_word_eqI, auto simp: bit_simps dest: bit_imp_le_length)+

lemma raw_u16_bytes:
  assumes "ctx i = ucast a" and "ctx (Suc i) = ucast (drop_bit 8 a)"
  shows "raw_u16 ctx i = a"
  using assms by (simp add: raw_u16_def join_halves)

lemma raw_u32_bytes:
  assumes "\<And>j. j < 4 \<Longrightarrow> ctx (i + j) = ucast (drop_bit (8 * j) b)"
  shows "raw_u32 ctx i = b"
proof -
  have lo: "raw_u16 ctx i = ucast b"
    using assms [of 0] assms [of 1]
    by (intro raw_u16_bytes; intro bit_word_eqI) (auto simp: bit_simps)
  have hi: "raw_u16 ctx (i + 2) = ucast (drop_bit 16 b)"
    using assms [of 2] assms [of 3]
    by (intro raw_u16_bytes; intro bit_word_eqI) (auto simp: bit_simps numeral_3_eq_3)
  show ?thesis by (simp only: raw_u32_def lo hi join_halves)
qed

lemma raw_u64_bytes:
  assumes "\<And>j. j < 8 \<Longrightarrow> ctx (i + j) = ucast (drop_bit (8 * j) c)"
  shows "raw_u64 ctx i = c"
proof -
  have lo: "raw_u32 ctx i = ucast c"
    using assms by (intro raw_u32_bytes; intro bit_word_eqI) (auto simp: bit_simps)
  have "ctx (i + 4 + j) = ucast (drop_bit (8 * j) (ucast (drop_bit 32 c) :: u32))" if "j < 4" for j
    using assms [of "4 + j"] that
    by (intro bit_word_eqI) (auto simp: bit_simps add.assoc algebra_simps)
  then have hi: "raw_u32 ctx (i + 4) = ucast (drop_bit 32 c)" by (rule raw_u32_bytes)
  show ?thesis by (simp only: raw_u64_def lo hi join_halves)
qed

section \<open>Properties\<close>

text \<open>
  The conversions to and from little endian undo each other in every width, on a little
  endian and on a big endian target.
\<close>

theorem le_conversions_inverse:
  "bpf_le16_to_cpu bo (bpf_cpu_to_le16 bo x) = x \<and>
   bpf_le32_to_cpu bo (bpf_cpu_to_le32 bo y) = y \<and>
   bpf_le64_to_cpu bo (bpf_cpu_to_le64 bo z) = z"
  by (cases bo) (simp_all add: bpf_le16_to_cpu_def bpf_cpu_to_le16_def bpf_le32_to_cpu_def
      bpf_cpu_to_le32_def bpf_le64_to_cpu_def bpf_cpu_to_le64_def bswap16_twice bswap32_twice
      bswap64_twice)

end
