(* ===== verification/Loader_Common.thy ===== *)
theory Loader_Common
  imports C_Library Aod_Event
begin

text \<open>
  What the loaders in \<open>src/src/user\<close> share. A loader parses its options (through argp, which is
  not part of the repository and is taken to hand \<open>parse_arg\<close> the options one by one in order),
  opens the BPF skeleton, selects the programs to load and attach, loads, fills its maps, attaches
  and waits for a signal. \<open>argp_usage\<close> and \<open>argp_state_help\<close> end the process.

  The answers of the operating system and of libbpf are arguments of the definitions that use
  them. All programs of a skeleton start with autoload and autoattach on.
\<close>

section \<open>Options\<close>

datatype 'a parsed = Parsed 'a | Usage_exit | Help_exit | Parse_error

fun bind_parsed :: "'a parsed \<Rightarrow> ('a \<Rightarrow> 'b parsed) \<Rightarrow> 'b parsed" where
  "bind_parsed (Parsed x) f = f x"
| "bind_parsed Usage_exit f = Usage_exit"
| "bind_parsed Help_exit f = Help_exit"
| "bind_parsed Parse_error f = Parse_error"

text \<open>argp calls \<open>parse_arg\<close> for one option after the other and stops at the first failure.\<close>

fun argp_parse :: "('k \<Rightarrow> string \<Rightarrow> 's \<Rightarrow> 's parsed) \<Rightarrow> ('k \<times> string) list \<Rightarrow> 's \<Rightarrow> 's parsed" where
  "argp_parse parse_arg [] s = Parsed s"
| "argp_parse parse_arg ((k, arg) # opts) s =
     bind_parsed (parse_arg k arg s) (\<lambda>s. argp_parse parse_arg opts s)"

text \<open>The option keys of the two failure tracers.\<close>

datatype snoop_opt = N_w | N_c | N_e | N_h | N_v | N_other

section \<open>Program selection\<close>

record 'p skeleton =
  autoload :: "'p \<Rightarrow> bool"
  autoattach :: "'p \<Rightarrow> bool"

definition skeleton_open :: "'p skeleton" where
  "skeleton_open = \<lparr>autoload = (\<lambda>_. True), autoattach = (\<lambda>_. True)\<rparr>"

definition set_autoload :: "'p \<Rightarrow> bool \<Rightarrow> 'p skeleton \<Rightarrow> 'p skeleton" where
  "set_autoload p b sk = sk\<lparr>autoload := (autoload sk)(p := b)\<rparr>"

definition set_autoattach :: "'p \<Rightarrow> bool \<Rightarrow> 'p skeleton \<Rightarrow> 'p skeleton" where
  "set_autoattach p b sk = sk\<lparr>autoattach := (autoattach sk)(p := b)\<rparr>"

text \<open>The two calls that always go together in the loaders.\<close>

definition set_auto :: "'p \<Rightarrow> bool \<Rightarrow> 'p skeleton \<Rightarrow> 'p skeleton" where
  "set_auto p b sk = set_autoattach p b (set_autoload p b sk)"

definition enabled :: "'p skeleton \<Rightarrow> 'p set" where
  "enabled sk = {p. autoload sk p \<and> autoattach sk p}"

section \<open>Filling an allow list\<close>

text \<open>The fill loops; \<open>rc\<close> gives the outcome of each update.\<close>

fun allow_loop :: "('k \<Rightarrow> int) \<Rightarrow> 'k list \<Rightarrow> ('k \<Rightarrow> u8 option) \<Rightarrow> int \<times> ('k \<Rightarrow> u8 option)" where
  "allow_loop rc [] m = (0, m)"
| "allow_loop rc (k # ks) m =
     (let (r, m) = bpf_map_update_elem (rc k) BPF_ANY k 1 m
      in if r < 0 then (- 1, m) else allow_loop rc ks m)"

section \<open>Outcomes of main\<close>

text \<open>
  \<open>Exit\<close> with the status the process ends with, or \<open>Waiting\<close> for a signal with the enabled
  programs and the BPF state they start from. After the signal the status is 0.
\<close>

datatype ('p, 's) main_result = Exit int | Waiting "'p skeleton" 's

definition exit_status :: "int \<Rightarrow> int" where
  "exit_status err = (if err < 0 then - err else 0)"

definition ENOENT :: int where "ENOENT = 2"
definition EINTR :: int where "EINTR = 4"
definition EIO :: int where "EIO = 5"
definition EINVAL :: int where "EINVAL = 22"
definition ENOTSUP :: int where "ENOTSUP = 95"

section \<open>Facts\<close>

lemma autoload_set [simp]:
  "autoload (set_autoload p b sk) = (autoload sk)(p := b)"
  "autoload (set_autoattach p b sk) = autoload sk"
  "autoattach (set_autoload p b sk) = autoattach sk"
  "autoattach (set_autoattach p b sk) = (autoattach sk)(p := b)"
  "autoload (set_auto p b sk) = (autoload sk)(p := b)"
  "autoattach (set_auto p b sk) = (autoattach sk)(p := b)"
  "autoload skeleton_open q" "autoattach skeleton_open q"
  by (simp_all add: set_autoload_def set_autoattach_def set_auto_def skeleton_open_def)

lemma enabled_enum: "enabled (sk :: 'p::enum skeleton) = set (filter (\<lambda>p. autoload sk p \<and> autoattach sk p) enum_class.enum)"
  by (simp add: enabled_def enum_UNIV)

lemma allow_loop_ok:
  "allow_loop rc ks m = (r, m') \<Longrightarrow> \<not> r < 0 \<Longrightarrow> m' k \<noteq> None \<longleftrightarrow> m k \<noteq> None \<or> k \<in> set ks"
proof (induction ks arbitrary: m)
  case Nil
  then show ?case by simp
next
  case (Cons j ks)
  have "0 \<le> rc j" and run: "allow_loop rc ks (m(j \<mapsto> 1)) = (r, m')"
    using Cons.prems by (auto simp: Let_def bpf_map_update_elem_def split: if_splits)
  from Cons.IH [OF run Cons.prems(2)] show ?case by auto
qed

end
