(* ===== verification/Trace_Helpers.thy ===== *)
theory Trace_Helpers
  imports Loader_Common
begin

text \<open>
  The probes of the running kernel that the loaders make before they select programs
  (\<open>src/src/common/trace_helpers.c\<close>): whether a tracepoint or a kernel symbol exists, how many
  parameters a function has according to its type information (BTF), and whether a minimal
  tracing program can be attached to it. The answers of the kernel are the record \<open>kernel\<close>; the
  open file descriptors are threaded through as the list of those that are open.
\<close>

section \<open>The system\<close>

text \<open>
  One BTF object: \<open>btf_find\<close> is \<open>btf__find_by_name_kind (_, BTF_KIND_FUNC)\<close>, \<open>btf_proto\<close> the
  parameter count of the prototype of a function id, \<open>None\<close> when the type is missing or is not
  a function prototype.
\<close>

record btf =
  btf_find :: "string \<Rightarrow> int"
  btf_proto :: "int \<Rightarrow> nat option"

text \<open>
  One object of the kernel's list of BTF objects: the descriptor \<open>bpf_btf_get_fd_by_id\<close> returns,
  the outcome of \<open>bpf_obj_get_info_by_fd\<close> and the name it stores.
\<close>

record btf_object =
  obj_fd :: int
  obj_info :: int
  obj_name :: string

datatype bpf_insn = Ldx_dw nat nat nat | Mov_k nat int | Exit_insn

text \<open>
  \<open>k_readable\<close>: \<open>access (_, R_OK) == 0\<close>. \<open>k_kallsyms\<close>: the content of \<open>/proc/kallsyms\<close> when it can
  be opened. \<open>k_vmlinux_btf\<close>: an error or the object. \<open>k_module_btf\<close>: \<open>btf__load_module_btf\<close>.
  \<open>k_prog_load\<close> and \<open>k_raw_open\<close>: the descriptors returned by \<open>bpf_prog_load\<close> for a function id,
  the descriptor of its BTF and the instructions, and by \<open>bpf_raw_tracepoint_open\<close>.
\<close>

record kernel =
  k_readable :: "string \<Rightarrow> bool"
  k_kallsyms :: "string option"
  k_vmlinux_btf :: "int + btf"
  k_btf_objects :: "btf_object list"
  k_module_btf :: "string \<Rightarrow> btf option"
  k_prog_load :: "int \<Rightarrow> int \<Rightarrow> bpf_insn list \<Rightarrow> int"
  k_raw_open :: "int \<Rightarrow> int"

type_synonym fds = "int list"

section \<open>Code\<close>

definition tracepoint_path :: "string \<Rightarrow> string \<Rightarrow> string \<Rightarrow> string" where
  "tracepoint_path root category name = root @ category @ ''/'' @ name @ ''/id''"

definition tracepoint_exists :: "kernel \<Rightarrow> string \<Rightarrow> string \<Rightarrow> bool" where
  "tracepoint_exists k category name =
     (let path = tracepoint_path ''/sys/kernel/tracing/events/'' category name
      in if 256 \<le> length path then False
         else if k_readable k path then True
         else let path = tracepoint_path ''/sys/kernel/debug/tracing/events/'' category name
              in if 256 \<le> length path then False else k_readable k path)"

text \<open>
  One \<open>fscanf (file, "%*s %c %255s", &type, symbol)\<close>: skip a word, then white space, one
  character, white space, and at most 255 characters of a word. \<open>None\<close> when less than two items
  are assigned.
\<close>

definition skip_space :: "string \<Rightarrow> string" where
  "skip_space s = dropWhile isspace s"

definition scan_symbol :: "string \<Rightarrow> (char \<times> string \<times> string) option" where
  "scan_symbol s =
     (let s = skip_space s
      in if s = [] then None
         else let s = skip_space (dropWhile (\<lambda>c. \<not> isspace c) s)
              in if s = [] then None
                 else let ty = hd s; s = skip_space (tl s); symbol = takeWhile (\<lambda>c. \<not> isspace c) (take 255 s)
                      in if symbol = [] then None else Some (ty, symbol, drop (length symbol) s))"

lemma scan_symbol_shorter:
  "scan_symbol s = Some (ty, symbol, rest) \<Longrightarrow> length rest < length s"
proof -
  assume scan: "scan_symbol s = Some (ty, symbol, rest)"
  have le: "length (skip_space t) \<le> length t" for t
    by (simp add: skip_space_def length_dropWhile_le)
  let ?a = "skip_space s" and ?b = "skip_space (dropWhile (\<lambda>c. \<not> isspace c) (skip_space s))"
  have "?b \<noteq> []" and rest: "rest = drop (length symbol) (skip_space (tl ?b))"
    using scan by (auto simp: scan_symbol_def Let_def split: if_splits)
  have "length ?b \<le> length s"
    by (rule le_trans [OF le], rule le_trans [OF length_dropWhile_le le])
  moreover have "length (tl ?b) < length ?b" using \<open>?b \<noteq> []\<close> by (cases ?b) auto
  moreover have "length rest \<le> length (tl ?b)"
    unfolding rest using le [of "tl ?b"] by (simp add: le_diff_conv trans_le_add1)
  ultimately show ?thesis by linarith
qed

function kallsyms_loop :: "string \<Rightarrow> string \<Rightarrow> bool" where
  "kallsyms_loop name s =
     (case scan_symbol s of
        None \<Rightarrow> False
      | Some (ty, symbol, rest) \<Rightarrow> if symbol = name then True else kallsyms_loop name rest)"
  by pat_completeness auto
termination
  by (relation "measure (length \<circ> snd)") (auto dest: scan_symbol_shorter)

declare kallsyms_loop.simps [simp del]

definition kernel_function_exists :: "kernel \<Rightarrow> string \<Rightarrow> bool" where
  "kernel_function_exists k name =
     (case k_kallsyms k of None \<Rightarrow> False | Some content \<Rightarrow> kallsyms_loop name content)"

definition close_fd :: "int \<Rightarrow> fds \<Rightarrow> fds" where
  "close_fd fd open = remove1 fd open"

text \<open>The loop over the BTF objects of the kernel.\<close>

fun btf_loop :: "kernel \<Rightarrow> string \<Rightarrow> btf_object list \<Rightarrow> fds \<Rightarrow> (int \<times> btf option) \<times> fds" where
  "btf_loop k md [] fds = ((- 1, None), fds)"
| "btf_loop k md (ob # obs) fds =
     (let fd = obj_fd ob
      in if fd < 0 then btf_loop k md obs fds
         else let fds = fd # fds
              in if obj_info ob = 0 \<and> obj_name ob = md then
                   (case k_module_btf k md of
                      None \<Rightarrow> ((- 1, None), close_fd fd fds)
                    | Some b \<Rightarrow> ((fd, Some b), fds))
                 else btf_loop k md obs (close_fd fd fds))"

definition get_module_btf :: "kernel \<Rightarrow> string \<Rightarrow> fds \<Rightarrow> (int \<times> btf option) \<times> fds" where
  "get_module_btf k md fds = btf_loop k md (k_btf_objects k) fds"

text \<open>The instructions of the probe: one load for every argument slot, then return 0.\<close>

definition probe_insns :: "nat \<Rightarrow> bpf_insn list" where
  "probe_insns parameter_count =
     map (\<lambda>index. Ldx_dw 0 1 (index * 8)) [0..<parameter_count] @ [Mov_k 0 0, Exit_insn]"

definition fentry_try_attach :: "kernel \<Rightarrow> int \<Rightarrow> int \<Rightarrow> int \<Rightarrow> fds \<Rightarrow> bool \<times> fds" where
  "fentry_try_attach k func_id btf_fd parameter_count fds =
     (if parameter_count < 0 \<or> 12 < parameter_count then (False, fds)
      else let prog_fd = k_prog_load k func_id btf_fd (probe_insns (nat parameter_count))
           in if prog_fd < 0 then (False, fds)
              else let fds = prog_fd # fds;
                       attach_fd = k_raw_open k prog_fd;
                       fds = (if 0 \<le> attach_fd then close_fd attach_fd (attach_fd # fds) else fds)
                   in (0 \<le> attach_fd, close_fd prog_fd fds))"

text \<open>The common part: the object that describes the function, and its descriptor.\<close>

definition fentry_can_attach :: "kernel \<Rightarrow> string \<Rightarrow> string option \<Rightarrow> fds \<Rightarrow> bool \<times> fds" where
  "fentry_can_attach k name md fds =
     (case k_vmlinux_btf k of
        Inl err \<Rightarrow> (False, fds)
      | Inr vmlinux \<Rightarrow>
          let ((btf_fd, btf), fds) =
                (case md of None \<Rightarrow> ((0, Some vmlinux), fds) | Some md \<Rightarrow> get_module_btf k md fds);
              (result, fds) =
                (if btf_fd < 0 then (False, fds)
                 else let func_id = btf_find (the btf) name
                      in if func_id \<le> 0 then (False, fds)
                         else case btf_proto (the btf) func_id of
                                None \<Rightarrow> (False, fds)
                              | Some parameter_count \<Rightarrow>
                                  fentry_try_attach k func_id btf_fd (int parameter_count) fds)
          in (result, if 0 < btf_fd then close_fd btf_fd fds else fds))"

definition get_func_param_count :: "kernel \<Rightarrow> string \<Rightarrow> string option \<Rightarrow> fds \<Rightarrow> int \<times> fds" where
  "get_func_param_count k name md fds =
     (case k_vmlinux_btf k of
        Inl err \<Rightarrow> (err, fds)
      | Inr vmlinux \<Rightarrow>
          let ((btf_fd, btf), fds) =
                (case md of None \<Rightarrow> ((- 1, Some vmlinux), fds) | Some md \<Rightarrow> get_module_btf k md fds);
              err = (if md \<noteq> None \<and> btf_fd < 0 then - EINVAL
                     else let func_id = btf_find (the btf) name
                          in if func_id \<le> 0 then (if func_id < 0 then func_id else - ENOENT)
                             else case btf_proto (the btf) func_id of
                                    None \<Rightarrow> - EINVAL
                                  | Some vlen \<Rightarrow> int vlen)
          in (err, if 0 \<le> btf_fd then close_fd btf_fd fds else fds))"

section \<open>Specification\<close>

text \<open>A line of \<open>/proc/kallsyms\<close>: address, type and symbol, and the module for a module's symbol.\<close>

definition ksym_line :: "string \<times> char \<times> string \<Rightarrow> string" where
  "ksym_line = (\<lambda>(addr, ty, nm). addr @ '' '' @ [ty] @ '' '' @ nm @ [CHR 0x0A])"

definition ksym_module_line :: "string \<times> char \<times> string \<Rightarrow> string \<Rightarrow> string" where
  "ksym_module_line = (\<lambda>(addr, ty, nm) md. addr @ '' '' @ [ty] @ '' '' @ nm @ [CHR 0x09] @ md @ [CHR 0x0A])"

definition word_like :: "string \<Rightarrow> bool" where
  "word_like w \<longleftrightarrow> w \<noteq> [] \<and> (\<forall>c \<in> set w. \<not> isspace c)"

fun ksym_ok :: "string \<times> char \<times> string \<Rightarrow> bool" where
  "ksym_ok (addr, ty, nm) \<longleftrightarrow> word_like addr \<and> \<not> isspace ty \<and> word_like nm \<and> length nm \<le> 255"

text \<open>
  A kernel for concrete runs, with the symbol table \<open>syms\<close>: \<open>vfs_open\<close> has two parameters and
  tracing programs attach, the module \<open>cifs\<close> has type information in descriptor 3.
\<close>

definition example_btf :: btf where
  "example_btf = \<lparr>btf_find = (\<lambda>f. if f = ''vfs_open'' then 7 else - ENOENT),
                  btf_proto = (\<lambda>i. if i = 7 then Some 2 else None)\<rparr>"

definition example_kernel :: "string \<Rightarrow> kernel" where
  "example_kernel syms =
     \<lparr>k_readable = (\<lambda>_. False), k_kallsyms = Some syms, k_vmlinux_btf = Inr example_btf,
      k_btf_objects = [\<lparr>obj_fd = 3, obj_info = 0, obj_name = ''cifs''\<rparr>],
      k_module_btf = (\<lambda>_. Some example_btf), k_prog_load = (\<lambda>_ _ _. 4), k_raw_open = (\<lambda>_. 5)\<rparr>"

section \<open>Facts\<close>

lemma space_chars [simp]: "isspace CHR '' ''" "isspace (CHR 0x09)" "isspace (CHR 0x0A)"
  by (simp_all add: isspace_def)

lemma skip_space_word [simp]: "word_like w \<Longrightarrow> skip_space (w @ r) = w @ r"
  by (cases w) (simp_all add: skip_space_def word_like_def)

lemma skip_space_Cons [simp]:
  "isspace c \<Longrightarrow> skip_space (c # r) = skip_space r"
  "\<not> isspace c \<Longrightarrow> skip_space (c # r) = c # r"
  by (simp_all add: skip_space_def)

lemma drop_word [simp]:
  "word_like w \<Longrightarrow> isspace c \<Longrightarrow> dropWhile (\<lambda>c. \<not> isspace c) (w @ c # r) = c # r"
  by (simp add: word_like_def dropWhile_append)

lemma take_word:
  assumes "word_like w" "length w \<le> 255" "isspace c"
  shows "takeWhile (\<lambda>c. \<not> isspace c) (take 255 (w @ c # r)) = w"
proof -
  have all: "\<forall>x \<in> set w. \<not> isspace x" using assms(1) by (simp add: word_like_def)
  show ?thesis
  proof (cases "255 - length w")
    case 0
    with assms(2) all show ?thesis by (simp add: takeWhile_append2 takeWhile_eq_all_conv)
  next
    case (Suc n)
    with assms all show ?thesis by (simp add: takeWhile_append2)
  qed
qed

text \<open>One scan over word, character and symbol, whatever separates and follows them.\<close>

lemma scan_symbol_words:
  assumes "word_like w" "isspace c1" "\<not> isspace ty" "word_like nm" "length nm \<le> 255" "isspace c3"
    and mid: "r = nm @ c3 # rest \<or> (\<exists>c2. isspace c2 \<and> r = c2 # nm @ c3 # rest)"
    and pre: "skip_space s = w @ c1 # ty # r"
  shows "scan_symbol s = Some (ty, nm, c3 # rest)"
proof -
  have nm: "skip_space r = nm @ c3 # rest" using mid assms(4) by auto
  have "w \<noteq> []" "nm \<noteq> []" using assms(1,4) by (simp_all add: word_like_def)
  then show ?thesis
    using take_word [OF assms(4,5,6), of rest] assms(1,2,3)
    by (simp add: scan_symbol_def pre Let_def nm)
qed

lemma kallsyms_loop_line:
  assumes "ksym_ok (addr, ty, nm)"
  shows "kallsyms_loop name (ksym_line (addr, ty, nm) @ r) = (nm = name \<or> kallsyms_loop name ([CHR 0x0A] @ r))"
    and "kallsyms_loop name ([CHR 0x0A] @ ksym_line (addr, ty, nm) @ r) =
           (nm = name \<or> kallsyms_loop name ([CHR 0x0A] @ r))"
proof -
  have scan: "scan_symbol (p @ ksym_line (addr, ty, nm) @ r) = Some (ty, nm, CHR 0x0A # r)"
    if "p = [] \<or> p = [CHR 0x0A]" for p
    using that assms
    by (intro scan_symbol_words [where w = addr and ?c1.0 = "CHR '' ''" and r = "CHR '' '' # nm @ CHR 0x0A # r"])
       (auto simp: ksym_line_def)
  show "kallsyms_loop name (ksym_line (addr, ty, nm) @ r) = (nm = name \<or> kallsyms_loop name ([CHR 0x0A] @ r))"
    using scan [of "[]"] by (subst kallsyms_loop.simps) simp
  show "kallsyms_loop name ([CHR 0x0A] @ ksym_line (addr, ty, nm) @ r) =
           (nm = name \<or> kallsyms_loop name ([CHR 0x0A] @ r))"
    using scan [of "[CHR 0x0A]"] by (subst kallsyms_loop.simps) simp
qed

lemma kallsyms_loop_end [simp]: "\<not> kallsyms_loop name []" "\<not> kallsyms_loop name [CHR 0x0A]"
  by (subst kallsyms_loop.simps, simp add: scan_symbol_def skip_space_def)+

lemma kallsyms_loop_lines:
  assumes "\<forall>l \<in> set ls. ksym_ok l"
  shows "kallsyms_loop name ([CHR 0x0A] @ concat (map ksym_line ls) @ r) =
           (name \<in> (snd \<circ> snd) ` set ls \<or> kallsyms_loop name ([CHR 0x0A] @ r))"
  using assms
proof (induction ls)
  case Nil
  then show ?case by simp
next
  case (Cons l ls)
  obtain a t y where l: "l = (a, t, y)" by (cases l)
  have "ksym_ok (a, t, y)" using Cons.prems by (simp add: l)
  from kallsyms_loop_line(2) [OF this, of name "concat (map ksym_line ls) @ r"] Cons
  show ?case by (auto simp: l)
qed

lemma kallsyms_loop_newline: "kallsyms_loop name ([CHR 0x0A] @ s) = kallsyms_loop name s"
proof -
  have "scan_symbol ([CHR 0x0A] @ s) = scan_symbol s" by (simp add: scan_symbol_def)
  then show ?thesis by (subst (1 2) kallsyms_loop.simps) simp
qed

lemma btf_loop_fds:
  "btf_loop k md obs fds = ((fd, b), fds') \<Longrightarrow>
   (fd < 0 \<and> b = None \<and> fds' = fds) \<or> (0 \<le> fd \<and> fd \<in> obj_fd ` set obs \<and> b \<noteq> None \<and> fds' = fd # fds)"
  by (induction k md obs fds rule: btf_loop.induct)
     (auto simp: Let_def close_fd_def dest: sym [of "Some _"] split: if_splits option.splits)

lemma fentry_try_attach_fds [simp]: "snd (fentry_try_attach k i bfd n fds) = fds"
  by (simp add: fentry_try_attach_def close_fd_def Let_def)

lemma fentry_try_attach_same [dest]: "fentry_try_attach k i bfd n fds = (r, fds') \<Longrightarrow> fds' = fds"
  by (metis fentry_try_attach_fds snd_conv)

lemma fentry_try_attach_count: "fst (fentry_try_attach k i bfd n fds) \<Longrightarrow> 0 \<le> n \<and> n \<le> 12"
  by (simp add: fentry_try_attach_def split: if_splits)

section \<open>Properties\<close>



text \<open>
  C31: the two type information helpers close every descriptor they open, whatever the kernel
  answers, as long as it does not hand out descriptor 0 (standard input is open).
\<close>

theorem trace_helpers_close_descriptors:
  assumes "0 \<notin> obj_fd ` set (k_btf_objects k)"
  shows "snd (fentry_can_attach k name md fds) = fds \<and> snd (get_func_param_count k name md fds) = fds"
proof (cases "k_vmlinux_btf k")
  case (Inl err)
  then show ?thesis by (simp add: fentry_can_attach_def get_func_param_count_def)
next
  case vm: (Inr vm)
  show ?thesis
  proof (cases md)
    case None
    then show ?thesis
      by (auto simp: fentry_can_attach_def get_func_param_count_def vm Let_def split: prod.splits option.splits)
  next
    case (Some m)
    obtain f b fds' where g: "get_module_btf k m fds = ((f, b), fds')" by (metis surj_pair)
    with btf_loop_fds [of k m "k_btf_objects k" fds f b fds'] assms
    have "f < 0 \<and> fds' = fds \<or> 0 < f \<and> fds' = f # fds"
      by (auto simp: get_module_btf_def less_le)
    then show ?thesis
    proof (elim disjE conjE)
      assume "f < 0" "fds' = fds"
      then show ?thesis by (simp add: fentry_can_attach_def get_func_param_count_def vm Some g)
    next
      assume "0 < f" "fds' = f # fds"
      then show ?thesis
        by (auto simp: fentry_can_attach_def get_func_param_count_def vm Some g Let_def close_fd_def
            split: prod.split option.split)
    qed
  qed
qed

theorem trace_helpers_close_descriptors_witness:
  "snd (fentry_can_attach (example_kernel []) ''vfs_open'' (Some ''cifs'') [0, 1, 2]) = [0, 1, 2]"
  using trace_helpers_close_descriptors [of "example_kernel []" "''vfs_open''" "Some ''cifs''" "[0, 1, 2]"]
  by (simp add: example_kernel_def)



text \<open>
  A symbol of a module has a fourth field, and the scan takes three at a time: behind such a
  line the type field of the next line is skipped as if it were an address, and the symbol is
  read without its first character. A kernel whose modules have a symbol \<open>c # name\<close> there is taken
  to have the function \<open>name\<close>.
\<close>

theorem kernel_function_exists_after_module:
  assumes "k_kallsyms k = Some (concat (map ksym_line ls) @ ksym_module_line (a, t, s) md @
             ksym_line (b # addr, t', c # name) @ r)"
    and "\<forall>l \<in> set ls. ksym_ok l" and "ksym_ok (a, t, s)" and "word_like md"
    and "ksym_ok (b # addr, t', c # name)" and "addr \<noteq> []" and "length addr \<le> 255" and "name \<noteq> []"
  shows "kernel_function_exists k name"
proof -
  let ?r2 = "CHR 0x0A # r" and ?l2 = "ksym_line (b # addr, t', c # name) @ r"
  have 1: "scan_symbol ([CHR 0x0A] @ ksym_module_line (a, t, s) md @ ?l2) = Some (t, s, CHR 0x09 # md @ CHR 0x0A # ?l2)"
    using assms(3)
    by (intro scan_symbol_words [where w = a and ?c1.0 = "CHR '' ''" and r = "CHR '' '' # s @ CHR 0x09 # md @ CHR 0x0A # ?l2"])
       (auto simp: ksym_module_line_def)
  have wl: "word_like addr" "word_like name" "\<not> isspace b" "\<not> isspace c" "\<not> isspace t'" "length name \<le> 255"
    using assms(5,6,8) by (auto simp: word_like_def)
  have 2: "scan_symbol (CHR 0x09 # md @ CHR 0x0A # ?l2) = Some (b, addr, CHR '' '' # t' # CHR '' '' # c # name @ ?r2)"
    using wl assms(4,7)
    by (intro scan_symbol_words [where w = md and ?c1.0 = "CHR 0x0A" and r = "addr @ CHR '' '' # t' # CHR '' '' # c # name @ ?r2"])
       (auto simp: ksym_line_def)
  have 3: "scan_symbol (CHR '' '' # t' # CHR '' '' # c # name @ ?r2) = Some (c, name, ?r2)"
    using wl
    by (intro scan_symbol_words [where w = "[t']" and ?c1.0 = "CHR '' ''" and r = "name @ ?r2"])
       (auto simp: word_like_def)
  have "kallsyms_loop name ([CHR 0x0A] @ ksym_module_line (a, t, s) md @ ?l2)"
    by (subst kallsyms_loop.simps, subst 1, simp, subst kallsyms_loop.simps, subst 2, simp,
        subst kallsyms_loop.simps, subst 3) simp
  with kallsyms_loop_lines [OF assms(2), of name "ksym_module_line (a, t, s) md @ ?l2"]
    kallsyms_loop_newline [of name "concat (map ksym_line ls) @ ksym_module_line (a, t, s) md @ ?l2"]
  show ?thesis by (simp add: kernel_function_exists_def assms(1))
qed

theorem kernel_function_exists_after_module_witness:
  "kernel_function_exists
     (example_kernel (ksym_module_line (''ff01'', CHR ''t'', ''ext4_open'') ''[ext4]'' @
        ksym_line (''ff02'', CHR ''t'', ''xvfs_read''))) ''vfs_read''"
  using kernel_function_exists_after_module [of
      "example_kernel (ksym_module_line (''ff01'', CHR ''t'', ''ext4_open'') ''[ext4]'' @
        ksym_line (''ff02'', CHR ''t'', ''xvfs_read''))" "[]" "''ff01''" "CHR ''t''" "''ext4_open''" "''[ext4]''"
      "CHR ''f''" "''f02''" "CHR ''t''" "CHR ''x''" "''vfs_read''" "[]"]
  by (simp add: example_kernel_def word_like_def isspace_def)

end
