(* ===== verification/Vfs_Loader.thy ===== *)
theory Vfs_Loader
  imports Trace_Helpers "HOL-Library.Sublist"
begin

text \<open>
  How ioslower and iosnoop choose between their fentry/fexit and their kprobe/kretprobe programs
  (\<open>select_vfs_hook_family\<close> in \<open>src/src/user/ioslower.c\<close> and \<open>src/src/user/iosnoop.c\<close>). The loop
  goes over the programs of the BPF object by name and section, so the names and sections of
  \<open>src/src/bpf/ioslower.bpf.c\<close> and \<open>src/src/bpf/iosnoop.bpf.c\<close> are part of the model. The probes of
  the kernel are those of \<open>Trace_Helpers\<close>; for functions of the kernel itself they open no
  descriptor that they leave open, so the descriptors are left out here.
\<close>

section \<open>Programs\<close>

type_synonym vfs_prog = "string \<times> string"  \<comment> \<open>name and section\<close>

definition ioslower_programs :: "vfs_prog list" where
  "ioslower_programs =
     [(''trace_vfs_open_enter'', ''fentry/vfs_open''),
      (''trace_vfs_open_exit'', ''fexit/vfs_open''),
      (''trace_vfs_read_enter'', ''fentry/vfs_read''),
      (''trace_vfs_read_exit'', ''fexit/vfs_read''),
      (''trace_vfs_write_enter'', ''fentry/vfs_write''),
      (''trace_vfs_write_exit'', ''fexit/vfs_write''),
      (''trace_vfs_create_enter'', ''fentry/vfs_create''),
      (''trace_vfs_create_exit'', ''fexit/vfs_create''),
      (''trace_vfs_mkdir_enter'', ''fentry/vfs_mkdir''),
      (''trace_vfs_mkdir_exit'', ''fexit/vfs_mkdir''),
      (''trace_vfs_rmdir_enter'', ''fentry/vfs_rmdir''),
      (''trace_vfs_rmdir_exit'', ''fexit/vfs_rmdir''),
      (''trace_vfs_symlink_enter'', ''fentry/vfs_symlink''),
      (''trace_vfs_symlink_exit'', ''fexit/vfs_symlink''),
      (''trace_vfs_rename_enter'', ''fentry/vfs_rename''),
      (''trace_vfs_rename_exit'', ''fexit/vfs_rename''),
      (''trace_vfs_getattr_enter'', ''fentry/vfs_getattr''),
      (''trace_vfs_getattr_exit'', ''fexit/vfs_getattr''),
      (''trace_vfs_truncate_enter'', ''fentry/vfs_truncate''),
      (''trace_vfs_truncate_exit'', ''fexit/vfs_truncate''),
      (''trace_vfs_fchmod_enter'', ''fentry/vfs_fchmod''),
      (''trace_vfs_fchmod_exit'', ''fexit/vfs_fchmod''),
      (''trace_vfs_readlink_enter'', ''fentry/vfs_readlink''),
      (''trace_vfs_readlink_exit'', ''fexit/vfs_readlink''),
      (''trace_vfs_readv_enter'', ''fentry/vfs_readv''),
      (''trace_vfs_readv_exit'', ''fexit/vfs_readv''),
      (''trace_vfs_writev_enter'', ''fentry/vfs_writev''),
      (''trace_vfs_writev_exit'', ''fexit/vfs_writev''),
      (''trace_vfs_unlink_kp'', ''kprobe/vfs_unlink''),
      (''trace_vfs_unlink_krp'', ''kretprobe/vfs_unlink''),
      (''trace_vfs_link_kp'', ''kprobe/vfs_link''),
      (''trace_vfs_link_krp'', ''kretprobe/vfs_link''),
      (''trace_vfs_fallocate_kp'', ''kprobe/vfs_fallocate''),
      (''trace_vfs_fallocate_krp'', ''kretprobe/vfs_fallocate''),
      (''trace_iterate_dir_enter'', ''fentry/iterate_dir''),
      (''trace_iterate_dir_exit'', ''fexit/iterate_dir''),
      (''trace_do_mmap_kp'', ''kprobe/do_mmap''),
      (''trace_do_mmap_krp'', ''kretprobe/do_mmap''),
      (''trace_vm_munmap_kp'', ''kprobe/vm_munmap''),
      (''trace_vm_munmap_krp'', ''kretprobe/vm_munmap''),
      (''trace_vfs_lock_file_enter'', ''fentry/vfs_lock_file''),
      (''trace_vfs_lock_file_exit'', ''fexit/vfs_lock_file''),
      (''trace_vfs_open_kprobe_fallback'', ''kprobe/vfs_open''),
      (''trace_vfs_open_kretprobe_fallback'', ''kretprobe/vfs_open''),
      (''trace_vfs_read_kprobe_fallback'', ''kprobe/vfs_read''),
      (''trace_vfs_read_kretprobe_fallback'', ''kretprobe/vfs_read''),
      (''trace_vfs_write_kprobe_fallback'', ''kprobe/vfs_write''),
      (''trace_vfs_write_kretprobe_fallback'', ''kretprobe/vfs_write''),
      (''trace_vfs_create_kprobe_fallback'', ''kprobe/vfs_create''),
      (''trace_vfs_create_legacy_fallback'', ''kprobe/vfs_create''),
      (''trace_vfs_create_kretprobe_fallback'', ''kretprobe/vfs_create''),
      (''trace_vfs_mkdir_kprobe_fallback'', ''kprobe/vfs_mkdir''),
      (''trace_vfs_mkdir_kretprobe_fallback'', ''kretprobe/vfs_mkdir''),
      (''trace_vfs_rmdir_kprobe_fallback'', ''kprobe/vfs_rmdir''),
      (''trace_vfs_rmdir_kretprobe_fallback'', ''kretprobe/vfs_rmdir''),
      (''trace_vfs_symlink_kprobe_fallback'', ''kprobe/vfs_symlink''),
      (''trace_vfs_symlink_kretprobe_fallback'', ''kretprobe/vfs_symlink''),
      (''trace_vfs_rename_kprobe_fallback'', ''kprobe/vfs_rename''),
      (''trace_vfs_rename_kretprobe_fallback'', ''kretprobe/vfs_rename''),
      (''trace_vfs_rename_legacy_kprobe_fallback'', ''kprobe/vfs_rename''),
      (''trace_vfs_rename_legacy_kretprobe_fallback'', ''kretprobe/vfs_rename''),
      (''trace_vfs_getattr_kprobe_fallback'', ''kprobe/vfs_getattr''),
      (''trace_vfs_getattr_kretprobe_fallback'', ''kretprobe/vfs_getattr''),
      (''trace_vfs_truncate_kprobe_fallback'', ''kprobe/vfs_truncate''),
      (''trace_vfs_truncate_kretprobe_fallback'', ''kretprobe/vfs_truncate''),
      (''trace_vfs_fchmod_kprobe_fallback'', ''kprobe/vfs_fchmod''),
      (''trace_vfs_fchmod_kretprobe_fallback'', ''kretprobe/vfs_fchmod''),
      (''trace_vfs_readlink_kprobe_fallback'', ''kprobe/vfs_readlink''),
      (''trace_vfs_readlink_kretprobe_fallback'', ''kretprobe/vfs_readlink''),
      (''trace_vfs_readv_kprobe_fallback'', ''kprobe/vfs_readv''),
      (''trace_vfs_readv_kretprobe_fallback'', ''kretprobe/vfs_readv''),
      (''trace_vfs_writev_kprobe_fallback'', ''kprobe/vfs_writev''),
      (''trace_vfs_writev_kretprobe_fallback'', ''kretprobe/vfs_writev''),
      (''trace_iterate_dir_kprobe_fallback'', ''kprobe/iterate_dir''),
      (''trace_iterate_dir_kretprobe_fallback'', ''kretprobe/iterate_dir''),
      (''trace_vfs_lock_file_kprobe_fallback'', ''kprobe/vfs_lock_file''),
      (''trace_vfs_lock_file_kretprobe_fallback'', ''kretprobe/vfs_lock_file'')]"

definition iosnoop_programs :: "vfs_prog list" where
  "iosnoop_programs =
     [(''trace_sys_open_entry'', ''kprobe/__x64_sys_open''),
      (''trace_sys_open_exit'', ''kretprobe/__x64_sys_open''),
      (''trace_sys_openat_entry'', ''kprobe/__x64_sys_openat''),
      (''trace_sys_openat_exit'', ''kretprobe/__x64_sys_openat''),
      (''trace_sys_read_entry'', ''kprobe/__x64_sys_read''),
      (''trace_sys_read_exit'', ''kretprobe/__x64_sys_read''),
      (''trace_sys_write_entry'', ''kprobe/__x64_sys_write''),
      (''trace_sys_write_exit'', ''kretprobe/__x64_sys_write''),
      (''trace_sys_mkdir_entry'', ''kprobe/__x64_sys_mkdir''),
      (''trace_sys_mkdir_exit'', ''kretprobe/__x64_sys_mkdir''),
      (''trace_sys_enter_mkdir'', ''tracepoint/syscalls/sys_enter_mkdir''),
      (''trace_sys_exit_mkdir'', ''tracepoint/syscalls/sys_exit_mkdir''),
      (''trace_sys_unlink_entry'', ''kprobe/__x64_sys_unlink''),
      (''trace_sys_unlink_exit'', ''kretprobe/__x64_sys_unlink''),
      (''trace_sys_enter_unlink'', ''tracepoint/syscalls/sys_enter_unlink''),
      (''trace_sys_exit_unlink'', ''tracepoint/syscalls/sys_exit_unlink''),
      (''trace_sys_rename_entry'', ''kprobe/__x64_sys_rename''),
      (''trace_sys_rename_exit'', ''kretprobe/__x64_sys_rename''),
      (''trace_sys_enter_rename'', ''tracepoint/syscalls/sys_enter_rename''),
      (''trace_sys_exit_rename'', ''tracepoint/syscalls/sys_exit_rename''),
      (''trace_sys_link_entry'', ''kprobe/__x64_sys_link''),
      (''trace_sys_link_exit'', ''kretprobe/__x64_sys_link''),
      (''trace_sys_enter_link'', ''tracepoint/syscalls/sys_enter_link''),
      (''trace_sys_exit_link'', ''tracepoint/syscalls/sys_exit_link''),
      (''trace_sys_symlink_entry'', ''kprobe/__x64_sys_symlink''),
      (''trace_sys_symlink_exit'', ''kretprobe/__x64_sys_symlink''),
      (''trace_sys_enter_symlink'', ''tracepoint/syscalls/sys_enter_symlink''),
      (''trace_sys_exit_symlink'', ''tracepoint/syscalls/sys_exit_symlink''),
      (''trace_sys_readlink_entry'', ''kprobe/__x64_sys_readlink''),
      (''trace_sys_readlink_exit'', ''kretprobe/__x64_sys_readlink''),
      (''trace_sys_truncate_entry'', ''kprobe/__x64_sys_truncate''),
      (''trace_sys_truncate_exit'', ''kretprobe/__x64_sys_truncate''),
      (''trace_sys_enter_truncate'', ''tracepoint/syscalls/sys_enter_truncate''),
      (''trace_sys_exit_truncate'', ''tracepoint/syscalls/sys_exit_truncate''),
      (''trace_sys_mmap_entry'', ''kprobe/__x64_sys_mmap''),
      (''trace_sys_mmap_exit'', ''kretprobe/__x64_sys_mmap''),
      (''trace_vfs_open_enter'', ''fentry/vfs_open''),
      (''trace_vfs_open_exit'', ''fexit/vfs_open''),
      (''trace_vfs_read_enter'', ''fentry/vfs_read''),
      (''trace_vfs_read_exit'', ''fexit/vfs_read''),
      (''trace_vfs_write_enter'', ''fentry/vfs_write''),
      (''trace_vfs_write_exit'', ''fexit/vfs_write''),
      (''trace_vfs_create_enter'', ''fentry/vfs_create''),
      (''trace_vfs_create_exit'', ''fexit/vfs_create''),
      (''trace_vfs_mkdir_enter'', ''fentry/vfs_mkdir''),
      (''trace_vfs_mkdir_exit'', ''fexit/vfs_mkdir''),
      (''trace_vfs_rmdir_enter'', ''fentry/vfs_rmdir''),
      (''trace_vfs_rmdir_exit'', ''fexit/vfs_rmdir''),
      (''trace_vfs_symlink_enter'', ''fentry/vfs_symlink''),
      (''trace_vfs_symlink_exit'', ''fexit/vfs_symlink''),
      (''trace_vfs_rename_enter'', ''fentry/vfs_rename''),
      (''trace_vfs_rename_exit'', ''fexit/vfs_rename''),
      (''trace_vfs_getattr_enter'', ''fentry/vfs_getattr''),
      (''trace_vfs_getattr_exit'', ''fexit/vfs_getattr''),
      (''trace_vfs_truncate_enter'', ''fentry/vfs_truncate''),
      (''trace_vfs_truncate_exit'', ''fexit/vfs_truncate''),
      (''trace_vfs_fchmod_enter'', ''fentry/vfs_fchmod''),
      (''trace_vfs_fchmod_exit'', ''fexit/vfs_fchmod''),
      (''trace_vfs_readlink_enter'', ''fentry/vfs_readlink''),
      (''trace_vfs_readlink_exit'', ''fexit/vfs_readlink''),
      (''trace_vfs_readv_enter'', ''fentry/vfs_readv''),
      (''trace_vfs_readv_exit'', ''fexit/vfs_readv''),
      (''trace_vfs_writev_enter'', ''fentry/vfs_writev''),
      (''trace_vfs_writev_exit'', ''fexit/vfs_writev''),
      (''trace_vfs_unlink_kp'', ''kprobe/vfs_unlink''),
      (''trace_vfs_unlink_krp'', ''kretprobe/vfs_unlink''),
      (''trace_vfs_link_kp'', ''kprobe/vfs_link''),
      (''trace_vfs_link_krp'', ''kretprobe/vfs_link''),
      (''trace_vfs_fallocate_kp'', ''kprobe/vfs_fallocate''),
      (''trace_vfs_fallocate_krp'', ''kretprobe/vfs_fallocate''),
      (''trace_iterate_dir_enter'', ''fentry/iterate_dir''),
      (''trace_iterate_dir_exit'', ''fexit/iterate_dir''),
      (''trace_do_mmap_kp'', ''kprobe/do_mmap''),
      (''trace_do_mmap_krp'', ''kretprobe/do_mmap''),
      (''trace_vm_munmap_kp'', ''kprobe/vm_munmap''),
      (''trace_vm_munmap_krp'', ''kretprobe/vm_munmap''),
      (''trace_vfs_lock_file_enter'', ''fentry/vfs_lock_file''),
      (''trace_vfs_lock_file_exit'', ''fexit/vfs_lock_file''),
      (''trace_vfs_open_kprobe_fallback'', ''kprobe/vfs_open''),
      (''trace_vfs_open_kretprobe_fallback'', ''kretprobe/vfs_open''),
      (''trace_vfs_read_kprobe_fallback'', ''kprobe/vfs_read''),
      (''trace_vfs_read_kretprobe_fallback'', ''kretprobe/vfs_read''),
      (''trace_vfs_write_kprobe_fallback'', ''kprobe/vfs_write''),
      (''trace_vfs_write_kretprobe_fallback'', ''kretprobe/vfs_write''),
      (''trace_vfs_create_kprobe_fallback'', ''kprobe/vfs_create''),
      (''trace_vfs_create_legacy_fallback'', ''kprobe/vfs_create''),
      (''trace_vfs_create_kretprobe_fallback'', ''kretprobe/vfs_create''),
      (''trace_vfs_mkdir_kprobe_fallback'', ''kprobe/vfs_mkdir''),
      (''trace_vfs_mkdir_kretprobe_fallback'', ''kretprobe/vfs_mkdir''),
      (''trace_vfs_rmdir_kprobe_fallback'', ''kprobe/vfs_rmdir''),
      (''trace_vfs_rmdir_kretprobe_fallback'', ''kretprobe/vfs_rmdir''),
      (''trace_vfs_symlink_kprobe_fallback'', ''kprobe/vfs_symlink''),
      (''trace_vfs_symlink_kretprobe_fallback'', ''kretprobe/vfs_symlink''),
      (''trace_vfs_rename_kprobe_fallback'', ''kprobe/vfs_rename''),
      (''trace_vfs_rename_kretprobe_fallback'', ''kretprobe/vfs_rename''),
      (''trace_vfs_rename_legacy_kprobe_fallback'', ''kprobe/vfs_rename''),
      (''trace_vfs_rename_legacy_kretprobe_fallback'', ''kretprobe/vfs_rename''),
      (''trace_vfs_getattr_kprobe_fallback'', ''kprobe/vfs_getattr''),
      (''trace_vfs_getattr_kretprobe_fallback'', ''kretprobe/vfs_getattr''),
      (''trace_vfs_truncate_kprobe_fallback'', ''kprobe/vfs_truncate''),
      (''trace_vfs_truncate_kretprobe_fallback'', ''kretprobe/vfs_truncate''),
      (''trace_vfs_fchmod_kprobe_fallback'', ''kprobe/vfs_fchmod''),
      (''trace_vfs_fchmod_kretprobe_fallback'', ''kretprobe/vfs_fchmod''),
      (''trace_vfs_readlink_kprobe_fallback'', ''kprobe/vfs_readlink''),
      (''trace_vfs_readlink_kretprobe_fallback'', ''kretprobe/vfs_readlink''),
      (''trace_vfs_readv_kprobe_fallback'', ''kprobe/vfs_readv''),
      (''trace_vfs_readv_kretprobe_fallback'', ''kretprobe/vfs_readv''),
      (''trace_vfs_writev_kprobe_fallback'', ''kprobe/vfs_writev''),
      (''trace_vfs_writev_kretprobe_fallback'', ''kretprobe/vfs_writev''),
      (''trace_iterate_dir_kprobe_fallback'', ''kprobe/iterate_dir''),
      (''trace_iterate_dir_kretprobe_fallback'', ''kretprobe/iterate_dir''),
      (''trace_vfs_lock_file_kprobe_fallback'', ''kprobe/vfs_lock_file''),
      (''trace_vfs_lock_file_kretprobe_fallback'', ''kretprobe/vfs_lock_file'')]"

section \<open>Code\<close>

definition vfs_hooks :: "(string \<times> int) list" where
  "vfs_hooks =
     [(''vfs_open'', 2), (''vfs_read'', 4), (''vfs_write'', 4), (''vfs_create'', 5), (''vfs_mkdir'', 4),
      (''vfs_rmdir'', 3), (''vfs_symlink'', 4), (''vfs_rename'', 1), (''vfs_getattr'', 4),
      (''vfs_truncate'', 2), (''vfs_fchmod'', 2), (''vfs_readlink'', 3), (''vfs_readv'', 5),
      (''vfs_writev'', 5), (''iterate_dir'', 2), (''vfs_lock_file'', 4)]"

fun hooks_loop :: "kernel \<Rightarrow> (string \<times> int) list \<Rightarrow> bool" where
  "hooks_loop k [] = True"
| "hooks_loop k ((name, parameter_count) # hs) =
     (if \<not> fst (fentry_can_attach k name None []) \<or>
         fst (get_func_param_count k name None []) \<noteq> parameter_count
      then False else hooks_loop k hs)"

definition vfs_fentry_family_supported :: "kernel \<Rightarrow> bool" where
  "vfs_fentry_family_supported k = hooks_loop k vfs_hooks"

text \<open>The table and the test of iosnoop, which has its own copies.\<close>

definition iosnoop_vfs_hooks :: "(string \<times> int) list" where
  "iosnoop_vfs_hooks =
     [(''vfs_open'', 2), (''vfs_read'', 4), (''vfs_write'', 4), (''vfs_create'', 5), (''vfs_mkdir'', 4),
      (''vfs_rmdir'', 3), (''vfs_symlink'', 4), (''vfs_rename'', 1), (''vfs_getattr'', 4),
      (''vfs_truncate'', 2), (''vfs_fchmod'', 2), (''vfs_readlink'', 3), (''vfs_readv'', 5),
      (''vfs_writev'', 5), (''iterate_dir'', 2), (''vfs_lock_file'', 4)]"

definition iosnoop_vfs_fentry_family_supported :: "kernel \<Rightarrow> bool" where
  "iosnoop_vfs_fentry_family_supported k = hooks_loop k iosnoop_vfs_hooks"

definition strncmp_eq :: "string \<Rightarrow> string \<Rightarrow> nat \<Rightarrow> bool" where
  "strncmp_eq s t n = (take n s = take n t)"

definition strchr :: "string \<Rightarrow> char \<Rightarrow> string option" where
  "strchr s c = (let r = dropWhile (\<lambda>x. x \<noteq> c) s in if r = [] then None else Some r)"

text \<open>
  One iteration for a program that is not a system call program: what it sets autoload and
  autoattach to, if it does.
\<close>

definition vfs_setting :: "kernel \<Rightarrow> bool \<Rightarrow> bool \<Rightarrow> bool \<Rightarrow> vfs_prog \<Rightarrow> bool option" where
  "vfs_setting k use_fentry legacy_vfs_create legacy_vfs_rename p =
     (let name = fst p; sect = snd p;
          fentry_program = strncmp_eq sect ''fentry/'' 7 \<or> strncmp_eq sect ''fexit/'' 6;
          fallback_program = sublist ''_fallback'' name;
          legacy_program = sublist ''_legacy_fallback'' name
      in if fentry_program then Some use_fentry
         else if fallback_program then
           let enable = \<not> use_fentry;
               enable = (case strchr sect CHR ''/'' of
                           None \<Rightarrow> enable
                         | Some target \<Rightarrow> if \<not> kernel_function_exists k (tl target) then False else enable)
           in Some (if sublist ''vfs_rename_legacy_kprobe_fallback'' name then enable \<and> legacy_vfs_rename
                    else if sublist ''vfs_rename_kprobe_fallback'' name then enable \<and> \<not> legacy_vfs_rename
                    else if sublist ''vfs_create_kprobe_fallback'' name then enable \<and> \<not> legacy_vfs_create
                    else if legacy_program then enable \<and> legacy_vfs_create
                    else enable)
         else None)"

definition syscall_program :: "vfs_prog \<Rightarrow> bool" where
  "syscall_program p \<longleftrightarrow>
     strncmp_eq (snd p) ''tracepoint/syscalls/'' 20 \<or> strncmp_eq (snd p) ''kprobe/__x64_sys_'' 17 \<or>
     strncmp_eq (snd p) ''kretprobe/__x64_sys_'' 20"

definition snoop_setting :: "kernel \<Rightarrow> bool \<Rightarrow> bool \<Rightarrow> bool \<Rightarrow> vfs_prog \<Rightarrow> bool option" where
  "snoop_setting k use_fentry legacy_vfs_create legacy_vfs_rename p =
     (if syscall_program p then Some False
      else vfs_setting k use_fentry legacy_vfs_create legacy_vfs_rename p)"

text \<open>The loop over the programs of the object.\<close>

fun select_loop :: "(vfs_prog \<Rightarrow> bool option) \<Rightarrow> vfs_prog list \<Rightarrow> vfs_prog skeleton \<Rightarrow> vfs_prog skeleton" where
  "select_loop setting [] sk = sk"
| "select_loop setting (p # ps) sk =
     select_loop setting ps (case setting p of None \<Rightarrow> sk | Some b \<Rightarrow> set_auto p b sk)"

definition ioslower_select_vfs_hook_family :: "kernel \<Rightarrow> vfs_prog skeleton \<Rightarrow> vfs_prog skeleton" where
  "ioslower_select_vfs_hook_family k sk =
     (let use_fentry = vfs_fentry_family_supported k;
          legacy_vfs_create = (fst (get_func_param_count k ''vfs_create'' None []) = 4);
          legacy_vfs_rename = (fst (get_func_param_count k ''vfs_rename'' None []) = 6)
      in select_loop (vfs_setting k use_fentry legacy_vfs_create legacy_vfs_rename) ioslower_programs sk)"

definition iosnoop_select_vfs_hook_family :: "kernel \<Rightarrow> vfs_prog skeleton \<Rightarrow> vfs_prog skeleton" where
  "iosnoop_select_vfs_hook_family k sk =
     (let use_fentry = iosnoop_vfs_fentry_family_supported k;
          legacy_vfs_create = (fst (get_func_param_count k ''vfs_create'' None []) = 4);
          legacy_vfs_rename = (fst (get_func_param_count k ''vfs_rename'' None []) = 6)
      in select_loop (snoop_setting k use_fentry legacy_vfs_create legacy_vfs_rename) iosnoop_programs sk)"

section \<open>Specification\<close>

text \<open>The programs at the entry and at the exit of a kernel function.\<close>

definition at_entry :: "string \<Rightarrow> vfs_prog \<Rightarrow> bool" where
  "at_entry f p \<longleftrightarrow> snd p = ''fentry/'' @ f \<or> snd p = ''kprobe/'' @ f"

definition at_exit :: "string \<Rightarrow> vfs_prog \<Rightarrow> bool" where
  "at_exit f p \<longleftrightarrow> snd p = ''fexit/'' @ f \<or> snd p = ''kretprobe/'' @ f"

text \<open>The enabled ones among them, in the order of the object.\<close>

definition entries_on :: "vfs_prog skeleton \<Rightarrow> vfs_prog list \<Rightarrow> string \<Rightarrow> string list" where
  "entries_on sk ps f = map fst (filter (\<lambda>p. p \<in> enabled sk) (filter (at_entry f) ps))"

definition exits_on :: "vfs_prog skeleton \<Rightarrow> vfs_prog list \<Rightarrow> string \<Rightarrow> string list" where
  "exits_on sk ps f = map fst (filter (\<lambda>p. p \<in> enabled sk) (filter (at_exit f) ps))"

text \<open>Which entry programs a hooked function should have.\<close>

definition wanted_entries :: "kernel \<Rightarrow> string \<Rightarrow> string list" where
  "wanted_entries k f =
     (if vfs_fentry_family_supported k then [''trace_'' @ f @ ''_enter'']
      else if \<not> kernel_function_exists k f then []
      else if f = ''vfs_rename'' \<and> fst (get_func_param_count k f None []) = 6
      then [''trace_vfs_rename_legacy_kprobe_fallback'']
      else if f = ''vfs_create'' \<and> fst (get_func_param_count k f None []) = 4
      then [''trace_vfs_create_legacy_fallback'']
      else [''trace_'' @ f @ ''_kprobe_fallback''])"

text \<open>And which exit programs; both return programs of \<open>vfs_rename\<close> are enabled.\<close>

definition wanted_exits :: "kernel \<Rightarrow> string \<Rightarrow> string list" where
  "wanted_exits k f =
     (if vfs_fentry_family_supported k then [''trace_'' @ f @ ''_exit'']
      else if \<not> kernel_function_exists k f then []
      else [''trace_'' @ f @ ''_kretprobe_fallback''] @
           (if f = ''vfs_rename'' then [''trace_vfs_rename_legacy_kretprobe_fallback''] else []))"

section \<open>Facts\<close>

lemma select_loop_enabled:
  "p \<in> enabled (select_loop setting ps sk) \<longleftrightarrow>
     (if p \<in> set ps \<and> setting p \<noteq> None then setting p = Some True else p \<in> enabled sk)"
  by (induction ps arbitrary: sk) (auto simp: enabled_def split: option.splits)

lemma select_loop_open:
  "p \<in> set ps \<Longrightarrow> p \<in> enabled (select_loop setting ps skeleton_open) \<longleftrightarrow> setting p \<noteq> Some False"
  by (cases "setting p") (auto simp: select_loop_enabled, auto simp: enabled_def)

lemma filter_enabled:
  "filter (\<lambda>p. p \<in> enabled (select_loop setting ps skeleton_open)) (filter P ps) =
   filter (\<lambda>p. setting p \<noteq> Some False) (filter P ps)"
  by (rule filter_cong) (simp_all add: select_loop_open)

lemma entries_on_open:
  "entries_on (select_loop setting ps skeleton_open) ps f =
     map fst (filter (\<lambda>p. setting p \<noteq> Some False) (filter (at_entry f) ps))"
  "exits_on (select_loop setting ps skeleton_open) ps f =
     map fst (filter (\<lambda>p. setting p \<noteq> Some False) (filter (at_exit f) ps))"
  by (simp_all only: entries_on_def exits_on_def filter_enabled)

text \<open>
  The hook programs of both tools have the same names and sections, made of the kernel function
  and the kind of the program; iosnoop has its system call programs before them.
\<close>

datatype hook_fun = H_vfs_open | H_vfs_read | H_vfs_write | H_vfs_create | H_vfs_mkdir | H_vfs_rmdir | H_vfs_symlink | H_vfs_rename | H_vfs_getattr | H_vfs_truncate | H_vfs_fchmod | H_vfs_readlink | H_vfs_readv | H_vfs_writev | H_vfs_unlink | H_vfs_link | H_vfs_fallocate | H_iterate_dir | H_do_mmap | H_vm_munmap | H_vfs_lock_file

fun fun_name :: "hook_fun \<Rightarrow> string" where
  "fun_name H_vfs_open = ''vfs_open''"
| "fun_name H_vfs_read = ''vfs_read''"
| "fun_name H_vfs_write = ''vfs_write''"
| "fun_name H_vfs_create = ''vfs_create''"
| "fun_name H_vfs_mkdir = ''vfs_mkdir''"
| "fun_name H_vfs_rmdir = ''vfs_rmdir''"
| "fun_name H_vfs_symlink = ''vfs_symlink''"
| "fun_name H_vfs_rename = ''vfs_rename''"
| "fun_name H_vfs_getattr = ''vfs_getattr''"
| "fun_name H_vfs_truncate = ''vfs_truncate''"
| "fun_name H_vfs_fchmod = ''vfs_fchmod''"
| "fun_name H_vfs_readlink = ''vfs_readlink''"
| "fun_name H_vfs_readv = ''vfs_readv''"
| "fun_name H_vfs_writev = ''vfs_writev''"
| "fun_name H_vfs_unlink = ''vfs_unlink''"
| "fun_name H_vfs_link = ''vfs_link''"
| "fun_name H_vfs_fallocate = ''vfs_fallocate''"
| "fun_name H_iterate_dir = ''iterate_dir''"
| "fun_name H_do_mmap = ''do_mmap''"
| "fun_name H_vm_munmap = ''vm_munmap''"
| "fun_name H_vfs_lock_file = ''vfs_lock_file''"

datatype hook_kind =
  K_enter | K_exit | K_kp | K_krp | K_kprobe | K_kretprobe | K_legacy | K_legacy_kprobe | K_legacy_kretprobe

fun kind_suffix :: "hook_kind \<Rightarrow> string" where
  "kind_suffix K_enter = ''_enter''"
| "kind_suffix K_exit = ''_exit''"
| "kind_suffix K_kp = ''_kp''"
| "kind_suffix K_krp = ''_krp''"
| "kind_suffix K_kprobe = ''_kprobe_fallback''"
| "kind_suffix K_kretprobe = ''_kretprobe_fallback''"
| "kind_suffix K_legacy = ''_legacy_fallback''"
| "kind_suffix K_legacy_kprobe = ''_legacy_kprobe_fallback''"
| "kind_suffix K_legacy_kretprobe = ''_legacy_kretprobe_fallback''"

fun kind_section :: "hook_kind \<Rightarrow> string" where
  "kind_section K_enter = ''fentry/''"
| "kind_section K_exit = ''fexit/''"
| "kind_section K_kp = ''kprobe/''"
| "kind_section K_krp = ''kretprobe/''"
| "kind_section K_kprobe = ''kprobe/''"
| "kind_section K_kretprobe = ''kretprobe/''"
| "kind_section K_legacy = ''kprobe/''"
| "kind_section K_legacy_kprobe = ''kprobe/''"
| "kind_section K_legacy_kretprobe = ''kretprobe/''"

definition render :: "hook_fun \<times> hook_kind \<Rightarrow> vfs_prog" where
  "render = (\<lambda>(h, k). (''trace_'' @ fun_name h @ kind_suffix k, kind_section k @ fun_name h))"

definition hook_programs :: "(hook_fun \<times> hook_kind) list" where
  "hook_programs = [
      (H_vfs_open, K_enter), (H_vfs_open, K_exit), (H_vfs_read, K_enter), (H_vfs_read, K_exit),
      (H_vfs_write, K_enter), (H_vfs_write, K_exit), (H_vfs_create, K_enter), (H_vfs_create, K_exit),
      (H_vfs_mkdir, K_enter), (H_vfs_mkdir, K_exit), (H_vfs_rmdir, K_enter), (H_vfs_rmdir, K_exit),
      (H_vfs_symlink, K_enter), (H_vfs_symlink, K_exit), (H_vfs_rename, K_enter), (H_vfs_rename, K_exit),
      (H_vfs_getattr, K_enter), (H_vfs_getattr, K_exit), (H_vfs_truncate, K_enter), (H_vfs_truncate, K_exit),
      (H_vfs_fchmod, K_enter), (H_vfs_fchmod, K_exit), (H_vfs_readlink, K_enter), (H_vfs_readlink, K_exit),
      (H_vfs_readv, K_enter), (H_vfs_readv, K_exit), (H_vfs_writev, K_enter), (H_vfs_writev, K_exit),
      (H_vfs_unlink, K_kp), (H_vfs_unlink, K_krp), (H_vfs_link, K_kp), (H_vfs_link, K_krp),
      (H_vfs_fallocate, K_kp), (H_vfs_fallocate, K_krp), (H_iterate_dir, K_enter), (H_iterate_dir, K_exit),
      (H_do_mmap, K_kp), (H_do_mmap, K_krp), (H_vm_munmap, K_kp), (H_vm_munmap, K_krp),
      (H_vfs_lock_file, K_enter), (H_vfs_lock_file, K_exit), (H_vfs_open, K_kprobe), (H_vfs_open, K_kretprobe),
      (H_vfs_read, K_kprobe), (H_vfs_read, K_kretprobe), (H_vfs_write, K_kprobe), (H_vfs_write, K_kretprobe),
      (H_vfs_create, K_kprobe), (H_vfs_create, K_legacy), (H_vfs_create, K_kretprobe), (H_vfs_mkdir, K_kprobe),
      (H_vfs_mkdir, K_kretprobe), (H_vfs_rmdir, K_kprobe), (H_vfs_rmdir, K_kretprobe), (H_vfs_symlink, K_kprobe),
      (H_vfs_symlink, K_kretprobe), (H_vfs_rename, K_kprobe), (H_vfs_rename, K_kretprobe), (H_vfs_rename, K_legacy_kprobe),
      (H_vfs_rename, K_legacy_kretprobe), (H_vfs_getattr, K_kprobe), (H_vfs_getattr, K_kretprobe), (H_vfs_truncate, K_kprobe),
      (H_vfs_truncate, K_kretprobe), (H_vfs_fchmod, K_kprobe), (H_vfs_fchmod, K_kretprobe), (H_vfs_readlink, K_kprobe),
      (H_vfs_readlink, K_kretprobe), (H_vfs_readv, K_kprobe), (H_vfs_readv, K_kretprobe), (H_vfs_writev, K_kprobe),
      (H_vfs_writev, K_kretprobe), (H_iterate_dir, K_kprobe), (H_iterate_dir, K_kretprobe), (H_vfs_lock_file, K_kprobe),
      (H_vfs_lock_file, K_kretprobe)]"

fun entry_kind :: "hook_kind \<Rightarrow> bool" where
  "entry_kind K_enter = True"
| "entry_kind K_kp = True"
| "entry_kind K_kprobe = True"
| "entry_kind K_legacy = True"
| "entry_kind K_legacy_kprobe = True"
| "entry_kind _ = False"

text \<open>When the loop switches a hook program off.\<close>

fun hook_off :: "bool \<Rightarrow> bool \<Rightarrow> bool \<Rightarrow> bool \<Rightarrow> hook_fun \<Rightarrow> hook_kind \<Rightarrow> bool" where
  "hook_off present u lc lr h K_enter = (\<not> u)"
| "hook_off present u lc lr h K_exit = (\<not> u)"
| "hook_off present u lc lr h K_kp = False"
| "hook_off present u lc lr h K_krp = False"
| "hook_off present u lc lr h K_kprobe =
     (u \<or> \<not> present \<or> h = H_vfs_rename \<and> lr \<or> h = H_vfs_create \<and> lc)"
| "hook_off present u lc lr h K_kretprobe = (u \<or> \<not> present)"
| "hook_off present u lc lr h K_legacy = (u \<or> \<not> present \<or> \<not> lc)"
| "hook_off present u lc lr h K_legacy_kprobe = (u \<or> \<not> present \<or> \<not> lr)"
| "hook_off present u lc lr h K_legacy_kretprobe = (u \<or> \<not> present)"

definition hook_table :: "(hook_fun \<times> int) list" where
  "hook_table = [(H_vfs_open, 2), (H_vfs_read, 4), (H_vfs_write, 4), (H_vfs_create, 5), (H_vfs_mkdir, 4), (H_vfs_rmdir, 3), (H_vfs_symlink, 4), (H_vfs_rename, 1), (H_vfs_getattr, 4), (H_vfs_truncate, 2), (H_vfs_fchmod, 2), (H_vfs_readlink, 3), (H_vfs_readv, 5), (H_vfs_writev, 5), (H_iterate_dir, 2), (H_vfs_lock_file, 4)]"

lemma fun_name_inject [simp]: "fun_name h = fun_name h' \<longleftrightarrow> h = h'"
  by (cases h; cases h'; simp)

lemma ioslower_programs_render: "ioslower_programs = map render hook_programs"
  by (simp add: ioslower_programs_def hook_programs_def render_def)

lemma iosnoop_programs_render: "iosnoop_programs = take 36 iosnoop_programs @ map render hook_programs"
  by (simp add: iosnoop_programs_def hook_programs_def render_def)

lemma vfs_hooks_render: "vfs_hooks = map (\<lambda>(h, n). (fun_name h, n)) hook_table"
  by (simp add: vfs_hooks_def hook_table_def)

lemma hook_programs_no_syscall: "list_all (\<lambda>i. \<not> syscall_program (render i)) hook_programs"
  by (simp add: hook_programs_def render_def syscall_program_def strncmp_eq_def)

lemma iosnoop_syscalls_elsewhere:
  "list_all (\<lambda>p. syscall_program p \<and>
      \<not> at_entry (CHR ''v'' # f) p \<and> \<not> at_entry (CHR ''i'' # f) p \<and>
      \<not> at_exit (CHR ''v'' # f) p \<and> \<not> at_exit (CHR ''i'' # f) p) (take 36 iosnoop_programs)"
  by (simp add: iosnoop_programs_def at_entry_def at_exit_def syscall_program_def strncmp_eq_def)

lemma at_render:
  "at_entry (fun_name f) (render (h, kd)) \<longleftrightarrow> entry_kind kd \<and> h = f"
  "at_exit (fun_name f) (render (h, kd)) \<longleftrightarrow> \<not> entry_kind kd \<and> h = f"
  by (cases kd; auto simp: at_entry_def at_exit_def render_def)+

lemma strchr_section: "strchr (kind_section kd @ t) CHR ''/'' = Some (CHR ''/'' # t)"
  by (cases kd) (simp_all add: strchr_def)

fun variant_flags :: "hook_fun \<Rightarrow> hook_kind \<Rightarrow> bool \<times> bool \<times> bool \<times> bool \<times> bool" where
  "variant_flags h K_kprobe = (True, False, h = H_vfs_rename, h = H_vfs_create, False)"
| "variant_flags h K_kretprobe = (True, False, False, False, False)"
| "variant_flags h K_legacy = (True, False, False, False, True)"
| "variant_flags h K_legacy_kprobe = (True, True, False, False, False)"
| "variant_flags h K_legacy_kretprobe = (True, False, False, False, False)"
| "variant_flags h _ = (False, False, False, False, False)"

lemma hook_programs_flags:
  "list_all (\<lambda>(h, kd). (sublist ''_fallback'' (fst (render (h, kd))),
      sublist ''vfs_rename_legacy_kprobe_fallback'' (fst (render (h, kd))),
      sublist ''vfs_rename_kprobe_fallback'' (fst (render (h, kd))),
      sublist ''vfs_create_kprobe_fallback'' (fst (render (h, kd))),
      sublist ''_legacy_fallback'' (fst (render (h, kd)))) = variant_flags h kd) hook_programs"
  by code_simp

lemma setting_render:
  assumes "(h, kd) \<in> set hook_programs"
  shows "vfs_setting k u lc lr (render (h, kd)) = Some False \<longleftrightarrow>
           hook_off (kernel_function_exists k (fun_name h)) u lc lr h kd"
proof -
  have flags: "(sublist ''_fallback'' (fst (render (h, kd))),
      sublist ''vfs_rename_legacy_kprobe_fallback'' (fst (render (h, kd))),
      sublist ''vfs_rename_kprobe_fallback'' (fst (render (h, kd))),
      sublist ''vfs_create_kprobe_fallback'' (fst (render (h, kd))),
      sublist ''_legacy_fallback'' (fst (render (h, kd)))) = variant_flags h kd"
    using assms hook_programs_flags by (fastforce simp: list_all_iff)
  have target: "strchr (snd (render (h, kd))) CHR ''/'' = Some (CHR ''/'' # fun_name h)"
    by (simp add: render_def strchr_section)
  have family: "strncmp_eq (snd (render (h, kd))) ''fentry/'' 7 \<or> strncmp_eq (snd (render (h, kd))) ''fexit/'' 6
      \<longleftrightarrow> kd = K_enter \<or> kd = K_exit"
    by (cases kd) (simp_all add: render_def strncmp_eq_def)
  show ?thesis
    using flags unfolding vfs_setting_def Let_def target family by (cases kd) (auto split: if_splits)
qed

lemma snoop_setting_render:
  assumes "(h, kd) \<in> set hook_programs"
  shows "snoop_setting k u lc lr (render (h, kd)) = vfs_setting k u lc lr (render (h, kd))"
  using hook_programs_no_syscall assms by (auto simp: snoop_setting_def list_all_iff)

text \<open>The hook programs at one function, and those that stay on.\<close>

definition kinds_on :: "bool \<Rightarrow> hook_fun \<Rightarrow> hook_kind list" where
  "kinds_on entry h = map snd (filter (\<lambda>(g, kd). g = h \<and> entry_kind kd = entry) hook_programs)"

lemma kinds_at_hook:
  "h \<in> set (map fst hook_table) \<Longrightarrow>
   kinds_on True h = [K_enter, K_kprobe] @
     (if h = H_vfs_create then [K_legacy] else if h = H_vfs_rename then [K_legacy_kprobe] else [])"
  "h \<in> set (map fst hook_table) \<Longrightarrow>
   kinds_on False h = [K_exit, K_kretprobe] @ (if h = H_vfs_rename then [K_legacy_kretprobe] else [])"
  by (cases h; simp add: kinds_on_def hook_programs_def hook_table_def)+

lemma enabled_names:
  assumes "\<And>h kd. (h, kd) \<in> set hs \<Longrightarrow> setting (render (h, kd)) = Some False \<longleftrightarrow> off h kd"
  shows "map fst (filter (\<lambda>p. setting p \<noteq> Some False) (filter (at_entry (fun_name f)) (map render hs))) =
           map (\<lambda>kd. fst (render (f, kd))) (filter (\<lambda>kd. \<not> off f kd)
             (map snd (filter (\<lambda>(g, kd). g = f \<and> entry_kind kd = True) hs)))"
    and "map fst (filter (\<lambda>p. setting p \<noteq> Some False) (filter (at_exit (fun_name f)) (map render hs))) =
           map (\<lambda>kd. fst (render (f, kd))) (filter (\<lambda>kd. \<not> off f kd)
             (map snd (filter (\<lambda>(g, kd). g = f \<and> entry_kind kd = False) hs)))"
  using assms by (induction hs) (auto simp: at_render)

lemma wanted_hook:
  assumes "h \<in> set (map fst hook_table)"
  shows "map (\<lambda>kd. fst (render (h, kd)))
           (filter (\<lambda>kd. \<not> hook_off (kernel_function_exists k (fun_name h)) (vfs_fentry_family_supported k)
              (fst (get_func_param_count k ''vfs_create'' None []) = 4)
              (fst (get_func_param_count k ''vfs_rename'' None []) = 6) h kd) (kinds_on True h)) =
         wanted_entries k (fun_name h)"
    and "map (\<lambda>kd. fst (render (h, kd)))
           (filter (\<lambda>kd. \<not> hook_off (kernel_function_exists k (fun_name h)) (vfs_fentry_family_supported k)
              (fst (get_func_param_count k ''vfs_create'' None []) = 4)
              (fst (get_func_param_count k ''vfs_rename'' None []) = 6) h kd) (kinds_on False h)) =
         wanted_exits k (fun_name h)"
proof -
  have names: "fun_name h = ''vfs_rename'' \<longleftrightarrow> h = H_vfs_rename" "fun_name h = ''vfs_create'' \<longleftrightarrow> h = H_vfs_create"
    using fun_name_inject [of h H_vfs_rename] fun_name_inject [of h H_vfs_create] by simp_all
  show "map (\<lambda>kd. fst (render (h, kd)))
           (filter (\<lambda>kd. \<not> hook_off (kernel_function_exists k (fun_name h)) (vfs_fentry_family_supported k)
              (fst (get_func_param_count k ''vfs_create'' None []) = 4)
              (fst (get_func_param_count k ''vfs_rename'' None []) = 6) h kd) (kinds_on True h)) =
         wanted_entries k (fun_name h)"
    unfolding kinds_at_hook(1) [OF assms] wanted_entries_def names by (auto simp: render_def)
  show "map (\<lambda>kd. fst (render (h, kd)))
           (filter (\<lambda>kd. \<not> hook_off (kernel_function_exists k (fun_name h)) (vfs_fentry_family_supported k)
              (fst (get_func_param_count k ''vfs_create'' None []) = 4)
              (fst (get_func_param_count k ''vfs_rename'' None []) = 6) h kd) (kinds_on False h)) =
         wanted_exits k (fun_name h)"
    unfolding kinds_at_hook(2) [OF assms] wanted_exits_def names by (auto simp: render_def)
qed

lemma selected_hooks:
  assumes ps: "ps = pre @ map render hook_programs"
    and pre: "\<And>h. h \<in> set (map fst hook_table) \<Longrightarrow>
      filter (at_entry (fun_name h)) pre = [] \<and> filter (at_exit (fun_name h)) pre = []"
    and setting: "\<And>h kd. (h, kd) \<in> set hook_programs \<Longrightarrow> setting (render (h, kd)) = Some False \<longleftrightarrow>
      hook_off (kernel_function_exists k (fun_name h)) (vfs_fentry_family_supported k)
        (fst (get_func_param_count k ''vfs_create'' None []) = 4)
        (fst (get_func_param_count k ''vfs_rename'' None []) = 6) h kd"
  shows "list_all (\<lambda>(f, n). entries_on (select_loop setting ps skeleton_open) ps f = wanted_entries k f \<and>
                            exits_on (select_loop setting ps skeleton_open) ps f = wanted_exits k f) vfs_hooks"
proof -
  let ?off = "\<lambda>h. hook_off (kernel_function_exists k (fun_name h)) (vfs_fentry_family_supported k)
        (fst (get_func_param_count k ''vfs_create'' None []) = 4)
        (fst (get_func_param_count k ''vfs_rename'' None []) = 6) h"
  have "entries_on (select_loop setting ps skeleton_open) ps (fun_name h) = wanted_entries k (fun_name h) \<and>
        exits_on (select_loop setting ps skeleton_open) ps (fun_name h) = wanted_exits k (fun_name h)"
    if h: "h \<in> set (map fst hook_table)" for h
  proof
    note pre = pre [OF h, THEN conjunct1] pre [OF h, THEN conjunct2]
    note on = enabled_names [where hs = hook_programs and off = ?off and f = h, OF setting, folded kinds_on_def]
    show "entries_on (select_loop setting ps skeleton_open) ps (fun_name h) = wanted_entries k (fun_name h)"
      unfolding entries_on_open wanted_hook(1) [OF h, symmetric] by (simp only: ps filter_append pre filter.simps append_Nil on)
    show "exits_on (select_loop setting ps skeleton_open) ps (fun_name h) = wanted_exits k (fun_name h)"
      unfolding entries_on_open wanted_hook(2) [OF h, symmetric] by (simp only: ps filter_append pre filter.simps append_Nil on)
  qed
  then show ?thesis unfolding vfs_hooks_render by (force simp: list_all_iff)
qed

lemma fun_name_first: "\<exists>r. fun_name h = CHR ''v'' # r \<or> fun_name h = CHR ''i'' # r \<or> h = H_do_mmap"
  by (cases h) simp_all

text \<open>Both tools ask the kernel the same questions.\<close>

lemma iosnoop_hooks_same: "iosnoop_vfs_hooks = vfs_hooks"
  by (simp add: iosnoop_vfs_hooks_def vfs_hooks_def)

lemma iosnoop_supported_same: "iosnoop_vfs_fentry_family_supported k = vfs_fentry_family_supported k"
  by (simp add: iosnoop_vfs_fentry_family_supported_def vfs_fentry_family_supported_def iosnoop_hooks_same)

section \<open>Properties\<close>

text \<open>
  C18: for each of the sixteen functions of the table, ioslower enables exactly the wanted programs:
  with the fentry family the one entry and the one exit program of that family; otherwise, if the
  kernel has the function, the one kprobe program for its parameter list and its kretprobe
  program (both of them for \<open>vfs_rename\<close>); otherwise none.
\<close>

theorem ioslower_one_program_per_hook:
  "list_all (\<lambda>(f, n).
     entries_on (ioslower_select_vfs_hook_family k skeleton_open) ioslower_programs f = wanted_entries k f \<and>
     exits_on (ioslower_select_vfs_hook_family k skeleton_open) ioslower_programs f = wanted_exits k f) vfs_hooks"
  unfolding ioslower_select_vfs_hook_family_def Let_def
  by (rule selected_hooks [of _ "[]"]) (simp_all only: ioslower_programs_render append_Nil filter.simps setting_render simp_thms)


end
