(* ===== verification/Vfs_Probes.thy ===== *)
theory Vfs_Probes
  imports Bpf_Runtime
begin

text \<open>
  What the two VFS tools, ioslower and iosnoop, share: the mount filter record and the
  kernel functions they hook with the arguments the programs read. An argument that no
  program reads is left out.
\<close>

section \<open>Operation types\<close>

abbreviation (input) SC_OPEN :: u8 where "SC_OPEN \<equiv> 1"
abbreviation (input) SC_OPENAT :: u8 where "SC_OPENAT \<equiv> 2"
abbreviation (input) SC_READ :: u8 where "SC_READ \<equiv> 3"
abbreviation (input) SC_WRITE :: u8 where "SC_WRITE \<equiv> 4"
abbreviation (input) SC_CLOSE :: u8 where "SC_CLOSE \<equiv> 5"
abbreviation (input) SC_STAT :: u8 where "SC_STAT \<equiv> 6"
abbreviation (input) SC_LSTAT :: u8 where "SC_LSTAT \<equiv> 7"
abbreviation (input) SC_FSTAT :: u8 where "SC_FSTAT \<equiv> 8"
abbreviation (input) SC_MKDIR :: u8 where "SC_MKDIR \<equiv> 9"
abbreviation (input) SC_MKDIRAT :: u8 where "SC_MKDIRAT \<equiv> 10"
abbreviation (input) SC_RMDIR :: u8 where "SC_RMDIR \<equiv> 11"
abbreviation (input) SC_UNLINK :: u8 where "SC_UNLINK \<equiv> 12"
abbreviation (input) SC_UNLINKAT :: u8 where "SC_UNLINKAT \<equiv> 13"
abbreviation (input) SC_RENAME :: u8 where "SC_RENAME \<equiv> 14"
abbreviation (input) SC_RENAMEAT :: u8 where "SC_RENAMEAT \<equiv> 15"
abbreviation (input) SC_RENAMEAT2 :: u8 where "SC_RENAMEAT2 \<equiv> 16"
abbreviation (input) SC_MOUNT :: u8 where "SC_MOUNT \<equiv> 17"
abbreviation (input) SC_UMOUNT2 :: u8 where "SC_UMOUNT2 \<equiv> 18"
abbreviation (input) SC_CHMOD :: u8 where "SC_CHMOD \<equiv> 19"
abbreviation (input) SC_FCHMOD :: u8 where "SC_FCHMOD \<equiv> 20"
abbreviation (input) SC_CHOWN :: u8 where "SC_CHOWN \<equiv> 21"
abbreviation (input) SC_FCHOWN :: u8 where "SC_FCHOWN \<equiv> 22"
abbreviation (input) SC_TRUNCATE :: u8 where "SC_TRUNCATE \<equiv> 23"
abbreviation (input) SC_FTRUNCATE :: u8 where "SC_FTRUNCATE \<equiv> 24"
abbreviation (input) SC_LINK :: u8 where "SC_LINK \<equiv> 25"
abbreviation (input) SC_LINKAT :: u8 where "SC_LINKAT \<equiv> 26"
abbreviation (input) SC_SYMLINK :: u8 where "SC_SYMLINK \<equiv> 27"
abbreviation (input) SC_SYMLINKAT :: u8 where "SC_SYMLINKAT \<equiv> 28"
abbreviation (input) SC_READLINK :: u8 where "SC_READLINK \<equiv> 29"
abbreviation (input) SC_READLINKAT :: u8 where "SC_READLINKAT \<equiv> 30"
abbreviation (input) SC_PREAD64 :: u8 where "SC_PREAD64 \<equiv> 31"
abbreviation (input) SC_PWRITE64 :: u8 where "SC_PWRITE64 \<equiv> 32"
abbreviation (input) SC_READV :: u8 where "SC_READV \<equiv> 33"
abbreviation (input) SC_WRITEV :: u8 where "SC_WRITEV \<equiv> 34"
abbreviation (input) SC_PREADV :: u8 where "SC_PREADV \<equiv> 35"
abbreviation (input) SC_PWRITEV :: u8 where "SC_PWRITEV \<equiv> 36"
abbreviation (input) SC_MMAP :: u8 where "SC_MMAP \<equiv> 45"
abbreviation (input) SC_MUNMAP :: u8 where "SC_MUNMAP \<equiv> 47"
abbreviation (input) SC_CREATE :: u8 where "SC_CREATE \<equiv> 48"
abbreviation (input) SC_FALLOCATE :: u8 where "SC_FALLOCATE \<equiv> 49"
abbreviation (input) SC_GETDENTS :: u8 where "SC_GETDENTS \<equiv> 50"
abbreviation (input) SC_LOCK_FCNTL :: u8 where "SC_LOCK_FCNTL \<equiv> 51"
abbreviation (input) SC_LOCK_FLOCK :: u8 where "SC_LOCK_FLOCK \<equiv> 52"

section \<open>Hooks\<close>

record mount_filter_cfg =
  cfg_enabled :: u32
  cfg_dev_major :: u32
  cfg_dev_minor :: u32

datatype vfs_entry =
    E_open "path option" ptr               \<comment> \<open>path, file\<close>
  | E_read ptr u64 ptr                     \<comment> \<open>file, count, pos\<close>
  | E_write ptr u64 ptr                    \<comment> \<open>file, count, pos\<close>
  | E_create ptr ptr u16 bool              \<comment> \<open>dir, dentry, mode, want_excl\<close>
  | E_create_legacy ptr ptr u16            \<comment> \<open>dir, dentry, mode\<close>
  | E_mkdir ptr ptr u16                    \<comment> \<open>dir, dentry, mode\<close>
  | E_rmdir ptr ptr                        \<comment> \<open>dir, dentry\<close>
  | E_symlink ptr ptr ptr                  \<comment> \<open>dir, dentry, oldname\<close>
  | E_rename ptr                           \<comment> \<open>renamedata\<close>
  | E_rename_legacy ptr ptr                \<comment> \<open>new_dir, new_dentry\<close>
  | E_getattr "path option" u32 u32        \<comment> \<open>path, request_mask, query_flags\<close>
  | E_truncate "path option" s64           \<comment> \<open>path, length\<close>
  | E_fchmod ptr u16                       \<comment> \<open>file, mode\<close>
  | E_readlink ptr s32                     \<comment> \<open>dentry, buflen\<close>
  | E_readv ptr u64 u32                    \<comment> \<open>file, vlen, flags\<close>
  | E_writev ptr u64 u32                   \<comment> \<open>file, vlen, flags\<close>
  | E_unlink ptr ptr                       \<comment> \<open>dir, dentry\<close>
  | E_link ptr ptr ptr                     \<comment> \<open>old_dentry, dir, new_dentry\<close>
  | E_fallocate ptr s64 s64                \<comment> \<open>file, offset, len\<close>
  | E_iterate_dir ptr                      \<comment> \<open>file\<close>
  | E_mmap ptr u64 u64                     \<comment> \<open>file, len, prot\<close>
  | E_munmap u64 u64                       \<comment> \<open>start, len\<close>
  | E_lock_file ptr u32                    \<comment> \<open>filp, cmd\<close>

text \<open>
  The return value as the exit programs see it: \<open>int\<close> (32 bit) or \<open>ssize_t\<close>, \<open>long\<close> and
  \<open>unsigned long\<close> (64 bit) for the fexit programs; a kretprobe always sees a \<open>long\<close>, which
  is the sign extended \<open>int\<close> for an \<open>int\<close> function.
\<close>

datatype vfs_exit =
    X_open s32 | X_read s64 | X_write s64 | X_create s32 | X_mkdir s32 | X_rmdir s32
  | X_symlink s32 | X_rename s32 | X_getattr s32 | X_truncate s32 | X_fchmod s32
  | X_readlink s32 | X_readv s64 | X_writev s64 | X_unlink s64 | X_link s64 | X_fallocate s64
  | X_iterate_dir s32 | X_mmap u64 | X_munmap s64 | X_lock_file s32

text \<open>
  The key under which the device of a mapping is remembered from \<open>do_mmap\<close> to \<open>vm_munmap\<close>:
  the expression \<open>((__u64)pid << 32) | (addr >> 12)\<close> of both tools.
\<close>

definition vma_key :: "u32 \<Rightarrow> u64 \<Rightarrow> u64" where
  "vma_key pid addr = push_bit 32 (ucast pid) OR drop_bit 12 addr"

text \<open>The type code an entry records, and the value an exit reports.\<close>

fun entry_type :: "vfs_entry \<Rightarrow> u8" where
  "entry_type (E_open p f) = SC_OPEN"
| "entry_type (E_read f c w) = SC_READ"
| "entry_type (E_write f c w) = SC_WRITE"
| "entry_type (E_create d n m x) = SC_CREATE"
| "entry_type (E_create_legacy d n m) = SC_CREATE"
| "entry_type (E_mkdir d n m) = SC_MKDIR"
| "entry_type (E_rmdir d n) = SC_RMDIR"
| "entry_type (E_symlink d n w) = SC_SYMLINK"
| "entry_type (E_rename r) = SC_RENAME"
| "entry_type (E_rename_legacy d n) = SC_RENAME"
| "entry_type (E_getattr p m q) = SC_STAT"
| "entry_type (E_truncate p l) = SC_TRUNCATE"
| "entry_type (E_fchmod f m) = SC_FCHMOD"
| "entry_type (E_readlink n l) = SC_READLINK"
| "entry_type (E_readv f v g) = SC_READV"
| "entry_type (E_writev f v g) = SC_WRITEV"
| "entry_type (E_unlink d n) = SC_UNLINK"
| "entry_type (E_link w d n) = SC_LINK"
| "entry_type (E_fallocate f w l) = SC_FALLOCATE"
| "entry_type (E_iterate_dir f) = SC_GETDENTS"
| "entry_type (E_mmap f l p) = SC_MMAP"
| "entry_type (E_munmap a l) = SC_MUNMAP"
| "entry_type (E_lock_file f c) = SC_LOCK_FCNTL"

fun exit_ret :: "vfs_exit \<Rightarrow> s32" where
  "exit_ret (X_open r) = r" | "exit_ret (X_read r) = ucast r" | "exit_ret (X_write r) = ucast r"
| "exit_ret (X_create r) = r" | "exit_ret (X_mkdir r) = r" | "exit_ret (X_rmdir r) = r"
| "exit_ret (X_symlink r) = r" | "exit_ret (X_rename r) = r" | "exit_ret (X_getattr r) = r"
| "exit_ret (X_truncate r) = r" | "exit_ret (X_fchmod r) = r" | "exit_ret (X_readlink r) = r"
| "exit_ret (X_readv r) = ucast r" | "exit_ret (X_writev r) = ucast r"
| "exit_ret (X_unlink r) = ucast r" | "exit_ret (X_link r) = ucast r"
| "exit_ret (X_fallocate r) = ucast r" | "exit_ret (X_iterate_dir r) = r"
| "exit_ret (X_mmap r) = (if 0 < sint r then 0 else ucast r)"
| "exit_ret (X_munmap r) = ucast r" | "exit_ret (X_lock_file r) = r"

fun exit_type :: "vfs_exit \<Rightarrow> u8" where
  "exit_type (X_open r) = SC_OPEN" | "exit_type (X_read r) = SC_READ" | "exit_type (X_write r) = SC_WRITE"
| "exit_type (X_create r) = SC_CREATE" | "exit_type (X_mkdir r) = SC_MKDIR" | "exit_type (X_rmdir r) = SC_RMDIR"
| "exit_type (X_symlink r) = SC_SYMLINK" | "exit_type (X_rename r) = SC_RENAME" | "exit_type (X_getattr r) = SC_STAT"
| "exit_type (X_truncate r) = SC_TRUNCATE" | "exit_type (X_fchmod r) = SC_FCHMOD"
| "exit_type (X_readlink r) = SC_READLINK" | "exit_type (X_readv r) = SC_READV"
| "exit_type (X_writev r) = SC_WRITEV" | "exit_type (X_unlink r) = SC_UNLINK" | "exit_type (X_link r) = SC_LINK"
| "exit_type (X_fallocate r) = SC_FALLOCATE" | "exit_type (X_iterate_dir r) = SC_GETDENTS"
| "exit_type (X_mmap r) = SC_MMAP" | "exit_type (X_munmap r) = SC_MUNMAP"
| "exit_type (X_lock_file r) = SC_LOCK_FCNTL"

text \<open>Entry points that exist in the fallback family only.\<close>

fun legacy_entry :: "vfs_entry \<Rightarrow> bool" where
  "legacy_entry (E_create_legacy d n m) = True"
| "legacy_entry (E_rename_legacy d n) = True"
| "legacy_entry _ = False"

text \<open>A kernel memory for concrete runs: one file \<open>data.txt\<close> on device 8:1.\<close>

definition example_mem :: kernel_mem where
  "example_mem = \<lparr>dentry_d_sb = (\<lambda>p. p), dentry_d_name = (\<lambda>p. p), sb_s_dev = (\<lambda>_. 0x800001),
     file_f_inode = (\<lambda>p. p), file_f_path_dentry = (\<lambda>p. p), file_f_flags = (\<lambda>_. 577),
     inode_i_sb = (\<lambda>p. p), renamedata_has_new_parent = True, renamedata_new_parent = (\<lambda>p. p),
     renamedata_new_dir = (\<lambda>p. p), renamedata_new_dentry = (\<lambda>p. p), kernel_s64 = (\<lambda>_. 42),
     kernel_str = (\<lambda>p. if p = 0 then None else Some ''data.txt''),
     user_str = (\<lambda>p. if p = 0 then None else Some ''/mnt/data.txt'')\<rparr>"

section \<open>The mapping key\<close>

lemma bit_vma_key:
  "bit (vma_key pid addr) n \<longleftrightarrow> n < 64 \<and> (32 \<le> n \<and> bit pid (n - 32) \<or> bit addr (12 + n))"
  by (auto simp: vma_key_def bit_or_iff bit_push_bit_iff bit_drop_bit_eq bit_unsigned_iff
      dest: bit_imp_le_length)

lemma vma_key_parts:
  assumes "addr < 2 ^ 44"
  shows "drop_bit 32 (vma_key pid addr) = ucast pid"
    and "vma_key pid addr AND mask 32 = drop_bit 12 addr"
proof -
  have "unat addr < 2 ^ 44" using assms by (simp add: word_less_nat_alt)
  moreover have "unat (drop_bit 12 addr) = unat addr div 2 ^ 12"
    by (subst unat_drop_bit_eq) (rule drop_bit_eq_div)
  ultimately have lo: "unat (drop_bit 12 addr) < 2 ^ 32" by simp
  have "unat pid < 2 ^ LENGTH(32)" by (rule unsigned_less)
  then have hi: "unat (ucast pid :: u64) < 2 ^ (LENGTH(64) - 32)"
    by (simp add: unsigned_ucast_eq take_bit_nat_eq_self)
  show "drop_bit 32 (vma_key pid addr) = ucast pid"
    and "vma_key pid addr AND mask 32 = drop_bit 12 addr"
    using join_parts [OF lo hi] by (simp_all add: vma_key_def)
qed

text \<open>
  For mappings below 2^44 the key under which both VFS tools remember the device of a
  mapping identifies the process and the page: equal keys come from the same process id and
  the same page number.
\<close>

theorem vma_key_injective:
  assumes "addr < 2 ^ 44" and "addr' < 2 ^ 44" and "vma_key pid addr = vma_key pid' addr'"
  shows "pid = pid' \<and> drop_bit 12 addr = drop_bit 12 addr'"
proof -
  have "(ucast pid :: u64) = ucast pid'"
    using vma_key_parts(1) [OF assms(1), of pid] vma_key_parts(1) [OF assms(2), of pid'] assms(3) by simp
  then have "pid = pid'" by (metis ucast_ucast_u32)
  then show ?thesis using vma_key_parts(2) [OF assms(1), of pid] vma_key_parts(2) [OF assms(2), of pid'] assms(3) by simp
qed

theorem vma_key_injective_witness:
  "(0x5000 :: u64) < 2 ^ 44 \<and> 7 = (7 :: u32) \<and>
   drop_bit 12 (0x5000 :: u64) = drop_bit 12 (0x5fff :: u64)"
  using vma_key_injective [of "0x5000" "0x5fff" 7 7] by (simp add: vma_key_def)

text \<open>
  Above that, the page number runs into the process id. When bits 44 to 46 of the
  address are set, as in the usual 0x7f... mmap area of x86-64, the key does not depend on the low
  three bits of the process id, so processes that differ only there share one entry.
\<close>

theorem vma_key_high_pages_collide:
  assumes "bit addr 44" and "bit addr 45" and "bit addr 46"
  shows "vma_key (pid OR 7) addr = vma_key pid addr"
proof (rule bit_word_eqI)
  fix n :: nat assume "n < LENGTH(64)"
  have seven: "bit (7 :: u32) k \<longleftrightarrow> k \<in> {0, 1, 2}" for k
  proof -
    have "(7 :: u32) = mask 3" by (simp add: mask_eq_exp_minus_1)
    then have "bit (7 :: u32) k \<longleftrightarrow> bit (mask 3 :: u32) k" by (rule arg_cong)
    then show ?thesis by (auto simp: bit_mask_iff)
  qed
  have "bit addr (12 + n)" if "n - 32 \<in> {0, 1, 2}" "32 \<le> n"
  proof -
    from that have "n = 32 \<or> n = 33 \<or> n = 34" by auto
    then show ?thesis using assms by auto
  qed
  then show "bit (vma_key (pid OR 7) addr) n = bit (vma_key pid addr) n"
    unfolding bit_vma_key bit_or_iff seven by blast
qed

theorem vma_key_high_pages_collide_witness:
  "bit (0x7f0000001000 :: u64) 44 \<and> vma_key 8 0x7f0000001000 = vma_key 15 0x7f0000001000"
  using vma_key_high_pages_collide [of "0x7f0000001000" 8] by (simp add: vma_key_def)

end
