(* ===== verification/Io_User.thy ===== *)
theory Io_User
  imports Vfs_Loader Vfs_Probes
begin

text \<open>
  What the user programs of ioslower and iosnoop share (\<open>src/src/user/ioslower.c\<close>,
  \<open>src/src/user/iosnoop.c\<close>): the option values, the configuration of the mount filter, the poll
  loop with its exit status, and the columns of the output lines.
\<close>

section \<open>Options\<close>

text \<open>
  \<open>I_mount\<close> is \<open>-p\<close> in ioslower and \<open>-m\<close> in iosnoop, \<open>I_min\<close> is \<open>-m\<close> in ioslower; \<open>I_arg\<close> is an
  argument that is not an option.
\<close>

datatype io_key = I_verbose | I_duration | I_min | I_mount | I_arg | I_other

record io_opts =
  io_verbose :: bool
  io_duration :: int
  io_mount_path :: "string option"

definition parse_duration :: "string \<Rightarrow> int" where
  "parse_duration arg = (let d = to_int (num_val (strtol 10 arg)) in if d \<le> 0 then 0 else d)"

text \<open>\<open>strdup\<close> gives NULL when it fails.\<close>

definition strdup_opt :: "bool \<Rightarrow> string \<Rightarrow> string option" where
  "strdup_opt dup_ok arg = (if dup_ok then Some arg else None)"

section \<open>Mount filter\<close>

text \<open>The device number components as the C library takes them out of a \<open>dev_t\<close>.\<close>

definition gnu_dev_major :: "u64 \<Rightarrow> u32" where
  "gnu_dev_major dev = ucast (drop_bit 8 (dev AND 0xfff00) OR drop_bit 32 (dev AND 0xfffff00000000000))"

definition gnu_dev_minor :: "u64 \<Rightarrow> u32" where
  "gnu_dev_minor dev = ucast ((dev AND 0xff) OR drop_bit 12 (dev AND 0xffffff00000))"

text \<open>The answers of the system to the user program.\<close>

record io_sys =
  io_kernel :: kernel
  io_open :: bool
  io_load :: int
  io_realpath :: "string \<Rightarrow> string option"
  io_stat :: "string \<Rightarrow> u64 option"
  io_update_mount :: int
  io_attach :: int
  io_update_threshold :: int
  io_ring_buffer :: bool
  io_signal :: bool

text \<open>
  The block under \<open>if (opts.mount_path)\<close>; \<open>err\<close> is the value of that variable when the block is
  entered, and \<open>Inl\<close> its value at the jump to \<open>cleanup\<close>.
\<close>

definition configure_mount ::
    "io_sys \<Rightarrow> string option \<Rightarrow> int \<Rightarrow> (u32 \<Rightarrow> mount_filter_cfg option) \<Rightarrow> int + (u32 \<Rightarrow> mount_filter_cfg option)" where
  "configure_mount sys mount_path err cfgs =
     (case mount_path of
        None \<Rightarrow> Inr cfgs
      | Some path \<Rightarrow>
          (case io_realpath sys path of
             None \<Rightarrow> Inl err
           | Some resolved \<Rightarrow>
               (case io_stat sys resolved of
                  None \<Rightarrow> Inl err
                | Some st_dev \<Rightarrow>
                    let filter_cfg = \<lparr>cfg_enabled = 1, cfg_dev_major = gnu_dev_major st_dev,
                                      cfg_dev_minor = gnu_dev_minor st_dev\<rparr>;
                        (err, cfgs) = bpf_map_update_elem (io_update_mount sys) BPF_ANY 0 filter_cfg cfgs
                    in if err < 0 then Inl err else Inr cfgs)))"

section \<open>Poll loop\<close>

text \<open>
  One round: whether \<open>exiting\<close> is set when its condition is tested, what \<open>ring_buffer__poll\<close>
  returns, and whether the time has passed the deadline. \<open>None\<close> means the loop has not ended
  within the given rounds.
\<close>

fun poll_loop :: "bool \<Rightarrow> int \<Rightarrow> (bool \<times> int \<times> bool) list \<Rightarrow> int option" where
  "poll_loop deadline err [] = None"
| "poll_loop deadline err ((exiting, r, late) # rounds) =
     (if exiting then Some err
      else if r < 0 \<and> r \<noteq> - 4 then Some r
      else if deadline \<and> late then Some r
      else poll_loop deadline r rounds)"

definition io_exit_status :: "int \<Rightarrow> int" where
  "io_exit_status err = (if err < 0 then 1 else 0)"

section \<open>Output columns\<close>

text \<open>\<open>%-ns\<close>, \<open>%ns\<close> and \<open>%03u\<close> of \<open>printf\<close>.\<close>

definition ljust :: "nat \<Rightarrow> string \<Rightarrow> string" where
  "ljust n s = s @ replicate (n - length s) (CHR '' '')"

definition rjust :: "nat \<Rightarrow> string \<Rightarrow> string" where
  "rjust n s = replicate (n - length s) (CHR '' '') @ s"

definition zpad :: "nat \<Rightarrow> string \<Rightarrow> string" where
  "zpad n s = replicate (n - length s) (CHR ''0'') @ s"

section \<open>Specification\<close>

text \<open>
  How the kernel documents \<open>st_dev\<close>: the 12 bit major and the 20 bit minor of a device, with the
  low eight bits of the minor below the major and the rest above it.
\<close>

definition encoded_dev :: "u32 \<Rightarrow> u64" where
  "encoded_dev dev =
     (let major = drop_bit 20 dev; minor = dev AND mask 20
      in (ucast minor AND 0xff) OR push_bit 8 (ucast major) OR push_bit 12 (ucast minor AND NOT 0xff))"

section \<open>Facts\<close>

lemma encoded_dev_masks:
  "(0xfff00 :: u64) = push_bit 8 (mask 12)" "(0xfffff00000000000 :: u64) = push_bit 44 (mask 20)"
  "(0xffffff00000 :: u64) = push_bit 20 (mask 24)" "(0xff :: u64) = mask 8"
  by (simp_all add: mask_eq_exp_minus_1)

lemma bit_encoded_dev:
  "bit (encoded_dev dev) n \<longleftrightarrow> n < 32 \<and> bit dev (if n < 8 then n else if n < 20 then 12 + n else n - 12)"
  using bit_imp_le_length [of dev "12 + n"] bit_imp_le_length [of dev n]
  unfolding encoded_dev_def Let_def encoded_dev_masks
  by (auto simp: bit_simps)

lemma gnu_dev_major_encoded: "gnu_dev_major (encoded_dev dev) = drop_bit 20 dev"
proof (rule bit_word_eqI)
  fix n assume "n < LENGTH(32)"
  then show "bit (gnu_dev_major (encoded_dev dev)) n = bit (drop_bit 20 dev) n"
    using bit_imp_le_length [of dev "n + 20"]
    unfolding gnu_dev_major_def encoded_dev_masks
    by (auto simp: bit_simps bit_encoded_dev ac_simps)
qed

lemma gnu_dev_minor_encoded: "gnu_dev_minor (encoded_dev dev) = dev AND mask 20"
proof (rule bit_word_eqI)
  fix n assume "n < LENGTH(32)"
  then show "bit (gnu_dev_minor (encoded_dev dev)) n = bit (dev AND mask 20) n"
    unfolding gnu_dev_minor_def encoded_dev_masks
    by (auto simp: bit_simps bit_encoded_dev ac_simps)
qed

lemma poll_loop_interrupted:
  assumes "list_all (\<lambda>(exiting, r, late). \<not> exiting \<and> 0 \<le> r \<and> \<not> (deadline \<and> late)) rounds"
    and "\<not> (deadline \<and> late)"
  shows "poll_loop deadline err (rounds @ [(False, - 4, late), (True, r, l)]) = Some (- 4)"
  using assms(1) by (induction rounds arbitrary: err) (use assms(2) in auto)

lemma configure_mount_on:
  assumes "configure_mount sys (Some path) err cfgs = Inr cfgs'"
  obtains resolved st_dev where "io_realpath sys path = Some resolved" "io_stat sys resolved = Some st_dev"
    "cfgs' = cfgs(0 \<mapsto> \<lparr>cfg_enabled = 1, cfg_dev_major = gnu_dev_major st_dev, cfg_dev_minor = gnu_dev_minor st_dev\<rparr>)"
  using assms
  by (auto simp: configure_mount_def bpf_map_update_elem_def Let_def split: option.splits if_splits)

lemma configure_mount_dev:
  assumes "configure_mount sys (Some path) err cfgs = Inr cfgs'"
    and "io_realpath sys path = Some resolved" and "io_stat sys resolved = Some (encoded_dev dev)"
  shows "cfgs' 0 = Some \<lparr>cfg_enabled = 1, cfg_dev_major = drop_bit 20 dev, cfg_dev_minor = dev AND mask 20\<rparr>"
  by (rule configure_mount_on [OF assms(1)])
     (use assms(2,3) in \<open>simp add: gnu_dev_major_encoded gnu_dev_minor_encoded\<close>)

lemma dev_parts: "push_bit 20 (drop_bit 20 dev) OR (dev AND mask 20) = (dev :: u32)"
  by (rule bit_word_eqI) (auto simp: bit_simps)

lemma small_parts: "drop_bit 20 (dev :: u32) < 2 ^ 12" "(dev :: u32) AND mask 20 < 2 ^ 20"
proof -
  show "drop_bit 20 dev < 2 ^ 12"
  proof -
    have "unat dev < 2 ^ 32" using unsigned_less [of dev, where ?'a = nat] by simp
    then show ?thesis by (simp add: word_less_nat_alt unat_drop_bit_eq drop_bit_eq_div unat_div)
  qed
  show "dev AND mask 20 < 2 ^ 20"
    using take_bit_nat_less_exp [of 20 "unat dev"]
    by (simp add: word_less_nat_alt take_bit_eq_mask [symmetric] unsigned_take_bit_eq)
qed

lemma configure_mount_off [simp]: "configure_mount sys None err cfgs = Inr cfgs"
  by (simp add: configure_mount_def)

section \<open>Properties\<close>


text \<open>
  After an interrupt that cuts a poll short the loop ends with -EINTR left in \<open>err\<close>, so the
  tool stopped by the user exits with the status of a failure.
\<close>

theorem interrupted_poll_exits_1:
  assumes "list_all (\<lambda>(exiting, r, late). \<not> exiting \<and> 0 \<le> r \<and> \<not> (deadline \<and> late)) rounds"
    and "\<not> (deadline \<and> late)"
  shows "map_option io_exit_status (poll_loop deadline err (rounds @ [(False, - 4, late), (True, r, l)])) = Some 1"
  by (simp add: poll_loop_interrupted [OF assms] io_exit_status_def)

theorem interrupted_poll_exits_1_witness:
  "map_option io_exit_status (poll_loop False 0 ([(False, 3, False)] @ [(False, - 4, False), (True, 0, False)])) = Some 1"
  using interrupted_poll_exits_1 [of False "[(False, 3, False)]" False 0 0 False] by simp

end
