(* ===== verification/Ioslower_Bpf.thy ===== *)
theory Ioslower_Bpf
  imports Vfs_Probes
begin

text \<open>
  The BPF side of ioslower (\<open>src/src/bpf/ioslower.bpf.c\<close>): its maps and ring buffer as a
  state record, every program as a function on that state, the dispatch of a hooked kernel
  function to the program of the selected probe family, and what the programs guarantee
  about latency, filtering and the table of operations in flight. A program's constant
  return value 0 is left out.
\<close>

section \<open>Data\<close>


record ioslower_event =
  se_ts :: u64
  se_pid :: u32
  se_uid :: u32
  se_gid :: u32
  se_delta_us :: u32
  se_type :: u8
  se_pad1 :: u8
  se_pad2 :: u16
  se_ret :: s32
  se_pad3 :: u32
  se_comm :: "char list"
  se_fname :: "char list"

record start_t =
  st_ts :: u64
  st_type :: u8
  st_pad1 :: u8
  st_pad2 :: u16
  st_dev :: u32
  st_fname :: "char list"

definition start_t_zero :: start_t where
  "start_t_zero = \<lparr>st_ts = 0, st_type = 0, st_pad1 = 0, st_pad2 = 0, st_dev = 0,
                   st_fname = zero_buf 96\<rparr>"

record ioslower_state =
  slow_events :: "ioslower_event list"
  op_start :: "u64 \<Rightarrow> start_t option"
  slow_vma_dev_map :: "u64 \<Rightarrow> u32 option"
  threshold_config :: "u32 \<Rightarrow> u64 option"
  slow_mount_filter_cfg :: "u32 \<Rightarrow> mount_filter_cfg option"

section \<open>Inlined helpers\<close>

definition ioslower_pass_mount_filter :: "(u32 \<Rightarrow> mount_filter_cfg option) \<Rightarrow> u32 \<Rightarrow> bool" where
  "ioslower_pass_mount_filter cfgs dev =
     (case cfgs 0 of
        None \<Rightarrow> True
      | Some cfg \<Rightarrow>
          if cfg_enabled cfg = 0 then True
          else let dev_major = drop_bit 20 dev;
                   dev_minor = dev AND (push_bit 20 1 - 1)
               in cfg_dev_major cfg = dev_major \<and> cfg_dev_minor cfg = dev_minor)"

definition ioslower_dev_from_path :: "kernel_mem \<Rightarrow> path option \<Rightarrow> u32" where
  "ioslower_dev_from_path km path =
     (case path of
        None \<Rightarrow> 0
      | Some p \<Rightarrow> let sb = dentry_d_sb km (path_dentry p)
                  in if sb = 0 then 0 else sb_s_dev km sb)"

definition ioslower_dev_from_file :: "kernel_mem \<Rightarrow> ptr \<Rightarrow> u32" where
  "ioslower_dev_from_file km file =
     (if file = 0 then 0
      else let inode = file_f_inode km file
           in if inode = 0 then 0
              else let sb = inode_i_sb km inode
                   in if sb = 0 then 0 else sb_s_dev km sb)"

definition ioslower_dev_from_dentry :: "kernel_mem \<Rightarrow> ptr \<Rightarrow> u32" where
  "ioslower_dev_from_dentry km dentry =
     (if dentry = 0 then 0
      else let sb = dentry_d_sb km dentry in if sb = 0 then 0 else sb_s_dev km sb)"

definition ioslower_dev_from_inode :: "kernel_mem \<Rightarrow> ptr \<Rightarrow> u32" where
  "ioslower_dev_from_inode km inode =
     (if inode = 0 then 0
      else let sb = inode_i_sb km inode in if sb = 0 then 0 else sb_s_dev km sb)"

definition ioslower_read_dentry_name :: "kernel_mem \<Rightarrow> ptr \<Rightarrow> char list \<Rightarrow> int \<Rightarrow> char list" where
  "ioslower_read_dentry_name km dentry dst dst_sz =
     (if dentry = 0 \<or> dst_sz \<le> 0 then dst[0 := NUL]
      else let name = dentry_d_name km dentry
           in if name = 0 then dst[0 := NUL]
              else let (rc, dst) = probe_read_str (kernel_str km name) dst (nat dst_sz)
                   in if rc < 0 then dst[0 := NUL] else dst)"

definition ioslower_read_path_name :: "kernel_mem \<Rightarrow> path option \<Rightarrow> char list \<Rightarrow> int \<Rightarrow> char list" where
  "ioslower_read_path_name km path dst dst_sz =
     (case path of
        None \<Rightarrow> dst[0 := NUL]
      | Some p \<Rightarrow> ioslower_read_dentry_name km (path_dentry p) dst dst_sz)"

definition ioslower_read_file_name :: "kernel_mem \<Rightarrow> ptr \<Rightarrow> char list \<Rightarrow> int \<Rightarrow> char list" where
  "ioslower_read_file_name km file dst dst_sz =
     (if file = 0 then dst[0 := NUL]
      else ioslower_read_dentry_name km (file_f_path_dentry km file) dst dst_sz)"

text \<open>
  \<open>i\<close> numbers the call of \<open>bpf_ktime_get_ns\<close> made here: the exit programs have called it
  before to compute the latency.
\<close>

definition ioslower_emit_event ::
    "ioslower_event bpf_env \<Rightarrow> nat \<Rightarrow> start_t \<Rightarrow> u64 \<Rightarrow> s32 \<Rightarrow> ioslower_state \<Rightarrow> ioslower_state" where
  "ioslower_emit_event e i st delta_ns ret s =
     (case threshold_config s 0 of
        None \<Rightarrow> s
      | Some threshold_us \<Rightarrow>
          let delta_us = delta_ns div 1000
          in if delta_us < threshold_us then s
             else if \<not> rb_reserve e 0 then s
             else let ev = (rb_mem e)\<lparr>se_ts := ktime e i,
                             se_pid := ucast (drop_bit 32 (pid_tgid e)),
                             se_uid := ucast (uid_gid e AND 0xffffffff),
                             se_gid := ucast (drop_bit 32 (uid_gid e)),
                             se_type := st_type st,
                             se_ret := ret,
                             se_delta_us := ucast delta_us,
                             se_comm := comm e,
                             se_fname := memcpy (zero_buf 256) (st_fname st) 96\<rparr>
                  in s\<lparr>slow_events := slow_events s @ [ev]\<rparr>)"

definition ioslower_start_or_drop ::
    "ioslower_event bpf_env \<Rightarrow> u64 \<Rightarrow> start_t \<Rightarrow> ioslower_state \<Rightarrow> ioslower_state" where
  "ioslower_start_or_drop e tid st s =
     (if \<not> ioslower_pass_mount_filter (slow_mount_filter_cfg s) (st_dev st) then s
      else s\<lparr>op_start := snd (bpf_map_update_elem (update_rc e) BPF_ANY tid st (op_start s))\<rparr>)"

definition ioslower_finish_event ::
    "ioslower_event bpf_env \<Rightarrow> u64 \<Rightarrow> s32 \<Rightarrow> ioslower_state \<Rightarrow> ioslower_state" where
  "ioslower_finish_event e tid ret s =
     (case op_start s tid of
        None \<Rightarrow> s
      | Some st \<Rightarrow>
          let delta = ktime e 0 - st_ts st;
              s = ioslower_emit_event e 1 st delta ret s
          in s\<lparr>op_start := bpf_map_delete_elem tid (op_start s)\<rparr>)"

section \<open>Programs\<close>

definition ioslower_trace_vfs_open_enter ::
    "kernel_mem \<Rightarrow> ioslower_event bpf_env \<Rightarrow> (path option) \<Rightarrow> ptr \<Rightarrow> ioslower_state \<Rightarrow> ioslower_state" where [probe_defs]:
  "ioslower_trace_vfs_open_enter km e path file s =
     (let st = start_t_zero\<lparr>st_ts := ktime e 0, st_type := SC_OPEN\<rparr>;
          st = st\<lparr>st_dev := ioslower_dev_from_path km path\<rparr>;
          st = st\<lparr>st_fname := ioslower_read_path_name km path (st_fname st) 96\<rparr>
      in ioslower_start_or_drop e (pid_tgid e) st s)"

definition ioslower_trace_vfs_read_enter ::
    "kernel_mem \<Rightarrow> ioslower_event bpf_env \<Rightarrow> ptr \<Rightarrow> u64 \<Rightarrow> ptr \<Rightarrow> ioslower_state \<Rightarrow> ioslower_state" where [probe_defs]:
  "ioslower_trace_vfs_read_enter km e file count pos s =
     (let st = start_t_zero\<lparr>st_ts := ktime e 0, st_type := SC_READ\<rparr>;
          st = st\<lparr>st_dev := ioslower_dev_from_file km file\<rparr>;
          st = st\<lparr>st_fname := ioslower_read_file_name km file (st_fname st) 96\<rparr>
      in ioslower_start_or_drop e (pid_tgid e) st s)"

definition ioslower_trace_vfs_write_enter ::
    "kernel_mem \<Rightarrow> ioslower_event bpf_env \<Rightarrow> ptr \<Rightarrow> u64 \<Rightarrow> ptr \<Rightarrow> ioslower_state \<Rightarrow> ioslower_state" where [probe_defs]:
  "ioslower_trace_vfs_write_enter km e file count pos s =
     (let st = start_t_zero\<lparr>st_ts := ktime e 0, st_type := SC_WRITE\<rparr>;
          st = st\<lparr>st_dev := ioslower_dev_from_file km file\<rparr>;
          st = st\<lparr>st_fname := ioslower_read_file_name km file (st_fname st) 96\<rparr>
      in ioslower_start_or_drop e (pid_tgid e) st s)"

definition ioslower_trace_vfs_create_enter ::
    "kernel_mem \<Rightarrow> ioslower_event bpf_env \<Rightarrow> ptr \<Rightarrow> ptr \<Rightarrow> u16 \<Rightarrow> bool \<Rightarrow> ioslower_state \<Rightarrow> ioslower_state" where [probe_defs]:
  "ioslower_trace_vfs_create_enter km e dir dentry mode want_excl s =
     (let st = start_t_zero\<lparr>st_ts := ktime e 0, st_type := SC_CREATE\<rparr>;
          st = st\<lparr>st_dev := ioslower_dev_from_inode km dir\<rparr>;
          st = st\<lparr>st_fname := ioslower_read_dentry_name km dentry (st_fname st) 96\<rparr>
      in ioslower_start_or_drop e (pid_tgid e) st s)"

definition ioslower_trace_vfs_mkdir_enter ::
    "kernel_mem \<Rightarrow> ioslower_event bpf_env \<Rightarrow> ptr \<Rightarrow> ptr \<Rightarrow> u16 \<Rightarrow> ioslower_state \<Rightarrow> ioslower_state" where [probe_defs]:
  "ioslower_trace_vfs_mkdir_enter km e dir dentry mode s =
     (let st = start_t_zero\<lparr>st_ts := ktime e 0, st_type := SC_MKDIR\<rparr>;
          st = st\<lparr>st_dev := ioslower_dev_from_inode km dir\<rparr>;
          st = st\<lparr>st_fname := ioslower_read_dentry_name km dentry (st_fname st) 96\<rparr>
      in ioslower_start_or_drop e (pid_tgid e) st s)"

definition ioslower_trace_vfs_rmdir_enter ::
    "kernel_mem \<Rightarrow> ioslower_event bpf_env \<Rightarrow> ptr \<Rightarrow> ptr \<Rightarrow> ioslower_state \<Rightarrow> ioslower_state" where [probe_defs]:
  "ioslower_trace_vfs_rmdir_enter km e dir dentry s =
     (let st = start_t_zero\<lparr>st_ts := ktime e 0, st_type := SC_RMDIR\<rparr>;
          st = st\<lparr>st_dev := ioslower_dev_from_inode km dir\<rparr>;
          st = st\<lparr>st_fname := ioslower_read_dentry_name km dentry (st_fname st) 96\<rparr>
      in ioslower_start_or_drop e (pid_tgid e) st s)"

definition ioslower_trace_vfs_symlink_enter ::
    "kernel_mem \<Rightarrow> ioslower_event bpf_env \<Rightarrow> ptr \<Rightarrow> ptr \<Rightarrow> ptr \<Rightarrow> ioslower_state \<Rightarrow> ioslower_state" where [probe_defs]:
  "ioslower_trace_vfs_symlink_enter km e dir dentry oldname s =
     (let st = start_t_zero\<lparr>st_ts := ktime e 0, st_type := SC_SYMLINK\<rparr>;
          st = st\<lparr>st_dev := ioslower_dev_from_inode km dir\<rparr>;
          st = st\<lparr>st_fname := ioslower_read_dentry_name km dentry (st_fname st) 96\<rparr>
      in ioslower_start_or_drop e (pid_tgid e) st s)"

definition ioslower_trace_vfs_rename_enter ::
    "kernel_mem \<Rightarrow> ioslower_event bpf_env \<Rightarrow> ptr \<Rightarrow> ioslower_state \<Rightarrow> ioslower_state" where [probe_defs]:
  "ioslower_trace_vfs_rename_enter km e rd s =
     (if rd = 0 then s else
      (let st = start_t_zero\<lparr>st_ts := ktime e 0, st_type := SC_RENAME\<rparr>;
          st = st\<lparr>st_dev := (if renamedata_has_new_parent km
             then ioslower_dev_from_dentry km (renamedata_new_parent km rd)
             else ioslower_dev_from_inode km (renamedata_new_dir km rd))\<rparr>;
          st = st\<lparr>st_fname := ioslower_read_dentry_name km (renamedata_new_dentry km rd) (st_fname st) 96\<rparr>
      in ioslower_start_or_drop e (pid_tgid e) st s))"

definition ioslower_trace_vfs_getattr_enter ::
    "kernel_mem \<Rightarrow> ioslower_event bpf_env \<Rightarrow> (path option) \<Rightarrow> u32 \<Rightarrow> u32 \<Rightarrow> ioslower_state \<Rightarrow> ioslower_state" where [probe_defs]:
  "ioslower_trace_vfs_getattr_enter km e path request_mask query_flags s =
     (case path of None \<Rightarrow> s | Some pth \<Rightarrow>
      (let st = start_t_zero\<lparr>st_ts := ktime e 0, st_type := SC_STAT\<rparr>;
          st = st\<lparr>st_dev := ioslower_dev_from_path km (Some pth)\<rparr>;
          st = st\<lparr>st_fname := ioslower_read_path_name km (Some pth) (st_fname st) 96\<rparr>
      in ioslower_start_or_drop e (pid_tgid e) st s))"

definition ioslower_trace_vfs_truncate_enter ::
    "kernel_mem \<Rightarrow> ioslower_event bpf_env \<Rightarrow> (path option) \<Rightarrow> s64 \<Rightarrow> ioslower_state \<Rightarrow> ioslower_state" where [probe_defs]:
  "ioslower_trace_vfs_truncate_enter km e path len s =
     (case path of None \<Rightarrow> s | Some pth \<Rightarrow>
      (let st = start_t_zero\<lparr>st_ts := ktime e 0, st_type := SC_TRUNCATE\<rparr>;
          st = st\<lparr>st_dev := ioslower_dev_from_path km (Some pth)\<rparr>;
          st = st\<lparr>st_fname := ioslower_read_path_name km (Some pth) (st_fname st) 96\<rparr>
      in ioslower_start_or_drop e (pid_tgid e) st s))"

definition ioslower_trace_vfs_fchmod_enter ::
    "kernel_mem \<Rightarrow> ioslower_event bpf_env \<Rightarrow> ptr \<Rightarrow> u16 \<Rightarrow> ioslower_state \<Rightarrow> ioslower_state" where [probe_defs]:
  "ioslower_trace_vfs_fchmod_enter km e file mode s =
     (let st = start_t_zero\<lparr>st_ts := ktime e 0, st_type := SC_FCHMOD\<rparr>;
          st = st\<lparr>st_dev := ioslower_dev_from_file km file\<rparr>;
          st = st\<lparr>st_fname := ioslower_read_file_name km file (st_fname st) 96\<rparr>
      in ioslower_start_or_drop e (pid_tgid e) st s)"

definition ioslower_trace_vfs_readlink_enter ::
    "kernel_mem \<Rightarrow> ioslower_event bpf_env \<Rightarrow> ptr \<Rightarrow> s32 \<Rightarrow> ioslower_state \<Rightarrow> ioslower_state" where [probe_defs]:
  "ioslower_trace_vfs_readlink_enter km e dentry buflen s =
     (let st = start_t_zero\<lparr>st_ts := ktime e 0, st_type := SC_READLINK\<rparr>;
          st = st\<lparr>st_dev := ioslower_dev_from_dentry km dentry\<rparr>;
          st = st\<lparr>st_fname := ioslower_read_dentry_name km dentry (st_fname st) 96\<rparr>
      in ioslower_start_or_drop e (pid_tgid e) st s)"

definition ioslower_trace_vfs_readv_enter ::
    "kernel_mem \<Rightarrow> ioslower_event bpf_env \<Rightarrow> ptr \<Rightarrow> u64 \<Rightarrow> u32 \<Rightarrow> ioslower_state \<Rightarrow> ioslower_state" where [probe_defs]:
  "ioslower_trace_vfs_readv_enter km e file vlen flags s =
     (let st = start_t_zero\<lparr>st_ts := ktime e 0, st_type := SC_READV\<rparr>;
          st = st\<lparr>st_dev := ioslower_dev_from_file km file\<rparr>;
          st = st\<lparr>st_fname := ioslower_read_file_name km file (st_fname st) 96\<rparr>
      in ioslower_start_or_drop e (pid_tgid e) st s)"

definition ioslower_trace_vfs_writev_enter ::
    "kernel_mem \<Rightarrow> ioslower_event bpf_env \<Rightarrow> ptr \<Rightarrow> u64 \<Rightarrow> u32 \<Rightarrow> ioslower_state \<Rightarrow> ioslower_state" where [probe_defs]:
  "ioslower_trace_vfs_writev_enter km e file vlen flags s =
     (let st = start_t_zero\<lparr>st_ts := ktime e 0, st_type := SC_WRITEV\<rparr>;
          st = st\<lparr>st_dev := ioslower_dev_from_file km file\<rparr>;
          st = st\<lparr>st_fname := ioslower_read_file_name km file (st_fname st) 96\<rparr>
      in ioslower_start_or_drop e (pid_tgid e) st s)"

definition ioslower_trace_vfs_unlink_kp ::
    "kernel_mem \<Rightarrow> ioslower_event bpf_env \<Rightarrow> ptr \<Rightarrow> ptr \<Rightarrow> ioslower_state \<Rightarrow> ioslower_state" where [probe_defs]:
  "ioslower_trace_vfs_unlink_kp km e dir dentry s =
     (let st = start_t_zero\<lparr>st_ts := ktime e 0, st_type := SC_UNLINK\<rparr>;
          st = st\<lparr>st_dev := ioslower_dev_from_inode km dir\<rparr>;
          st = st\<lparr>st_fname := ioslower_read_dentry_name km dentry (st_fname st) 96\<rparr>
      in ioslower_start_or_drop e (pid_tgid e) st s)"

definition ioslower_trace_vfs_link_kp ::
    "kernel_mem \<Rightarrow> ioslower_event bpf_env \<Rightarrow> ptr \<Rightarrow> ptr \<Rightarrow> ptr \<Rightarrow> ioslower_state \<Rightarrow> ioslower_state" where [probe_defs]:
  "ioslower_trace_vfs_link_kp km e old_dentry dir new_dentry s =
     (let st = start_t_zero\<lparr>st_ts := ktime e 0, st_type := SC_LINK\<rparr>;
          st = st\<lparr>st_dev := ioslower_dev_from_inode km dir\<rparr>;
          st = st\<lparr>st_fname := ioslower_read_dentry_name km new_dentry (st_fname st) 96\<rparr>
      in ioslower_start_or_drop e (pid_tgid e) st s)"

definition ioslower_trace_vfs_fallocate_kp ::
    "kernel_mem \<Rightarrow> ioslower_event bpf_env \<Rightarrow> ptr \<Rightarrow> s64 \<Rightarrow> s64 \<Rightarrow> ioslower_state \<Rightarrow> ioslower_state" where [probe_defs]:
  "ioslower_trace_vfs_fallocate_kp km e file offset len s =
     (let st = start_t_zero\<lparr>st_ts := ktime e 0, st_type := SC_FALLOCATE\<rparr>;
          st = st\<lparr>st_dev := ioslower_dev_from_file km file\<rparr>;
          st = st\<lparr>st_fname := ioslower_read_file_name km file (st_fname st) 96\<rparr>
      in ioslower_start_or_drop e (pid_tgid e) st s)"

definition ioslower_trace_iterate_dir_enter ::
    "kernel_mem \<Rightarrow> ioslower_event bpf_env \<Rightarrow> ptr \<Rightarrow> ioslower_state \<Rightarrow> ioslower_state" where [probe_defs]:
  "ioslower_trace_iterate_dir_enter km e file s =
     (let st = start_t_zero\<lparr>st_ts := ktime e 0, st_type := SC_GETDENTS\<rparr>;
          st = st\<lparr>st_dev := ioslower_dev_from_file km file\<rparr>;
          st = st\<lparr>st_fname := ioslower_read_file_name km file (st_fname st) 96\<rparr>
      in ioslower_start_or_drop e (pid_tgid e) st s)"

definition ioslower_trace_do_mmap_kp ::
    "kernel_mem \<Rightarrow> ioslower_event bpf_env \<Rightarrow> ptr \<Rightarrow> u64 \<Rightarrow> u64 \<Rightarrow> ioslower_state \<Rightarrow> ioslower_state" where [probe_defs]:
  "ioslower_trace_do_mmap_kp km e file len prot s =
     (if file = 0 then s else
      (let st = start_t_zero\<lparr>st_ts := ktime e 0, st_type := SC_MMAP\<rparr>;
          st = st\<lparr>st_dev := ioslower_dev_from_file km file\<rparr>;
          st = st\<lparr>st_fname := ioslower_read_file_name km file (st_fname st) 96\<rparr>
      in ioslower_start_or_drop e (pid_tgid e) st s))"

definition ioslower_trace_vfs_lock_file_enter ::
    "kernel_mem \<Rightarrow> ioslower_event bpf_env \<Rightarrow> ptr \<Rightarrow> u32 \<Rightarrow> ioslower_state \<Rightarrow> ioslower_state" where [probe_defs]:
  "ioslower_trace_vfs_lock_file_enter km e filp cmd s =
     (let st = start_t_zero\<lparr>st_ts := ktime e 0, st_type := SC_LOCK_FCNTL\<rparr>;
          st = st\<lparr>st_dev := ioslower_dev_from_file km filp\<rparr>;
          st = st\<lparr>st_fname := ioslower_read_file_name km filp (st_fname st) 96\<rparr>
      in ioslower_start_or_drop e (pid_tgid e) st s)"

definition ioslower_trace_vfs_rename_legacy_kprobe_fallback ::
    "kernel_mem \<Rightarrow> ioslower_event bpf_env \<Rightarrow> ptr \<Rightarrow> ptr \<Rightarrow> ioslower_state \<Rightarrow> ioslower_state" where [probe_defs]:
  "ioslower_trace_vfs_rename_legacy_kprobe_fallback km e new_dir new_dentry s =
     (let st = start_t_zero\<lparr>st_ts := ktime e 0, st_type := SC_RENAME\<rparr>;
          st = st\<lparr>st_dev := ioslower_dev_from_inode km new_dir\<rparr>;
          st = st\<lparr>st_fname := ioslower_read_dentry_name km new_dentry (st_fname st) 96\<rparr>
      in ioslower_start_or_drop e (pid_tgid e) st s)"

definition ioslower_trace_vm_munmap_kp ::
    "ioslower_event bpf_env \<Rightarrow> u64 \<Rightarrow> u64 \<Rightarrow> ioslower_state \<Rightarrow> ioslower_state" where [probe_defs]:
  "ioslower_trace_vm_munmap_kp e start len s =
     (let key = vma_key (ucast (drop_bit 32 (pid_tgid e))) start;
          devp = slow_vma_dev_map s key;
          st = start_t_zero\<lparr>st_dev := (case devp of Some dev \<Rightarrow> dev | None \<Rightarrow> 0)\<rparr>;
          s = s\<lparr>slow_vma_dev_map := bpf_map_delete_elem key (slow_vma_dev_map s)\<rparr>;
          st = st\<lparr>st_ts := ktime e 0, st_type := SC_MUNMAP, st_fname := (st_fname st)[0 := NUL]\<rparr>
      in ioslower_start_or_drop e (pid_tgid e) st s)"

definition ioslower_trace_vfs_open_exit ::
    "ioslower_event bpf_env \<Rightarrow> s32 \<Rightarrow> ioslower_state \<Rightarrow> ioslower_state" where [probe_defs]:
  "ioslower_trace_vfs_open_exit e ret s =
     ioslower_finish_event e (pid_tgid e) ret s"

definition ioslower_trace_vfs_read_exit ::
    "ioslower_event bpf_env \<Rightarrow> s64 \<Rightarrow> ioslower_state \<Rightarrow> ioslower_state" where [probe_defs]:
  "ioslower_trace_vfs_read_exit e ret s =
     ioslower_finish_event e (pid_tgid e) (ucast ret) s"

definition ioslower_trace_vfs_write_exit ::
    "ioslower_event bpf_env \<Rightarrow> s64 \<Rightarrow> ioslower_state \<Rightarrow> ioslower_state" where [probe_defs]:
  "ioslower_trace_vfs_write_exit e ret s =
     ioslower_finish_event e (pid_tgid e) (ucast ret) s"

definition ioslower_trace_vfs_create_exit ::
    "ioslower_event bpf_env \<Rightarrow> s32 \<Rightarrow> ioslower_state \<Rightarrow> ioslower_state" where [probe_defs]:
  "ioslower_trace_vfs_create_exit e ret s =
     ioslower_finish_event e (pid_tgid e) ret s"

definition ioslower_trace_vfs_mkdir_exit ::
    "ioslower_event bpf_env \<Rightarrow> s32 \<Rightarrow> ioslower_state \<Rightarrow> ioslower_state" where [probe_defs]:
  "ioslower_trace_vfs_mkdir_exit e ret s =
     ioslower_finish_event e (pid_tgid e) ret s"

definition ioslower_trace_vfs_rmdir_exit ::
    "ioslower_event bpf_env \<Rightarrow> s32 \<Rightarrow> ioslower_state \<Rightarrow> ioslower_state" where [probe_defs]:
  "ioslower_trace_vfs_rmdir_exit e ret s =
     ioslower_finish_event e (pid_tgid e) ret s"

definition ioslower_trace_vfs_symlink_exit ::
    "ioslower_event bpf_env \<Rightarrow> s32 \<Rightarrow> ioslower_state \<Rightarrow> ioslower_state" where [probe_defs]:
  "ioslower_trace_vfs_symlink_exit e ret s =
     ioslower_finish_event e (pid_tgid e) ret s"

definition ioslower_trace_vfs_rename_exit ::
    "ioslower_event bpf_env \<Rightarrow> s32 \<Rightarrow> ioslower_state \<Rightarrow> ioslower_state" where [probe_defs]:
  "ioslower_trace_vfs_rename_exit e ret s =
     ioslower_finish_event e (pid_tgid e) ret s"

definition ioslower_trace_vfs_getattr_exit ::
    "ioslower_event bpf_env \<Rightarrow> s32 \<Rightarrow> ioslower_state \<Rightarrow> ioslower_state" where [probe_defs]:
  "ioslower_trace_vfs_getattr_exit e ret s =
     ioslower_finish_event e (pid_tgid e) ret s"

definition ioslower_trace_vfs_truncate_exit ::
    "ioslower_event bpf_env \<Rightarrow> s32 \<Rightarrow> ioslower_state \<Rightarrow> ioslower_state" where [probe_defs]:
  "ioslower_trace_vfs_truncate_exit e ret s =
     ioslower_finish_event e (pid_tgid e) ret s"

definition ioslower_trace_vfs_fchmod_exit ::
    "ioslower_event bpf_env \<Rightarrow> s32 \<Rightarrow> ioslower_state \<Rightarrow> ioslower_state" where [probe_defs]:
  "ioslower_trace_vfs_fchmod_exit e ret s =
     ioslower_finish_event e (pid_tgid e) ret s"

definition ioslower_trace_vfs_readlink_exit ::
    "ioslower_event bpf_env \<Rightarrow> s32 \<Rightarrow> ioslower_state \<Rightarrow> ioslower_state" where [probe_defs]:
  "ioslower_trace_vfs_readlink_exit e ret s =
     ioslower_finish_event e (pid_tgid e) ret s"

definition ioslower_trace_vfs_readv_exit ::
    "ioslower_event bpf_env \<Rightarrow> s64 \<Rightarrow> ioslower_state \<Rightarrow> ioslower_state" where [probe_defs]:
  "ioslower_trace_vfs_readv_exit e ret s =
     ioslower_finish_event e (pid_tgid e) (ucast ret) s"

definition ioslower_trace_vfs_writev_exit ::
    "ioslower_event bpf_env \<Rightarrow> s64 \<Rightarrow> ioslower_state \<Rightarrow> ioslower_state" where [probe_defs]:
  "ioslower_trace_vfs_writev_exit e ret s =
     ioslower_finish_event e (pid_tgid e) (ucast ret) s"

definition ioslower_trace_vfs_unlink_krp ::
    "ioslower_event bpf_env \<Rightarrow> s64 \<Rightarrow> ioslower_state \<Rightarrow> ioslower_state" where [probe_defs]:
  "ioslower_trace_vfs_unlink_krp e ret s =
     ioslower_finish_event e (pid_tgid e) (ucast ret) s"

definition ioslower_trace_vfs_link_krp ::
    "ioslower_event bpf_env \<Rightarrow> s64 \<Rightarrow> ioslower_state \<Rightarrow> ioslower_state" where [probe_defs]:
  "ioslower_trace_vfs_link_krp e ret s =
     ioslower_finish_event e (pid_tgid e) (ucast ret) s"

definition ioslower_trace_vfs_fallocate_krp ::
    "ioslower_event bpf_env \<Rightarrow> s64 \<Rightarrow> ioslower_state \<Rightarrow> ioslower_state" where [probe_defs]:
  "ioslower_trace_vfs_fallocate_krp e ret s =
     ioslower_finish_event e (pid_tgid e) (ucast ret) s"

definition ioslower_trace_iterate_dir_exit ::
    "ioslower_event bpf_env \<Rightarrow> s32 \<Rightarrow> ioslower_state \<Rightarrow> ioslower_state" where [probe_defs]:
  "ioslower_trace_iterate_dir_exit e ret s =
     ioslower_finish_event e (pid_tgid e) ret s"

definition ioslower_trace_vm_munmap_krp ::
    "ioslower_event bpf_env \<Rightarrow> s64 \<Rightarrow> ioslower_state \<Rightarrow> ioslower_state" where [probe_defs]:
  "ioslower_trace_vm_munmap_krp e ret s =
     ioslower_finish_event e (pid_tgid e) (ucast ret) s"

definition ioslower_trace_vfs_lock_file_exit ::
    "ioslower_event bpf_env \<Rightarrow> s32 \<Rightarrow> ioslower_state \<Rightarrow> ioslower_state" where [probe_defs]:
  "ioslower_trace_vfs_lock_file_exit e ret s =
     ioslower_finish_event e (pid_tgid e) ret s"

definition ioslower_trace_do_mmap_krp ::
    "ioslower_event bpf_env \<Rightarrow> u64 \<Rightarrow> ioslower_state \<Rightarrow> ioslower_state" where [probe_defs]:
  "ioslower_trace_do_mmap_krp e ret s =
     (let tid = pid_tgid e; pid = ucast (drop_bit 32 tid);
          s = (case op_start s tid of
                 None \<Rightarrow> s
               | Some st \<Rightarrow>
                   if 0 < sint ret
                   then s\<lparr>slow_vma_dev_map :=
                            snd (bpf_map_update_elem (update_rc e) BPF_ANY (vma_key pid ret) (st_dev st)
                                   (slow_vma_dev_map s))\<rparr>
                   else s)
      in ioslower_finish_event e tid (if 0 < sint ret then 0 else ucast ret) s)"

definition ioslower_kretprobe_fallback ::
    "ioslower_event bpf_env \<Rightarrow> s64 \<Rightarrow> ioslower_state \<Rightarrow> ioslower_state" where [probe_defs]:
  "ioslower_kretprobe_fallback e ret s =
     ioslower_finish_event e (pid_tgid e) (ucast ret) s"

definition ioslower_trace_vfs_open_kprobe_fallback ::
    "kernel_mem \<Rightarrow> ioslower_event bpf_env \<Rightarrow> (path option) \<Rightarrow> ptr \<Rightarrow> ioslower_state \<Rightarrow> ioslower_state" where [probe_defs]:
  "ioslower_trace_vfs_open_kprobe_fallback km e path file s =
     ioslower_trace_vfs_open_enter km e path file s"

definition ioslower_trace_vfs_open_kretprobe_fallback ::
    "ioslower_event bpf_env \<Rightarrow> s64 \<Rightarrow> ioslower_state \<Rightarrow> ioslower_state" where [probe_defs]:
  "ioslower_trace_vfs_open_kretprobe_fallback e ret s =
     ioslower_kretprobe_fallback e ret s"

definition ioslower_trace_vfs_read_kprobe_fallback ::
    "kernel_mem \<Rightarrow> ioslower_event bpf_env \<Rightarrow> ptr \<Rightarrow> u64 \<Rightarrow> ptr \<Rightarrow> ioslower_state \<Rightarrow> ioslower_state" where [probe_defs]:
  "ioslower_trace_vfs_read_kprobe_fallback km e file count pos s =
     ioslower_trace_vfs_read_enter km e file count pos s"

definition ioslower_trace_vfs_read_kretprobe_fallback ::
    "ioslower_event bpf_env \<Rightarrow> s64 \<Rightarrow> ioslower_state \<Rightarrow> ioslower_state" where [probe_defs]:
  "ioslower_trace_vfs_read_kretprobe_fallback e ret s =
     ioslower_kretprobe_fallback e ret s"

definition ioslower_trace_vfs_write_kprobe_fallback ::
    "kernel_mem \<Rightarrow> ioslower_event bpf_env \<Rightarrow> ptr \<Rightarrow> u64 \<Rightarrow> ptr \<Rightarrow> ioslower_state \<Rightarrow> ioslower_state" where [probe_defs]:
  "ioslower_trace_vfs_write_kprobe_fallback km e file count pos s =
     ioslower_trace_vfs_write_enter km e file count pos s"

definition ioslower_trace_vfs_write_kretprobe_fallback ::
    "ioslower_event bpf_env \<Rightarrow> s64 \<Rightarrow> ioslower_state \<Rightarrow> ioslower_state" where [probe_defs]:
  "ioslower_trace_vfs_write_kretprobe_fallback e ret s =
     ioslower_kretprobe_fallback e ret s"

definition ioslower_trace_vfs_create_kprobe_fallback ::
    "kernel_mem \<Rightarrow> ioslower_event bpf_env \<Rightarrow> ptr \<Rightarrow> ptr \<Rightarrow> u16 \<Rightarrow> bool \<Rightarrow> ioslower_state \<Rightarrow> ioslower_state" where [probe_defs]:
  "ioslower_trace_vfs_create_kprobe_fallback km e dir dentry mode want_excl s =
     ioslower_trace_vfs_create_enter km e dir dentry mode want_excl s"

definition ioslower_trace_vfs_create_legacy_fallback ::
    "kernel_mem \<Rightarrow> ioslower_event bpf_env \<Rightarrow> ptr \<Rightarrow> ptr \<Rightarrow> u16 \<Rightarrow> ioslower_state \<Rightarrow> ioslower_state" where [probe_defs]:
  "ioslower_trace_vfs_create_legacy_fallback km e dir dentry mode s =
     ioslower_trace_vfs_create_enter km e dir dentry mode False s"

definition ioslower_trace_vfs_create_kretprobe_fallback ::
    "ioslower_event bpf_env \<Rightarrow> s64 \<Rightarrow> ioslower_state \<Rightarrow> ioslower_state" where [probe_defs]:
  "ioslower_trace_vfs_create_kretprobe_fallback e ret s =
     ioslower_kretprobe_fallback e ret s"

definition ioslower_trace_vfs_mkdir_kprobe_fallback ::
    "kernel_mem \<Rightarrow> ioslower_event bpf_env \<Rightarrow> ptr \<Rightarrow> ptr \<Rightarrow> u16 \<Rightarrow> ioslower_state \<Rightarrow> ioslower_state" where [probe_defs]:
  "ioslower_trace_vfs_mkdir_kprobe_fallback km e dir dentry mode s =
     ioslower_trace_vfs_mkdir_enter km e dir dentry mode s"

definition ioslower_trace_vfs_mkdir_kretprobe_fallback ::
    "ioslower_event bpf_env \<Rightarrow> s64 \<Rightarrow> ioslower_state \<Rightarrow> ioslower_state" where [probe_defs]:
  "ioslower_trace_vfs_mkdir_kretprobe_fallback e ret s =
     ioslower_kretprobe_fallback e ret s"

definition ioslower_trace_vfs_rmdir_kprobe_fallback ::
    "kernel_mem \<Rightarrow> ioslower_event bpf_env \<Rightarrow> ptr \<Rightarrow> ptr \<Rightarrow> ioslower_state \<Rightarrow> ioslower_state" where [probe_defs]:
  "ioslower_trace_vfs_rmdir_kprobe_fallback km e dir dentry s =
     ioslower_trace_vfs_rmdir_enter km e dir dentry s"

definition ioslower_trace_vfs_rmdir_kretprobe_fallback ::
    "ioslower_event bpf_env \<Rightarrow> s64 \<Rightarrow> ioslower_state \<Rightarrow> ioslower_state" where [probe_defs]:
  "ioslower_trace_vfs_rmdir_kretprobe_fallback e ret s =
     ioslower_kretprobe_fallback e ret s"

definition ioslower_trace_vfs_symlink_kprobe_fallback ::
    "kernel_mem \<Rightarrow> ioslower_event bpf_env \<Rightarrow> ptr \<Rightarrow> ptr \<Rightarrow> ptr \<Rightarrow> ioslower_state \<Rightarrow> ioslower_state" where [probe_defs]:
  "ioslower_trace_vfs_symlink_kprobe_fallback km e dir dentry oldname s =
     ioslower_trace_vfs_symlink_enter km e dir dentry oldname s"

definition ioslower_trace_vfs_symlink_kretprobe_fallback ::
    "ioslower_event bpf_env \<Rightarrow> s64 \<Rightarrow> ioslower_state \<Rightarrow> ioslower_state" where [probe_defs]:
  "ioslower_trace_vfs_symlink_kretprobe_fallback e ret s =
     ioslower_kretprobe_fallback e ret s"

definition ioslower_trace_vfs_rename_kprobe_fallback ::
    "kernel_mem \<Rightarrow> ioslower_event bpf_env \<Rightarrow> ptr \<Rightarrow> ioslower_state \<Rightarrow> ioslower_state" where [probe_defs]:
  "ioslower_trace_vfs_rename_kprobe_fallback km e rd s =
     ioslower_trace_vfs_rename_enter km e rd s"

definition ioslower_trace_vfs_rename_kretprobe_fallback ::
    "ioslower_event bpf_env \<Rightarrow> s64 \<Rightarrow> ioslower_state \<Rightarrow> ioslower_state" where [probe_defs]:
  "ioslower_trace_vfs_rename_kretprobe_fallback e ret s =
     ioslower_kretprobe_fallback e ret s"

definition ioslower_trace_vfs_rename_legacy_kretprobe_fallback ::
    "ioslower_event bpf_env \<Rightarrow> s64 \<Rightarrow> ioslower_state \<Rightarrow> ioslower_state" where [probe_defs]:
  "ioslower_trace_vfs_rename_legacy_kretprobe_fallback e ret s =
     ioslower_kretprobe_fallback e ret s"

definition ioslower_trace_vfs_getattr_kprobe_fallback ::
    "kernel_mem \<Rightarrow> ioslower_event bpf_env \<Rightarrow> (path option) \<Rightarrow> u32 \<Rightarrow> u32 \<Rightarrow> ioslower_state \<Rightarrow> ioslower_state" where [probe_defs]:
  "ioslower_trace_vfs_getattr_kprobe_fallback km e path request_mask query_flags s =
     ioslower_trace_vfs_getattr_enter km e path request_mask query_flags s"

definition ioslower_trace_vfs_getattr_kretprobe_fallback ::
    "ioslower_event bpf_env \<Rightarrow> s64 \<Rightarrow> ioslower_state \<Rightarrow> ioslower_state" where [probe_defs]:
  "ioslower_trace_vfs_getattr_kretprobe_fallback e ret s =
     ioslower_kretprobe_fallback e ret s"

definition ioslower_trace_vfs_truncate_kprobe_fallback ::
    "kernel_mem \<Rightarrow> ioslower_event bpf_env \<Rightarrow> (path option) \<Rightarrow> s64 \<Rightarrow> ioslower_state \<Rightarrow> ioslower_state" where [probe_defs]:
  "ioslower_trace_vfs_truncate_kprobe_fallback km e path len s =
     ioslower_trace_vfs_truncate_enter km e path len s"

definition ioslower_trace_vfs_truncate_kretprobe_fallback ::
    "ioslower_event bpf_env \<Rightarrow> s64 \<Rightarrow> ioslower_state \<Rightarrow> ioslower_state" where [probe_defs]:
  "ioslower_trace_vfs_truncate_kretprobe_fallback e ret s =
     ioslower_kretprobe_fallback e ret s"

definition ioslower_trace_vfs_fchmod_kprobe_fallback ::
    "kernel_mem \<Rightarrow> ioslower_event bpf_env \<Rightarrow> ptr \<Rightarrow> u16 \<Rightarrow> ioslower_state \<Rightarrow> ioslower_state" where [probe_defs]:
  "ioslower_trace_vfs_fchmod_kprobe_fallback km e file mode s =
     ioslower_trace_vfs_fchmod_enter km e file mode s"

definition ioslower_trace_vfs_fchmod_kretprobe_fallback ::
    "ioslower_event bpf_env \<Rightarrow> s64 \<Rightarrow> ioslower_state \<Rightarrow> ioslower_state" where [probe_defs]:
  "ioslower_trace_vfs_fchmod_kretprobe_fallback e ret s =
     ioslower_kretprobe_fallback e ret s"

definition ioslower_trace_vfs_readlink_kprobe_fallback ::
    "kernel_mem \<Rightarrow> ioslower_event bpf_env \<Rightarrow> ptr \<Rightarrow> s32 \<Rightarrow> ioslower_state \<Rightarrow> ioslower_state" where [probe_defs]:
  "ioslower_trace_vfs_readlink_kprobe_fallback km e dentry buflen s =
     ioslower_trace_vfs_readlink_enter km e dentry buflen s"

definition ioslower_trace_vfs_readlink_kretprobe_fallback ::
    "ioslower_event bpf_env \<Rightarrow> s64 \<Rightarrow> ioslower_state \<Rightarrow> ioslower_state" where [probe_defs]:
  "ioslower_trace_vfs_readlink_kretprobe_fallback e ret s =
     ioslower_kretprobe_fallback e ret s"

definition ioslower_trace_vfs_readv_kprobe_fallback ::
    "kernel_mem \<Rightarrow> ioslower_event bpf_env \<Rightarrow> ptr \<Rightarrow> u64 \<Rightarrow> u32 \<Rightarrow> ioslower_state \<Rightarrow> ioslower_state" where [probe_defs]:
  "ioslower_trace_vfs_readv_kprobe_fallback km e file vlen flags s =
     ioslower_trace_vfs_readv_enter km e file vlen flags s"

definition ioslower_trace_vfs_readv_kretprobe_fallback ::
    "ioslower_event bpf_env \<Rightarrow> s64 \<Rightarrow> ioslower_state \<Rightarrow> ioslower_state" where [probe_defs]:
  "ioslower_trace_vfs_readv_kretprobe_fallback e ret s =
     ioslower_kretprobe_fallback e ret s"

definition ioslower_trace_vfs_writev_kprobe_fallback ::
    "kernel_mem \<Rightarrow> ioslower_event bpf_env \<Rightarrow> ptr \<Rightarrow> u64 \<Rightarrow> u32 \<Rightarrow> ioslower_state \<Rightarrow> ioslower_state" where [probe_defs]:
  "ioslower_trace_vfs_writev_kprobe_fallback km e file vlen flags s =
     ioslower_trace_vfs_writev_enter km e file vlen flags s"

definition ioslower_trace_vfs_writev_kretprobe_fallback ::
    "ioslower_event bpf_env \<Rightarrow> s64 \<Rightarrow> ioslower_state \<Rightarrow> ioslower_state" where [probe_defs]:
  "ioslower_trace_vfs_writev_kretprobe_fallback e ret s =
     ioslower_kretprobe_fallback e ret s"

definition ioslower_trace_iterate_dir_kprobe_fallback ::
    "kernel_mem \<Rightarrow> ioslower_event bpf_env \<Rightarrow> ptr \<Rightarrow> ioslower_state \<Rightarrow> ioslower_state" where [probe_defs]:
  "ioslower_trace_iterate_dir_kprobe_fallback km e file s =
     ioslower_trace_iterate_dir_enter km e file s"

definition ioslower_trace_iterate_dir_kretprobe_fallback ::
    "ioslower_event bpf_env \<Rightarrow> s64 \<Rightarrow> ioslower_state \<Rightarrow> ioslower_state" where [probe_defs]:
  "ioslower_trace_iterate_dir_kretprobe_fallback e ret s =
     ioslower_kretprobe_fallback e ret s"

definition ioslower_trace_vfs_lock_file_kprobe_fallback ::
    "kernel_mem \<Rightarrow> ioslower_event bpf_env \<Rightarrow> ptr \<Rightarrow> u32 \<Rightarrow> ioslower_state \<Rightarrow> ioslower_state" where [probe_defs]:
  "ioslower_trace_vfs_lock_file_kprobe_fallback km e filp cmd s =
     ioslower_trace_vfs_lock_file_enter km e filp cmd s"

definition ioslower_trace_vfs_lock_file_kretprobe_fallback ::
    "ioslower_event bpf_env \<Rightarrow> s64 \<Rightarrow> ioslower_state \<Rightarrow> ioslower_state" where [probe_defs]:
  "ioslower_trace_vfs_lock_file_kretprobe_fallback e ret s =
     ioslower_kretprobe_fallback e ret s"

section \<open>Dispatch\<close>

text \<open>
  A call of a hooked kernel function runs the program of the selected family. The legacy
  entry programs belong to the fallback family only. In the fallback family both kretprobe
  programs of \<open>vfs_rename\<close> are attached and run, one after the other.
\<close>

fun ioslower_entry ::
    "hook \<Rightarrow> kernel_mem \<Rightarrow> ioslower_event bpf_env \<Rightarrow> vfs_entry \<Rightarrow> ioslower_state \<Rightarrow> ioslower_state"
where
  "ioslower_entry h km e (E_open p f) s =
     (case h of Fentry \<Rightarrow> ioslower_trace_vfs_open_enter km e p f s
      | Kprobe \<Rightarrow> ioslower_trace_vfs_open_kprobe_fallback km e p f s)"
| "ioslower_entry h km e (E_read f c w) s =
     (case h of Fentry \<Rightarrow> ioslower_trace_vfs_read_enter km e f c w s
      | Kprobe \<Rightarrow> ioslower_trace_vfs_read_kprobe_fallback km e f c w s)"
| "ioslower_entry h km e (E_write f c w) s =
     (case h of Fentry \<Rightarrow> ioslower_trace_vfs_write_enter km e f c w s
      | Kprobe \<Rightarrow> ioslower_trace_vfs_write_kprobe_fallback km e f c w s)"
| "ioslower_entry h km e (E_create d n m x) s =
     (case h of Fentry \<Rightarrow> ioslower_trace_vfs_create_enter km e d n m x s
      | Kprobe \<Rightarrow> ioslower_trace_vfs_create_kprobe_fallback km e d n m x s)"
| "ioslower_entry h km e (E_mkdir d n m) s =
     (case h of Fentry \<Rightarrow> ioslower_trace_vfs_mkdir_enter km e d n m s
      | Kprobe \<Rightarrow> ioslower_trace_vfs_mkdir_kprobe_fallback km e d n m s)"
| "ioslower_entry h km e (E_rmdir d n) s =
     (case h of Fentry \<Rightarrow> ioslower_trace_vfs_rmdir_enter km e d n s
      | Kprobe \<Rightarrow> ioslower_trace_vfs_rmdir_kprobe_fallback km e d n s)"
| "ioslower_entry h km e (E_symlink d n w) s =
     (case h of Fentry \<Rightarrow> ioslower_trace_vfs_symlink_enter km e d n w s
      | Kprobe \<Rightarrow> ioslower_trace_vfs_symlink_kprobe_fallback km e d n w s)"
| "ioslower_entry h km e (E_rename r) s =
     (case h of Fentry \<Rightarrow> ioslower_trace_vfs_rename_enter km e r s
      | Kprobe \<Rightarrow> ioslower_trace_vfs_rename_kprobe_fallback km e r s)"
| "ioslower_entry h km e (E_getattr p m q) s =
     (case h of Fentry \<Rightarrow> ioslower_trace_vfs_getattr_enter km e p m q s
      | Kprobe \<Rightarrow> ioslower_trace_vfs_getattr_kprobe_fallback km e p m q s)"
| "ioslower_entry h km e (E_truncate p l) s =
     (case h of Fentry \<Rightarrow> ioslower_trace_vfs_truncate_enter km e p l s
      | Kprobe \<Rightarrow> ioslower_trace_vfs_truncate_kprobe_fallback km e p l s)"
| "ioslower_entry h km e (E_fchmod f m) s =
     (case h of Fentry \<Rightarrow> ioslower_trace_vfs_fchmod_enter km e f m s
      | Kprobe \<Rightarrow> ioslower_trace_vfs_fchmod_kprobe_fallback km e f m s)"
| "ioslower_entry h km e (E_readlink n l) s =
     (case h of Fentry \<Rightarrow> ioslower_trace_vfs_readlink_enter km e n l s
      | Kprobe \<Rightarrow> ioslower_trace_vfs_readlink_kprobe_fallback km e n l s)"
| "ioslower_entry h km e (E_readv f v g) s =
     (case h of Fentry \<Rightarrow> ioslower_trace_vfs_readv_enter km e f v g s
      | Kprobe \<Rightarrow> ioslower_trace_vfs_readv_kprobe_fallback km e f v g s)"
| "ioslower_entry h km e (E_writev f v g) s =
     (case h of Fentry \<Rightarrow> ioslower_trace_vfs_writev_enter km e f v g s
      | Kprobe \<Rightarrow> ioslower_trace_vfs_writev_kprobe_fallback km e f v g s)"
| "ioslower_entry h km e (E_iterate_dir f) s =
     (case h of Fentry \<Rightarrow> ioslower_trace_iterate_dir_enter km e f s
      | Kprobe \<Rightarrow> ioslower_trace_iterate_dir_kprobe_fallback km e f s)"
| "ioslower_entry h km e (E_lock_file f c) s =
     (case h of Fentry \<Rightarrow> ioslower_trace_vfs_lock_file_enter km e f c s
      | Kprobe \<Rightarrow> ioslower_trace_vfs_lock_file_kprobe_fallback km e f c s)"
| "ioslower_entry h km e (E_create_legacy d n m) s =
     (case h of Fentry \<Rightarrow> s | Kprobe \<Rightarrow> ioslower_trace_vfs_create_legacy_fallback km e d n m s)"
| "ioslower_entry h km e (E_rename_legacy d n) s =
     (case h of Fentry \<Rightarrow> s | Kprobe \<Rightarrow> ioslower_trace_vfs_rename_legacy_kprobe_fallback km e d n s)"
| "ioslower_entry h km e (E_unlink d n) s = ioslower_trace_vfs_unlink_kp km e d n s"
| "ioslower_entry h km e (E_link w d n) s = ioslower_trace_vfs_link_kp km e w d n s"
| "ioslower_entry h km e (E_fallocate f w l) s = ioslower_trace_vfs_fallocate_kp km e f w l s"
| "ioslower_entry h km e (E_mmap f l p) s = ioslower_trace_do_mmap_kp km e f l p s"
| "ioslower_entry h km e (E_munmap a l) s = ioslower_trace_vm_munmap_kp e a l s"

fun ioslower_exit ::
    "hook \<Rightarrow> ioslower_event bpf_env \<Rightarrow> vfs_exit \<Rightarrow> ioslower_state \<Rightarrow> ioslower_state"
where
  "ioslower_exit h e (X_open r) s =
     (case h of Fentry \<Rightarrow> ioslower_trace_vfs_open_exit e r s
      | Kprobe \<Rightarrow> ioslower_trace_vfs_open_kretprobe_fallback e (scast r) s)"
| "ioslower_exit h e (X_read r) s =
     (case h of Fentry \<Rightarrow> ioslower_trace_vfs_read_exit e r s
      | Kprobe \<Rightarrow> ioslower_trace_vfs_read_kretprobe_fallback e r s)"
| "ioslower_exit h e (X_write r) s =
     (case h of Fentry \<Rightarrow> ioslower_trace_vfs_write_exit e r s
      | Kprobe \<Rightarrow> ioslower_trace_vfs_write_kretprobe_fallback e r s)"
| "ioslower_exit h e (X_create r) s =
     (case h of Fentry \<Rightarrow> ioslower_trace_vfs_create_exit e r s
      | Kprobe \<Rightarrow> ioslower_trace_vfs_create_kretprobe_fallback e (scast r) s)"
| "ioslower_exit h e (X_mkdir r) s =
     (case h of Fentry \<Rightarrow> ioslower_trace_vfs_mkdir_exit e r s
      | Kprobe \<Rightarrow> ioslower_trace_vfs_mkdir_kretprobe_fallback e (scast r) s)"
| "ioslower_exit h e (X_rmdir r) s =
     (case h of Fentry \<Rightarrow> ioslower_trace_vfs_rmdir_exit e r s
      | Kprobe \<Rightarrow> ioslower_trace_vfs_rmdir_kretprobe_fallback e (scast r) s)"
| "ioslower_exit h e (X_symlink r) s =
     (case h of Fentry \<Rightarrow> ioslower_trace_vfs_symlink_exit e r s
      | Kprobe \<Rightarrow> ioslower_trace_vfs_symlink_kretprobe_fallback e (scast r) s)"
| "ioslower_exit h e (X_getattr r) s =
     (case h of Fentry \<Rightarrow> ioslower_trace_vfs_getattr_exit e r s
      | Kprobe \<Rightarrow> ioslower_trace_vfs_getattr_kretprobe_fallback e (scast r) s)"
| "ioslower_exit h e (X_truncate r) s =
     (case h of Fentry \<Rightarrow> ioslower_trace_vfs_truncate_exit e r s
      | Kprobe \<Rightarrow> ioslower_trace_vfs_truncate_kretprobe_fallback e (scast r) s)"
| "ioslower_exit h e (X_fchmod r) s =
     (case h of Fentry \<Rightarrow> ioslower_trace_vfs_fchmod_exit e r s
      | Kprobe \<Rightarrow> ioslower_trace_vfs_fchmod_kretprobe_fallback e (scast r) s)"
| "ioslower_exit h e (X_readlink r) s =
     (case h of Fentry \<Rightarrow> ioslower_trace_vfs_readlink_exit e r s
      | Kprobe \<Rightarrow> ioslower_trace_vfs_readlink_kretprobe_fallback e (scast r) s)"
| "ioslower_exit h e (X_readv r) s =
     (case h of Fentry \<Rightarrow> ioslower_trace_vfs_readv_exit e r s
      | Kprobe \<Rightarrow> ioslower_trace_vfs_readv_kretprobe_fallback e r s)"
| "ioslower_exit h e (X_writev r) s =
     (case h of Fentry \<Rightarrow> ioslower_trace_vfs_writev_exit e r s
      | Kprobe \<Rightarrow> ioslower_trace_vfs_writev_kretprobe_fallback e r s)"
| "ioslower_exit h e (X_iterate_dir r) s =
     (case h of Fentry \<Rightarrow> ioslower_trace_iterate_dir_exit e r s
      | Kprobe \<Rightarrow> ioslower_trace_iterate_dir_kretprobe_fallback e (scast r) s)"
| "ioslower_exit h e (X_lock_file r) s =
     (case h of Fentry \<Rightarrow> ioslower_trace_vfs_lock_file_exit e r s
      | Kprobe \<Rightarrow> ioslower_trace_vfs_lock_file_kretprobe_fallback e (scast r) s)"
| "ioslower_exit h e (X_rename r) s =
     (case h of Fentry \<Rightarrow> ioslower_trace_vfs_rename_exit e r s
      | Kprobe \<Rightarrow> ioslower_trace_vfs_rename_legacy_kretprobe_fallback e (scast r)
                    (ioslower_trace_vfs_rename_kretprobe_fallback e (scast r) s))"
| "ioslower_exit h e (X_unlink r) s = ioslower_trace_vfs_unlink_krp e r s"
| "ioslower_exit h e (X_link r) s = ioslower_trace_vfs_link_krp e r s"
| "ioslower_exit h e (X_fallocate r) s = ioslower_trace_vfs_fallocate_krp e r s"
| "ioslower_exit h e (X_mmap r) s = ioslower_trace_do_mmap_krp e r s"
| "ioslower_exit h e (X_munmap r) s = ioslower_trace_vm_munmap_krp e r s"

section \<open>Specification\<close>

text \<open>The maps as the kernel creates them: array maps hold zeroed elements.\<close>

definition ioslower_init :: ioslower_state where
  "ioslower_init =
     \<lparr>slow_events = [], op_start = Map.empty, slow_vma_dev_map = Map.empty,
      threshold_config = [0 \<mapsto> 0],
      slow_mount_filter_cfg = [0 \<mapsto> \<lparr>cfg_enabled = 0, cfg_dev_major = 0, cfg_dev_minor = 0\<rparr>]\<rparr>"

text \<open>Calls as inputs of \<open>probe_table\<close>; the table key is the calling thread.\<close>

type_synonym slow_in = "hook \<times> kernel_mem \<times> ioslower_event bpf_env \<times> vfs_entry"
type_synonym slow_out = "hook \<times> ioslower_event bpf_env \<times> vfs_exit"

definition ioslower_enter :: "slow_in \<Rightarrow> ioslower_state \<Rightarrow> ioslower_state" where
  "ioslower_enter i s = (case i of (h, km, e, x) \<Rightarrow> ioslower_entry h km e x s)"

definition ioslower_leave :: "slow_out \<Rightarrow> ioslower_state \<Rightarrow> ioslower_state" where
  "ioslower_leave r s = (case r of (h, e, y) \<Rightarrow> ioslower_exit h e y s)"

definition slow_key_in :: "slow_in \<Rightarrow> u64" where
  "slow_key_in i = (case i of (h, km, e, x) \<Rightarrow> pid_tgid e)"

definition slow_key_out :: "slow_out \<Rightarrow> u64" where
  "slow_key_out r = (case r of (h, e, y) \<Rightarrow> pid_tgid e)"

text \<open>One step: any thread enters or leaves any hooked function.\<close>

inductive ioslower_step :: "ioslower_state \<Rightarrow> ioslower_state \<Rightarrow> bool" where
  entry: "ioslower_step s (ioslower_entry h km e x s)"
| exit: "ioslower_step s (ioslower_exit h e y s)"

inductive_cases ioslower_stepE: "ioslower_step s t"

text \<open>What an entry program may put into the table, and the effect of entry and exit.\<close>

definition slow_prepared :: "ioslower_event bpf_env \<Rightarrow> vfs_entry \<Rightarrow> start_t \<Rightarrow> bool" where
  "slow_prepared e x st \<longleftrightarrow>
     st_ts st = ktime e 0 \<and> st_type st = entry_type x \<and> length (st_fname st) = 96"

definition slow_entry_effect ::
    "ioslower_event bpf_env \<Rightarrow> vfs_entry \<Rightarrow> ioslower_state \<Rightarrow> ioslower_state \<Rightarrow> bool" where
  "slow_entry_effect e x s s' \<longleftrightarrow>
     slow_events s' = slow_events s \<and> threshold_config s' = threshold_config s \<and>
     slow_mount_filter_cfg s' = slow_mount_filter_cfg s \<and>
     (op_start s' = op_start s \<or>
      (\<exists>st. slow_prepared e x st \<and>
            ioslower_pass_mount_filter (slow_mount_filter_cfg s) (st_dev st) \<and>
            op_start s' = (op_start s)(pid_tgid e \<mapsto> st)))"

definition slow_exit_effect ::
    "ioslower_event bpf_env \<Rightarrow> vfs_exit \<Rightarrow> ioslower_state \<Rightarrow> ioslower_state \<Rightarrow> bool" where
  "slow_exit_effect e y s s' \<longleftrightarrow>
     slow_events s' = slow_events (ioslower_finish_event e (pid_tgid e) (exit_ret y) s) \<and>
     op_start s' = (op_start s)(pid_tgid e := None) \<and>
     threshold_config s' = threshold_config s \<and>
     slow_mount_filter_cfg s' = slow_mount_filter_cfg s"

text \<open>Invariant of the reachable states.\<close>

definition slow_event_ok :: "u64 \<Rightarrow> ioslower_event \<Rightarrow> bool" where
  "slow_event_ok thr ev \<longleftrightarrow>
     se_type ev \<in> range entry_type \<and>
     (\<exists>d. thr \<le> d \<and> se_delta_us ev = ucast d) \<and>
     length (se_fname ev) = 256 \<and> drop 96 (se_fname ev) = zero_buf 160"

definition slow_inv ::
    "u64 \<Rightarrow> (u32 \<Rightarrow> mount_filter_cfg option) \<Rightarrow> ioslower_state \<Rightarrow> bool" where
  "slow_inv thr cfgs s \<longleftrightarrow>
     threshold_config s 0 = Some thr \<and> slow_mount_filter_cfg s = cfgs \<and>
     (\<forall>tid st. op_start s tid = Some st \<longrightarrow>
        st_type st \<in> range entry_type \<and> length (st_fname st) = 96 \<and>
        ioslower_pass_mount_filter cfgs (st_dev st)) \<and>
     (\<forall>ev \<in> set (slow_events s). slow_event_ok thr ev)"

text \<open>Calls that change the mapping table.\<close>

fun touches_vma :: "(slow_in, slow_out) probe_call \<Rightarrow> bool" where
  "touches_vma (Enter i) = (case i of (h, km, e, x) \<Rightarrow> (case x of E_munmap a l \<Rightarrow> True | _ \<Rightarrow> False))"
| "touches_vma (Leave r) = (case r of (h, e, y) \<Rightarrow> (case y of X_mmap a \<Rightarrow> True | _ \<Rightarrow> False))"

text \<open>A run environment for concrete examples: time \<open>t\<close>, thread \<open>tid\<close>.\<close>

definition slow_example_env :: "u64 \<Rightarrow> u64 \<Rightarrow> ioslower_event bpf_env" where
  "slow_example_env t tid =
     \<lparr>ktime = (\<lambda>i. t + of_nat i), pid_tgid = tid, uid_gid = 0x3e800000064, comm = zero_buf 16,
      update_rc = 0, rb_reserve = (\<lambda>flags. flags = 0), rb_avail = (\<lambda>_. 0),
      rb_mem = \<lparr>se_ts = 0, se_pid = 0, se_uid = 0, se_gid = 0, se_delta_us = 0, se_type = 0,
                 se_pad1 = 0, se_pad2 = 0, se_ret = 0, se_pad3 = 0, se_comm = zero_buf 16,
                 se_fname = zero_buf 256\<rparr>,
      stack_mem = (\<lambda>_. CHR ''#'')\<rparr>"

section \<open>Effects of the programs\<close>

lemma length_ioslower_read_dentry_name [simp, buf_simps]:
  "0 < sz \<Longrightarrow> nat sz \<le> length dst \<Longrightarrow> length (ioslower_read_dentry_name km d dst sz) = length dst"
  by (simp add: ioslower_read_dentry_name_def Let_def case_prod_beta)

lemma length_ioslower_read_path_name [simp, buf_simps]:
  "0 < sz \<Longrightarrow> nat sz \<le> length dst \<Longrightarrow> length (ioslower_read_path_name km p dst sz) = length dst"
  by (simp add: ioslower_read_path_name_def split: option.splits)

lemma length_ioslower_read_file_name [simp, buf_simps]:
  "0 < sz \<Longrightarrow> nat sz \<le> length dst \<Longrightarrow> length (ioslower_read_file_name km f dst sz) = length dst"
  by (simp add: ioslower_read_file_name_def)

lemma ioslower_start_or_drop_frame [simp]:
  "slow_events (ioslower_start_or_drop e tid st s) = slow_events s"
  "slow_vma_dev_map (ioslower_start_or_drop e tid st s) = slow_vma_dev_map s"
  "threshold_config (ioslower_start_or_drop e tid st s) = threshold_config s"
  "slow_mount_filter_cfg (ioslower_start_or_drop e tid st s) = slow_mount_filter_cfg s"
  by (simp_all add: ioslower_start_or_drop_def)

lemma ioslower_start_or_drop_pending:
  "op_start (ioslower_start_or_drop e tid st s) =
     (if ioslower_pass_mount_filter (slow_mount_filter_cfg s) (st_dev st) \<and> 0 \<le> update_rc e
      then (op_start s)(tid \<mapsto> st) else op_start s)"
  by (simp add: ioslower_start_or_drop_def)

lemma ioslower_emit_event_frame [simp]:
  "op_start (ioslower_emit_event e i st d r s) = op_start s"
  "slow_vma_dev_map (ioslower_emit_event e i st d r s) = slow_vma_dev_map s"
  "threshold_config (ioslower_emit_event e i st d r s) = threshold_config s"
  "slow_mount_filter_cfg (ioslower_emit_event e i st d r s) = slow_mount_filter_cfg s"
  by (simp_all add: ioslower_emit_event_def Let_def split: option.splits)

lemma ioslower_finish_event_frame [simp]:
  "op_start (ioslower_finish_event e tid r s) = (op_start s)(tid := None)"
  "slow_vma_dev_map (ioslower_finish_event e tid r s) = slow_vma_dev_map s"
  "threshold_config (ioslower_finish_event e tid r s) = threshold_config s"
  "slow_mount_filter_cfg (ioslower_finish_event e tid r s) = slow_mount_filter_cfg s"
  by (auto simp: ioslower_finish_event_def Let_def fun_eq_iff split: option.splits)

lemma slow_entry_effect_refl [simp]: "slow_entry_effect e x s s"
  by (simp add: slow_entry_effect_def)

lemma slow_entry_effect_start:
  "slow_prepared e x st \<Longrightarrow>
   slow_entry_effect e x s (ioslower_start_or_drop e (pid_tgid e) st (s\<lparr>slow_vma_dev_map := m\<rparr>))"
  by (auto simp: slow_entry_effect_def ioslower_start_or_drop_pending)

lemma slow_entry_effect_start':
  "slow_prepared e x st \<Longrightarrow>
   slow_entry_effect e x s (ioslower_start_or_drop e (pid_tgid e) st s)"
  using slow_entry_effect_start [of e x st s "slow_vma_dev_map s"] by simp

lemma ioslower_entry_effect: "slow_entry_effect e x s (ioslower_entry h km e x s)"
  by (cases x; cases h)
     (simp_all add: probe_defs Let_def slow_entry_effect_start slow_entry_effect_start'
        slow_prepared_def start_t_zero_def split: option.splits)

lemma ioslower_finish_idle: "op_start s tid = None \<Longrightarrow> ioslower_finish_event e tid r s = s"
  by (simp add: ioslower_finish_event_def)

lemma ioslower_finish_events_cong:
  "op_start s tid = op_start s' tid \<Longrightarrow> threshold_config s = threshold_config s' \<Longrightarrow>
   slow_events s = slow_events s' \<Longrightarrow>
   slow_events (ioslower_finish_event e tid r s) = slow_events (ioslower_finish_event e tid r s')"
  by (simp add: ioslower_finish_event_def ioslower_emit_event_def Let_def split: option.splits)

lemma ioslower_exit_effect: "slow_exit_effect e y s (ioslower_exit h e y s)"
proof (cases y)
  case (X_mmap r)
  have "slow_events (ioslower_finish_event e (pid_tgid e) c (s\<lparr>slow_vma_dev_map := m\<rparr>)) =
        slow_events (ioslower_finish_event e (pid_tgid e) c s)" for c m
    by (rule ioslower_finish_events_cong) simp_all
  with X_mmap show ?thesis
    by (cases "op_start s (pid_tgid e)")
       (simp_all add: probe_defs slow_exit_effect_def Let_def)
qed (cases h; simp add: probe_defs slow_exit_effect_def ioslower_finish_idle)+

lemma ioslower_finish_events:
  "slow_events (ioslower_finish_event e tid r s) =
     slow_events s @
     (case (op_start s tid, threshold_config s 0) of
        (Some st, Some thr) \<Rightarrow>
          (let d = (ktime e 0 - st_ts st) div 1000
           in if d < thr \<or> \<not> rb_reserve e 0 then []
              else [(rb_mem e)\<lparr>se_ts := ktime e 1,
                      se_pid := ucast (drop_bit 32 (pid_tgid e)),
                      se_uid := ucast (uid_gid e AND 0xffffffff),
                      se_gid := ucast (drop_bit 32 (uid_gid e)),
                      se_type := st_type st, se_ret := r, se_delta_us := ucast d,
                      se_comm := comm e,
                      se_fname := memcpy (zero_buf 256) (st_fname st) 96\<rparr>])
      | _ \<Rightarrow> [])"
  by (auto simp: ioslower_finish_event_def ioslower_emit_event_def Let_def split: option.splits)

section \<open>The programs implement the probe table\<close>

interpretation slow_probes: probe_table "op_start :: ioslower_state \<Rightarrow> _" "slow_events :: ioslower_state \<Rightarrow> _" ioslower_enter ioslower_leave
    slow_key_in slow_key_out
proof
  fix i and s :: ioslower_state show "slow_events (ioslower_enter i s) = slow_events s"
    using ioslower_entry_effect
    by (auto simp: ioslower_enter_def slow_entry_effect_def split: prod.splits)
next
  fix i k and s :: ioslower_state assume "k \<noteq> slow_key_in i"
  then show "op_start (ioslower_enter i s) k = op_start s k"
    using ioslower_entry_effect [of "fst (snd (snd i))" "snd (snd (snd i))" s "fst i" "fst (snd i)"]
    by (auto simp: ioslower_enter_def slow_key_in_def slow_entry_effect_def split: prod.splits)
next
  fix x and s :: ioslower_state show "op_start (ioslower_leave x s) = (op_start s)(slow_key_out x := None)"
    using ioslower_exit_effect
    by (auto simp: ioslower_leave_def slow_key_out_def slow_exit_effect_def split: prod.splits)
next
  fix x and s :: ioslower_state assume "op_start s (slow_key_out x) = None"
  then show "slow_events (ioslower_leave x s) = slow_events s"
    using ioslower_exit_effect [of "fst (snd x)" "snd (snd x)" s "fst x"]
    by (auto simp: ioslower_leave_def slow_key_out_def slow_exit_effect_def ioslower_finish_idle
        split: prod.splits)
next
  fix x and s :: ioslower_state show "\<exists>es. slow_events (ioslower_leave x s) = slow_events s @ es \<and> length es \<le> 1"
    using ioslower_exit_effect [of "fst (snd x)" "snd (snd x)" s "fst x"]
    by (auto simp: ioslower_leave_def slow_exit_effect_def ioslower_finish_events Let_def
        split: prod.splits option.splits)
qed

lemma slow_run_config [simp]:
  "threshold_config (probe_run ioslower_enter ioslower_leave cs s) = threshold_config s"
  "slow_mount_filter_cfg (probe_run ioslower_enter ioslower_leave cs s) = slow_mount_filter_cfg s"
  using ioslower_entry_effect ioslower_exit_effect
  by (auto intro!: probe_run_preserves
      simp: ioslower_enter_def ioslower_leave_def slow_entry_effect_def slow_exit_effect_def
      split: prod.splits)

lemma ioslower_vma_frame:
  "\<not> touches_vma (Enter (h, km, e, x)) \<Longrightarrow>
     slow_vma_dev_map (ioslower_entry h km e x s) = slow_vma_dev_map s"
  "\<not> touches_vma (Leave (h, e, y)) \<Longrightarrow>
     slow_vma_dev_map (ioslower_exit h e y s) = slow_vma_dev_map s"
  by (cases x; cases h; simp add: probe_defs Let_def split: option.splits)
     (cases y; cases h; simp add: probe_defs)

lemma slow_run_vma_frame:
  "\<forall>c \<in> set cs. \<not> touches_vma c \<Longrightarrow>
   slow_vma_dev_map (probe_run ioslower_enter ioslower_leave cs s) = slow_vma_dev_map s"
proof (induction cs arbitrary: s)
  case Nil
  then show ?case by simp
next
  case (Cons c cs)
  then show ?case
    by (cases c) (auto simp: ioslower_enter_def ioslower_leave_def ioslower_vma_frame
        simp del: touches_vma.simps split: prod.splits)
qed

section \<open>Invariant\<close>

lemma slow_inv_entry: "slow_inv thr cfgs s \<Longrightarrow> slow_inv thr cfgs (ioslower_entry h km e x s)"
  using ioslower_entry_effect [of e x s h km]
  by (auto simp: slow_inv_def slow_entry_effect_def slow_prepared_def split: if_splits)

lemma slow_event_ok_emitted:
  assumes "st_type st \<in> range entry_type" and "length (st_fname st) = 96" and "\<not> d < thr"
  shows "slow_event_ok thr ((rb_mem e)\<lparr>se_ts := t, se_pid := p, se_uid := u, se_gid := g,
           se_type := st_type st, se_ret := r, se_delta_us := ucast d, se_comm := c,
           se_fname := memcpy (zero_buf 256) (st_fname st) 96\<rparr>)"
proof -
  have "memcpy (zero_buf 256) (st_fname st) 96 = st_fname st @ zero_buf 160"
    using assms(2) by (simp add: memcpy_def zero_buf_def)
  with assms show ?thesis by (auto simp: slow_event_ok_def not_less)
qed

lemma slow_inv_exit:
  assumes inv: "slow_inv thr cfgs s"
  shows "slow_inv thr cfgs (ioslower_exit h e y s)"
proof -
  have "\<forall>ev \<in> set (slow_events (ioslower_finish_event e (pid_tgid e) (exit_ret y) s)). slow_event_ok thr ev"
    using inv
    by (auto simp: slow_inv_def ioslower_finish_events Let_def slow_event_ok_emitted
        split: option.splits)
  then show ?thesis
    using ioslower_exit_effect [of e y s h] inv
    by (auto simp: slow_inv_def slow_exit_effect_def split: if_splits)
qed

lemma slow_inv_step: "ioslower_step s t \<Longrightarrow> slow_inv thr cfgs s \<Longrightarrow> slow_inv thr cfgs t"
  by (auto elim!: ioslower_stepE intro: slow_inv_entry slow_inv_exit)

lemmas slow_example_simps =
  slow_example_env_def example_mem_def ioslower_init_def start_t_zero_def

section \<open>Properties\<close>

text \<open>
  C2: one traced operation. A thread enters a hooked function, other threads run any
  sequence of entry and exit programs, and the thread leaves. Then the thread has no entry in
  the table any more, and the exit reports exactly one record, carrying the type of the
  operation, its return value, its name, the caller and the time from entry to exit in
  microseconds, iff the entry was recorded, that time is not below the threshold and the ring
  buffer has room. An operation the mount filter rejected is never reported.
\<close>

theorem ioslower_measures_latency:
  assumes "pid_tgid e1 = tid" and "pid_tgid e2 = tid" and "op_start s tid = None"
    and "\<forall>c \<in> set cs. call_key slow_key_in slow_key_out c \<noteq> tid"
    and "threshold_config s 0 = Some thr"
  shows "let s1 = ioslower_entry h km e1 x s;
             s2 = probe_run ioslower_enter ioslower_leave cs s1;
             s3 = ioslower_exit h e2 y s2;
             d = (ktime e2 0 - ktime e1 0) div 1000
         in op_start s3 tid = None \<and>
            slow_events s3 = slow_events s2 @
              (case op_start s1 tid of
                 None \<Rightarrow> []
               | Some st \<Rightarrow>
                   if d < thr \<or> \<not> rb_reserve e2 0 then []
                   else [(rb_mem e2)\<lparr>se_ts := ktime e2 1, se_pid := ucast (drop_bit 32 tid),
                           se_uid := ucast (uid_gid e2 AND 0xffffffff),
                           se_gid := ucast (drop_bit 32 (uid_gid e2)),
                           se_type := entry_type x, se_ret := exit_ret y, se_delta_us := ucast d,
                           se_comm := comm e2,
                           se_fname := memcpy (zero_buf 256) (st_fname st) 96\<rparr>])"
proof -
  define s1 where "s1 = ioslower_entry h km e1 x s"
  define s2 where "s2 = probe_run ioslower_enter ioslower_leave cs s1"
  have pend: "op_start s2 tid = op_start s1 tid"
    unfolding s2_def by (rule slow_probes.run_other_keys [OF assms(4)])
  have thr: "threshold_config s2 0 = Some thr"
    using ioslower_entry_effect [of e1 x s h km] assms(5)
    by (simp add: s2_def s1_def slow_entry_effect_def)
  have prep: "slow_prepared e1 x st" if "op_start s1 tid = Some st" for st
    using ioslower_entry_effect [of e1 x s h km] that assms(1,3)
    by (auto simp: s1_def slow_entry_effect_def)
  show ?thesis
    using ioslower_exit_effect [of e2 y s2 h] pend thr prep assms(2)
    by (auto simp: s1_def [symmetric] s2_def [symmetric] slow_exit_effect_def Let_def
        ioslower_finish_events slow_prepared_def split: option.splits)
qed

theorem ioslower_measures_latency_witness:
  "map (\<lambda>ev. (se_delta_us ev, se_type ev, se_ret ev, c_str (se_fname ev)))
     (slow_events
        (ioslower_exit Fentry (slow_example_env 21000000 0x700000007) (X_open 0)
          (probe_run ioslower_enter ioslower_leave
            [Enter (Fentry, example_mem, slow_example_env 5 0x900000009, E_rmdir 16 32)]
            (ioslower_entry Fentry example_mem (slow_example_env 1000000 0x700000007)
              (E_open (Some \<lparr>path_dentry = 64\<rparr>) 0)
              (ioslower_init\<lparr>threshold_config := [0 \<mapsto> 10000]\<rparr>))))) =
   [(20000, SC_OPEN, 0, ''data.txt'')]"
  using ioslower_measures_latency
    [of "slow_example_env 1000000 0x700000007" "0x700000007" "slow_example_env 21000000 0x700000007"
        "ioslower_init\<lparr>threshold_config := [0 \<mapsto> 10000]\<rparr>"
        "[Enter (Fentry, example_mem, slow_example_env 5 0x900000009, E_rmdir 16 32)]" 10000
        Fentry example_mem "E_open (Some \<lparr>path_dentry = 64\<rparr>) 0" "X_open 0"]
  by (simp add: slow_example_simps slow_key_in_def ioslower_enter_def probe_defs Let_def
      ioslower_start_or_drop_def ioslower_pass_mount_filter_def ioslower_read_path_name_def
      ioslower_read_dentry_name_def probe_read_str_def memcpy_def c_str_def)



text \<open>
  No duplicated or invented records. Starting with an empty table, after any sequence of
  entry and exit programs of any threads the records reported and the operations still pending
  together are at most as many as the entries that ran.
\<close>

theorem ioslower_conservation:
  assumes "op_start s = Map.empty" and "slow_events s = []"
  shows "length (slow_events (probe_run ioslower_enter ioslower_leave cs s)) +
         card (dom (op_start (probe_run ioslower_enter ioslower_leave cs s)))
           \<le> length (filter is_enter cs)"
  using slow_probes.run_conserves [of s cs] assms by simp

theorem ioslower_conservation_witness:
  "length (slow_events (probe_run ioslower_enter ioslower_leave
     [Enter (Fentry, example_mem, slow_example_env 5 9, E_rmdir 16 32),
      Leave (Fentry, slow_example_env 50000 9, X_rmdir 0),
      Leave (Fentry, slow_example_env 90000 9, X_rmdir 0)] ioslower_init)) \<le> 1"
  using ioslower_conservation
    [of ioslower_init "[Enter (Fentry, example_mem, slow_example_env 5 9, E_rmdir 16 32),
      Leave (Fentry, slow_example_env 50000 9, X_rmdir 0),
      Leave (Fentry, slow_example_env 90000 9, X_rmdir 0)]"]
  by (simp add: ioslower_init_def del: probe_run.simps)

text \<open>
  C32: the two probe families are interchangeable. Outside the two legacy entry points, the
  kprobe fallback of a hooked function does to the tool's state exactly what its fentry program
  does, and the kretprobe fallbacks do what the fexit programs do, although the fallback family
  runs two programs at the end of \<open>vfs_rename\<close>.
\<close>

theorem ioslower_families_agree:
  assumes "\<not> legacy_entry x"
  shows "ioslower_entry Kprobe km e x s = ioslower_entry Fentry km e x s \<and>
         ioslower_exit Kprobe e y s = ioslower_exit Fentry e y s"
proof
  show "ioslower_entry Kprobe km e x s = ioslower_entry Fentry km e x s"
    using assms by (cases x) (simp_all add: probe_defs)
  show "ioslower_exit Kprobe e y s = ioslower_exit Fentry e y s"
    by (cases y) (simp_all add: probe_defs ioslower_finish_idle)
qed

theorem ioslower_families_agree_witness:
  "\<not> legacy_entry (E_rename 8) \<and>
   ioslower_exit Kprobe (slow_example_env 9 9) (X_rename 0) ioslower_init =
   ioslower_exit Fentry (slow_example_env 9 9) (X_rename 0) ioslower_init"
  using ioslower_families_agree [of "E_rename 8" example_mem "slow_example_env 9 9" ioslower_init
      "X_rename 0"] by simp

text \<open>
  Operations are keyed by thread only, so nesting loses the outer one. When a thread
  enters a second hooked function before it left the first, the inner exit reports and the
  outer exit reports nothing.
\<close>

theorem ioslower_nested_loses_outer:
  assumes "pid_tgid e3 = tid" and "pid_tgid e4 = tid"
  shows "slow_events (ioslower_exit h e4 y1 (ioslower_exit h e3 y2
           (ioslower_entry h km e2 x2 (ioslower_entry h km e1 x1 s)))) =
         slow_events (ioslower_exit h e3 y2
           (ioslower_entry h km e2 x2 (ioslower_entry h km e1 x1 s)))"
  using slow_probes.leave_twice [of "(h, e4, y1)" "(h, e3, y2)"] assms
  by (simp add: slow_key_out_def ioslower_leave_def)

theorem ioslower_nested_loses_outer_witness:
  "length (slow_events (ioslower_exit Fentry (slow_example_env 90000 9) (X_mkdir 0)
     (ioslower_exit Fentry (slow_example_env 50000 9) (X_rmdir 0)
       (ioslower_entry Fentry example_mem (slow_example_env 7 9) (E_rmdir 16 32)
         (ioslower_entry Fentry example_mem (slow_example_env 5 9) (E_mkdir 16 32 0) ioslower_init))))) = 1"
  using ioslower_nested_loses_outer
    [of "slow_example_env 50000 9" 9 "slow_example_env 90000 9" Fentry "X_mkdir 0" "X_rmdir 0"
        example_mem "slow_example_env 7 9" "E_rmdir 16 32" "slow_example_env 5 9" "E_mkdir 16 32 0"
        ioslower_init]
  by (simp add: slow_example_simps probe_defs Let_def ioslower_start_or_drop_def
      ioslower_pass_mount_filter_def ioslower_finish_events)

text \<open>
  The latency of a reported record is the measured one modulo 2^32 microseconds: the
  threshold is checked on 64 bits, the record keeps 32. An operation of 2^32 microseconds (71
  minutes 35 seconds) passes the threshold and is reported with latency 0.
\<close>

theorem ioslower_delta_mod:
  assumes "threshold_config s 0 = Some thr" and "thr \<le> delta_ns div 1000" and "rb_reserve e 0"
  shows "\<exists>ev. slow_events (ioslower_emit_event e i st delta_ns ret s) = slow_events s @ [ev] \<and>
           unat (se_delta_us ev) = unat delta_ns div 1000 mod 2 ^ 32"
  using assms
  by (simp add: ioslower_emit_event_def Let_def unsigned_ucast_eq take_bit_eq_mod unat_div not_less)

theorem ioslower_delta_mod_witness:
  "\<exists>ev. slow_events (ioslower_emit_event (slow_example_env 0 9) 1 start_t_zero 4294967296000 0
            (ioslower_init\<lparr>threshold_config := [0 \<mapsto> 10000]\<rparr>)) = [ev] \<and> unat (se_delta_us ev) = 0"
  using ioslower_delta_mod [of "ioslower_init\<lparr>threshold_config := [0 \<mapsto> 10000]\<rparr>" 10000 4294967296000
      "slow_example_env 0 9" 1 start_t_zero 0]
  by (simp add: slow_example_simps)

text \<open>
  With the mount filter on, ioslower admits exactly the operations on the configured
  device: the kernel device number is the configured major and minor number packed as
  \<open>major << 20 | minor\<close>. In particular an operation whose device could not be read (device 0)
  is dropped, unless device 0:0 was asked for.
\<close>

theorem ioslower_mount_filter_iff:
  assumes "cfgs 0 = Some cfg" and "cfg_enabled cfg \<noteq> 0"
    and "cfg_dev_major cfg < 2 ^ 12" and "cfg_dev_minor cfg < 2 ^ 20"
  shows "ioslower_pass_mount_filter cfgs dev \<longleftrightarrow>
         dev = push_bit 20 (cfg_dev_major cfg) OR cfg_dev_minor cfg"
  using packed_dev_iff [OF assms(3,4), of dev] assms(1,2)
  by (simp add: ioslower_pass_mount_filter_def Let_def mask20)

theorem ioslower_mount_filter_iff_witness:
  "ioslower_pass_mount_filter [0 \<mapsto> \<lparr>cfg_enabled = 1, cfg_dev_major = 8, cfg_dev_minor = 1\<rparr>] 0x800001 \<and>
   \<not> ioslower_pass_mount_filter [0 \<mapsto> \<lparr>cfg_enabled = 1, cfg_dev_major = 8, cfg_dev_minor = 1\<rparr>] 0"
  using ioslower_mount_filter_iff
      [of "[0 \<mapsto> \<lparr>cfg_enabled = 1, cfg_dev_major = 8, cfg_dev_minor = 1\<rparr>]"
          "\<lparr>cfg_enabled = 1, cfg_dev_major = 8, cfg_dev_minor = 1\<rparr>" "0x800001"]
    ioslower_mount_filter_iff
      [of "[0 \<mapsto> \<lparr>cfg_enabled = 1, cfg_dev_major = 8, cfg_dev_minor = 1\<rparr>]"
          "\<lparr>cfg_enabled = 1, cfg_dev_major = 8, cfg_dev_minor = 1\<rparr>" 0]
  by simp

text \<open>
  The unmapping of a file is attributed to the device the file was mapped from. After a
  recorded \<open>do_mmap\<close> returned an address, and as long as the process neither maps nor unmaps
  anything else, \<open>vm_munmap\<close> of that address, by any thread of the process, records a pending
  operation with the device of the mapping.
\<close>

theorem ioslower_munmap_inherits_dev:
  assumes "op_start s (pid_tgid e1) = Some st" and "0 < sint addr"
    and "0 \<le> update_rc e1" and "0 \<le> update_rc e2"
    and "drop_bit 32 (pid_tgid e2) = drop_bit 32 (pid_tgid e1)"
    and "\<forall>c \<in> set cs. \<not> touches_vma c"
    and "ioslower_pass_mount_filter (slow_mount_filter_cfg s) (st_dev st)"
  shows "\<exists>st'. op_start (ioslower_entry h km e2 (E_munmap addr len)
                 (probe_run ioslower_enter ioslower_leave cs (ioslower_exit h e1 (X_mmap addr) s)))
               (pid_tgid e2) = Some st' \<and>
             st_dev st' = st_dev st \<and> st_type st' = SC_MUNMAP"
proof -
  define s2 where "s2 = probe_run ioslower_enter ioslower_leave cs (ioslower_exit h e1 (X_mmap addr) s)"
  have "slow_vma_dev_map s2 (vma_key (ucast (drop_bit 32 (pid_tgid e2))) addr) = Some (st_dev st)"
    using assms(1-3,5) by (simp add: s2_def slow_run_vma_frame [OF assms(6)] probe_defs Let_def)
  moreover have "slow_mount_filter_cfg s2 = slow_mount_filter_cfg s"
    using ioslower_exit_effect [of e1 "X_mmap addr" s h] by (simp add: s2_def slow_exit_effect_def)
  ultimately show ?thesis
    unfolding s2_def [symmetric] using assms(4,7)
    by (simp add: probe_defs Let_def ioslower_start_or_drop_pending)
qed

theorem ioslower_munmap_inherits_dev_witness:
  "\<exists>st'. op_start (ioslower_entry Fentry example_mem (slow_example_env 9 0x700000008) (E_munmap 0x5000 4096)
            (ioslower_exit Fentry (slow_example_env 8 0x700000007) (X_mmap 0x5000)
              (ioslower_init\<lparr>op_start := [0x700000007 \<mapsto> start_t_zero\<lparr>st_dev := 0x800001\<rparr>]\<rparr>)))
           0x700000008 = Some st' \<and> st_dev st' = 0x800001"
  using ioslower_munmap_inherits_dev
    [of "ioslower_init\<lparr>op_start := [0x700000007 \<mapsto> start_t_zero\<lparr>st_dev := 0x800001\<rparr>]\<rparr>"
        "slow_example_env 8 0x700000007" "start_t_zero\<lparr>st_dev := 0x800001\<rparr>" "0x5000"
        "slow_example_env 9 0x700000008" "[]" Fentry example_mem 4096]
  by (auto simp: slow_example_simps ioslower_pass_mount_filter_def)

end
