(* ===== verification/Ioslower_User.thy ===== *)
theory Ioslower_User
  imports Io_User Ioslower_Bpf
begin

text \<open>
  The user program of ioslower (\<open>src/src/user/ioslower.c\<close>): options, start-up, the poll loop and
  the line printed for a record. \<open>clock\<close> stands for \<open>localtime\<close> and \<open>strftime\<close>, which turn
  seconds into the text of the time column.
\<close>

section \<open>Code\<close>

record ioslower_opts = io_opts +
  io_min_us :: u64

definition ioslower_opts_init :: ioslower_opts where
  "ioslower_opts_init = \<lparr>io_verbose = False, io_duration = 0, io_mount_path = None, io_min_us = 10000\<rparr>"

definition ioslower_parse_arg :: "bool \<Rightarrow> io_key \<Rightarrow> string \<Rightarrow> ioslower_opts \<Rightarrow> ioslower_opts parsed" where
  "ioslower_parse_arg dup_ok key arg opts =
     (case key of
        I_verbose \<Rightarrow> Parsed (opts\<lparr>io_verbose := True\<rparr>)
      | I_duration \<Rightarrow> Parsed (opts\<lparr>io_duration := parse_duration arg\<rparr>)
      | I_min \<Rightarrow> Parsed (opts\<lparr>io_min_us := word_of_int (num_val (strtol 10 arg) * 1000)\<rparr>)
      | I_mount \<Rightarrow> Parsed (opts\<lparr>io_mount_path := strdup_opt dup_ok arg\<rparr>)
      | I_arg \<Rightarrow> Usage_exit
      | I_other \<Rightarrow> Parse_error)"

text \<open>The \<open>switch\<close> of \<open>syscall_name\<close>.\<close>

definition syscall_names :: "(int \<times> string) list" where
  "syscall_names =
     [(1, ''open''), (2, ''openat''), (3, ''read''), (4, ''write''),
      (5, ''close''), (6, ''stat''), (7, ''lstat''), (8, ''fstat''),
      (9, ''mkdir''), (10, ''mkdirat''), (11, ''rmdir''), (12, ''unlink''),
      (13, ''unlinkat''), (14, ''rename''), (15, ''renameat''), (16, ''renameat2''),
      (17, ''mount''), (18, ''umount2''), (19, ''chmod''), (20, ''fchmod''),
      (21, ''chown''), (22, ''fchown''), (23, ''truncate''), (24, ''ftruncate''),
      (25, ''link''), (26, ''linkat''), (27, ''symlink''), (28, ''symlinkat''),
      (29, ''readlink''), (30, ''readlinkat''), (31, ''pread64''), (32, ''pwrite64''),
      (33, ''readv''), (34, ''writev''), (35, ''preadv''), (36, ''pwritev''),
      (37, ''uring_enter''), (38, ''uring_setup''), (39, ''uring_register''), (40, ''io_setup''),
      (41, ''io_submit''), (42, ''io_getevents''), (43, ''io_cancel''), (44, ''io_destroy''),
      (45, ''mmap''), (46, ''mmap2''), (47, ''munmap''), (48, ''create''),
      (49, ''fallocate''), (50, ''getdents''), (51, ''lock_fcntl''), (52, ''lock_flock'')]"

definition syscall_name :: "int \<Rightarrow> string" where
  "syscall_name type = (case map_of syscall_names type of Some n \<Rightarrow> n | None \<Rightarrow> ''UNKNOWN'')"

definition latency_column :: "u32 \<Rightarrow> string" where
  "latency_column delta_us = rjust 9 (dec (unat (delta_us div 1000))) @ ''.'' @ zpad 3 (dec (unat (delta_us mod 1000)))"

text \<open>
  The return value and what is printed; \<open>data_sz\<close> is the size of the record in the ring buffer, and
  312 bytes is the size of \<open>struct ioslower_event\<close>.
\<close>

definition ioslower_handle_event :: "(u64 \<Rightarrow> string) \<Rightarrow> ioslower_event \<Rightarrow> nat \<Rightarrow> int \<times> string" where
  "ioslower_handle_event clock e data_sz =
     (if data_sz < 312 then (1, [])
      else let ts = clock (se_ts e div 1000000000)
           in (0, ljust 8 ts @ '' '' @ ljust 6 (sdec (sint (se_pid e))) @ '' '' @
                  ljust 16 (c_str (se_comm e)) @ '' '' @ ljust 12 (syscall_name (uint (se_type e))) @ '' '' @
                  latency_column (se_delta_us e) @ '' '' @
                  ljust 8 (if 0 \<le> sint (se_ret e) then ''OK'' else ''ERR'') @ '' '' @
                  c_str (se_fname e) @ [CHR 0x0A]))"

text \<open>
  \<open>main\<close> from \<open>select_vfs_hook_family\<close> to the loop: \<open>Inl\<close> is the value of \<open>err\<close> at a jump to
  \<open>cleanup\<close>, \<open>Inr\<close> its value at the loop with the enabled programs and the state of the maps. The
  programs run as soon as they are attached; \<open>window\<close> are the calls that happen before the
  threshold is set.
\<close>

definition ioslower_setup ::
    "io_sys \<Rightarrow> (slow_in, slow_out) probe_call list \<Rightarrow> ioslower_opts \<Rightarrow>
     int + (int \<times> vfs_prog skeleton \<times> ioslower_state)" where
  "ioslower_setup sys window opts =
     (let sk = ioslower_select_vfs_hook_family (io_kernel sys) skeleton_open;
          err = io_load sys
      in if err \<noteq> 0 then Inl err
         else case configure_mount sys (io_mount_path opts) err (slow_mount_filter_cfg ioslower_init) of
           Inl err \<Rightarrow> Inl err
         | Inr cfgs \<Rightarrow>
             let s = ioslower_init\<lparr>slow_mount_filter_cfg := cfgs\<rparr>;
                 err = io_attach sys
             in if err \<noteq> 0 then Inl err
                else let s = probe_run ioslower_enter ioslower_leave window s;
                         (err, thr) = bpf_map_update_elem (io_update_threshold sys) BPF_ANY 0
                                        (io_min_us opts) (threshold_config s)
                     in if err < 0 then Inl err
                        else if \<not> io_ring_buffer sys then Inl (- 1)
                        else if \<not> io_signal sys then Inl 1
                        else Inr (err, sk, s\<lparr>threshold_config := thr\<rparr>))"

definition ioslower_main ::
    "bool \<Rightarrow> io_sys \<Rightarrow> (slow_in, slow_out) probe_call list \<Rightarrow> (bool \<times> int \<times> bool) list \<Rightarrow>
     (io_key \<times> string) list \<Rightarrow> int option parsed" where
  "ioslower_main dup_ok sys window rounds args =
     bind_parsed (argp_parse (ioslower_parse_arg dup_ok) args ioslower_opts_init)
       (\<lambda>opts. Parsed
         (if \<not> io_open sys then Some 1
          else case ioslower_setup sys window opts of
                 Inl err \<Rightarrow> Some (io_exit_status err)
               | Inr (err, sk, s) \<Rightarrow>
                   map_option io_exit_status (poll_loop (io_duration opts \<noteq> 0) err rounds)))"

section \<open>Specification\<close>

text \<open>The number a text denotes when everything but its digits is left out.\<close>

definition number_of_text :: "string \<Rightarrow> nat" where
  "number_of_text s = foldl (\<lambda>a c. a * 10 + digit_val c) 0 (filter (\<lambda>c. digit_val c < 10) s)"

text \<open>The invariant of the programs for what is added to the records \<open>old\<close>.\<close>

definition slow_inv_from ::
    "u64 \<Rightarrow> (u32 \<Rightarrow> mount_filter_cfg option) \<Rightarrow> ioslower_event list \<Rightarrow> ioslower_state \<Rightarrow> bool" where
  "slow_inv_from thr cfgs old s \<longleftrightarrow>
     (\<exists>new. slow_events s = old @ new \<and> slow_inv thr cfgs (s\<lparr>slow_events := new\<rparr>))"

section \<open>Facts\<close>

lemma slow_inv_from_entry:
  "slow_inv_from thr cfgs old s \<Longrightarrow> slow_inv_from thr cfgs old (ioslower_entry h km e x s)"
  using ioslower_entry_effect [of e x s h km]
  by (auto simp: slow_inv_from_def slow_inv_def slow_entry_effect_def slow_prepared_def split: if_splits)

lemma slow_inv_from_exit:
  assumes inv: "slow_inv_from thr cfgs old s"
  shows "slow_inv_from thr cfgs old (ioslower_exit h e y s)"
proof -
  have "\<exists>more. slow_events (ioslower_exit h e y s) = slow_events s @ more \<and>
        (\<forall>ev \<in> set more. slow_event_ok thr ev)"
    using inv ioslower_exit_effect [of e y s h]
    by (auto simp: slow_inv_from_def slow_inv_def slow_exit_effect_def ioslower_finish_events Let_def
        slow_event_ok_emitted split: option.splits if_splits)
  then show ?thesis
    using ioslower_exit_effect [of e y s h] inv
    by (auto simp: slow_inv_from_def slow_inv_def slow_exit_effect_def)
qed

lemma slow_inv_from_run:
  "slow_inv_from thr cfgs old s \<Longrightarrow> slow_inv_from thr cfgs old (probe_run ioslower_enter ioslower_leave cs s)"
proof (induction cs arbitrary: s)
  case Nil
  then show ?case by simp
next
  case (Cons c cs)
  then show ?case
    by (cases c)
       (auto simp: ioslower_enter_def ioslower_leave_def intro!: Cons.IH slow_inv_from_entry slow_inv_from_exit
         split: prod.splits)
qed

lemma ioslower_setup_Inr:
  assumes "ioslower_setup sys window opts = Inr (err, sk, s)"
  obtains cfgs where
    "configure_mount sys (io_mount_path opts) 0 (slow_mount_filter_cfg ioslower_init) = Inr cfgs"
    "sk = ioslower_select_vfs_hook_family (io_kernel sys) skeleton_open"
    "slow_mount_filter_cfg s = cfgs" "threshold_config s 0 = Some (io_min_us opts)"
    "slow_inv_from (io_min_us opts) cfgs (slow_events s) s" "err = 0"
proof -
  obtain cfgs where cfgs: "configure_mount sys (io_mount_path opts) 0 (slow_mount_filter_cfg ioslower_init) = Inr cfgs"
    and rest: "sk = ioslower_select_vfs_hook_family (io_kernel sys) skeleton_open" "err = 0"
      "s = (let s = probe_run ioslower_enter ioslower_leave window (ioslower_init\<lparr>slow_mount_filter_cfg := cfgs\<rparr>)
            in s\<lparr>threshold_config := (threshold_config s)(0 \<mapsto> io_min_us opts)\<rparr>)"
    using assms
    by (auto simp: ioslower_setup_def bpf_map_update_elem_def Let_def split: sum.splits if_splits)
  define w where "w = probe_run ioslower_enter ioslower_leave window (ioslower_init\<lparr>slow_mount_filter_cfg := cfgs\<rparr>)"
  have "slow_inv_from 0 cfgs [] w"
    unfolding w_def by (rule slow_inv_from_run) (simp add: slow_inv_from_def slow_inv_def ioslower_init_def)
  then have "slow_inv_from (io_min_us opts) cfgs (slow_events s) s"
    by (simp add: slow_inv_from_def slow_inv_def rest(3) Let_def w_def)
  with cfgs rest show ?thesis by (intro that) (simp_all add: Let_def)
qed

lemma filter_digits_dec: "filter (\<lambda>c. digit_val c < 10) (dec n) = dec n"
  using dec_digits by (simp add: filter_id_conv)

lemma digit_val_chars [simp]:
  "digit_val CHR ''0'' = 0" "\<not> digit_val CHR '' '' < 10" "\<not> digit_val CHR ''.'' < 10"
  by (simp_all add: digit_val_def Let_def)

lemma foldl_dec_from: "foldl (\<lambda>a c. a * 10 + digit_val c) a (dec m) = a * 10 ^ length (dec m) + m"
proof (induction m rule: dec.induct)
  case (1 m)
  show ?case
  proof (cases "m < 10")
    case True
    then show ?thesis by (simp add: dec_small digit_val_digit)
  next
    case False
    with "1" show ?thesis by (simp add: dec_large digit_val_digit algebra_simps)
  qed
qed

lemma foldl_zeros: "foldl (\<lambda>a c. a * 10 + digit_val c) a (replicate n (CHR ''0'')) = a * 10 ^ n"
  by (induction n arbitrary: a) (simp_all add: algebra_simps)

lemma number_of_latency_column: "number_of_text (latency_column d) = unat d"
proof -
  let ?q = "unat (d div 1000)" and ?r = "unat (d mod 1000)"
  let ?z = "3 - length (dec ?r)"
  have "?r < 10 ^ 3" by (simp add: unat_mod)
  then have len: "length (dec ?r) \<le> 3" by (rule length_dec_le) simp
  have "number_of_text (latency_column d) =
      foldl (\<lambda>a c. a * 10 + digit_val c) 0 (dec ?q @ replicate ?z (CHR ''0'') @ dec ?r)"
    by (simp add: number_of_text_def latency_column_def rjust_def zpad_def filter_digits_dec not_less)
  also have "\<dots> = ?q * 10 ^ ?z * 10 ^ length (dec ?r) + ?r"
    by (simp add: foldl_zeros foldl_dec_from)
  also have "\<dots> = ?q * 10 ^ (?z + length (dec ?r)) + ?r" by (simp add: power_add)
  also have "\<dots> = ?q * 1000 + ?r" using len by simp
  also have "\<dots> = unat d" by (simp add: unat_div unat_mod)
  finally show ?thesis .
qed

text \<open>The types the hooks record, and their names.\<close>

definition recorded_types :: "u8 list" where
  "recorded_types = [1, 3, 4, 6, 9, 11, 12, 14, 20, 23, 25, 27, 29, 33, 34, 45, 47, 48, 49, 50, 51]"

lemma recorded_names:
  "map (\<lambda>t. syscall_name (uint t)) recorded_types =
     [''open'', ''read'', ''write'', ''stat'', ''mkdir'', ''rmdir'', ''unlink'', ''rename'', ''fchmod'',
      ''truncate'', ''link'', ''symlink'', ''readlink'', ''readv'', ''writev'', ''mmap'', ''munmap'',
      ''create'', ''fallocate'', ''getdents'', ''lock_fcntl'']"
  by (simp add: recorded_types_def syscall_name_def syscall_names_def)

lemma recorded_known: "''UNKNOWN'' \<notin> set (map (\<lambda>t. syscall_name (uint t)) recorded_types)"
  by (simp only: recorded_names) code_simp

section \<open>Properties\<close>

text \<open>
  From the end of ioslower's set-up on, with a mount path, every record that is added has a
  latency not below the threshold of the options, and every pending operation, whichever calls
  the threads make in whichever order, is on the device of that mount: the major and minor
  numbers the program takes out of \<open>st_dev\<close> and the BPF programs compare are those of the device.
\<close>

theorem ioslower_traces_only_the_mount:
  assumes "ioslower_setup sys window opts = Inr (err, sk, s)" and "io_mount_path opts = Some path"
    and "io_realpath sys path = Some resolved" and "io_stat sys resolved = Some (encoded_dev dev)"
    and "s' = probe_run ioslower_enter ioslower_leave cs s"
  shows "\<exists>new. slow_events s' = slow_events s @ new \<and>
           (\<forall>ev \<in> set new. slow_event_ok (io_min_us opts) ev) \<and>
           (\<forall>tid st. op_start s' tid = Some st \<longrightarrow> st_dev st = dev)"
proof -
  obtain cfgs where cfgs: "configure_mount sys (Some path) 0 (slow_mount_filter_cfg ioslower_init) = Inr cfgs"
    and inv: "slow_inv_from (io_min_us opts) cfgs (slow_events s) s"
    by (rule ioslower_setup_Inr [OF assms(1)]) (simp add: assms(2))
  note cfg = configure_mount_dev [OF cfgs assms(3,4)]
  have filter: "ioslower_pass_mount_filter cfgs d \<longleftrightarrow> d = dev" for d
  proof -
    have "ioslower_pass_mount_filter cfgs d \<longleftrightarrow>
        drop_bit 20 dev = drop_bit 20 d \<and> dev AND mask 20 = d AND mask 20"
      by (simp add: ioslower_pass_mount_filter_def cfg Let_def mask20)
    also have "\<dots> \<longleftrightarrow> d = dev"
      using packed_dev_iff [OF small_parts(1) [of dev] small_parts(2) [of dev], of d] unfolding dev_parts .
    finally show ?thesis .
  qed
  from slow_inv_from_run [OF inv, of cs] obtain new where new: "slow_events s' = slow_events s @ new"
      "slow_inv (io_min_us opts) cfgs (s'\<lparr>slow_events := new\<rparr>)"
    by (auto simp: slow_inv_from_def assms(5))
  then show ?thesis by (auto simp: slow_inv_def filter)
qed

text \<open>
  The latency column of a printed record denotes exactly the microseconds of the record.
\<close>

theorem latency_column_exact: "number_of_text (latency_column d) = unat d"
  by (rule number_of_latency_column)

text \<open>
  Every type a BPF program of ioslower records has a name in the output, and different types
  have different names.
\<close>

theorem syscall_names_cover_types:
  "syscall_name (uint (entry_type x)) \<noteq> ''UNKNOWN'' \<and>
   (syscall_name (uint (entry_type x)) = syscall_name (uint (entry_type y))) = (entry_type x = entry_type y)"
proof -
  have types: "entry_type z \<in> set recorded_types" for z
    by (cases z) (simp_all add: recorded_types_def)
  have "distinct (map (\<lambda>t. syscall_name (uint t)) recorded_types)"
    unfolding recorded_names by code_simp
  then have inj: "inj_on (\<lambda>t. syscall_name (uint t)) (set recorded_types)" by (simp add: distinct_map)
  show ?thesis
    using inj_on_eq_iff [OF inj types [of x] types [of y]] recorded_known types [of x] by force
qed

text \<open>
  On a kernel without the fentry family both return programs of \<open>vfs_rename\<close> run when it
  returns; the second finds nothing and changes nothing, so the rename is reported once.
\<close>

theorem rename_returns_report_once:
  assumes "pid_tgid e2 = pid_tgid e1"
  shows "ioslower_trace_vfs_rename_legacy_kretprobe_fallback e2 r2
           (ioslower_trace_vfs_rename_kretprobe_fallback e1 r1 s) =
         ioslower_trace_vfs_rename_kretprobe_fallback e1 r1 s \<and>
         ioslower_trace_vfs_rename_kretprobe_fallback e2 r2
           (ioslower_trace_vfs_rename_legacy_kretprobe_fallback e1 r1 s) =
         ioslower_trace_vfs_rename_legacy_kretprobe_fallback e1 r1 s"
  using assms by (simp add: probe_defs ioslower_finish_idle)

text \<open>
  A mount path that cannot be resolved or looked at ends ioslower before it attaches
  anything, with the exit status of success.
\<close>

theorem ioslower_bad_mount_exits_0:
  assumes "argp_parse (ioslower_parse_arg ok) args ioslower_opts_init = Parsed opts"
    and "io_open sys" and "io_load sys = 0" and "io_mount_path opts = Some path"
    and "case io_realpath sys path of None \<Rightarrow> True | Some r \<Rightarrow> io_stat sys r = None"
  shows "ioslower_main ok sys window rounds args = Parsed (Some 0)"
  using assms
  by (auto simp: ioslower_main_def ioslower_setup_def configure_mount_def io_exit_status_def Let_def
      split: option.splits)

section \<open>Concrete runs\<close>

text \<open>A system on which everything works, with the mount on device 8:1.\<close>

definition example_io_sys :: io_sys where
  "example_io_sys =
     \<lparr>io_kernel = example_kernel [], io_open = True, io_load = 0, io_realpath = (\<lambda>p. Some p),
      io_stat = (\<lambda>_. Some (encoded_dev 0x800001)), io_update_mount = 0, io_attach = 0,
      io_update_threshold = 0, io_ring_buffer = True, io_signal = True\<rparr>"

definition example_io_opts :: ioslower_opts where
  "example_io_opts = ioslower_opts_init\<lparr>io_mount_path := Some ''/mnt''\<rparr>"

text \<open>Set-up with no call in between.\<close>

lemma example_setup:
  "ioslower_setup example_io_sys [] example_io_opts =
     Inr (0, ioslower_select_vfs_hook_family (example_kernel []) skeleton_open,
          ioslower_init\<lparr>slow_mount_filter_cfg := [0 \<mapsto> \<lparr>cfg_enabled = 1, cfg_dev_major = 8, cfg_dev_minor = 1\<rparr>],
                        threshold_config := [0 \<mapsto> 10000]\<rparr>)"
  by (simp add: ioslower_setup_def example_io_sys_def example_io_opts_def ioslower_opts_init_def
      configure_mount_def bpf_map_update_elem_def gnu_dev_major_encoded gnu_dev_minor_encoded
      ioslower_init_def mask20 Let_def)

theorem ioslower_traces_only_the_mount_witness:
  "\<exists>err sk s. ioslower_setup example_io_sys [] example_io_opts = Inr (err, sk, s) \<and>
     map_option st_dev (op_start (probe_run ioslower_enter ioslower_leave
       [Enter (Fentry, example_mem, slow_example_env 1000000 0x700000007, E_open (Some \<lparr>path_dentry = 64\<rparr>) 0)] s)
       0x700000007) = Some 0x800001"
proof -
  let ?s = "ioslower_init\<lparr>slow_mount_filter_cfg := [0 \<mapsto> \<lparr>cfg_enabled = 1, cfg_dev_major = 8, cfg_dev_minor = 1\<rparr>],
                        threshold_config := [0 \<mapsto> 10000]\<rparr>"
  let ?cs = "[Enter (Fentry, example_mem, slow_example_env 1000000 0x700000007, E_open (Some \<lparr>path_dentry = 64\<rparr>) 0)]
     :: (slow_in, slow_out) probe_call list"
  let ?t = "probe_run ioslower_enter ioslower_leave ?cs ?s"
  have "\<exists>st. op_start ?t 0x700000007 = Some st"
    by (simp add: slow_example_simps ioslower_enter_def probe_defs Let_def ioslower_start_or_drop_def
        ioslower_pass_mount_filter_def ioslower_dev_from_path_def)
  moreover have sys: "io_mount_path example_io_opts = Some ''/mnt''" "io_realpath example_io_sys ''/mnt'' = Some ''/mnt''"
      "io_stat example_io_sys ''/mnt'' = Some (encoded_dev 0x800001)"
    by (simp_all add: example_io_opts_def example_io_sys_def)
  then have "\<forall>tid st. op_start ?t tid = Some st \<longrightarrow> st_dev st = 0x800001"
    using ioslower_traces_only_the_mount [OF example_setup sys refl, of ?cs] by blast
  ultimately show ?thesis using example_setup by auto
qed

theorem rename_returns_report_once_witness:
  "slow_events (ioslower_trace_vfs_rename_legacy_kretprobe_fallback (slow_example_env 9 7) 0
     (ioslower_trace_vfs_rename_kretprobe_fallback (slow_example_env 8 7) 0 ioslower_init)) = []"
  using rename_returns_report_once [of "slow_example_env 9 7" "slow_example_env 8 7" 0 0 ioslower_init]
  by (simp add: slow_example_simps probe_defs ioslower_finish_idle)

theorem ioslower_bad_mount_exits_0_witness:
  "ioslower_main True (example_io_sys\<lparr>io_realpath := (\<lambda>_. None)\<rparr>) [] [] [(I_mount, ''/nowhere'')] = Parsed (Some 0)"
  using ioslower_bad_mount_exits_0
    [of True "[(I_mount, ''/nowhere'')]" "ioslower_opts_init\<lparr>io_mount_path := Some ''/nowhere''\<rparr>"
        "example_io_sys\<lparr>io_realpath := (\<lambda>_. None)\<rparr>" "''/nowhere''" "[]" "[]"]
  by (simp add: ioslower_parse_arg_def strdup_opt_def example_io_sys_def)

text \<open>
  The programs are attached before the threshold is set: an operation of 5 microseconds that ends
  in between is reported although the threshold is 10 milliseconds.
\<close>

theorem ioslower_window_ignores_threshold:
  "\<exists>sk s. ioslower_setup example_io_sys
       [Enter (Fentry, example_mem, slow_example_env 1000 0x700000007, E_open (Some \<lparr>path_dentry = 64\<rparr>) 0),
        Leave (Fentry, slow_example_env 6000 0x700000007, X_open 0)] ioslower_opts_init = Inr (0, sk, s) \<and>
     map se_delta_us (slow_events s) = [5] \<and> threshold_config s 0 = Some 10000"
  by (simp add: ioslower_setup_def example_io_sys_def ioslower_opts_init_def bpf_map_update_elem_def
      slow_example_simps ioslower_enter_def ioslower_leave_def probe_defs Let_def ioslower_start_or_drop_def
      ioslower_pass_mount_filter_def ioslower_finish_event_def ioslower_emit_event_def)

end
