(* ===== verification/Iosnoop_Text.thy ===== *)
theory Iosnoop_Text
  imports Aod_Prelude "HOL-Library.Monad_Syntax"
begin

text \<open>
  The text formatting of the iosnoop BPF programs (\<open>append_lit\<close>, \<open>append_u64_dec\<close> and
  \<open>append_s64_dec\<close> of \<open>src/src/bpf/iosnoop.bpf.c\<close>). The programs cannot call
  \<open>snprintf\<close>, so they write digits into a buffer of the BPF stack by hand. A store outside
  the buffer is \<open>None\<close>; the results show that it cannot happen and that what the buffer
  holds is the specified text, cut to the buffer.
\<close>

section \<open>The loops\<close>

text \<open>A C string literal ends with a NUL that its characters do not show.\<close>

definition lit_at :: "char list \<Rightarrow> nat \<Rightarrow> char" where
  "lit_at lit i = (if i < length lit then lit ! i else NUL)"

text \<open>The \<open>for\<close> loop of \<open>append_lit\<close>; the first argument counts the iterations left.\<close>

fun append_lit_loop ::
    "nat \<Rightarrow> nat \<Rightarrow> char list \<Rightarrow> int \<Rightarrow> int \<Rightarrow> char list \<Rightarrow> (char list \<times> int) option"
where
  "append_lit_loop 0 i dst pos mx lit = Some (dst, pos)"
| "append_lit_loop (Suc n) i dst pos mx lit =
     (if pos \<ge> mx - 1 \<or> lit_at lit i = NUL then Some (dst, pos)
      else do {
        dst \<leftarrow> put_char dst pos (lit_at lit i);
        append_lit_loop n (Suc i) dst (pos + 1) mx lit
      })"

definition append_lit ::
    "char list \<Rightarrow> int \<Rightarrow> int \<Rightarrow> char list \<Rightarrow> (char list \<times> int) option" where
  "append_lit dst pos mx lit =
     do {
       (dst, pos) \<leftarrow> append_lit_loop 40 0 dst pos mx lit;
       dst \<leftarrow> put_char dst pos NUL;
       Some (dst, pos)
     }"

text \<open>
  The first loop of \<open>append_u64_dec\<close> fills \<open>tmp\<close>, least digit first; the first argument is
  \<open>20 - i\<close>.
\<close>

fun u64_tmp :: "nat \<Rightarrow> u64 \<Rightarrow> char list" where
  "u64_tmp 0 v = []"
| "u64_tmp (Suc n) v =
     (if v = 0 then [] else digit (unat (v mod 10)) # u64_tmp n (v div 10))"

text \<open>The second loop copies \<open>tmp\<close> backwards; its argument is what is left to copy.\<close>

fun copy_back :: "char list \<Rightarrow> int \<Rightarrow> int \<Rightarrow> char list \<Rightarrow> (char list \<times> int) option" where
  "copy_back dst pos mx [] = Some (dst, pos)"
| "copy_back dst pos mx (c # cs) =
     (if pos \<ge> mx - 1 then Some (dst, pos)
      else do {
        dst \<leftarrow> put_char dst pos c;
        copy_back dst (pos + 1) mx cs
      })"

definition append_u64_dec ::
    "char list \<Rightarrow> int \<Rightarrow> int \<Rightarrow> u64 \<Rightarrow> (char list \<times> int) option" where
  "append_u64_dec dst pos mx v =
     (if pos \<ge> mx - 1 then Some (dst, pos)
      else if v = 0 then
        do {
          dst \<leftarrow> put_char dst pos (CHR ''0'');
          dst \<leftarrow> put_char dst (pos + 1) NUL;
          Some (dst, pos + 1)
        }
      else
        do {
          (dst, pos) \<leftarrow> copy_back dst pos mx (rev (u64_tmp 20 v));
          dst \<leftarrow> put_char dst pos NUL;
          Some (dst, pos)
        })"

definition append_s64_dec ::
    "char list \<Rightarrow> int \<Rightarrow> int \<Rightarrow> s64 \<Rightarrow> (char list \<times> int) option" where
  "append_s64_dec dst pos mx v =
     (if sint v < 0 then
        do {
          (dst, pos) \<leftarrow> (if pos < mx - 1 then
                            do { dst \<leftarrow> put_char dst pos (CHR ''-''); Some (dst, pos + 1) }
                          else Some (dst, pos));
          append_u64_dec dst pos mx (- v)
        }
      else append_u64_dec dst pos mx v)"

lemma digit_0: "digit 0 = CHR ''0''"
  by code_simp

section \<open>Buffers that hold a text\<close>

text \<open>
  A buffer of \<open>n\<close> bytes that holds \<open>t\<close> and is clear behind it; the buffers of the programs
  start cleared and are only appended to.
\<close>

definition text_buf :: "nat \<Rightarrow> string \<Rightarrow> char list" where
  "text_buf n t = t @ zero_buf (n - length t)"

text \<open>The text after appending \<open>u\<close> to \<open>t\<close> in a buffer of \<open>n\<close> bytes.\<close>

definition cut_append :: "nat \<Rightarrow> string \<Rightarrow> string \<Rightarrow> string" where
  "cut_append n t u = t @ take (n - 1 - length t) u"

lemma text_buf_Nil: "text_buf n [] = zero_buf n"
  by (simp add: text_buf_def)

lemma length_text_buf [simp, buf_simps]: "length t \<le> n \<Longrightarrow> length (text_buf n t) = n"
  by (simp add: text_buf_def)

lemma c_str_text_buf: "NUL \<notin> set t \<Longrightarrow> c_str (text_buf n t) = t"
  by (simp add: text_buf_def c_str_append_zeros) (simp add: c_str_def takeWhile_eq_all_conv, metis)

lemma text_buf_snoc: "length t < n \<Longrightarrow> (text_buf n t)[length t := c] = text_buf n (t @ [c])"
  by (cases "n - length t") (auto simp: text_buf_def zero_buf_def Suc_diff_Suc list_update_append)

lemma text_buf_end: "length t < n \<Longrightarrow> (text_buf n t)[length t := NUL] = text_buf n t"
  by (cases "n - length t") (auto simp: text_buf_def zero_buf_def list_update_append)

lemma length_cut_append: "length t < n \<Longrightarrow> length (cut_append n t u) < n"
  by (simp add: cut_append_def)

lemma cut_append_full: "n - 1 \<le> length t \<Longrightarrow> cut_append n t u = t"
  by (simp add: cut_append_def)

lemma cut_append_Cons:
  "length t < n - 1 \<Longrightarrow> cut_append n t (c # cs) = cut_append n (t @ [c]) cs"
  by (simp add: cut_append_def take_Cons' Suc_diff_Suc)

lemma cut_append_fits: "length t + length u < n \<Longrightarrow> cut_append n t u = t @ u"
  by (simp add: cut_append_def)

lemma put_char_text_buf:
  "length t < n \<Longrightarrow> put_char (text_buf n t) (int (length t)) c = Some (text_buf n (t @ [c]))"
  by (simp add: put_char_in text_buf_snoc)

lemma put_char_text_end:
  "length t < n \<Longrightarrow> put_char (text_buf n t) (int (length t)) NUL = Some (text_buf n t)"
  by (simp add: put_char_in text_buf_end)

lemma copy_back_text:
  "length t < n \<Longrightarrow>
   copy_back (text_buf n t) (int (length t)) (int n) cs =
     Some (text_buf n (cut_append n t cs), int (length (cut_append n t cs)))"
proof (induction cs arbitrary: t)
  case Nil
  then show ?case by (simp add: cut_append_def)
next
  case (Cons c cs)
  show ?case
  proof (cases "length t < n - 1")
    case True
    then have "\<not> int n - 1 \<le> int (length t)" by linarith
    then show ?thesis
      using Cons.IH [of "t @ [c]"] True
      by (simp add: put_char_text_buf cut_append_Cons add.commute)
  next
    case False
    then have "int n - 1 \<le> int (length t)" by linarith
    with False show ?thesis by (simp add: cut_append_full)
  qed
qed

section \<open>Each function appends its text\<close>

lemma append_lit_loop_copy:
  "append_lit_loop n i dst pos mx lit = copy_back dst pos mx (take n (c_str (drop i lit)))"
proof (induction n arbitrary: i dst pos)
  case 0
  then show ?case by simp
next
  case (Suc n)
  show ?case
  proof (cases "i < length lit")
    case True
    then have "drop i lit = lit ! i # drop (Suc i) lit" by (simp add: Cons_nth_drop_Suc)
    with True Suc.IH show ?thesis by (simp add: c_str_def lit_at_def)
  next
    case False
    then show ?thesis by (simp add: c_str_def lit_at_def)
  qed
qed

lemma append_lit_text:
  assumes "length t < n"
  shows "append_lit (text_buf n t) (int (length t)) (int n) lit =
           Some (text_buf n (cut_append n t (take 40 (c_str lit))),
                 int (length (cut_append n t (take 40 (c_str lit)))))"
  using assms
  by (simp add: append_lit_def append_lit_loop_copy copy_back_text put_char_text_end
      length_cut_append)

lemma u64_tmp_dec:
  "0 < unat v \<Longrightarrow> unat v < 10 ^ n \<Longrightarrow> rev (u64_tmp n v) = dec (unat v)"
proof (induction n arbitrary: v)
  case 0
  then show ?case by simp
next
  case (Suc n)
  have parts: "unat (v div 10) = unat v div 10" "unat (v mod 10) = unat v mod 10"
    by (simp_all add: unat_div unat_mod)
  have v: "v \<noteq> 0" using Suc.prems by auto
  show ?case
  proof (cases "unat v < 10")
    case True
    then have "v div 10 = 0" using parts(1) by (simp add: unat_eq_zero [symmetric])
    then have "u64_tmp n (v div 10) = []" by (cases n) simp_all
    with v True parts show ?thesis by (simp add: dec_small)
  next
    case False
    then have "rev (u64_tmp n (v div 10)) = dec (unat (v div 10))"
      using Suc.prems parts by (intro Suc.IH) auto
    with v False parts show ?thesis by (simp add: dec_large)
  qed
qed

lemma u64_tmp_all: "v \<noteq> 0 \<Longrightarrow> rev (u64_tmp 20 v) = dec (unat v)"
proof -
  assume "v \<noteq> 0"
  moreover have "unat v < 2 ^ LENGTH(64)" by (rule unsigned_less)
  ultimately show ?thesis by (intro u64_tmp_dec) (auto simp: unat_gt_0)
qed

lemma append_u64_dec_text:
  assumes "length t < n"
  shows "append_u64_dec (text_buf n t) (int (length t)) (int n) v =
           Some (text_buf n (cut_append n t (dec (unat v))),
                 int (length (cut_append n t (dec (unat v)))))"
proof (cases "length t < n - 1")
  case False
  then have "int n - 1 \<le> int (length t)" by linarith
  with False show ?thesis by (simp add: append_u64_dec_def cut_append_full)
next
  case True
  then have room: "\<not> int n - 1 \<le> int (length t)" by linarith
  show ?thesis
  proof (cases "v = 0")
    case v: True
    have "put_char (text_buf n (t @ [CHR ''0''])) (int (length t) + 1) NUL =
          Some (text_buf n (t @ [CHR ''0'']))"
      using put_char_text_end [of "t @ [CHR ''0'']" n] True by (simp add: add.commute)
    with v True room show ?thesis
      by (simp add: append_u64_dec_def put_char_text_buf dec_small digit_0 cut_append_fits)
  next
    case False
    with room assms show ?thesis
      by (simp add: append_u64_dec_def u64_tmp_all copy_back_text put_char_text_end
          length_cut_append)
  qed
qed

lemma unat_uminus_neg:
  fixes v :: s64
  assumes "sint v < 0"
  shows "unat (- v) = nat (- sint v)"
proof -
  have lo: "- (2 ^ 63) \<le> sint v" using sint_greater_eq [of v] by simp
  have "- v = word_of_int (- sint v)" by simp
  then have "uint (- v) = (- sint v) mod 2 ^ LENGTH(64)" by (metis uint_word_of_int)
  also have "\<dots> = - sint v"
    using assms lo by (intro mod_pos_pos_trivial) auto
  finally show ?thesis by (simp add: unat_eq_nat_uint)
qed

lemma unat_nonneg:
  fixes v :: s64
  assumes "0 \<le> sint v"
  shows "unat v = nat (sint v)"
proof -
  have hi: "sint v < 2 ^ 63" using sint_less [of v] by simp
  have "v = word_of_int (sint v)" by simp
  then have "uint v = sint v mod 2 ^ LENGTH(64)" by (metis uint_word_of_int)
  also have "\<dots> = sint v"
    using assms hi by (intro mod_pos_pos_trivial) auto
  finally show ?thesis by (simp add: unat_eq_nat_uint)
qed

lemma append_s64_dec_text:
  assumes "length t < n"
  shows "append_s64_dec (text_buf n t) (int (length t)) (int n) v =
           Some (text_buf n (cut_append n t (sdec (sint v))),
                 int (length (cut_append n t (sdec (sint v)))))"
proof (cases "sint v < 0")
  case False
  then show ?thesis
    using append_u64_dec_text [OF assms, of v]
    by (simp add: append_s64_dec_def sdec_def unat_nonneg)
next
  case neg: True
  have shown: "sdec (sint v) = CHR ''-'' # dec (unat (- v))"
    using neg by (simp add: sdec_def unat_uminus_neg)
  show ?thesis
  proof (cases "length t < n - 1")
    case False
    then have "\<not> int (length t) < int n - 1" by linarith
    with False neg show ?thesis
      using append_u64_dec_text [OF assms, of "- v"]
      by (simp add: append_s64_dec_def cut_append_full)
  next
    case True
    then have "int (length t) < int n - 1" by linarith
    with True neg assms show ?thesis
      using append_u64_dec_text [of "t @ [CHR ''-'']" n "- v"]
      by (simp add: append_s64_dec_def put_char_text_buf shown cut_append_Cons add.commute)
  qed
qed

section \<open>The argument texts of the programs\<close>

text \<open>
  The programs chain at most two labels and two numbers. A label is cut to 40 characters, a
  number has at most 21, so the chains below never reach the end of the 128 byte buffer: the
  text is complete, whatever the arguments are.
\<close>

lemma length_sdec_s64: "length (sdec (sint (v :: s64))) \<le> 21"
proof (cases "sint v < 0")
  case True
  then show ?thesis using length_dec_u64 [of "- v"] by (simp add: sdec_def unat_uminus_neg)
next
  case False
  then show ?thesis using length_dec_u64 [of v] by (simp add: sdec_def unat_nonneg)
qed

abbreviation label :: "char list \<Rightarrow> string" where
  "label l \<equiv> take 40 (c_str l)"

lemma append_lit_first:
  "append_lit (zero_buf 128) 0 128 l = Some (text_buf 128 (label l), int (length (label l)))"
  using append_lit_text [of "[]" 128 l] by (simp add: text_buf_Nil cut_append_def)

lemma append_lit_more:
  "length t \<le> 87 \<Longrightarrow> append_lit (text_buf 128 t) (int (length t)) 128 l =
     Some (text_buf 128 (t @ label l), int (length (t @ label l)))"
  using append_lit_text [of t 128 l] by (simp add: cut_append_fits)

lemma append_u64_more:
  "length t \<le> 107 \<Longrightarrow> append_u64_dec (text_buf 128 t) (int (length t)) 128 v =
     Some (text_buf 128 (t @ dec (unat v)), int (length (t @ dec (unat v))))"
  using append_u64_dec_text [of t 128 v] length_dec_u64 [of v] by (simp add: cut_append_fits)

lemma append_s64_more:
  "length t \<le> 106 \<Longrightarrow> append_s64_dec (text_buf 128 t) (int (length t)) 128 v =
     Some (text_buf 128 (t @ sdec (sint v)), int (length (t @ sdec (sint v))))"
  using append_s64_dec_text [of t 128 v] length_sdec_s64 [of v] by (simp add: cut_append_fits)

lemma args_u:
  "do { (a, p) \<leftarrow> append_lit (zero_buf 128) 0 128 l; (a, p) \<leftarrow> append_u64_dec a p 128 v; F a p } =
   F (text_buf 128 (label l @ dec (unat v))) (int (length (label l @ dec (unat v))))"
proof -
  have "length (label l) \<le> 107" by simp
  then show ?thesis by (simp add: append_lit_first append_u64_more del: length_append length_take)
qed

lemma args_s:
  "do { (a, p) \<leftarrow> append_lit (zero_buf 128) 0 128 l; (a, p) \<leftarrow> append_s64_dec a p 128 v; F a p } =
   F (text_buf 128 (label l @ sdec (sint v))) (int (length (label l @ sdec (sint v))))"
proof -
  have "length (label l) \<le> 106" by simp
  then show ?thesis by (simp add: append_lit_first append_s64_more del: length_append length_take)
qed

lemma args_ll:
  "do { (a, p) \<leftarrow> append_lit (zero_buf 128) 0 128 l; (a, p) \<leftarrow> append_lit a p 128 r; F a p } =
   F (text_buf 128 (label l @ label r)) (int (length (label l @ label r)))"
proof -
  have "length (label l) \<le> 87" by simp
  then show ?thesis by (simp add: append_lit_first append_lit_more del: length_append length_take)
qed

lemma args_ul:
  "do { (a, p) \<leftarrow> append_lit (zero_buf 128) 0 128 l; (a, p) \<leftarrow> append_u64_dec a p 128 v;
        (a, p) \<leftarrow> append_lit a p 128 r; F a p } =
   F (text_buf 128 (label l @ dec (unat v) @ label r)) (int (length (label l @ dec (unat v) @ label r)))"
proof -
  have "length (label l @ dec (unat v)) \<le> 87" using length_dec_u64 [of v] by simp
  then show ?thesis by (simp add: args_u append_lit_more del: length_append)
qed

lemma args_sl:
  "do { (a, p) \<leftarrow> append_lit (zero_buf 128) 0 128 l; (a, p) \<leftarrow> append_s64_dec a p 128 v;
        (a, p) \<leftarrow> append_lit a p 128 r; F a p } =
   F (text_buf 128 (label l @ sdec (sint v) @ label r)) (int (length (label l @ sdec (sint v) @ label r)))"
proof -
  have "length (label l @ sdec (sint v)) \<le> 87" using length_sdec_s64 [of v] by simp
  then show ?thesis by (simp add: args_s append_lit_more del: length_append)
qed

lemma args_ulu:
  "do { (a, p) \<leftarrow> append_lit (zero_buf 128) 0 128 l; (a, p) \<leftarrow> append_u64_dec a p 128 v;
        (a, p) \<leftarrow> append_lit a p 128 r; (a, p) \<leftarrow> append_u64_dec a p 128 w; F a p } =
   F (text_buf 128 (label l @ dec (unat v) @ label r @ dec (unat w)))
     (int (length (label l @ dec (unat v) @ label r @ dec (unat w))))"
proof -
  have "length (label l @ dec (unat v) @ label r) \<le> 107" using length_dec_u64 [of v] by simp
  then show ?thesis by (simp add: args_ul append_u64_more del: length_append)
qed

lemma args_uls:
  "do { (a, p) \<leftarrow> append_lit (zero_buf 128) 0 128 l; (a, p) \<leftarrow> append_u64_dec a p 128 v;
        (a, p) \<leftarrow> append_lit a p 128 r; (a, p) \<leftarrow> append_s64_dec a p 128 w; F a p } =
   F (text_buf 128 (label l @ dec (unat v) @ label r @ sdec (sint w)))
     (int (length (label l @ dec (unat v) @ label r @ sdec (sint w))))"
proof -
  have "length (label l @ dec (unat v) @ label r) \<le> 106" using length_dec_u64 [of v] by simp
  then show ?thesis by (simp add: args_ul append_s64_more del: length_append)
qed

lemma args_sls:
  "do { (a, p) \<leftarrow> append_lit (zero_buf 128) 0 128 l; (a, p) \<leftarrow> append_s64_dec a p 128 v;
        (a, p) \<leftarrow> append_lit a p 128 r; (a, p) \<leftarrow> append_s64_dec a p 128 w; F a p } =
   F (text_buf 128 (label l @ sdec (sint v) @ label r @ sdec (sint w)))
     (int (length (label l @ sdec (sint v) @ label r @ sdec (sint w))))"
proof -
  have "length (label l @ sdec (sint v) @ label r) \<le> 106" using length_sdec_s64 [of v] by simp
  then show ?thesis by (simp add: args_sl append_s64_more del: length_append)
qed

lemmas args_chains = args_uls args_ulu args_sls args_ll args_s args_u

end
