(* ===== verification/Iosnoop_Bpf.thy ===== *)
theory Iosnoop_Bpf
  imports Vfs_Probes Iosnoop_Text
begin

text \<open>
  The BPF side of iosnoop (\<open>src/src/bpf/iosnoop.bpf.c\<close>): its maps and ring buffer as a state
  record and every program as a function on that state. The entry programs format the
  arguments of the call into a buffer on the BPF stack; they return \<open>None\<close> when a store would
  miss that buffer, and the results show that this never happens. Unlike ioslower, pending
  operations are keyed by thread and operation type.
\<close>

section \<open>Data\<close>

abbreviation (input) IO_OPEN :: "'a::len word" where "IO_OPEN \<equiv> 1"
abbreviation (input) IO_OPENAT :: "'a::len word" where "IO_OPENAT \<equiv> 2"
abbreviation (input) IO_READ :: "'a::len word" where "IO_READ \<equiv> 3"
abbreviation (input) IO_WRITE :: "'a::len word" where "IO_WRITE \<equiv> 4"
abbreviation (input) IO_CLOSE :: "'a::len word" where "IO_CLOSE \<equiv> 5"
abbreviation (input) IO_STAT :: "'a::len word" where "IO_STAT \<equiv> 6"
abbreviation (input) IO_LSTAT :: "'a::len word" where "IO_LSTAT \<equiv> 7"
abbreviation (input) IO_FSTAT :: "'a::len word" where "IO_FSTAT \<equiv> 8"
abbreviation (input) IO_MKDIR :: "'a::len word" where "IO_MKDIR \<equiv> 9"
abbreviation (input) IO_MKDIRAT :: "'a::len word" where "IO_MKDIRAT \<equiv> 10"
abbreviation (input) IO_RMDIR :: "'a::len word" where "IO_RMDIR \<equiv> 11"
abbreviation (input) IO_UNLINK :: "'a::len word" where "IO_UNLINK \<equiv> 12"
abbreviation (input) IO_UNLINKAT :: "'a::len word" where "IO_UNLINKAT \<equiv> 13"
abbreviation (input) IO_RENAME :: "'a::len word" where "IO_RENAME \<equiv> 14"
abbreviation (input) IO_RENAMEAT :: "'a::len word" where "IO_RENAMEAT \<equiv> 15"
abbreviation (input) IO_RENAMEAT2 :: "'a::len word" where "IO_RENAMEAT2 \<equiv> 16"
abbreviation (input) IO_MOUNT :: "'a::len word" where "IO_MOUNT \<equiv> 17"
abbreviation (input) IO_UMOUNT2 :: "'a::len word" where "IO_UMOUNT2 \<equiv> 18"
abbreviation (input) IO_CHMOD :: "'a::len word" where "IO_CHMOD \<equiv> 19"
abbreviation (input) IO_FCHMOD :: "'a::len word" where "IO_FCHMOD \<equiv> 20"
abbreviation (input) IO_CHOWN :: "'a::len word" where "IO_CHOWN \<equiv> 21"
abbreviation (input) IO_FCHOWN :: "'a::len word" where "IO_FCHOWN \<equiv> 22"
abbreviation (input) IO_TRUNCATE :: "'a::len word" where "IO_TRUNCATE \<equiv> 23"
abbreviation (input) IO_FTRUNCATE :: "'a::len word" where "IO_FTRUNCATE \<equiv> 24"
abbreviation (input) IO_LINK :: "'a::len word" where "IO_LINK \<equiv> 25"
abbreviation (input) IO_LINKAT :: "'a::len word" where "IO_LINKAT \<equiv> 26"
abbreviation (input) IO_SYMLINK :: "'a::len word" where "IO_SYMLINK \<equiv> 27"
abbreviation (input) IO_SYMLINKAT :: "'a::len word" where "IO_SYMLINKAT \<equiv> 28"
abbreviation (input) IO_READLINK :: "'a::len word" where "IO_READLINK \<equiv> 29"
abbreviation (input) IO_READLINKAT :: "'a::len word" where "IO_READLINKAT \<equiv> 30"
abbreviation (input) IO_PREAD64 :: "'a::len word" where "IO_PREAD64 \<equiv> 31"
abbreviation (input) IO_PWRITE64 :: "'a::len word" where "IO_PWRITE64 \<equiv> 32"
abbreviation (input) IO_READV :: "'a::len word" where "IO_READV \<equiv> 33"
abbreviation (input) IO_WRITEV :: "'a::len word" where "IO_WRITEV \<equiv> 34"
abbreviation (input) IO_PREADV :: "'a::len word" where "IO_PREADV \<equiv> 35"
abbreviation (input) IO_PWRITEV :: "'a::len word" where "IO_PWRITEV \<equiv> 36"
abbreviation (input) IO_MMAP :: "'a::len word" where "IO_MMAP \<equiv> 45"
abbreviation (input) IO_MUNMAP :: "'a::len word" where "IO_MUNMAP \<equiv> 47"
abbreviation (input) IO_CREATE :: "'a::len word" where "IO_CREATE \<equiv> 48"
abbreviation (input) IO_FALLOCATE :: "'a::len word" where "IO_FALLOCATE \<equiv> 49"
abbreviation (input) IO_GETDENTS :: "'a::len word" where "IO_GETDENTS \<equiv> 50"
abbreviation (input) IO_LOCK_FCNTL :: "'a::len word" where "IO_LOCK_FCNTL \<equiv> 51"
abbreviation (input) IO_LOCK_FLOCK :: "'a::len word" where "IO_LOCK_FLOCK \<equiv> 52"

record iosnoop_event =
  ne_ts :: u64
  ne_pid :: u32
  ne_uid :: u32
  ne_gid :: u32
  ne_type :: u8
  ne_pad1 :: u8
  ne_pad2 :: u16
  ne_ret :: s32
  ne_pad3 :: u32
  ne_comm :: "char list"
  ne_fname :: "char list"
  ne_args :: "char list"

record op_ctx =
  oc_type :: u8
  oc_pad1 :: u8
  oc_pad2 :: u16
  oc_dev :: u32
  oc_fname :: "char list"
  oc_args :: "char list"

definition op_ctx_zero :: op_ctx where
  "op_ctx_zero = \<lparr>oc_type = 0, oc_pad1 = 0, oc_pad2 = 0, oc_dev = 0,
                  oc_fname = zero_buf 96, oc_args = zero_buf 128\<rparr>"

record op_key =
  ok_id :: u64
  ok_type :: u32
  ok_pad :: u32

record iosnoop_state =
  snoop_events :: "iosnoop_event list"
  snoop_mount_filter_cfg :: "u32 \<Rightarrow> mount_filter_cfg option"
  op_state :: "op_key \<Rightarrow> op_ctx option"
  snoop_vma_dev_map :: "u64 \<Rightarrow> u32 option"

section \<open>Inlined helpers\<close>

definition iosnoop_pass_mount_filter :: "(u32 \<Rightarrow> mount_filter_cfg option) \<Rightarrow> u32 \<Rightarrow> bool" where
  "iosnoop_pass_mount_filter cfgs dev =
     (case cfgs 0 of
        None \<Rightarrow> True
      | Some cfg \<Rightarrow>
          if cfg_enabled cfg = 0 then True
          else if dev = 0 then True
          else let dev_major = drop_bit 20 dev;
                   dev_minor = dev AND (push_bit 20 1 - 1)
               in cfg_dev_major cfg = dev_major \<and> cfg_dev_minor cfg = dev_minor)"

definition iosnoop_dev_from_dentry :: "kernel_mem \<Rightarrow> ptr \<Rightarrow> u32" where
  "iosnoop_dev_from_dentry km dentry =
     (if dentry = 0 then 0
      else let sb = dentry_d_sb km dentry in if sb = 0 then 0 else sb_s_dev km sb)"

definition iosnoop_dev_from_path :: "kernel_mem \<Rightarrow> path option \<Rightarrow> u32" where
  "iosnoop_dev_from_path km path =
     (case path of
        None \<Rightarrow> 0
      | Some p \<Rightarrow> let dentry = path_dentry p
                  in if dentry = 0 then 0
                     else let sb = dentry_d_sb km dentry in if sb = 0 then 0 else sb_s_dev km sb)"

definition iosnoop_dev_from_file :: "kernel_mem \<Rightarrow> ptr \<Rightarrow> u32" where
  "iosnoop_dev_from_file km file =
     (if file = 0 then 0
      else let dentry = file_f_path_dentry km file
           in if dentry = 0 then 0
              else let sb = dentry_d_sb km dentry in if sb = 0 then 0 else sb_s_dev km sb)"

definition iosnoop_dev_from_inode :: "kernel_mem \<Rightarrow> ptr \<Rightarrow> u32" where
  "iosnoop_dev_from_inode km inode =
     (if inode = 0 then 0
      else let sb = inode_i_sb km inode in if sb = 0 then 0 else sb_s_dev km sb)"

definition iosnoop_configured_mount_dev :: "(u32 \<Rightarrow> mount_filter_cfg option) \<Rightarrow> u32" where
  "iosnoop_configured_mount_dev cfgs =
     (case cfgs 0 of
        None \<Rightarrow> 0
      | Some cfg \<Rightarrow>
          if cfg_enabled cfg = 0 then 0
          else push_bit 20 (cfg_dev_major cfg) OR cfg_dev_minor cfg)"

definition iosnoop_read_dentry_name :: "kernel_mem \<Rightarrow> ptr \<Rightarrow> char list \<Rightarrow> int \<Rightarrow> char list" where
  "iosnoop_read_dentry_name km dentry dst dst_sz =
     (if dentry = 0 \<or> dst_sz \<le> 0 then dst[0 := NUL]
      else let name = dentry_d_name km dentry
           in if name = 0 then dst[0 := NUL]
              else let (rc, dst) = probe_read_str (kernel_str km name) dst (nat dst_sz)
                   in if rc < 0 then dst[0 := NUL] else dst)"

definition iosnoop_read_path_name :: "kernel_mem \<Rightarrow> path option \<Rightarrow> char list \<Rightarrow> int \<Rightarrow> char list" where
  "iosnoop_read_path_name km path dst dst_sz =
     (case path of
        None \<Rightarrow> dst[0 := NUL]
      | Some p \<Rightarrow> iosnoop_read_dentry_name km (path_dentry p) dst dst_sz)"

definition iosnoop_read_file_name :: "kernel_mem \<Rightarrow> ptr \<Rightarrow> char list \<Rightarrow> int \<Rightarrow> char list" where
  "iosnoop_read_file_name km file dst dst_sz =
     (if file = 0 then dst[0 := NUL]
      else iosnoop_read_dentry_name km (file_f_path_dentry km file) dst dst_sz)"

definition iosnoop_emit_event ::
    "iosnoop_event bpf_env \<Rightarrow> op_ctx \<Rightarrow> s32 \<Rightarrow> iosnoop_state \<Rightarrow> iosnoop_state" where
  "iosnoop_emit_event e op ret s =
     (if \<not> rb_reserve e 0 then s
      else let ev = (rb_mem e)\<lparr>ne_ts := ktime e 0,
                      ne_pid := ucast (drop_bit 32 (pid_tgid e)),
                      ne_uid := ucast (uid_gid e AND 0xffffffff),
                      ne_gid := ucast (drop_bit 32 (uid_gid e)),
                      ne_type := oc_type op,
                      ne_ret := ret,
                      ne_comm := comm e,
                      ne_fname := memcpy (zero_buf 256) (oc_fname op) 96,
                      ne_args := memcpy (zero_buf 256) (oc_args op) 128\<rparr>
           in s\<lparr>snoop_events := snoop_events s @ [ev]\<rparr>)"

definition iosnoop_submit_or_drop ::
    "iosnoop_event bpf_env \<Rightarrow> u64 \<Rightarrow> op_ctx \<Rightarrow> iosnoop_state \<Rightarrow> iosnoop_state" where
  "iosnoop_submit_or_drop e tid op s =
     (let key = \<lparr>ok_id = tid, ok_type = ucast (oc_type op), ok_pad = 0\<rparr>
      in if \<not> iosnoop_pass_mount_filter (snoop_mount_filter_cfg s) (oc_dev op) then s
         else s\<lparr>op_state := snd (bpf_map_update_elem (update_rc e) BPF_ANY key op (op_state s))\<rparr>)"

definition iosnoop_submit_syscall_event ::
    "kernel_mem \<Rightarrow> iosnoop_event bpf_env \<Rightarrow> u64 \<Rightarrow> u8 \<Rightarrow> ptr \<Rightarrow> iosnoop_state \<Rightarrow> iosnoop_state" where
  "iosnoop_submit_syscall_event km e tid type path s =
     (let dev = iosnoop_configured_mount_dev (snoop_mount_filter_cfg s);
          op = op_ctx_zero\<lparr>oc_type := type, oc_dev := dev\<rparr>;
          op = op\<lparr>oc_args := (oc_args op)[0 := NUL]\<rparr>;
          op = (if path = 0 then op
                else op\<lparr>oc_fname := snd (probe_read_str (user_str km path) (oc_fname op) 96)\<rparr>)
      in if \<not> iosnoop_pass_mount_filter (snoop_mount_filter_cfg s) dev then s
         else iosnoop_emit_event e op 0 s)"

definition iosnoop_finish_event ::
    "iosnoop_event bpf_env \<Rightarrow> u64 \<Rightarrow> u32 \<Rightarrow> s32 \<Rightarrow> iosnoop_state \<Rightarrow> iosnoop_state" where
  "iosnoop_finish_event e tid type ret s =
     (let key = \<lparr>ok_id = tid, ok_type = type, ok_pad = 0\<rparr>
      in case op_state s key of
           None \<Rightarrow> s
         | Some op \<Rightarrow>
             let s = iosnoop_emit_event e op ret s
             in s\<lparr>op_state := bpf_map_delete_elem key (op_state s)\<rparr>)"

section \<open>System call programs\<close>

text \<open>
  These report at entry, without a return value, and leave no pending operation. A NULL path
  argument of \<open>submit_syscall_event\<close> is 0; \<open>args i\<close> is the \<open>i\<close>-th argument of a
  \<open>sys_enter\<close> tracepoint record.
\<close>

definition iosnoop_trace_sys_open_entry ::
    "kernel_mem \<Rightarrow> iosnoop_event bpf_env \<Rightarrow> ptr \<Rightarrow> iosnoop_state \<Rightarrow> iosnoop_state" where [probe_defs]:
  "iosnoop_trace_sys_open_entry km e pathname s =
     iosnoop_submit_syscall_event km e (pid_tgid e) IO_OPEN pathname s"

definition iosnoop_trace_sys_open_exit ::
    "iosnoop_event bpf_env \<Rightarrow> s64 \<Rightarrow> iosnoop_state \<Rightarrow> iosnoop_state" where [probe_defs]:
  "iosnoop_trace_sys_open_exit e ret s =
     iosnoop_finish_event e (pid_tgid e) IO_OPEN (ucast ret) s"

definition iosnoop_trace_sys_openat_entry ::
    "kernel_mem \<Rightarrow> iosnoop_event bpf_env \<Rightarrow> ptr \<Rightarrow> iosnoop_state \<Rightarrow> iosnoop_state" where [probe_defs]:
  "iosnoop_trace_sys_openat_entry km e pathname s =
     iosnoop_submit_syscall_event km e (pid_tgid e) IO_OPENAT pathname s"

definition iosnoop_trace_sys_openat_exit ::
    "iosnoop_event bpf_env \<Rightarrow> s64 \<Rightarrow> iosnoop_state \<Rightarrow> iosnoop_state" where [probe_defs]:
  "iosnoop_trace_sys_openat_exit e ret s =
     iosnoop_finish_event e (pid_tgid e) IO_OPENAT (ucast ret) s"

definition iosnoop_trace_sys_read_entry ::
    "kernel_mem \<Rightarrow> iosnoop_event bpf_env \<Rightarrow> iosnoop_state \<Rightarrow> iosnoop_state" where [probe_defs]:
  "iosnoop_trace_sys_read_entry km e s =
     iosnoop_submit_syscall_event km e (pid_tgid e) IO_READ 0 s"

definition iosnoop_trace_sys_read_exit ::
    "iosnoop_event bpf_env \<Rightarrow> s64 \<Rightarrow> iosnoop_state \<Rightarrow> iosnoop_state" where [probe_defs]:
  "iosnoop_trace_sys_read_exit e ret s =
     iosnoop_finish_event e (pid_tgid e) IO_READ (ucast ret) s"

definition iosnoop_trace_sys_write_entry ::
    "kernel_mem \<Rightarrow> iosnoop_event bpf_env \<Rightarrow> iosnoop_state \<Rightarrow> iosnoop_state" where [probe_defs]:
  "iosnoop_trace_sys_write_entry km e s =
     iosnoop_submit_syscall_event km e (pid_tgid e) IO_WRITE 0 s"

definition iosnoop_trace_sys_write_exit ::
    "iosnoop_event bpf_env \<Rightarrow> s64 \<Rightarrow> iosnoop_state \<Rightarrow> iosnoop_state" where [probe_defs]:
  "iosnoop_trace_sys_write_exit e ret s =
     iosnoop_finish_event e (pid_tgid e) IO_WRITE (ucast ret) s"

definition iosnoop_trace_sys_mkdir_entry ::
    "kernel_mem \<Rightarrow> iosnoop_event bpf_env \<Rightarrow> ptr \<Rightarrow> iosnoop_state \<Rightarrow> iosnoop_state" where [probe_defs]:
  "iosnoop_trace_sys_mkdir_entry km e pathname s =
     iosnoop_submit_syscall_event km e (pid_tgid e) IO_MKDIR pathname s"

definition iosnoop_trace_sys_mkdir_exit ::
    "iosnoop_event bpf_env \<Rightarrow> s64 \<Rightarrow> iosnoop_state \<Rightarrow> iosnoop_state" where [probe_defs]:
  "iosnoop_trace_sys_mkdir_exit e ret s =
     iosnoop_finish_event e (pid_tgid e) IO_MKDIR (ucast ret) s"

definition iosnoop_trace_sys_enter_mkdir ::
    "kernel_mem \<Rightarrow> iosnoop_event bpf_env \<Rightarrow> (nat \<Rightarrow> u64) \<Rightarrow> iosnoop_state \<Rightarrow> iosnoop_state" where [probe_defs]:
  "iosnoop_trace_sys_enter_mkdir km e args s =
     iosnoop_submit_syscall_event km e (pid_tgid e) IO_MKDIR (args 0) s"

definition iosnoop_trace_sys_exit_mkdir ::
    "iosnoop_event bpf_env \<Rightarrow> s64 \<Rightarrow> iosnoop_state \<Rightarrow> iosnoop_state" where [probe_defs]:
  "iosnoop_trace_sys_exit_mkdir e ret s =
     iosnoop_finish_event e (pid_tgid e) IO_MKDIR (ucast ret) s"

definition iosnoop_trace_sys_unlink_entry ::
    "kernel_mem \<Rightarrow> iosnoop_event bpf_env \<Rightarrow> ptr \<Rightarrow> iosnoop_state \<Rightarrow> iosnoop_state" where [probe_defs]:
  "iosnoop_trace_sys_unlink_entry km e pathname s =
     iosnoop_submit_syscall_event km e (pid_tgid e) IO_UNLINK pathname s"

definition iosnoop_trace_sys_unlink_exit ::
    "iosnoop_event bpf_env \<Rightarrow> s64 \<Rightarrow> iosnoop_state \<Rightarrow> iosnoop_state" where [probe_defs]:
  "iosnoop_trace_sys_unlink_exit e ret s =
     iosnoop_finish_event e (pid_tgid e) IO_UNLINK (ucast ret) s"

definition iosnoop_trace_sys_enter_unlink ::
    "kernel_mem \<Rightarrow> iosnoop_event bpf_env \<Rightarrow> (nat \<Rightarrow> u64) \<Rightarrow> iosnoop_state \<Rightarrow> iosnoop_state" where [probe_defs]:
  "iosnoop_trace_sys_enter_unlink km e args s =
     iosnoop_submit_syscall_event km e (pid_tgid e) IO_UNLINK (args 0) s"

definition iosnoop_trace_sys_exit_unlink ::
    "iosnoop_event bpf_env \<Rightarrow> s64 \<Rightarrow> iosnoop_state \<Rightarrow> iosnoop_state" where [probe_defs]:
  "iosnoop_trace_sys_exit_unlink e ret s =
     iosnoop_finish_event e (pid_tgid e) IO_UNLINK (ucast ret) s"

definition iosnoop_trace_sys_rename_entry ::
    "kernel_mem \<Rightarrow> iosnoop_event bpf_env \<Rightarrow> ptr \<Rightarrow> iosnoop_state \<Rightarrow> iosnoop_state" where [probe_defs]:
  "iosnoop_trace_sys_rename_entry km e newpath s =
     iosnoop_submit_syscall_event km e (pid_tgid e) IO_RENAME newpath s"

definition iosnoop_trace_sys_rename_exit ::
    "iosnoop_event bpf_env \<Rightarrow> s64 \<Rightarrow> iosnoop_state \<Rightarrow> iosnoop_state" where [probe_defs]:
  "iosnoop_trace_sys_rename_exit e ret s =
     iosnoop_finish_event e (pid_tgid e) IO_RENAME (ucast ret) s"

definition iosnoop_trace_sys_enter_rename ::
    "kernel_mem \<Rightarrow> iosnoop_event bpf_env \<Rightarrow> (nat \<Rightarrow> u64) \<Rightarrow> iosnoop_state \<Rightarrow> iosnoop_state" where [probe_defs]:
  "iosnoop_trace_sys_enter_rename km e args s =
     iosnoop_submit_syscall_event km e (pid_tgid e) IO_RENAME (args 1) s"

definition iosnoop_trace_sys_exit_rename ::
    "iosnoop_event bpf_env \<Rightarrow> s64 \<Rightarrow> iosnoop_state \<Rightarrow> iosnoop_state" where [probe_defs]:
  "iosnoop_trace_sys_exit_rename e ret s =
     iosnoop_finish_event e (pid_tgid e) IO_RENAME (ucast ret) s"

definition iosnoop_trace_sys_link_entry ::
    "kernel_mem \<Rightarrow> iosnoop_event bpf_env \<Rightarrow> ptr \<Rightarrow> iosnoop_state \<Rightarrow> iosnoop_state" where [probe_defs]:
  "iosnoop_trace_sys_link_entry km e newpath s =
     iosnoop_submit_syscall_event km e (pid_tgid e) IO_LINK newpath s"

definition iosnoop_trace_sys_link_exit ::
    "iosnoop_event bpf_env \<Rightarrow> s64 \<Rightarrow> iosnoop_state \<Rightarrow> iosnoop_state" where [probe_defs]:
  "iosnoop_trace_sys_link_exit e ret s =
     iosnoop_finish_event e (pid_tgid e) IO_LINK (ucast ret) s"

definition iosnoop_trace_sys_enter_link ::
    "kernel_mem \<Rightarrow> iosnoop_event bpf_env \<Rightarrow> (nat \<Rightarrow> u64) \<Rightarrow> iosnoop_state \<Rightarrow> iosnoop_state" where [probe_defs]:
  "iosnoop_trace_sys_enter_link km e args s =
     iosnoop_submit_syscall_event km e (pid_tgid e) IO_LINK (args 1) s"

definition iosnoop_trace_sys_exit_link ::
    "iosnoop_event bpf_env \<Rightarrow> s64 \<Rightarrow> iosnoop_state \<Rightarrow> iosnoop_state" where [probe_defs]:
  "iosnoop_trace_sys_exit_link e ret s =
     iosnoop_finish_event e (pid_tgid e) IO_LINK (ucast ret) s"

definition iosnoop_trace_sys_symlink_entry ::
    "kernel_mem \<Rightarrow> iosnoop_event bpf_env \<Rightarrow> ptr \<Rightarrow> iosnoop_state \<Rightarrow> iosnoop_state" where [probe_defs]:
  "iosnoop_trace_sys_symlink_entry km e linkpath s =
     iosnoop_submit_syscall_event km e (pid_tgid e) IO_SYMLINK linkpath s"

definition iosnoop_trace_sys_symlink_exit ::
    "iosnoop_event bpf_env \<Rightarrow> s64 \<Rightarrow> iosnoop_state \<Rightarrow> iosnoop_state" where [probe_defs]:
  "iosnoop_trace_sys_symlink_exit e ret s =
     iosnoop_finish_event e (pid_tgid e) IO_SYMLINK (ucast ret) s"

definition iosnoop_trace_sys_enter_symlink ::
    "kernel_mem \<Rightarrow> iosnoop_event bpf_env \<Rightarrow> (nat \<Rightarrow> u64) \<Rightarrow> iosnoop_state \<Rightarrow> iosnoop_state" where [probe_defs]:
  "iosnoop_trace_sys_enter_symlink km e args s =
     iosnoop_submit_syscall_event km e (pid_tgid e) IO_SYMLINK (args 1) s"

definition iosnoop_trace_sys_exit_symlink ::
    "iosnoop_event bpf_env \<Rightarrow> s64 \<Rightarrow> iosnoop_state \<Rightarrow> iosnoop_state" where [probe_defs]:
  "iosnoop_trace_sys_exit_symlink e ret s =
     iosnoop_finish_event e (pid_tgid e) IO_SYMLINK (ucast ret) s"

definition iosnoop_trace_sys_readlink_entry ::
    "kernel_mem \<Rightarrow> iosnoop_event bpf_env \<Rightarrow> ptr \<Rightarrow> iosnoop_state \<Rightarrow> iosnoop_state" where [probe_defs]:
  "iosnoop_trace_sys_readlink_entry km e pathname s =
     iosnoop_submit_syscall_event km e (pid_tgid e) IO_READLINK pathname s"

definition iosnoop_trace_sys_readlink_exit ::
    "iosnoop_event bpf_env \<Rightarrow> s64 \<Rightarrow> iosnoop_state \<Rightarrow> iosnoop_state" where [probe_defs]:
  "iosnoop_trace_sys_readlink_exit e ret s =
     iosnoop_finish_event e (pid_tgid e) IO_READLINK (ucast ret) s"

definition iosnoop_trace_sys_truncate_entry ::
    "kernel_mem \<Rightarrow> iosnoop_event bpf_env \<Rightarrow> ptr \<Rightarrow> iosnoop_state \<Rightarrow> iosnoop_state" where [probe_defs]:
  "iosnoop_trace_sys_truncate_entry km e path s =
     iosnoop_submit_syscall_event km e (pid_tgid e) IO_TRUNCATE path s"

definition iosnoop_trace_sys_truncate_exit ::
    "iosnoop_event bpf_env \<Rightarrow> s64 \<Rightarrow> iosnoop_state \<Rightarrow> iosnoop_state" where [probe_defs]:
  "iosnoop_trace_sys_truncate_exit e ret s =
     iosnoop_finish_event e (pid_tgid e) IO_TRUNCATE (ucast ret) s"

definition iosnoop_trace_sys_enter_truncate ::
    "kernel_mem \<Rightarrow> iosnoop_event bpf_env \<Rightarrow> (nat \<Rightarrow> u64) \<Rightarrow> iosnoop_state \<Rightarrow> iosnoop_state" where [probe_defs]:
  "iosnoop_trace_sys_enter_truncate km e args s =
     iosnoop_submit_syscall_event km e (pid_tgid e) IO_TRUNCATE (args 0) s"

definition iosnoop_trace_sys_exit_truncate ::
    "iosnoop_event bpf_env \<Rightarrow> s64 \<Rightarrow> iosnoop_state \<Rightarrow> iosnoop_state" where [probe_defs]:
  "iosnoop_trace_sys_exit_truncate e ret s =
     iosnoop_finish_event e (pid_tgid e) IO_TRUNCATE (ucast ret) s"

definition iosnoop_trace_sys_mmap_entry ::
    "kernel_mem \<Rightarrow> iosnoop_event bpf_env \<Rightarrow> iosnoop_state \<Rightarrow> iosnoop_state" where [probe_defs]:
  "iosnoop_trace_sys_mmap_entry km e s =
     iosnoop_submit_syscall_event km e (pid_tgid e) IO_MMAP 0 s"

definition iosnoop_trace_sys_mmap_exit ::
    "iosnoop_event bpf_env \<Rightarrow> s64 \<Rightarrow> iosnoop_state \<Rightarrow> iosnoop_state" where [probe_defs]:
  "iosnoop_trace_sys_mmap_exit e ret s =
     iosnoop_finish_event e (pid_tgid e) IO_MMAP (ucast ret) s"

section \<open>VFS programs\<close>

definition iosnoop_trace_vfs_open_enter ::
    "kernel_mem \<Rightarrow> iosnoop_event bpf_env \<Rightarrow> (path option) \<Rightarrow> ptr \<Rightarrow> iosnoop_state \<Rightarrow> iosnoop_state option" where [probe_defs]:
  "iosnoop_trace_vfs_open_enter km e path file s =
     do {
       let flags = (if file = 0 then 0 else file_f_flags km file);
       let op = op_ctx_zero\<lparr>oc_type := IO_OPEN\<rparr>;
       let op = op\<lparr>oc_dev := iosnoop_dev_from_path km path\<rparr>;
       let op = op\<lparr>oc_fname := iosnoop_read_path_name km path (oc_fname op) 96\<rparr>;
       (args, p) \<leftarrow> append_lit (oc_args op) 0 128 ''flags='';
       (args, p) \<leftarrow> append_u64_dec args p 128 (ucast flags);
       Some (iosnoop_submit_or_drop e (pid_tgid e) (op\<lparr>oc_args := args\<rparr>) s)
     }"

definition iosnoop_trace_vfs_read_enter ::
    "kernel_mem \<Rightarrow> iosnoop_event bpf_env \<Rightarrow> ptr \<Rightarrow> u64 \<Rightarrow> ptr \<Rightarrow> iosnoop_state \<Rightarrow> iosnoop_state option" where [probe_defs]:
  "iosnoop_trace_vfs_read_enter km e file count pos s =
     do {
       let off = (if pos = 0 then - 1 else kernel_s64 km pos);
       let op = op_ctx_zero\<lparr>oc_type := IO_READ\<rparr>;
       let op = op\<lparr>oc_dev := iosnoop_dev_from_file km file\<rparr>;
       let op = op\<lparr>oc_fname := iosnoop_read_file_name km file (oc_fname op) 96\<rparr>;
       (args, p) \<leftarrow> append_lit (oc_args op) 0 128 ''count='';
       (args, p) \<leftarrow> append_u64_dec args p 128 count;
       (args, p) \<leftarrow> append_lit args p 128 '' pos='';
       (args, p) \<leftarrow> append_s64_dec args p 128 off;
       Some (iosnoop_submit_or_drop e (pid_tgid e) (op\<lparr>oc_args := args\<rparr>) s)
     }"

definition iosnoop_trace_vfs_write_enter ::
    "kernel_mem \<Rightarrow> iosnoop_event bpf_env \<Rightarrow> ptr \<Rightarrow> u64 \<Rightarrow> ptr \<Rightarrow> iosnoop_state \<Rightarrow> iosnoop_state option" where [probe_defs]:
  "iosnoop_trace_vfs_write_enter km e file count pos s =
     do {
       let off = (if pos = 0 then - 1 else kernel_s64 km pos);
       let op = op_ctx_zero\<lparr>oc_type := IO_WRITE\<rparr>;
       let op = op\<lparr>oc_dev := iosnoop_dev_from_file km file\<rparr>;
       let op = op\<lparr>oc_fname := iosnoop_read_file_name km file (oc_fname op) 96\<rparr>;
       (args, p) \<leftarrow> append_lit (oc_args op) 0 128 ''count='';
       (args, p) \<leftarrow> append_u64_dec args p 128 count;
       (args, p) \<leftarrow> append_lit args p 128 '' pos='';
       (args, p) \<leftarrow> append_s64_dec args p 128 off;
       Some (iosnoop_submit_or_drop e (pid_tgid e) (op\<lparr>oc_args := args\<rparr>) s)
     }"

definition iosnoop_trace_vfs_create_enter ::
    "kernel_mem \<Rightarrow> iosnoop_event bpf_env \<Rightarrow> ptr \<Rightarrow> ptr \<Rightarrow> u16 \<Rightarrow> bool \<Rightarrow> iosnoop_state \<Rightarrow> iosnoop_state option" where [probe_defs]:
  "iosnoop_trace_vfs_create_enter km e dir dentry mode want_excl s =
     do {
       let op = op_ctx_zero\<lparr>oc_type := IO_CREATE\<rparr>;
       let op = op\<lparr>oc_dev := iosnoop_dev_from_inode km dir\<rparr>;
       let op = op\<lparr>oc_fname := iosnoop_read_dentry_name km dentry (oc_fname op) 96\<rparr>;
       (args, p) \<leftarrow> append_lit (oc_args op) 0 128 ''mode='';
       (args, p) \<leftarrow> append_u64_dec args p 128 (ucast mode);
       (args, p) \<leftarrow> append_lit args p 128 '' excl='';
       (args, p) \<leftarrow> append_u64_dec args p 128 (if want_excl then 1 else 0);
       Some (iosnoop_submit_or_drop e (pid_tgid e) (op\<lparr>oc_args := args\<rparr>) s)
     }"

definition iosnoop_trace_vfs_mkdir_enter ::
    "kernel_mem \<Rightarrow> iosnoop_event bpf_env \<Rightarrow> ptr \<Rightarrow> ptr \<Rightarrow> u16 \<Rightarrow> iosnoop_state \<Rightarrow> iosnoop_state option" where [probe_defs]:
  "iosnoop_trace_vfs_mkdir_enter km e dir dentry mode s =
     do {
       let op = op_ctx_zero\<lparr>oc_type := IO_MKDIR\<rparr>;
       let op = op\<lparr>oc_dev := iosnoop_dev_from_inode km dir\<rparr>;
       let op = op\<lparr>oc_fname := iosnoop_read_dentry_name km dentry (oc_fname op) 96\<rparr>;
       (args, p) \<leftarrow> append_lit (oc_args op) 0 128 ''mode='';
       (args, p) \<leftarrow> append_u64_dec args p 128 (ucast mode);
       Some (iosnoop_submit_or_drop e (pid_tgid e) (op\<lparr>oc_args := args\<rparr>) s)
     }"

definition iosnoop_trace_vfs_rmdir_enter ::
    "kernel_mem \<Rightarrow> iosnoop_event bpf_env \<Rightarrow> ptr \<Rightarrow> ptr \<Rightarrow> iosnoop_state \<Rightarrow> iosnoop_state option" where [probe_defs]:
  "iosnoop_trace_vfs_rmdir_enter km e dir dentry s =
     do {
       let op = op_ctx_zero\<lparr>oc_type := IO_RMDIR\<rparr>;
       let op = op\<lparr>oc_dev := iosnoop_dev_from_inode km dir\<rparr>;
       let op = op\<lparr>oc_fname := iosnoop_read_dentry_name km dentry (oc_fname op) 96\<rparr>;
       let args = (oc_args op)[0 := NUL];
       Some (iosnoop_submit_or_drop e (pid_tgid e) (op\<lparr>oc_args := args\<rparr>) s)
     }"

definition iosnoop_trace_vfs_symlink_enter ::
    "kernel_mem \<Rightarrow> iosnoop_event bpf_env \<Rightarrow> ptr \<Rightarrow> ptr \<Rightarrow> ptr \<Rightarrow> iosnoop_state \<Rightarrow> iosnoop_state option" where [probe_defs]:
  "iosnoop_trace_vfs_symlink_enter km e dir dentry oldname s =
     do {
       let target = (uninit e 64)[0 := NUL];
       let target = (if oldname = 0 then target else snd (probe_read_str (kernel_str km oldname) target 64));
       let op = op_ctx_zero\<lparr>oc_type := IO_SYMLINK\<rparr>;
       let op = op\<lparr>oc_dev := iosnoop_dev_from_inode km dir\<rparr>;
       let op = op\<lparr>oc_fname := iosnoop_read_dentry_name km dentry (oc_fname op) 96\<rparr>;
       (args, p) \<leftarrow> append_lit (oc_args op) 0 128 ''target='';
       (args, p) \<leftarrow> append_lit args p 128 target;
       Some (iosnoop_submit_or_drop e (pid_tgid e) (op\<lparr>oc_args := args\<rparr>) s)
     }"

definition iosnoop_trace_vfs_rename_enter ::
    "kernel_mem \<Rightarrow> iosnoop_event bpf_env \<Rightarrow> ptr \<Rightarrow> iosnoop_state \<Rightarrow> iosnoop_state option" where [probe_defs]:
  "iosnoop_trace_vfs_rename_enter km e rd s =
     (if rd = 0 then Some s else
      do {
        let op = op_ctx_zero\<lparr>oc_type := IO_RENAME\<rparr>;
        let op = op\<lparr>oc_dev := (if renamedata_has_new_parent km
                 then iosnoop_dev_from_dentry km (renamedata_new_parent km rd)
                 else iosnoop_dev_from_inode km (renamedata_new_dir km rd))\<rparr>;
        let op = op\<lparr>oc_fname := iosnoop_read_dentry_name km (renamedata_new_dentry km rd) (oc_fname op) 96\<rparr>;
        let args = (oc_args op)[0 := NUL];
        Some (iosnoop_submit_or_drop e (pid_tgid e) (op\<lparr>oc_args := args\<rparr>) s)
      })"

definition iosnoop_trace_vfs_getattr_enter ::
    "kernel_mem \<Rightarrow> iosnoop_event bpf_env \<Rightarrow> (path option) \<Rightarrow> u32 \<Rightarrow> u32 \<Rightarrow> iosnoop_state \<Rightarrow> iosnoop_state option" where [probe_defs]:
  "iosnoop_trace_vfs_getattr_enter km e path request_mask query_flags s =
     (case path of None \<Rightarrow> Some s | Some pth \<Rightarrow>
      do {
        let op = op_ctx_zero\<lparr>oc_type := IO_STAT\<rparr>;
        let op = op\<lparr>oc_dev := iosnoop_dev_from_path km (Some pth)\<rparr>;
        let op = op\<lparr>oc_fname := iosnoop_read_path_name km (Some pth) (oc_fname op) 96\<rparr>;
        (args, p) \<leftarrow> append_lit (oc_args op) 0 128 ''mask='';
        (args, p) \<leftarrow> append_u64_dec args p 128 (ucast request_mask);
        (args, p) \<leftarrow> append_lit args p 128 '' qflags='';
        (args, p) \<leftarrow> append_u64_dec args p 128 (ucast query_flags);
        Some (iosnoop_submit_or_drop e (pid_tgid e) (op\<lparr>oc_args := args\<rparr>) s)
      })"

definition iosnoop_trace_vfs_truncate_enter ::
    "kernel_mem \<Rightarrow> iosnoop_event bpf_env \<Rightarrow> (path option) \<Rightarrow> s64 \<Rightarrow> iosnoop_state \<Rightarrow> iosnoop_state option" where [probe_defs]:
  "iosnoop_trace_vfs_truncate_enter km e path len s =
     (case path of None \<Rightarrow> Some s | Some pth \<Rightarrow>
      do {
        let op = op_ctx_zero\<lparr>oc_type := IO_TRUNCATE\<rparr>;
        let op = op\<lparr>oc_dev := iosnoop_dev_from_path km (Some pth)\<rparr>;
        let op = op\<lparr>oc_fname := iosnoop_read_path_name km (Some pth) (oc_fname op) 96\<rparr>;
        (args, p) \<leftarrow> append_lit (oc_args op) 0 128 ''length='';
        (args, p) \<leftarrow> append_s64_dec args p 128 len;
        Some (iosnoop_submit_or_drop e (pid_tgid e) (op\<lparr>oc_args := args\<rparr>) s)
      })"

definition iosnoop_trace_vfs_fchmod_enter ::
    "kernel_mem \<Rightarrow> iosnoop_event bpf_env \<Rightarrow> ptr \<Rightarrow> u16 \<Rightarrow> iosnoop_state \<Rightarrow> iosnoop_state option" where [probe_defs]:
  "iosnoop_trace_vfs_fchmod_enter km e file mode s =
     do {
       let op = op_ctx_zero\<lparr>oc_type := IO_FCHMOD\<rparr>;
       let op = op\<lparr>oc_dev := iosnoop_dev_from_file km file\<rparr>;
       let op = op\<lparr>oc_fname := iosnoop_read_file_name km file (oc_fname op) 96\<rparr>;
       (args, p) \<leftarrow> append_lit (oc_args op) 0 128 ''mode='';
       (args, p) \<leftarrow> append_u64_dec args p 128 (ucast mode);
       Some (iosnoop_submit_or_drop e (pid_tgid e) (op\<lparr>oc_args := args\<rparr>) s)
     }"

definition iosnoop_trace_vfs_readlink_enter ::
    "kernel_mem \<Rightarrow> iosnoop_event bpf_env \<Rightarrow> ptr \<Rightarrow> s32 \<Rightarrow> iosnoop_state \<Rightarrow> iosnoop_state option" where [probe_defs]:
  "iosnoop_trace_vfs_readlink_enter km e dentry buflen s =
     do {
       let op = op_ctx_zero\<lparr>oc_type := IO_READLINK\<rparr>;
       let op = op\<lparr>oc_dev := iosnoop_dev_from_dentry km dentry\<rparr>;
       let op = op\<lparr>oc_fname := iosnoop_read_dentry_name km dentry (oc_fname op) 96\<rparr>;
       (args, p) \<leftarrow> append_lit (oc_args op) 0 128 ''buflen='';
       (args, p) \<leftarrow> append_u64_dec args p 128 (scast buflen);
       Some (iosnoop_submit_or_drop e (pid_tgid e) (op\<lparr>oc_args := args\<rparr>) s)
     }"

definition iosnoop_trace_vfs_readv_enter ::
    "kernel_mem \<Rightarrow> iosnoop_event bpf_env \<Rightarrow> ptr \<Rightarrow> u64 \<Rightarrow> u32 \<Rightarrow> iosnoop_state \<Rightarrow> iosnoop_state option" where [probe_defs]:
  "iosnoop_trace_vfs_readv_enter km e file vlen flags s =
     do {
       let op = op_ctx_zero\<lparr>oc_type := IO_READV\<rparr>;
       let op = op\<lparr>oc_dev := iosnoop_dev_from_file km file\<rparr>;
       let op = op\<lparr>oc_fname := iosnoop_read_file_name km file (oc_fname op) 96\<rparr>;
       (args, p) \<leftarrow> append_lit (oc_args op) 0 128 ''vlen='';
       (args, p) \<leftarrow> append_u64_dec args p 128 vlen;
       (args, p) \<leftarrow> append_lit args p 128 '' flags='';
       (args, p) \<leftarrow> append_u64_dec args p 128 (ucast flags);
       Some (iosnoop_submit_or_drop e (pid_tgid e) (op\<lparr>oc_args := args\<rparr>) s)
     }"

definition iosnoop_trace_vfs_writev_enter ::
    "kernel_mem \<Rightarrow> iosnoop_event bpf_env \<Rightarrow> ptr \<Rightarrow> u64 \<Rightarrow> u32 \<Rightarrow> iosnoop_state \<Rightarrow> iosnoop_state option" where [probe_defs]:
  "iosnoop_trace_vfs_writev_enter km e file vlen flags s =
     do {
       let op = op_ctx_zero\<lparr>oc_type := IO_WRITEV\<rparr>;
       let op = op\<lparr>oc_dev := iosnoop_dev_from_file km file\<rparr>;
       let op = op\<lparr>oc_fname := iosnoop_read_file_name km file (oc_fname op) 96\<rparr>;
       (args, p) \<leftarrow> append_lit (oc_args op) 0 128 ''vlen='';
       (args, p) \<leftarrow> append_u64_dec args p 128 vlen;
       (args, p) \<leftarrow> append_lit args p 128 '' flags='';
       (args, p) \<leftarrow> append_u64_dec args p 128 (ucast flags);
       Some (iosnoop_submit_or_drop e (pid_tgid e) (op\<lparr>oc_args := args\<rparr>) s)
     }"

definition iosnoop_trace_vfs_unlink_kp ::
    "kernel_mem \<Rightarrow> iosnoop_event bpf_env \<Rightarrow> ptr \<Rightarrow> ptr \<Rightarrow> iosnoop_state \<Rightarrow> iosnoop_state option" where [probe_defs]:
  "iosnoop_trace_vfs_unlink_kp km e dir dentry s =
     do {
       let op = op_ctx_zero\<lparr>oc_type := IO_UNLINK\<rparr>;
       let op = op\<lparr>oc_dev := iosnoop_dev_from_inode km dir\<rparr>;
       let op = op\<lparr>oc_fname := iosnoop_read_dentry_name km dentry (oc_fname op) 96\<rparr>;
       let args = (oc_args op)[0 := NUL];
       Some (iosnoop_submit_or_drop e (pid_tgid e) (op\<lparr>oc_args := args\<rparr>) s)
     }"

definition iosnoop_trace_vfs_link_kp ::
    "kernel_mem \<Rightarrow> iosnoop_event bpf_env \<Rightarrow> ptr \<Rightarrow> ptr \<Rightarrow> ptr \<Rightarrow> iosnoop_state \<Rightarrow> iosnoop_state option" where [probe_defs]:
  "iosnoop_trace_vfs_link_kp km e old_dentry dir new_dentry s =
     do {
       let old_name = iosnoop_read_dentry_name km old_dentry (uninit e 64) 64;
       let op = op_ctx_zero\<lparr>oc_type := IO_LINK\<rparr>;
       let op = op\<lparr>oc_dev := iosnoop_dev_from_inode km dir\<rparr>;
       let op = op\<lparr>oc_fname := iosnoop_read_dentry_name km new_dentry (oc_fname op) 96\<rparr>;
       (args, p) \<leftarrow> append_lit (oc_args op) 0 128 ''old='';
       (args, p) \<leftarrow> append_lit args p 128 old_name;
       Some (iosnoop_submit_or_drop e (pid_tgid e) (op\<lparr>oc_args := args\<rparr>) s)
     }"

definition iosnoop_trace_vfs_fallocate_kp ::
    "kernel_mem \<Rightarrow> iosnoop_event bpf_env \<Rightarrow> ptr \<Rightarrow> s64 \<Rightarrow> s64 \<Rightarrow> iosnoop_state \<Rightarrow> iosnoop_state option" where [probe_defs]:
  "iosnoop_trace_vfs_fallocate_kp km e file offset len s =
     do {
       let op = op_ctx_zero\<lparr>oc_type := IO_FALLOCATE\<rparr>;
       let op = op\<lparr>oc_dev := iosnoop_dev_from_file km file\<rparr>;
       let op = op\<lparr>oc_fname := iosnoop_read_file_name km file (oc_fname op) 96\<rparr>;
       (args, p) \<leftarrow> append_lit (oc_args op) 0 128 ''offset='';
       (args, p) \<leftarrow> append_s64_dec args p 128 offset;
       (args, p) \<leftarrow> append_lit args p 128 '' len='';
       (args, p) \<leftarrow> append_s64_dec args p 128 len;
       Some (iosnoop_submit_or_drop e (pid_tgid e) (op\<lparr>oc_args := args\<rparr>) s)
     }"

definition iosnoop_trace_iterate_dir_enter ::
    "kernel_mem \<Rightarrow> iosnoop_event bpf_env \<Rightarrow> ptr \<Rightarrow> iosnoop_state \<Rightarrow> iosnoop_state option" where [probe_defs]:
  "iosnoop_trace_iterate_dir_enter km e file s =
     do {
       let op = op_ctx_zero\<lparr>oc_type := IO_GETDENTS\<rparr>;
       let op = op\<lparr>oc_dev := iosnoop_dev_from_file km file\<rparr>;
       let op = op\<lparr>oc_fname := iosnoop_read_file_name km file (oc_fname op) 96\<rparr>;
       let args = (oc_args op)[0 := NUL];
       Some (iosnoop_submit_or_drop e (pid_tgid e) (op\<lparr>oc_args := args\<rparr>) s)
     }"

definition iosnoop_trace_do_mmap_kp ::
    "kernel_mem \<Rightarrow> iosnoop_event bpf_env \<Rightarrow> ptr \<Rightarrow> u64 \<Rightarrow> u64 \<Rightarrow> iosnoop_state \<Rightarrow> iosnoop_state option" where [probe_defs]:
  "iosnoop_trace_do_mmap_kp km e file len prot s =
     (if file = 0 then Some s else
      do {
        let op = op_ctx_zero\<lparr>oc_type := IO_MMAP\<rparr>;
        let op = op\<lparr>oc_dev := iosnoop_dev_from_file km file\<rparr>;
        let op = op\<lparr>oc_fname := iosnoop_read_file_name km file (oc_fname op) 96\<rparr>;
        (args, p) \<leftarrow> append_lit (oc_args op) 0 128 ''len='';
        (args, p) \<leftarrow> append_u64_dec args p 128 len;
        (args, p) \<leftarrow> append_lit args p 128 '' prot='';
        (args, p) \<leftarrow> append_u64_dec args p 128 prot;
        Some (iosnoop_submit_or_drop e (pid_tgid e) (op\<lparr>oc_args := args\<rparr>) s)
      })"

definition iosnoop_trace_vfs_lock_file_enter ::
    "kernel_mem \<Rightarrow> iosnoop_event bpf_env \<Rightarrow> ptr \<Rightarrow> u32 \<Rightarrow> iosnoop_state \<Rightarrow> iosnoop_state option" where [probe_defs]:
  "iosnoop_trace_vfs_lock_file_enter km e filp cmd s =
     do {
       let op = op_ctx_zero\<lparr>oc_type := IO_LOCK_FCNTL\<rparr>;
       let op = op\<lparr>oc_dev := iosnoop_dev_from_file km filp\<rparr>;
       let op = op\<lparr>oc_fname := iosnoop_read_file_name km filp (oc_fname op) 96\<rparr>;
       (args, p) \<leftarrow> append_lit (oc_args op) 0 128 ''cmd='';
       (args, p) \<leftarrow> append_u64_dec args p 128 (ucast cmd);
       Some (iosnoop_submit_or_drop e (pid_tgid e) (op\<lparr>oc_args := args\<rparr>) s)
     }"

definition iosnoop_trace_vfs_rename_legacy_kprobe_fallback ::
    "kernel_mem \<Rightarrow> iosnoop_event bpf_env \<Rightarrow> ptr \<Rightarrow> ptr \<Rightarrow> iosnoop_state \<Rightarrow> iosnoop_state option" where [probe_defs]:
  "iosnoop_trace_vfs_rename_legacy_kprobe_fallback km e new_dir new_dentry s =
     do {
       let op = op_ctx_zero\<lparr>oc_type := IO_RENAME\<rparr>;
       let op = op\<lparr>oc_dev := iosnoop_dev_from_inode km new_dir\<rparr>;
       let op = op\<lparr>oc_fname := iosnoop_read_dentry_name km new_dentry (oc_fname op) 96\<rparr>;
       let args = (oc_args op)[0 := NUL];
       Some (iosnoop_submit_or_drop e (pid_tgid e) (op\<lparr>oc_args := args\<rparr>) s)
     }"

definition iosnoop_trace_vm_munmap_kp ::
    "iosnoop_event bpf_env \<Rightarrow> u64 \<Rightarrow> u64 \<Rightarrow> iosnoop_state \<Rightarrow> iosnoop_state option" where [probe_defs]:
  "iosnoop_trace_vm_munmap_kp e start len s =
     do {
       let key = vma_key (ucast (drop_bit 32 (pid_tgid e))) start;
       let devp = snoop_vma_dev_map s key;
       let op = op_ctx_zero\<lparr>oc_dev := (case devp of Some dev \<Rightarrow> dev | None \<Rightarrow> 0)\<rparr>;
       let s = s\<lparr>snoop_vma_dev_map := bpf_map_delete_elem key (snoop_vma_dev_map s)\<rparr>;
       let op = op\<lparr>oc_type := IO_MUNMAP\<rparr>;
       (args, p) \<leftarrow> append_lit (oc_args op) 0 128 ''len='';
       (args, p) \<leftarrow> append_u64_dec args p 128 len;
       let op = op\<lparr>oc_args := args, oc_fname := (oc_fname op)[0 := NUL]\<rparr>;
       Some (iosnoop_submit_or_drop e (pid_tgid e) op s)
     }"

definition iosnoop_trace_vfs_open_exit ::
    "iosnoop_event bpf_env \<Rightarrow> s32 \<Rightarrow> iosnoop_state \<Rightarrow> iosnoop_state" where [probe_defs]:
  "iosnoop_trace_vfs_open_exit e ret s =
     iosnoop_finish_event e (pid_tgid e) IO_OPEN ret s"

definition iosnoop_trace_vfs_read_exit ::
    "iosnoop_event bpf_env \<Rightarrow> s64 \<Rightarrow> iosnoop_state \<Rightarrow> iosnoop_state" where [probe_defs]:
  "iosnoop_trace_vfs_read_exit e ret s =
     iosnoop_finish_event e (pid_tgid e) IO_READ (ucast ret) s"

definition iosnoop_trace_vfs_write_exit ::
    "iosnoop_event bpf_env \<Rightarrow> s64 \<Rightarrow> iosnoop_state \<Rightarrow> iosnoop_state" where [probe_defs]:
  "iosnoop_trace_vfs_write_exit e ret s =
     iosnoop_finish_event e (pid_tgid e) IO_WRITE (ucast ret) s"

definition iosnoop_trace_vfs_create_exit ::
    "iosnoop_event bpf_env \<Rightarrow> s32 \<Rightarrow> iosnoop_state \<Rightarrow> iosnoop_state" where [probe_defs]:
  "iosnoop_trace_vfs_create_exit e ret s =
     iosnoop_finish_event e (pid_tgid e) IO_CREATE ret s"

definition iosnoop_trace_vfs_mkdir_exit ::
    "iosnoop_event bpf_env \<Rightarrow> s32 \<Rightarrow> iosnoop_state \<Rightarrow> iosnoop_state" where [probe_defs]:
  "iosnoop_trace_vfs_mkdir_exit e ret s =
     iosnoop_finish_event e (pid_tgid e) IO_MKDIR ret s"

definition iosnoop_trace_vfs_rmdir_exit ::
    "iosnoop_event bpf_env \<Rightarrow> s32 \<Rightarrow> iosnoop_state \<Rightarrow> iosnoop_state" where [probe_defs]:
  "iosnoop_trace_vfs_rmdir_exit e ret s =
     iosnoop_finish_event e (pid_tgid e) IO_RMDIR ret s"

definition iosnoop_trace_vfs_symlink_exit ::
    "iosnoop_event bpf_env \<Rightarrow> s32 \<Rightarrow> iosnoop_state \<Rightarrow> iosnoop_state" where [probe_defs]:
  "iosnoop_trace_vfs_symlink_exit e ret s =
     iosnoop_finish_event e (pid_tgid e) IO_SYMLINK ret s"

definition iosnoop_trace_vfs_rename_exit ::
    "iosnoop_event bpf_env \<Rightarrow> s32 \<Rightarrow> iosnoop_state \<Rightarrow> iosnoop_state" where [probe_defs]:
  "iosnoop_trace_vfs_rename_exit e ret s =
     iosnoop_finish_event e (pid_tgid e) IO_RENAME ret s"

definition iosnoop_trace_vfs_getattr_exit ::
    "iosnoop_event bpf_env \<Rightarrow> s32 \<Rightarrow> iosnoop_state \<Rightarrow> iosnoop_state" where [probe_defs]:
  "iosnoop_trace_vfs_getattr_exit e ret s =
     iosnoop_finish_event e (pid_tgid e) IO_STAT ret s"

definition iosnoop_trace_vfs_truncate_exit ::
    "iosnoop_event bpf_env \<Rightarrow> s32 \<Rightarrow> iosnoop_state \<Rightarrow> iosnoop_state" where [probe_defs]:
  "iosnoop_trace_vfs_truncate_exit e ret s =
     iosnoop_finish_event e (pid_tgid e) IO_TRUNCATE ret s"

definition iosnoop_trace_vfs_fchmod_exit ::
    "iosnoop_event bpf_env \<Rightarrow> s32 \<Rightarrow> iosnoop_state \<Rightarrow> iosnoop_state" where [probe_defs]:
  "iosnoop_trace_vfs_fchmod_exit e ret s =
     iosnoop_finish_event e (pid_tgid e) IO_FCHMOD ret s"

definition iosnoop_trace_vfs_readlink_exit ::
    "iosnoop_event bpf_env \<Rightarrow> s32 \<Rightarrow> iosnoop_state \<Rightarrow> iosnoop_state" where [probe_defs]:
  "iosnoop_trace_vfs_readlink_exit e ret s =
     iosnoop_finish_event e (pid_tgid e) IO_READLINK ret s"

definition iosnoop_trace_vfs_readv_exit ::
    "iosnoop_event bpf_env \<Rightarrow> s64 \<Rightarrow> iosnoop_state \<Rightarrow> iosnoop_state" where [probe_defs]:
  "iosnoop_trace_vfs_readv_exit e ret s =
     iosnoop_finish_event e (pid_tgid e) IO_READV (ucast ret) s"

definition iosnoop_trace_vfs_writev_exit ::
    "iosnoop_event bpf_env \<Rightarrow> s64 \<Rightarrow> iosnoop_state \<Rightarrow> iosnoop_state" where [probe_defs]:
  "iosnoop_trace_vfs_writev_exit e ret s =
     iosnoop_finish_event e (pid_tgid e) IO_WRITEV (ucast ret) s"

definition iosnoop_trace_vfs_unlink_krp ::
    "iosnoop_event bpf_env \<Rightarrow> s64 \<Rightarrow> iosnoop_state \<Rightarrow> iosnoop_state" where [probe_defs]:
  "iosnoop_trace_vfs_unlink_krp e ret s =
     iosnoop_finish_event e (pid_tgid e) IO_UNLINK (ucast ret) s"

definition iosnoop_trace_vfs_link_krp ::
    "iosnoop_event bpf_env \<Rightarrow> s64 \<Rightarrow> iosnoop_state \<Rightarrow> iosnoop_state" where [probe_defs]:
  "iosnoop_trace_vfs_link_krp e ret s =
     iosnoop_finish_event e (pid_tgid e) IO_LINK (ucast ret) s"

definition iosnoop_trace_vfs_fallocate_krp ::
    "iosnoop_event bpf_env \<Rightarrow> s64 \<Rightarrow> iosnoop_state \<Rightarrow> iosnoop_state" where [probe_defs]:
  "iosnoop_trace_vfs_fallocate_krp e ret s =
     iosnoop_finish_event e (pid_tgid e) IO_FALLOCATE (ucast ret) s"

definition iosnoop_trace_iterate_dir_exit ::
    "iosnoop_event bpf_env \<Rightarrow> s32 \<Rightarrow> iosnoop_state \<Rightarrow> iosnoop_state" where [probe_defs]:
  "iosnoop_trace_iterate_dir_exit e ret s =
     iosnoop_finish_event e (pid_tgid e) IO_GETDENTS ret s"

definition iosnoop_trace_vm_munmap_krp ::
    "iosnoop_event bpf_env \<Rightarrow> s64 \<Rightarrow> iosnoop_state \<Rightarrow> iosnoop_state" where [probe_defs]:
  "iosnoop_trace_vm_munmap_krp e ret s =
     iosnoop_finish_event e (pid_tgid e) IO_MUNMAP (ucast ret) s"

definition iosnoop_trace_vfs_lock_file_exit ::
    "iosnoop_event bpf_env \<Rightarrow> s32 \<Rightarrow> iosnoop_state \<Rightarrow> iosnoop_state" where [probe_defs]:
  "iosnoop_trace_vfs_lock_file_exit e ret s =
     iosnoop_finish_event e (pid_tgid e) IO_LOCK_FCNTL ret s"

definition iosnoop_trace_do_mmap_krp ::
    "iosnoop_event bpf_env \<Rightarrow> u64 \<Rightarrow> iosnoop_state \<Rightarrow> iosnoop_state" where [probe_defs]:
  "iosnoop_trace_do_mmap_krp e ret s =
     (let tid = pid_tgid e; pid = ucast (drop_bit 32 tid);
          opk = \<lparr>ok_id = tid, ok_type = IO_MMAP, ok_pad = 0\<rparr>;
          s = (case op_state s opk of
                 None \<Rightarrow> s
               | Some op \<Rightarrow>
                   if 0 < sint ret
                   then s\<lparr>snoop_vma_dev_map :=
                            snd (bpf_map_update_elem (update_rc e) BPF_ANY (vma_key pid ret) (oc_dev op)
                                   (snoop_vma_dev_map s))\<rparr>
                   else s)
      in iosnoop_finish_event e tid IO_MMAP (if 0 < sint ret then 0 else ucast ret) s)"

definition iosnoop_kretprobe_fallback ::
    "u32 \<Rightarrow> iosnoop_event bpf_env \<Rightarrow> s64 \<Rightarrow> iosnoop_state \<Rightarrow> iosnoop_state" where [probe_defs]:
  "iosnoop_kretprobe_fallback type e ret s =
     iosnoop_finish_event e (pid_tgid e) type (ucast ret) s"

definition iosnoop_trace_vfs_open_kprobe_fallback ::
    "kernel_mem \<Rightarrow> iosnoop_event bpf_env \<Rightarrow> (path option) \<Rightarrow> ptr \<Rightarrow> iosnoop_state \<Rightarrow> iosnoop_state option" where [probe_defs]:
  "iosnoop_trace_vfs_open_kprobe_fallback km e path file s =
     iosnoop_trace_vfs_open_enter km e path file s"

definition iosnoop_trace_vfs_open_kretprobe_fallback ::
    "iosnoop_event bpf_env \<Rightarrow> s64 \<Rightarrow> iosnoop_state \<Rightarrow> iosnoop_state" where [probe_defs]:
  "iosnoop_trace_vfs_open_kretprobe_fallback e ret s =
     iosnoop_kretprobe_fallback IO_OPEN e ret s"

definition iosnoop_trace_vfs_read_kprobe_fallback ::
    "kernel_mem \<Rightarrow> iosnoop_event bpf_env \<Rightarrow> ptr \<Rightarrow> u64 \<Rightarrow> ptr \<Rightarrow> iosnoop_state \<Rightarrow> iosnoop_state option" where [probe_defs]:
  "iosnoop_trace_vfs_read_kprobe_fallback km e file count pos s =
     iosnoop_trace_vfs_read_enter km e file count pos s"

definition iosnoop_trace_vfs_read_kretprobe_fallback ::
    "iosnoop_event bpf_env \<Rightarrow> s64 \<Rightarrow> iosnoop_state \<Rightarrow> iosnoop_state" where [probe_defs]:
  "iosnoop_trace_vfs_read_kretprobe_fallback e ret s =
     iosnoop_kretprobe_fallback IO_READ e ret s"

definition iosnoop_trace_vfs_write_kprobe_fallback ::
    "kernel_mem \<Rightarrow> iosnoop_event bpf_env \<Rightarrow> ptr \<Rightarrow> u64 \<Rightarrow> ptr \<Rightarrow> iosnoop_state \<Rightarrow> iosnoop_state option" where [probe_defs]:
  "iosnoop_trace_vfs_write_kprobe_fallback km e file count pos s =
     iosnoop_trace_vfs_write_enter km e file count pos s"

definition iosnoop_trace_vfs_write_kretprobe_fallback ::
    "iosnoop_event bpf_env \<Rightarrow> s64 \<Rightarrow> iosnoop_state \<Rightarrow> iosnoop_state" where [probe_defs]:
  "iosnoop_trace_vfs_write_kretprobe_fallback e ret s =
     iosnoop_kretprobe_fallback IO_WRITE e ret s"

definition iosnoop_trace_vfs_create_kprobe_fallback ::
    "kernel_mem \<Rightarrow> iosnoop_event bpf_env \<Rightarrow> ptr \<Rightarrow> ptr \<Rightarrow> u16 \<Rightarrow> bool \<Rightarrow> iosnoop_state \<Rightarrow> iosnoop_state option" where [probe_defs]:
  "iosnoop_trace_vfs_create_kprobe_fallback km e dir dentry mode want_excl s =
     iosnoop_trace_vfs_create_enter km e dir dentry mode want_excl s"

definition iosnoop_trace_vfs_create_legacy_fallback ::
    "kernel_mem \<Rightarrow> iosnoop_event bpf_env \<Rightarrow> ptr \<Rightarrow> ptr \<Rightarrow> u16 \<Rightarrow> iosnoop_state \<Rightarrow> iosnoop_state option" where [probe_defs]:
  "iosnoop_trace_vfs_create_legacy_fallback km e dir dentry mode s =
     iosnoop_trace_vfs_create_enter km e dir dentry mode False s"

definition iosnoop_trace_vfs_create_kretprobe_fallback ::
    "iosnoop_event bpf_env \<Rightarrow> s64 \<Rightarrow> iosnoop_state \<Rightarrow> iosnoop_state" where [probe_defs]:
  "iosnoop_trace_vfs_create_kretprobe_fallback e ret s =
     iosnoop_kretprobe_fallback IO_CREATE e ret s"

definition iosnoop_trace_vfs_mkdir_kprobe_fallback ::
    "kernel_mem \<Rightarrow> iosnoop_event bpf_env \<Rightarrow> ptr \<Rightarrow> ptr \<Rightarrow> u16 \<Rightarrow> iosnoop_state \<Rightarrow> iosnoop_state option" where [probe_defs]:
  "iosnoop_trace_vfs_mkdir_kprobe_fallback km e dir dentry mode s =
     iosnoop_trace_vfs_mkdir_enter km e dir dentry mode s"

definition iosnoop_trace_vfs_mkdir_kretprobe_fallback ::
    "iosnoop_event bpf_env \<Rightarrow> s64 \<Rightarrow> iosnoop_state \<Rightarrow> iosnoop_state" where [probe_defs]:
  "iosnoop_trace_vfs_mkdir_kretprobe_fallback e ret s =
     iosnoop_kretprobe_fallback IO_MKDIR e ret s"

definition iosnoop_trace_vfs_rmdir_kprobe_fallback ::
    "kernel_mem \<Rightarrow> iosnoop_event bpf_env \<Rightarrow> ptr \<Rightarrow> ptr \<Rightarrow> iosnoop_state \<Rightarrow> iosnoop_state option" where [probe_defs]:
  "iosnoop_trace_vfs_rmdir_kprobe_fallback km e dir dentry s =
     iosnoop_trace_vfs_rmdir_enter km e dir dentry s"

definition iosnoop_trace_vfs_rmdir_kretprobe_fallback ::
    "iosnoop_event bpf_env \<Rightarrow> s64 \<Rightarrow> iosnoop_state \<Rightarrow> iosnoop_state" where [probe_defs]:
  "iosnoop_trace_vfs_rmdir_kretprobe_fallback e ret s =
     iosnoop_kretprobe_fallback IO_RMDIR e ret s"

definition iosnoop_trace_vfs_symlink_kprobe_fallback ::
    "kernel_mem \<Rightarrow> iosnoop_event bpf_env \<Rightarrow> ptr \<Rightarrow> ptr \<Rightarrow> ptr \<Rightarrow> iosnoop_state \<Rightarrow> iosnoop_state option" where [probe_defs]:
  "iosnoop_trace_vfs_symlink_kprobe_fallback km e dir dentry oldname s =
     iosnoop_trace_vfs_symlink_enter km e dir dentry oldname s"

definition iosnoop_trace_vfs_symlink_kretprobe_fallback ::
    "iosnoop_event bpf_env \<Rightarrow> s64 \<Rightarrow> iosnoop_state \<Rightarrow> iosnoop_state" where [probe_defs]:
  "iosnoop_trace_vfs_symlink_kretprobe_fallback e ret s =
     iosnoop_kretprobe_fallback IO_SYMLINK e ret s"

definition iosnoop_trace_vfs_rename_kprobe_fallback ::
    "kernel_mem \<Rightarrow> iosnoop_event bpf_env \<Rightarrow> ptr \<Rightarrow> iosnoop_state \<Rightarrow> iosnoop_state option" where [probe_defs]:
  "iosnoop_trace_vfs_rename_kprobe_fallback km e rd s =
     iosnoop_trace_vfs_rename_enter km e rd s"

definition iosnoop_trace_vfs_rename_kretprobe_fallback ::
    "iosnoop_event bpf_env \<Rightarrow> s64 \<Rightarrow> iosnoop_state \<Rightarrow> iosnoop_state" where [probe_defs]:
  "iosnoop_trace_vfs_rename_kretprobe_fallback e ret s =
     iosnoop_kretprobe_fallback IO_RENAME e ret s"

definition iosnoop_trace_vfs_rename_legacy_kretprobe_fallback ::
    "iosnoop_event bpf_env \<Rightarrow> s64 \<Rightarrow> iosnoop_state \<Rightarrow> iosnoop_state" where [probe_defs]:
  "iosnoop_trace_vfs_rename_legacy_kretprobe_fallback e ret s =
     iosnoop_kretprobe_fallback IO_RENAME e ret s"

definition iosnoop_trace_vfs_getattr_kprobe_fallback ::
    "kernel_mem \<Rightarrow> iosnoop_event bpf_env \<Rightarrow> (path option) \<Rightarrow> u32 \<Rightarrow> u32 \<Rightarrow> iosnoop_state \<Rightarrow> iosnoop_state option" where [probe_defs]:
  "iosnoop_trace_vfs_getattr_kprobe_fallback km e path request_mask query_flags s =
     iosnoop_trace_vfs_getattr_enter km e path request_mask query_flags s"

definition iosnoop_trace_vfs_getattr_kretprobe_fallback ::
    "iosnoop_event bpf_env \<Rightarrow> s64 \<Rightarrow> iosnoop_state \<Rightarrow> iosnoop_state" where [probe_defs]:
  "iosnoop_trace_vfs_getattr_kretprobe_fallback e ret s =
     iosnoop_kretprobe_fallback IO_STAT e ret s"

definition iosnoop_trace_vfs_truncate_kprobe_fallback ::
    "kernel_mem \<Rightarrow> iosnoop_event bpf_env \<Rightarrow> (path option) \<Rightarrow> s64 \<Rightarrow> iosnoop_state \<Rightarrow> iosnoop_state option" where [probe_defs]:
  "iosnoop_trace_vfs_truncate_kprobe_fallback km e path len s =
     iosnoop_trace_vfs_truncate_enter km e path len s"

definition iosnoop_trace_vfs_truncate_kretprobe_fallback ::
    "iosnoop_event bpf_env \<Rightarrow> s64 \<Rightarrow> iosnoop_state \<Rightarrow> iosnoop_state" where [probe_defs]:
  "iosnoop_trace_vfs_truncate_kretprobe_fallback e ret s =
     iosnoop_kretprobe_fallback IO_TRUNCATE e ret s"

definition iosnoop_trace_vfs_fchmod_kprobe_fallback ::
    "kernel_mem \<Rightarrow> iosnoop_event bpf_env \<Rightarrow> ptr \<Rightarrow> u16 \<Rightarrow> iosnoop_state \<Rightarrow> iosnoop_state option" where [probe_defs]:
  "iosnoop_trace_vfs_fchmod_kprobe_fallback km e file mode s =
     iosnoop_trace_vfs_fchmod_enter km e file mode s"

definition iosnoop_trace_vfs_fchmod_kretprobe_fallback ::
    "iosnoop_event bpf_env \<Rightarrow> s64 \<Rightarrow> iosnoop_state \<Rightarrow> iosnoop_state" where [probe_defs]:
  "iosnoop_trace_vfs_fchmod_kretprobe_fallback e ret s =
     iosnoop_kretprobe_fallback IO_FCHMOD e ret s"

definition iosnoop_trace_vfs_readlink_kprobe_fallback ::
    "kernel_mem \<Rightarrow> iosnoop_event bpf_env \<Rightarrow> ptr \<Rightarrow> s32 \<Rightarrow> iosnoop_state \<Rightarrow> iosnoop_state option" where [probe_defs]:
  "iosnoop_trace_vfs_readlink_kprobe_fallback km e dentry buflen s =
     iosnoop_trace_vfs_readlink_enter km e dentry buflen s"

definition iosnoop_trace_vfs_readlink_kretprobe_fallback ::
    "iosnoop_event bpf_env \<Rightarrow> s64 \<Rightarrow> iosnoop_state \<Rightarrow> iosnoop_state" where [probe_defs]:
  "iosnoop_trace_vfs_readlink_kretprobe_fallback e ret s =
     iosnoop_kretprobe_fallback IO_READLINK e ret s"

definition iosnoop_trace_vfs_readv_kprobe_fallback ::
    "kernel_mem \<Rightarrow> iosnoop_event bpf_env \<Rightarrow> ptr \<Rightarrow> u64 \<Rightarrow> u32 \<Rightarrow> iosnoop_state \<Rightarrow> iosnoop_state option" where [probe_defs]:
  "iosnoop_trace_vfs_readv_kprobe_fallback km e file vlen flags s =
     iosnoop_trace_vfs_readv_enter km e file vlen flags s"

definition iosnoop_trace_vfs_readv_kretprobe_fallback ::
    "iosnoop_event bpf_env \<Rightarrow> s64 \<Rightarrow> iosnoop_state \<Rightarrow> iosnoop_state" where [probe_defs]:
  "iosnoop_trace_vfs_readv_kretprobe_fallback e ret s =
     iosnoop_kretprobe_fallback IO_READV e ret s"

definition iosnoop_trace_vfs_writev_kprobe_fallback ::
    "kernel_mem \<Rightarrow> iosnoop_event bpf_env \<Rightarrow> ptr \<Rightarrow> u64 \<Rightarrow> u32 \<Rightarrow> iosnoop_state \<Rightarrow> iosnoop_state option" where [probe_defs]:
  "iosnoop_trace_vfs_writev_kprobe_fallback km e file vlen flags s =
     iosnoop_trace_vfs_writev_enter km e file vlen flags s"

definition iosnoop_trace_vfs_writev_kretprobe_fallback ::
    "iosnoop_event bpf_env \<Rightarrow> s64 \<Rightarrow> iosnoop_state \<Rightarrow> iosnoop_state" where [probe_defs]:
  "iosnoop_trace_vfs_writev_kretprobe_fallback e ret s =
     iosnoop_kretprobe_fallback IO_WRITEV e ret s"

definition iosnoop_trace_iterate_dir_kprobe_fallback ::
    "kernel_mem \<Rightarrow> iosnoop_event bpf_env \<Rightarrow> ptr \<Rightarrow> iosnoop_state \<Rightarrow> iosnoop_state option" where [probe_defs]:
  "iosnoop_trace_iterate_dir_kprobe_fallback km e file s =
     iosnoop_trace_iterate_dir_enter km e file s"

definition iosnoop_trace_iterate_dir_kretprobe_fallback ::
    "iosnoop_event bpf_env \<Rightarrow> s64 \<Rightarrow> iosnoop_state \<Rightarrow> iosnoop_state" where [probe_defs]:
  "iosnoop_trace_iterate_dir_kretprobe_fallback e ret s =
     iosnoop_kretprobe_fallback IO_GETDENTS e ret s"

definition iosnoop_trace_vfs_lock_file_kprobe_fallback ::
    "kernel_mem \<Rightarrow> iosnoop_event bpf_env \<Rightarrow> ptr \<Rightarrow> u32 \<Rightarrow> iosnoop_state \<Rightarrow> iosnoop_state option" where [probe_defs]:
  "iosnoop_trace_vfs_lock_file_kprobe_fallback km e filp cmd s =
     iosnoop_trace_vfs_lock_file_enter km e filp cmd s"

definition iosnoop_trace_vfs_lock_file_kretprobe_fallback ::
    "iosnoop_event bpf_env \<Rightarrow> s64 \<Rightarrow> iosnoop_state \<Rightarrow> iosnoop_state" where [probe_defs]:
  "iosnoop_trace_vfs_lock_file_kretprobe_fallback e ret s =
     iosnoop_kretprobe_fallback IO_LOCK_FCNTL e ret s"

section \<open>Dispatch\<close>

fun iosnoop_entry ::
    "hook \<Rightarrow> kernel_mem \<Rightarrow> iosnoop_event bpf_env \<Rightarrow> vfs_entry \<Rightarrow> iosnoop_state \<Rightarrow> iosnoop_state option"
where
  "iosnoop_entry h km e (E_open p f) s =
     (case h of Fentry \<Rightarrow> iosnoop_trace_vfs_open_enter km e p f s
      | Kprobe \<Rightarrow> iosnoop_trace_vfs_open_kprobe_fallback km e p f s)"
| "iosnoop_entry h km e (E_read f c w) s =
     (case h of Fentry \<Rightarrow> iosnoop_trace_vfs_read_enter km e f c w s
      | Kprobe \<Rightarrow> iosnoop_trace_vfs_read_kprobe_fallback km e f c w s)"
| "iosnoop_entry h km e (E_write f c w) s =
     (case h of Fentry \<Rightarrow> iosnoop_trace_vfs_write_enter km e f c w s
      | Kprobe \<Rightarrow> iosnoop_trace_vfs_write_kprobe_fallback km e f c w s)"
| "iosnoop_entry h km e (E_create d n m x) s =
     (case h of Fentry \<Rightarrow> iosnoop_trace_vfs_create_enter km e d n m x s
      | Kprobe \<Rightarrow> iosnoop_trace_vfs_create_kprobe_fallback km e d n m x s)"
| "iosnoop_entry h km e (E_mkdir d n m) s =
     (case h of Fentry \<Rightarrow> iosnoop_trace_vfs_mkdir_enter km e d n m s
      | Kprobe \<Rightarrow> iosnoop_trace_vfs_mkdir_kprobe_fallback km e d n m s)"
| "iosnoop_entry h km e (E_rmdir d n) s =
     (case h of Fentry \<Rightarrow> iosnoop_trace_vfs_rmdir_enter km e d n s
      | Kprobe \<Rightarrow> iosnoop_trace_vfs_rmdir_kprobe_fallback km e d n s)"
| "iosnoop_entry h km e (E_symlink d n w) s =
     (case h of Fentry \<Rightarrow> iosnoop_trace_vfs_symlink_enter km e d n w s
      | Kprobe \<Rightarrow> iosnoop_trace_vfs_symlink_kprobe_fallback km e d n w s)"
| "iosnoop_entry h km e (E_rename r) s =
     (case h of Fentry \<Rightarrow> iosnoop_trace_vfs_rename_enter km e r s
      | Kprobe \<Rightarrow> iosnoop_trace_vfs_rename_kprobe_fallback km e r s)"
| "iosnoop_entry h km e (E_getattr p m q) s =
     (case h of Fentry \<Rightarrow> iosnoop_trace_vfs_getattr_enter km e p m q s
      | Kprobe \<Rightarrow> iosnoop_trace_vfs_getattr_kprobe_fallback km e p m q s)"
| "iosnoop_entry h km e (E_truncate p l) s =
     (case h of Fentry \<Rightarrow> iosnoop_trace_vfs_truncate_enter km e p l s
      | Kprobe \<Rightarrow> iosnoop_trace_vfs_truncate_kprobe_fallback km e p l s)"
| "iosnoop_entry h km e (E_fchmod f m) s =
     (case h of Fentry \<Rightarrow> iosnoop_trace_vfs_fchmod_enter km e f m s
      | Kprobe \<Rightarrow> iosnoop_trace_vfs_fchmod_kprobe_fallback km e f m s)"
| "iosnoop_entry h km e (E_readlink n l) s =
     (case h of Fentry \<Rightarrow> iosnoop_trace_vfs_readlink_enter km e n l s
      | Kprobe \<Rightarrow> iosnoop_trace_vfs_readlink_kprobe_fallback km e n l s)"
| "iosnoop_entry h km e (E_readv f v g) s =
     (case h of Fentry \<Rightarrow> iosnoop_trace_vfs_readv_enter km e f v g s
      | Kprobe \<Rightarrow> iosnoop_trace_vfs_readv_kprobe_fallback km e f v g s)"
| "iosnoop_entry h km e (E_writev f v g) s =
     (case h of Fentry \<Rightarrow> iosnoop_trace_vfs_writev_enter km e f v g s
      | Kprobe \<Rightarrow> iosnoop_trace_vfs_writev_kprobe_fallback km e f v g s)"
| "iosnoop_entry h km e (E_iterate_dir f) s =
     (case h of Fentry \<Rightarrow> iosnoop_trace_iterate_dir_enter km e f s
      | Kprobe \<Rightarrow> iosnoop_trace_iterate_dir_kprobe_fallback km e f s)"
| "iosnoop_entry h km e (E_lock_file f c) s =
     (case h of Fentry \<Rightarrow> iosnoop_trace_vfs_lock_file_enter km e f c s
      | Kprobe \<Rightarrow> iosnoop_trace_vfs_lock_file_kprobe_fallback km e f c s)"
| "iosnoop_entry h km e (E_create_legacy d n m) s =
     (case h of Fentry \<Rightarrow> Some s | Kprobe \<Rightarrow> iosnoop_trace_vfs_create_legacy_fallback km e d n m s)"
| "iosnoop_entry h km e (E_rename_legacy d n) s =
     (case h of Fentry \<Rightarrow> Some s | Kprobe \<Rightarrow> iosnoop_trace_vfs_rename_legacy_kprobe_fallback km e d n s)"
| "iosnoop_entry h km e (E_unlink d n) s = iosnoop_trace_vfs_unlink_kp km e d n s"
| "iosnoop_entry h km e (E_link w d n) s = iosnoop_trace_vfs_link_kp km e w d n s"
| "iosnoop_entry h km e (E_fallocate f w l) s = iosnoop_trace_vfs_fallocate_kp km e f w l s"
| "iosnoop_entry h km e (E_mmap f l p) s = iosnoop_trace_do_mmap_kp km e f l p s"
| "iosnoop_entry h km e (E_munmap a l) s = iosnoop_trace_vm_munmap_kp e a l s"

fun iosnoop_exit ::
    "hook \<Rightarrow> iosnoop_event bpf_env \<Rightarrow> vfs_exit \<Rightarrow> iosnoop_state \<Rightarrow> iosnoop_state"
where
  "iosnoop_exit h e (X_open r) s =
     (case h of Fentry \<Rightarrow> iosnoop_trace_vfs_open_exit e r s
      | Kprobe \<Rightarrow> iosnoop_trace_vfs_open_kretprobe_fallback e (scast r) s)"
| "iosnoop_exit h e (X_read r) s =
     (case h of Fentry \<Rightarrow> iosnoop_trace_vfs_read_exit e r s
      | Kprobe \<Rightarrow> iosnoop_trace_vfs_read_kretprobe_fallback e r s)"
| "iosnoop_exit h e (X_write r) s =
     (case h of Fentry \<Rightarrow> iosnoop_trace_vfs_write_exit e r s
      | Kprobe \<Rightarrow> iosnoop_trace_vfs_write_kretprobe_fallback e r s)"
| "iosnoop_exit h e (X_create r) s =
     (case h of Fentry \<Rightarrow> iosnoop_trace_vfs_create_exit e r s
      | Kprobe \<Rightarrow> iosnoop_trace_vfs_create_kretprobe_fallback e (scast r) s)"
| "iosnoop_exit h e (X_mkdir r) s =
     (case h of Fentry \<Rightarrow> iosnoop_trace_vfs_mkdir_exit e r s
      | Kprobe \<Rightarrow> iosnoop_trace_vfs_mkdir_kretprobe_fallback e (scast r) s)"
| "iosnoop_exit h e (X_rmdir r) s =
     (case h of Fentry \<Rightarrow> iosnoop_trace_vfs_rmdir_exit e r s
      | Kprobe \<Rightarrow> iosnoop_trace_vfs_rmdir_kretprobe_fallback e (scast r) s)"
| "iosnoop_exit h e (X_symlink r) s =
     (case h of Fentry \<Rightarrow> iosnoop_trace_vfs_symlink_exit e r s
      | Kprobe \<Rightarrow> iosnoop_trace_vfs_symlink_kretprobe_fallback e (scast r) s)"
| "iosnoop_exit h e (X_getattr r) s =
     (case h of Fentry \<Rightarrow> iosnoop_trace_vfs_getattr_exit e r s
      | Kprobe \<Rightarrow> iosnoop_trace_vfs_getattr_kretprobe_fallback e (scast r) s)"
| "iosnoop_exit h e (X_truncate r) s =
     (case h of Fentry \<Rightarrow> iosnoop_trace_vfs_truncate_exit e r s
      | Kprobe \<Rightarrow> iosnoop_trace_vfs_truncate_kretprobe_fallback e (scast r) s)"
| "iosnoop_exit h e (X_fchmod r) s =
     (case h of Fentry \<Rightarrow> iosnoop_trace_vfs_fchmod_exit e r s
      | Kprobe \<Rightarrow> iosnoop_trace_vfs_fchmod_kretprobe_fallback e (scast r) s)"
| "iosnoop_exit h e (X_readlink r) s =
     (case h of Fentry \<Rightarrow> iosnoop_trace_vfs_readlink_exit e r s
      | Kprobe \<Rightarrow> iosnoop_trace_vfs_readlink_kretprobe_fallback e (scast r) s)"
| "iosnoop_exit h e (X_readv r) s =
     (case h of Fentry \<Rightarrow> iosnoop_trace_vfs_readv_exit e r s
      | Kprobe \<Rightarrow> iosnoop_trace_vfs_readv_kretprobe_fallback e r s)"
| "iosnoop_exit h e (X_writev r) s =
     (case h of Fentry \<Rightarrow> iosnoop_trace_vfs_writev_exit e r s
      | Kprobe \<Rightarrow> iosnoop_trace_vfs_writev_kretprobe_fallback e r s)"
| "iosnoop_exit h e (X_iterate_dir r) s =
     (case h of Fentry \<Rightarrow> iosnoop_trace_iterate_dir_exit e r s
      | Kprobe \<Rightarrow> iosnoop_trace_iterate_dir_kretprobe_fallback e (scast r) s)"
| "iosnoop_exit h e (X_lock_file r) s =
     (case h of Fentry \<Rightarrow> iosnoop_trace_vfs_lock_file_exit e r s
      | Kprobe \<Rightarrow> iosnoop_trace_vfs_lock_file_kretprobe_fallback e (scast r) s)"
| "iosnoop_exit h e (X_rename r) s =
     (case h of Fentry \<Rightarrow> iosnoop_trace_vfs_rename_exit e r s
      | Kprobe \<Rightarrow> iosnoop_trace_vfs_rename_legacy_kretprobe_fallback e (scast r)
                    (iosnoop_trace_vfs_rename_kretprobe_fallback e (scast r) s))"
| "iosnoop_exit h e (X_unlink r) s = iosnoop_trace_vfs_unlink_krp e r s"
| "iosnoop_exit h e (X_link r) s = iosnoop_trace_vfs_link_krp e r s"
| "iosnoop_exit h e (X_fallocate r) s = iosnoop_trace_vfs_fallocate_krp e r s"
| "iosnoop_exit h e (X_mmap r) s = iosnoop_trace_do_mmap_krp e r s"
| "iosnoop_exit h e (X_munmap r) s = iosnoop_trace_vm_munmap_krp e r s"

section \<open>Specification\<close>

text \<open>The text that a name of at most \<open>n\<close> characters read through a dentry has.\<close>

definition dentry_text :: "kernel_mem \<Rightarrow> ptr \<Rightarrow> nat \<Rightarrow> string" where
  "dentry_text km d n =
     (if d = 0 \<or> dentry_d_name km d = 0 then []
      else case kernel_str km (dentry_d_name km d) of
             None \<Rightarrow> []
           | Some t \<Rightarrow> take n (c_str t))"

definition path_text :: "kernel_mem \<Rightarrow> path option \<Rightarrow> string" where
  "path_text km p = (case p of None \<Rightarrow> [] | Some q \<Rightarrow> dentry_text km (path_dentry q) 95)"

definition file_text :: "kernel_mem \<Rightarrow> ptr \<Rightarrow> string" where
  "file_text km f = (if f = 0 then [] else dentry_text km (file_f_path_dentry km f) 95)"

text \<open>The name and the argument text that an entry is to record.\<close>

fun snoop_name :: "kernel_mem \<Rightarrow> vfs_entry \<Rightarrow> string" where
  "snoop_name km (E_open p f) = path_text km p"
| "snoop_name km (E_read f c w) = file_text km f"
| "snoop_name km (E_write f c w) = file_text km f"
| "snoop_name km (E_create d n m x) = dentry_text km n 95"
| "snoop_name km (E_create_legacy d n m) = dentry_text km n 95"
| "snoop_name km (E_mkdir d n m) = dentry_text km n 95"
| "snoop_name km (E_rmdir d n) = dentry_text km n 95"
| "snoop_name km (E_symlink d n w) = dentry_text km n 95"
| "snoop_name km (E_rename r) = dentry_text km (renamedata_new_dentry km r) 95"
| "snoop_name km (E_rename_legacy d n) = dentry_text km n 95"
| "snoop_name km (E_getattr p m q) = path_text km p"
| "snoop_name km (E_truncate p l) = path_text km p"
| "snoop_name km (E_fchmod f m) = file_text km f"
| "snoop_name km (E_readlink n l) = dentry_text km n 95"
| "snoop_name km (E_readv f v g) = file_text km f"
| "snoop_name km (E_writev f v g) = file_text km f"
| "snoop_name km (E_unlink d n) = dentry_text km n 95"
| "snoop_name km (E_link w d n) = dentry_text km n 95"
| "snoop_name km (E_fallocate f w l) = file_text km f"
| "snoop_name km (E_iterate_dir f) = file_text km f"
| "snoop_name km (E_mmap f l p) = file_text km f"
| "snoop_name km (E_munmap a l) = []"
| "snoop_name km (E_lock_file f c) = file_text km f"

definition pos_value :: "kernel_mem \<Rightarrow> ptr \<Rightarrow> int" where
  "pos_value km w = (if w = 0 then - 1 else sint (kernel_s64 km w))"

fun snoop_args :: "kernel_mem \<Rightarrow> vfs_entry \<Rightarrow> string" where
  "snoop_args km (E_open p f) =
     ''flags='' @ dec (if f = 0 then 0 else unat (file_f_flags km f))"
| "snoop_args km (E_read f c w) = ''count='' @ dec (unat c) @ '' pos='' @ sdec (pos_value km w)"
| "snoop_args km (E_write f c w) = ''count='' @ dec (unat c) @ '' pos='' @ sdec (pos_value km w)"
| "snoop_args km (E_create d n m x) = ''mode='' @ dec (unat m) @ '' excl='' @ (if x then ''1'' else ''0'')"
| "snoop_args km (E_create_legacy d n m) = ''mode='' @ dec (unat m) @ '' excl=0''"
| "snoop_args km (E_mkdir d n m) = ''mode='' @ dec (unat m)"
| "snoop_args km (E_rmdir d n) = []"
| "snoop_args km (E_symlink d n w) =
     ''target='' @ (case (w = 0, kernel_str km w) of (False, Some t) \<Rightarrow> take 40 (c_str t) | _ \<Rightarrow> [])"
| "snoop_args km (E_rename r) = []"
| "snoop_args km (E_rename_legacy d n) = []"
| "snoop_args km (E_getattr p m q) = ''mask='' @ dec (unat m) @ '' qflags='' @ dec (unat q)"
| "snoop_args km (E_truncate p l) = ''length='' @ sdec (sint l)"
| "snoop_args km (E_fchmod f m) = ''mode='' @ dec (unat m)"
| "snoop_args km (E_readlink n l) = ''buflen='' @ dec (unat (scast l :: u64))"
| "snoop_args km (E_readv f v g) = ''vlen='' @ dec (unat v) @ '' flags='' @ dec (unat g)"
| "snoop_args km (E_writev f v g) = ''vlen='' @ dec (unat v) @ '' flags='' @ dec (unat g)"
| "snoop_args km (E_unlink d n) = []"
| "snoop_args km (E_link w d n) = ''old='' @ dentry_text km w 40"
| "snoop_args km (E_fallocate f w l) = ''offset='' @ sdec (sint w) @ '' len='' @ sdec (sint l)"
| "snoop_args km (E_iterate_dir f) = []"
| "snoop_args km (E_mmap f l p) = ''len='' @ dec (unat l) @ '' prot='' @ dec (unat p)"
| "snoop_args km (E_munmap a l) = ''len='' @ dec (unat l)"
| "snoop_args km (E_lock_file f c) = ''cmd='' @ dec (unat c)"

text \<open>The table key of an operation, and what an entry may record and an exit does.\<close>

definition snoop_key :: "u64 \<Rightarrow> u8 \<Rightarrow> op_key" where
  "snoop_key tid ty = \<lparr>ok_id = tid, ok_type = ucast ty, ok_pad = 0\<rparr>"

definition snoop_prepared :: "kernel_mem \<Rightarrow> vfs_entry \<Rightarrow> op_ctx \<Rightarrow> bool" where
  "snoop_prepared km x op \<longleftrightarrow>
     oc_type op = entry_type x \<and> length (oc_fname op) = 96 \<and>
     c_str (oc_fname op) = snoop_name km x \<and> oc_args op = text_buf 128 (snoop_args km x)"

definition snoop_entry_effect ::
    "kernel_mem \<Rightarrow> iosnoop_event bpf_env \<Rightarrow> vfs_entry \<Rightarrow> iosnoop_state \<Rightarrow> iosnoop_state \<Rightarrow> bool" where
  "snoop_entry_effect km e x s s' \<longleftrightarrow>
     snoop_events s' = snoop_events s \<and> snoop_mount_filter_cfg s' = snoop_mount_filter_cfg s \<and>
     (op_state s' = op_state s \<or>
      (\<exists>op. snoop_prepared km x op \<and>
            iosnoop_pass_mount_filter (snoop_mount_filter_cfg s) (oc_dev op) \<and>
            op_state s' = (op_state s)(snoop_key (pid_tgid e) (entry_type x) \<mapsto> op)))"

definition snoop_exit_effect ::
    "iosnoop_event bpf_env \<Rightarrow> vfs_exit \<Rightarrow> iosnoop_state \<Rightarrow> iosnoop_state \<Rightarrow> bool" where
  "snoop_exit_effect e y s s' \<longleftrightarrow>
     snoop_events s' = snoop_events (iosnoop_finish_event e (pid_tgid e) (ucast (exit_type y)) (exit_ret y) s) \<and>
     op_state s' = (op_state s)(snoop_key (pid_tgid e) (exit_type y) := None) \<and>
     snoop_mount_filter_cfg s' = snoop_mount_filter_cfg s"

text \<open>The record that an exit emits for a pending operation.\<close>

definition snoop_record :: "iosnoop_event bpf_env \<Rightarrow> op_ctx \<Rightarrow> s32 \<Rightarrow> iosnoop_event" where
  "snoop_record e op r =
     (rb_mem e)\<lparr>ne_ts := ktime e 0, ne_pid := ucast (drop_bit 32 (pid_tgid e)),
        ne_uid := ucast (uid_gid e AND 0xffffffff), ne_gid := ucast (drop_bit 32 (uid_gid e)),
        ne_type := oc_type op, ne_ret := r, ne_comm := comm e,
        ne_fname := memcpy (zero_buf 256) (oc_fname op) 96,
        ne_args := memcpy (zero_buf 256) (oc_args op) 128\<rparr>"

text \<open>Invariant of the reachable states.\<close>

definition snoop_event_ok :: "iosnoop_event \<Rightarrow> bool" where
  "snoop_event_ok ev \<longleftrightarrow>
     ne_type ev \<in> range entry_type \<and>
     length (ne_fname ev) = 256 \<and> drop 96 (ne_fname ev) = zero_buf 160 \<and>
     length (ne_args ev) = 256 \<and> drop 128 (ne_args ev) = zero_buf 128"

definition snoop_inv :: "(u32 \<Rightarrow> mount_filter_cfg option) \<Rightarrow> iosnoop_state \<Rightarrow> bool" where
  "snoop_inv cfgs s \<longleftrightarrow>
     snoop_mount_filter_cfg s = cfgs \<and>
     (\<forall>k op. op_state s k = Some op \<longrightarrow>
        k = snoop_key (ok_id k) (oc_type op) \<and> oc_type op \<in> range entry_type \<and>
        length (oc_fname op) = 96 \<and> length (oc_args op) = 128 \<and>
        iosnoop_pass_mount_filter cfgs (oc_dev op)) \<and>
     (\<forall>ev \<in> set (snoop_events s). snoop_event_ok ev)"

text \<open>Calls as inputs of \<open>probe_table\<close>; an entry that misses its buffer is a \<open>None\<close>.\<close>

type_synonym snoop_in = "hook \<times> kernel_mem \<times> iosnoop_event bpf_env \<times> vfs_entry"
type_synonym snoop_out = "hook \<times> iosnoop_event bpf_env \<times> vfs_exit"

definition iosnoop_enter :: "snoop_in \<Rightarrow> iosnoop_state \<Rightarrow> iosnoop_state" where
  "iosnoop_enter i s = (case i of (h, km, e, x) \<Rightarrow> the (iosnoop_entry h km e x s))"

definition iosnoop_leave :: "snoop_out \<Rightarrow> iosnoop_state \<Rightarrow> iosnoop_state" where
  "iosnoop_leave r s = (case r of (h, e, y) \<Rightarrow> iosnoop_exit h e y s)"

definition snoop_key_in :: "snoop_in \<Rightarrow> op_key" where
  "snoop_key_in i = (case i of (h, km, e, x) \<Rightarrow> snoop_key (pid_tgid e) (entry_type x))"

definition snoop_key_out :: "snoop_out \<Rightarrow> op_key" where
  "snoop_key_out r = (case r of (h, e, y) \<Rightarrow> snoop_key (pid_tgid e) (exit_type y))"

definition iosnoop_init :: iosnoop_state where
  "iosnoop_init =
     \<lparr>snoop_events = [],
      snoop_mount_filter_cfg = [0 \<mapsto> \<lparr>cfg_enabled = 0, cfg_dev_major = 0, cfg_dev_minor = 0\<rparr>],
      op_state = Map.empty, snoop_vma_dev_map = Map.empty\<rparr>"

text \<open>
  One step: any thread enters or leaves any hooked function. There is no step for an entry
  that misses its buffer; that none does is \<open>iosnoop_entry_effect\<close>.
\<close>

inductive iosnoop_step :: "iosnoop_state \<Rightarrow> iosnoop_state \<Rightarrow> bool" where
  entry: "iosnoop_entry h km e x s = Some t \<Longrightarrow> iosnoop_step s t"
| exit: "iosnoop_step s (iosnoop_exit h e y s)"

inductive_cases iosnoop_stepE: "iosnoop_step s t"

definition snoop_example_env :: "u64 \<Rightarrow> u64 \<Rightarrow> iosnoop_event bpf_env" where
  "snoop_example_env t tid =
     \<lparr>ktime = (\<lambda>i. t + of_nat i), pid_tgid = tid, uid_gid = 0x3e800000064, comm = zero_buf 16,
      update_rc = 0, rb_reserve = (\<lambda>flags. flags = 0), rb_avail = (\<lambda>_. 0),
      rb_mem = \<lparr>ne_ts = 0, ne_pid = 0, ne_uid = 0, ne_gid = 0, ne_type = 0, ne_pad1 = 0,
                 ne_pad2 = 0, ne_ret = 0, ne_pad3 = 0, ne_comm = zero_buf 16,
                 ne_fname = zero_buf 256, ne_args = zero_buf 256\<rparr>,
      stack_mem = (\<lambda>_. CHR ''#'')\<rparr>"

section \<open>Effects of the programs\<close>

lemma length_iosnoop_read_dentry_name [simp, buf_simps]:
  "0 < sz \<Longrightarrow> nat sz \<le> length dst \<Longrightarrow> length (iosnoop_read_dentry_name km d dst sz) = length dst"
  by (simp add: iosnoop_read_dentry_name_def Let_def case_prod_beta)

lemma length_iosnoop_read_path_name [simp, buf_simps]:
  "0 < sz \<Longrightarrow> nat sz \<le> length dst \<Longrightarrow> length (iosnoop_read_path_name km p dst sz) = length dst"
  by (simp add: iosnoop_read_path_name_def split: option.splits)

lemma length_iosnoop_read_file_name [simp, buf_simps]:
  "0 < sz \<Longrightarrow> nat sz \<le> length dst \<Longrightarrow> length (iosnoop_read_file_name km f dst sz) = length dst"
  by (simp add: iosnoop_read_file_name_def)

lemma c_str_read_dentry_name [simp]:
  assumes "0 < sz" and "nat sz \<le> length dst"
  shows "c_str (iosnoop_read_dentry_name km d dst sz) = dentry_text km d (nat sz - 1)"
  using assms c_str_probe_read_Some [of "nat sz" dst] probe_read_str_rc [of _ dst "nat sz"]
  by (auto simp: iosnoop_read_dentry_name_def dentry_text_def Let_def case_prod_beta
      split: option.splits)

lemma c_str_read_path_name [simp]:
  "length dst = 96 \<Longrightarrow> c_str (iosnoop_read_path_name km p dst 96) = path_text km p"
  by (simp add: iosnoop_read_path_name_def path_text_def split: option.splits)

lemma c_str_read_file_name [simp]:
  "length dst = 96 \<Longrightarrow> c_str (iosnoop_read_file_name km f dst 96) = file_text km f"
  by (simp add: iosnoop_read_file_name_def file_text_def)

lemma iosnoop_submit_or_drop_frame [simp]:
  "snoop_events (iosnoop_submit_or_drop e tid op s) = snoop_events s"
  "snoop_vma_dev_map (iosnoop_submit_or_drop e tid op s) = snoop_vma_dev_map s"
  "snoop_mount_filter_cfg (iosnoop_submit_or_drop e tid op s) = snoop_mount_filter_cfg s"
  by (simp_all add: iosnoop_submit_or_drop_def Let_def)

lemma iosnoop_submit_or_drop_pending:
  "op_state (iosnoop_submit_or_drop e tid op s) =
     (if iosnoop_pass_mount_filter (snoop_mount_filter_cfg s) (oc_dev op) \<and> 0 \<le> update_rc e
      then (op_state s)(snoop_key tid (oc_type op) \<mapsto> op) else op_state s)"
  by (simp add: iosnoop_submit_or_drop_def snoop_key_def Let_def)

lemma iosnoop_emit_event_frame [simp]:
  "op_state (iosnoop_emit_event e op r s) = op_state s"
  "snoop_vma_dev_map (iosnoop_emit_event e op r s) = snoop_vma_dev_map s"
  "snoop_mount_filter_cfg (iosnoop_emit_event e op r s) = snoop_mount_filter_cfg s"
  by (simp_all add: iosnoop_emit_event_def Let_def)

lemma iosnoop_finish_event_frame [simp]:
  "op_state (iosnoop_finish_event e tid tyw r s) =
     (op_state s)(\<lparr>ok_id = tid, ok_type = tyw, ok_pad = 0\<rparr> := None)"
  "snoop_vma_dev_map (iosnoop_finish_event e tid tyw r s) = snoop_vma_dev_map s"
  "snoop_mount_filter_cfg (iosnoop_finish_event e tid tyw r s) = snoop_mount_filter_cfg s"
  by (auto simp: iosnoop_finish_event_def Let_def fun_eq_iff split: option.splits)

lemma snoop_effect_start:
  "snoop_prepared km x op \<Longrightarrow>
   snoop_entry_effect km e x s (iosnoop_submit_or_drop e (pid_tgid e) op (s\<lparr>snoop_vma_dev_map := m\<rparr>))"
  by (auto simp: snoop_entry_effect_def iosnoop_submit_or_drop_pending snoop_prepared_def)

lemma snoop_effect_start':
  "snoop_prepared km x op \<Longrightarrow> snoop_entry_effect km e x s (iosnoop_submit_or_drop e (pid_tgid e) op s)"
  using snoop_effect_start [of km x op e s "snoop_vma_dev_map s"] by simp

lemma snoop_entry_effect_refl [simp]: "snoop_entry_effect km e x s s"
  by (simp add: snoop_entry_effect_def)

lemma label_short: "NUL \<notin> set l \<Longrightarrow> length l \<le> 40 \<Longrightarrow> label l = l"
  by (subst c_str_def, subst takeWhile_eq_all_conv [THEN iffD2]) auto

lemma label_probe_read:
  "length dst = 64 \<Longrightarrow> label (snd (probe_read_str src dst 64)) =
     (case src of None \<Rightarrow> [] | Some t \<Rightarrow> take 40 (c_str t))"
  using c_str_probe_read_Some [of 64 dst] c_str_probe_read_None [of 64 dst]
  by (auto split: option.splits)

lemma take_dentry_text: "take n (dentry_text km d m) = dentry_text km d (min n m)"
  by (simp add: dentry_text_def split: option.splits)

lemma iosnoop_entry_effect:
  "\<exists>t. iosnoop_entry h km e x s = Some t \<and> snoop_entry_effect km e x s t"
  by (cases x; cases h)
     (simp_all add: probe_defs Let_def op_ctx_zero_def args_chains snoop_effect_start
        snoop_effect_start' snoop_prepared_def label_short pos_value_def text_buf_Nil
        unat_ucast_up dec_01 label_probe_read take_dentry_text split: option.splits)

lemma iosnoop_entry_effectE:
  assumes "iosnoop_entry h km e x s = Some t"
  shows "snoop_entry_effect km e x s t"
  using iosnoop_entry_effect [of h km e x s] assms by auto

lemma iosnoop_enter_effect: "snoop_entry_effect km e x s (iosnoop_enter (h, km, e, x) s)"
  using iosnoop_entry_effect [of h km e x s] by (auto simp: iosnoop_enter_def)

lemma iosnoop_finish_idle:
  "op_state s \<lparr>ok_id = tid, ok_type = tyw, ok_pad = 0\<rparr> = None \<Longrightarrow>
   iosnoop_finish_event e tid tyw r s = s"
  by (simp add: iosnoop_finish_event_def)

lemma iosnoop_finish_events:
  "snoop_events (iosnoop_finish_event e tid (ucast ty) r s) =
     snoop_events s @
     (case op_state s (snoop_key tid ty) of
        None \<Rightarrow> []
      | Some op \<Rightarrow> if rb_reserve e 0 then [snoop_record e op r] else [])"
  by (simp add: iosnoop_finish_event_def iosnoop_emit_event_def snoop_key_def snoop_record_def Let_def
      split: option.splits)

lemma iosnoop_finish_events_cong:
  "op_state s = op_state s' \<Longrightarrow> snoop_events s = snoop_events s' \<Longrightarrow>
   snoop_events (iosnoop_finish_event e tid tyw r s) = snoop_events (iosnoop_finish_event e tid tyw r s')"
  by (simp add: iosnoop_finish_event_def iosnoop_emit_event_def Let_def split: option.splits)

lemma iosnoop_exit_effect: "snoop_exit_effect e y s (iosnoop_exit h e y s)"
proof (cases y)
  case (X_mmap r)
  have "snoop_events (iosnoop_finish_event e (pid_tgid e) 45 c (s\<lparr>snoop_vma_dev_map := m\<rparr>)) =
        snoop_events (iosnoop_finish_event e (pid_tgid e) 45 c s)" for c m
    by (rule iosnoop_finish_events_cong) simp_all
  with X_mmap show ?thesis
    by (simp add: probe_defs snoop_exit_effect_def snoop_key_def Let_def split: option.splits)
qed (cases h; simp add: probe_defs snoop_exit_effect_def snoop_key_def iosnoop_finish_idle)+

section \<open>The programs implement the probe table\<close>

interpretation snoop_probes: probe_table "op_state :: iosnoop_state \<Rightarrow> _"
    "snoop_events :: iosnoop_state \<Rightarrow> _" iosnoop_enter iosnoop_leave snoop_key_in snoop_key_out
proof
  fix i :: snoop_in and s :: iosnoop_state
  obtain h km e x where i: "i = (h, km, e, x)" by (cases i)
  show "snoop_events (iosnoop_enter i s) = snoop_events s"
    using iosnoop_enter_effect [of km e x s h] by (simp add: i snoop_entry_effect_def)
  show "op_state (iosnoop_enter i s) k = op_state s k" if "k \<noteq> snoop_key_in i" for k
    using iosnoop_enter_effect [of km e x s h] that
    by (auto simp: i snoop_key_in_def snoop_entry_effect_def)
next
  fix r :: snoop_out and s :: iosnoop_state
  obtain h e y where r: "r = (h, e, y)" by (cases r)
  note eff = iosnoop_exit_effect [of e y s h]
  show "op_state (iosnoop_leave r s) = (op_state s)(snoop_key_out r := None)"
    using eff by (simp add: r iosnoop_leave_def snoop_key_out_def snoop_exit_effect_def)
  show "snoop_events (iosnoop_leave r s) = snoop_events s" if "op_state s (snoop_key_out r) = None"
    using eff that by (simp add: r iosnoop_leave_def snoop_key_out_def snoop_exit_effect_def
        iosnoop_finish_events)
  show "\<exists>es. snoop_events (iosnoop_leave r s) = snoop_events s @ es \<and> length es \<le> 1"
    using eff by (simp add: r iosnoop_leave_def snoop_exit_effect_def iosnoop_finish_events
        split: option.splits)
qed

lemma snoop_run_config [simp]:
  "snoop_mount_filter_cfg (probe_run iosnoop_enter iosnoop_leave cs s) = snoop_mount_filter_cfg s"
  using iosnoop_enter_effect iosnoop_exit_effect
  by (auto intro!: probe_run_preserves
      simp: iosnoop_leave_def snoop_entry_effect_def snoop_exit_effect_def split: prod.splits)

lemma no_nul_args: "NUL \<notin> set (snoop_args km x)"
proof -
  have cut: "NUL \<notin> set (take n (c_str t))" for n t
    using c_str_no_nul by (meson in_set_takeD)
  show ?thesis
    by (cases x) (auto simp: dec_no_nul sdec_no_nul cut dentry_text_def split: option.splits bool.splits)
qed

lemma length_dentry_text: "length (dentry_text km d n) \<le> n"
  by (simp add: dentry_text_def split: option.splits)

lemma length_pos_value: "length (sdec (pos_value km w)) \<le> 21"
  using length_sdec_s64 [of "- 1"] length_sdec_s64 [of "kernel_s64 km w"] by (simp add: pos_value_def)

lemma length_snoop_args: "length (snoop_args km x) \<le> 120"
proof (cases x)
  case (E_open p f)
  then show ?thesis using length_dec_small(2) [of "file_f_flags km f"] by (simp add: dec_01)
next
  case (E_read f c w)
  then show ?thesis using length_dec_u64 [of c] length_pos_value [of km w] by simp
next
  case (E_write f c w)
  then show ?thesis using length_dec_u64 [of c] length_pos_value [of km w] by simp
next
  case (E_create d n m x)
  then show ?thesis using length_dec_small(1) [of m] by simp
next
  case (E_create_legacy d n m)
  then show ?thesis using length_dec_small(1) [of m] by simp
next
  case (E_mkdir d n m)
  then show ?thesis using length_dec_small(1) [of m] by simp
next
  case (E_getattr p m q)
  then show ?thesis using length_dec_small(2) [of m] length_dec_small(2) [of q] by simp
next
  case (E_truncate p l)
  then show ?thesis using length_sdec_s64 [of l] by simp
next
  case (E_fchmod f m)
  then show ?thesis using length_dec_small(1) [of m] by simp
next
  case (E_readlink n l)
  then show ?thesis using length_dec_u64 [of "scast l"] by simp
next
  case (E_readv f v g)
  then show ?thesis using length_dec_u64 [of v] length_dec_small(2) [of g] by simp
next
  case (E_writev f v g)
  then show ?thesis using length_dec_u64 [of v] length_dec_small(2) [of g] by simp
next
  case (E_link w d n)
  then show ?thesis using length_dentry_text [of km w 40] by simp
next
  case (E_fallocate f w l)
  then show ?thesis using length_sdec_s64 [of w] length_sdec_s64 [of l] by simp
next
  case (E_mmap f l p)
  then show ?thesis using length_dec_u64 [of l] length_dec_u64 [of p] by simp
next
  case (E_munmap a l)
  then show ?thesis using length_dec_u64 [of l] by simp
next
  case (E_lock_file f c)
  then show ?thesis using length_dec_small(2) [of c] by simp
qed (auto split: option.splits bool.splits)

lemma snoop_prepared_args:
  assumes "snoop_prepared km x op"
  shows "length (oc_args op) = 128" and "c_str (oc_args op) = snoop_args km x"
proof -
  have "length (snoop_args km x) \<le> 128" by (rule order_trans [OF length_snoop_args]) simp
  then show "length (oc_args op) = 128" and "c_str (oc_args op) = snoop_args km x"
    using assms by (simp_all add: snoop_prepared_def length_text_buf c_str_text_buf no_nul_args)
qed

lemma snoop_record_texts:
  assumes "snoop_prepared km x op"
  shows "c_str (ne_fname (snoop_record e op r)) = snoop_name km x"
    and "c_str (ne_args (snoop_record e op r)) = snoop_args km x"
  using assms snoop_prepared_args [OF assms]
  by (simp_all add: snoop_record_def c_str_memcpy_zero snoop_prepared_def)

section \<open>Invariant\<close>

lemma snoop_inv_entry:
  assumes "snoop_inv cfgs s" and "iosnoop_entry h km e x s = Some t"
  shows "snoop_inv cfgs t"
proof -
  have eff: "snoop_entry_effect km e x s t" using assms(2) by (rule iosnoop_entry_effectE)
  have "op_state t k = op_state s k \<or> (\<exists>op. op_state t k = Some op \<and> snoop_prepared km x op \<and>
          k = snoop_key (pid_tgid e) (entry_type x) \<and> iosnoop_pass_mount_filter cfgs (oc_dev op))" for k
    using eff assms(1) by (auto simp: snoop_entry_effect_def snoop_inv_def)
  then have "\<forall>k op. op_state t k = Some op \<longrightarrow>
        k = snoop_key (ok_id k) (oc_type op) \<and> oc_type op \<in> range entry_type \<and>
        length (oc_fname op) = 96 \<and> length (oc_args op) = 128 \<and>
        iosnoop_pass_mount_filter cfgs (oc_dev op)"
    using assms(1) snoop_prepared_args
    by (smt (verit) snoop_inv_def snoop_prepared_def snoop_key_def op_key.select_convs(1) option.inject rangeI)
  then show ?thesis
    using eff assms(1) by (simp add: snoop_inv_def snoop_entry_effect_def)
qed

lemma snoop_record_ok:
  assumes "oc_type op \<in> range entry_type" and "length (oc_fname op) = 96" and "length (oc_args op) = 128"
  shows "snoop_event_ok (snoop_record e op r)"
  using assms by (simp add: snoop_event_ok_def snoop_record_def memcpy_def zero_buf_def)

lemma snoop_inv_exit:
  assumes inv: "snoop_inv cfgs s"
  shows "snoop_inv cfgs (iosnoop_exit h e y s)"
proof -
  have "\<forall>ev \<in> set (snoop_events (iosnoop_exit h e y s)). snoop_event_ok ev"
    using inv iosnoop_exit_effect [of e y s h]
    by (auto simp: snoop_inv_def snoop_exit_effect_def iosnoop_finish_events snoop_record_ok
        split: option.splits if_splits)
  then show ?thesis
    using iosnoop_exit_effect [of e y s h] inv
    by (simp add: snoop_inv_def snoop_exit_effect_def)
qed

lemma snoop_inv_step: "iosnoop_step s t \<Longrightarrow> snoop_inv cfgs s \<Longrightarrow> snoop_inv cfgs t"
  by (auto elim!: iosnoop_stepE intro: snoop_inv_entry snoop_inv_exit)

text \<open>A step that reports something reports one pending operation.\<close>

lemma snoop_step_events:
  assumes "iosnoop_step s t"
  shows "snoop_events t = snoop_events s \<or>
    (\<exists>k op e r. op_state s k = Some op \<and> snoop_events t = snoop_events s @ [snoop_record e op r])"
  using assms
proof cases
  case (entry h km e x)
  then show ?thesis using iosnoop_entry_effectE snoop_entry_effect_def by blast
next
  case (exit h e y)
  then show ?thesis
    using iosnoop_exit_effect [of e y s h]
    by (auto simp: snoop_exit_effect_def iosnoop_finish_events split: option.splits if_splits)
qed

lemma snoop_inv_run: "iosnoop_step\<^sup>*\<^sup>* s t \<Longrightarrow> snoop_inv cfgs s \<Longrightarrow> snoop_inv cfgs t"
  by (induction rule: rtranclp_induct) (auto intro: snoop_inv_step)

lemma snoop_inv_start: "snoop_inv cfgs (iosnoop_init\<lparr>snoop_mount_filter_cfg := cfgs\<rparr>)"
  by (simp add: snoop_inv_def iosnoop_init_def)

lemmas snoop_example_simps =
  snoop_example_env_def example_mem_def iosnoop_init_def op_ctx_zero_def

lemma snoop_filter_off:
  "cfgs 0 = None \<Longrightarrow> iosnoop_pass_mount_filter cfgs dev"
  "cfgs 0 = Some cfg \<Longrightarrow> cfg_enabled cfg = 0 \<Longrightarrow> iosnoop_pass_mount_filter cfgs dev"
  by (simp_all add: iosnoop_pass_mount_filter_def)

lemma snoop_filter_iff:
  assumes "cfgs 0 = Some cfg" and "cfg_enabled cfg \<noteq> 0"
    and "cfg_dev_major cfg < 2 ^ 12" and "cfg_dev_minor cfg < 2 ^ 20"
  shows "iosnoop_pass_mount_filter cfgs dev \<longleftrightarrow>
         dev = 0 \<or> dev = push_bit 20 (cfg_dev_major cfg) OR cfg_dev_minor cfg"
  using packed_dev_iff [OF assms(3,4), of dev] assms(1,2)
  by (simp add: iosnoop_pass_mount_filter_def Let_def mask20)

section \<open>Properties\<close>




text \<open>
  Operations are keyed by thread and type, so a nested operation of another type does not
  hide the outer one. When both entries are recorded, the inner exit and then the outer exit
  each report their own operation.
\<close>

theorem iosnoop_nested_reports_both:
  assumes "iosnoop_entry h km e1 x1 s = Some s1" and "iosnoop_entry h km e2 x2 s1 = Some s2"
    and "pid_tgid e3 = pid_tgid e2" and "pid_tgid e4 = pid_tgid e1"
    and "exit_type y2 = entry_type x2" and "exit_type y1 = entry_type x1"
    and "entry_type x1 \<noteq> entry_type x2"
    and "op_state s1 (snoop_key (pid_tgid e1) (entry_type x1)) = Some op1"
    and "op_state s2 (snoop_key (pid_tgid e2) (entry_type x2)) = Some op2"
    and "rb_reserve e3 0" and "rb_reserve e4 0"
  shows "snoop_events (iosnoop_exit h e4 y1 (iosnoop_exit h e3 y2 s2)) =
         snoop_events s @ [snoop_record e3 op2 (exit_ret y2), snoop_record e4 op1 (exit_ret y1)]"
proof -
  let ?k1 = "snoop_key (pid_tgid e1) (entry_type x1)" and ?k2 = "snoop_key (pid_tgid e2) (entry_type x2)"
  have "entry_type x1 = entry_type x2" if "(ucast (entry_type x1) :: u32) = ucast (entry_type x2)"
    using that by (metis ucast_ucast_u8)
  then have keys: "?k1 \<noteq> ?k2" using assms(7) by (auto simp: snoop_key_def)
  have "op_state s2 ?k1 = Some op1"
    using iosnoop_entry_effectE [OF assms(2)] assms(8) keys by (auto simp: snoop_entry_effect_def)
  moreover have "snoop_events s2 = snoop_events s"
    using iosnoop_entry_effectE [OF assms(1)] iosnoop_entry_effectE [OF assms(2)]
    by (simp add: snoop_entry_effect_def)
  ultimately show ?thesis
    using iosnoop_exit_effect [of e3 y2 s2 h] iosnoop_exit_effect [of e4 y1 "iosnoop_exit h e3 y2 s2" h]
      assms keys
    by (simp add: snoop_exit_effect_def iosnoop_finish_events)
qed

theorem iosnoop_nested_reports_both_witness:
  "\<exists>s1 s2. iosnoop_entry Fentry example_mem (snoop_example_env 1 9) (E_rmdir 16 32) iosnoop_init = Some s1 \<and>
     iosnoop_entry Fentry example_mem (snoop_example_env 2 9) (E_unlink 16 32) s1 = Some s2 \<and>
     length (snoop_events (iosnoop_exit Fentry (snoop_example_env 4 9) (X_rmdir 0)
               (iosnoop_exit Fentry (snoop_example_env 3 9) (X_unlink 0) s2))) = 2"
proof -
  define s1 where "s1 = the (iosnoop_entry Fentry example_mem (snoop_example_env 1 9) (E_rmdir 16 32) iosnoop_init)"
  define s2 where "s2 = the (iosnoop_entry Fentry example_mem (snoop_example_env 2 9) (E_unlink 16 32) s1)"
  have s1: "iosnoop_entry Fentry example_mem (snoop_example_env 1 9) (E_rmdir 16 32) iosnoop_init = Some s1"
    and s2: "iosnoop_entry Fentry example_mem (snoop_example_env 2 9) (E_unlink 16 32) s1 = Some s2"
    by (simp_all add: s1_def s2_def probe_defs Let_def)
  have cfg: "snoop_mount_filter_cfg s1 = snoop_mount_filter_cfg iosnoop_init"
    using s1 by (auto simp: probe_defs Let_def)
  obtain op1 where "op_state s1 (snoop_key 9 11) = Some op1"
    using s1 by (auto simp: snoop_example_simps probe_defs Let_def iosnoop_submit_or_drop_pending
        iosnoop_pass_mount_filter_def)
  moreover obtain op2 where "op_state s2 (snoop_key 9 12) = Some op2"
    using s2 cfg by (auto simp: snoop_example_simps probe_defs Let_def iosnoop_submit_or_drop_pending
        iosnoop_pass_mount_filter_def)
  ultimately show ?thesis
    using s1 s2 iosnoop_nested_reports_both [OF s1 s2, of "snoop_example_env 3 9" "snoop_example_env 4 9"
        "X_unlink 0" "X_rmdir 0" op1 op2]
    by (simp add: snoop_example_env_def iosnoop_init_def)
qed

text \<open>
  C16: in every state reachable from freshly created maps each pending operation is filed under
  its own type, has a known type, buffers of the declared sizes and a device that the mount
  filter admits, and each reported record has a known type and texts that end inside their
  buffers.
\<close>

theorem iosnoop_reachable_inv:
  assumes "iosnoop_step\<^sup>*\<^sup>* (iosnoop_init\<lparr>snoop_mount_filter_cfg := cfgs\<rparr>) t"
  shows "snoop_inv cfgs t"
  by (rule snoop_inv_run [OF assms snoop_inv_start])

theorem iosnoop_reachable_inv_witness:
  "snoop_inv Map.empty (iosnoop_exit Fentry (snoop_example_env 5 9) (X_rmdir 0)
     (iosnoop_init\<lparr>snoop_mount_filter_cfg := Map.empty\<rparr>))"
  by (rule iosnoop_reachable_inv [OF r_into_rtranclp]) (rule iosnoop_step.exit)

text \<open>
  C33: the kprobe fallbacks of iosnoop have exactly the effect of its fentry/fexit programs,
  outside the two legacy entry points that only the fallback family has.
\<close>

theorem iosnoop_families_agree:
  assumes "\<not> legacy_entry x"
  shows "iosnoop_entry Kprobe km e x s = iosnoop_entry Fentry km e x s \<and>
         iosnoop_exit Kprobe e y s = iosnoop_exit Fentry e y s"
proof
  show "iosnoop_entry Kprobe km e x s = iosnoop_entry Fentry km e x s"
    using assms by (cases x) (simp_all add: probe_defs)
  show "iosnoop_exit Kprobe e y s = iosnoop_exit Fentry e y s"
    by (cases y) (simp_all add: probe_defs iosnoop_finish_idle)
qed

theorem iosnoop_families_agree_witness:
  "\<not> legacy_entry (E_read 8 4096 0) \<and>
   iosnoop_entry Kprobe example_mem (snoop_example_env 9 9) (E_read 8 4096 0) iosnoop_init =
   iosnoop_entry Fentry example_mem (snoop_example_env 9 9) (E_read 8 4096 0) iosnoop_init"
  using iosnoop_families_agree [of "E_read 8 4096 0" example_mem "snoop_example_env 9 9" iosnoop_init]
  by simp

text \<open>
  With the mount filter on, iosnoop admits the operations on the configured device and,
  unlike ioslower, also every operation whose device is not known (device 0).
\<close>

theorem iosnoop_mount_filter_iff:
  assumes "cfgs 0 = Some cfg" and "cfg_enabled cfg \<noteq> 0"
    and "cfg_dev_major cfg < 2 ^ 12" and "cfg_dev_minor cfg < 2 ^ 20"
  shows "iosnoop_pass_mount_filter cfgs dev \<longleftrightarrow>
         dev = 0 \<or> dev = push_bit 20 (cfg_dev_major cfg) OR cfg_dev_minor cfg"
  using assms by (rule snoop_filter_iff)

theorem iosnoop_mount_filter_iff_witness:
  "iosnoop_pass_mount_filter [0 \<mapsto> \<lparr>cfg_enabled = 1, cfg_dev_major = 8, cfg_dev_minor = 1\<rparr>] 0 \<and>
   \<not> iosnoop_pass_mount_filter [0 \<mapsto> \<lparr>cfg_enabled = 1, cfg_dev_major = 8, cfg_dev_minor = 1\<rparr>] 0x800002"
  using iosnoop_mount_filter_iff
      [of "[0 \<mapsto> \<lparr>cfg_enabled = 1, cfg_dev_major = 8, cfg_dev_minor = 1\<rparr>]"
          "\<lparr>cfg_enabled = 1, cfg_dev_major = 8, cfg_dev_minor = 1\<rparr>" 0]
    iosnoop_mount_filter_iff
      [of "[0 \<mapsto> \<lparr>cfg_enabled = 1, cfg_dev_major = 8, cfg_dev_minor = 1\<rparr>]"
          "\<lparr>cfg_enabled = 1, cfg_dev_major = 8, cfg_dev_minor = 1\<rparr>" "0x800002"]
  by simp

text \<open>
  The system call programs of iosnoop are not subject to the mount filter: they compare
  the configured device with itself. Each call is reported at once, whatever it operates on,
  as long as the ring buffer has room, and no operation becomes pending.
\<close>

theorem iosnoop_syscall_unfiltered:
  assumes "\<forall>cfg. snoop_mount_filter_cfg s 0 = Some cfg \<longrightarrow>
             cfg_dev_major cfg < 2 ^ 12 \<and> cfg_dev_minor cfg < 2 ^ 20"
    and "rb_reserve e 0"
  shows "\<exists>ev. iosnoop_submit_syscall_event km e tid ty path s = s\<lparr>snoop_events := snoop_events s @ [ev]\<rparr> \<and>
           ne_type ev = ty \<and> ne_ret ev = 0 \<and> c_str (ne_args ev) = [] \<and>
           c_str (ne_fname ev) =
             (case (path = 0, user_str km path) of (False, Some t) \<Rightarrow> take 95 (c_str t) | _ \<Rightarrow> [])"
proof -
  let ?dev = "iosnoop_configured_mount_dev (snoop_mount_filter_cfg s)"
  have pass: "iosnoop_pass_mount_filter (snoop_mount_filter_cfg s) ?dev"
    using assms(1) snoop_filter_iff [of "snoop_mount_filter_cfg s"]
    by (cases "snoop_mount_filter_cfg s 0")
       (auto simp: iosnoop_configured_mount_dev_def snoop_filter_off)
  have "c_str (snd (probe_read_str (Some t) (zero_buf 96) 96)) = take 95 (c_str t)" for t
    using c_str_probe_read_Some [of 96 "zero_buf 96" t] by simp
  then show ?thesis
    using pass assms(2) c_str_probe_read_None [of 96 "zero_buf 96"]
    by (auto simp: iosnoop_submit_syscall_event_def iosnoop_emit_event_def Let_def op_ctx_zero_def
        c_str_memcpy_zero split: option.splits)
qed

theorem iosnoop_syscall_unfiltered_witness:
  "\<exists>ev. iosnoop_submit_syscall_event example_mem (snoop_example_env 5 9) 9 SC_OPEN 64 iosnoop_init =
          iosnoop_init\<lparr>snoop_events := [ev]\<rparr> \<and> c_str (ne_fname ev) = ''/mnt/data.txt''"
  using iosnoop_syscall_unfiltered [of iosnoop_init "snoop_example_env 5 9" example_mem 9 SC_OPEN 64]
  by (auto simp: snoop_example_env_def example_mem_def iosnoop_init_def c_str_def)

end
