(* ===== verification/Iosnoop_User.thy ===== *)
theory Iosnoop_User
  imports Io_User Iosnoop_Bpf
begin

text \<open>
  The user program of iosnoop (\<open>src/src/user/iosnoop.c\<close>): the table of paths by process and
  descriptor, the line printed for a record, options, start-up and the poll loop.
\<close>

section \<open>The table of paths\<close>

text \<open>The linked list \<open>fd_paths\<close> as the list of its cells, the first one first.\<close>

record fd_path_entry =
  fp_pid :: u32
  fp_fd :: int
  fp_path :: string

type_synonym fd_paths = "fd_path_entry list"

fun fd_path_lookup :: "u32 \<Rightarrow> int \<Rightarrow> fd_paths \<Rightarrow> string option" where
  "fd_path_lookup pid fd [] = None"
| "fd_path_lookup pid fd (it # next) =
     (if fp_pid it = pid \<and> fp_fd it = fd then Some (fp_path it) else fd_path_lookup pid fd next)"

text \<open>The first loop of \<open>fd_path_set\<close>: \<open>None\<close> when no cell matches.\<close>

fun fd_path_replace :: "u32 \<Rightarrow> int \<Rightarrow> string \<Rightarrow> fd_paths \<Rightarrow> fd_paths option" where
  "fd_path_replace pid fd path [] = None"
| "fd_path_replace pid fd path (it # next) =
     (if fp_pid it = pid \<and> fp_fd it = fd then Some (it\<lparr>fp_path := take 255 path\<rparr> # next)
      else map_option ((#) it) (fd_path_replace pid fd path next))"

definition fd_path_set :: "bool \<Rightarrow> u32 \<Rightarrow> int \<Rightarrow> string \<Rightarrow> fd_paths \<Rightarrow> fd_paths" where
  "fd_path_set calloc_ok pid fd path paths =
     (if path = [] \<or> fd < 0 then paths
      else case fd_path_replace pid fd path paths of
             Some paths \<Rightarrow> paths
           | None \<Rightarrow> if \<not> calloc_ok then paths
                     else \<lparr>fp_pid = pid, fp_fd = fd, fp_path = take 255 path\<rparr> # paths)"

fun fd_path_del :: "u32 \<Rightarrow> int \<Rightarrow> fd_paths \<Rightarrow> fd_paths" where
  "fd_path_del pid fd [] = []"
| "fd_path_del pid fd (it # next) =
     (if fp_pid it = pid \<and> fp_fd it = fd then next else it # fd_path_del pid fd next)"

definition fd_path_free_all :: "fd_paths \<Rightarrow> fd_paths" where
  "fd_path_free_all paths = []"

section \<open>Printing\<close>

definition is_fd_based_type :: "int \<Rightarrow> bool" where
  "is_fd_based_type type \<longleftrightarrow> type \<in> {3, 4, 5, 8, 20, 22, 24, 31, 32, 33, 34, 35, 36}"

definition parse_fd_from_args :: "string \<Rightarrow> int" where
  "parse_fd_from_args args =
     (if take 3 args \<noteq> ''fd='' then - 1
      else let r = strtol 10 (drop 3 args); val = num_val r
           in if num_end r = drop 3 args then - 1
              else if val < 0 \<or> 2147483647 < val then - 1
              else val)"

definition io_type_names :: "(int \<times> string) list" where
  "io_type_names =
     [(1, ''OPEN''), (2, ''OPENAT''), (3, ''READ''), (4, ''WRITE''),
      (5, ''CLOSE''), (6, ''STAT''), (7, ''LSTAT''), (8, ''FSTAT''),
      (9, ''MKDIR''), (10, ''MKDIRAT''), (11, ''RMDIR''), (12, ''UNLINK''),
      (13, ''UNLINKAT''), (14, ''RENAME''), (15, ''RENAMEAT''), (16, ''RENAMEAT2''),
      (17, ''MOUNT''), (18, ''UMOUNT2''), (19, ''CHMOD''), (20, ''FCHMOD''),
      (21, ''CHOWN''), (22, ''FCHOWN''), (23, ''TRUNCATE''), (24, ''FTRUNCATE''),
      (25, ''LINK''), (26, ''LINKAT''), (27, ''SYMLINK''), (28, ''SYMLINKAT''),
      (29, ''READLINK''), (30, ''READLINKAT''), (31, ''PREAD64''), (32, ''PWRITE64''),
      (33, ''READV''), (34, ''WRITEV''), (35, ''PREADV''), (36, ''PWRITEV''),
      (37, ''URING_ENTER''), (38, ''URING_SETUP''), (39, ''URING_REGISTER''), (40, ''IO_SETUP''),
      (41, ''IO_SUBMIT''), (42, ''IO_GETEVENTS''), (43, ''IO_CANCEL''), (44, ''IO_DESTROY''),
      (45, ''MMAP''), (46, ''MMAP2''), (47, ''MUNMAP''), (48, ''CREATE''),
      (49, ''FALLOCATE''), (50, ''GETDENTS''), (51, ''LOCK_FCNTL''), (52, ''LOCK_FLOCK'')]"

definition io_type_str :: "int \<Rightarrow> string" where
  "io_type_str type = (case map_of io_type_names type of Some n \<Rightarrow> n | None \<Rightarrow> ''UNKNOWN'')"

definition iosnoop_line :: "(u64 \<Rightarrow> string) \<Rightarrow> iosnoop_event \<Rightarrow> string \<Rightarrow> string \<Rightarrow> string" where
  "iosnoop_line clock e args_disp path_disp =
     ljust 8 (clock (ne_ts e div 1000000000)) @ '' '' @ ljust 6 (sdec (sint (ne_pid e))) @ '' '' @
     ljust 16 (c_str (ne_comm e)) @ '' '' @ ljust 12 (io_type_str (uint (ne_type e))) @ '' '' @
     rjust 6 (sdec (sint (ne_ret e))) @ '' '' @ ljust 30 args_disp @ '' '' @ path_disp @ [CHR 0x0A]"

text \<open>
  The return value, the line and the table afterwards; \<open>data_sz\<close> is the size of the record in the
  ring buffer, and 560 bytes is the size of \<open>struct io_event\<close>.
\<close>

definition iosnoop_handle_event ::
    "bool \<Rightarrow> (u64 \<Rightarrow> string) \<Rightarrow> iosnoop_event \<Rightarrow> nat \<Rightarrow> fd_paths \<Rightarrow> int \<times> string \<times> fd_paths" where
  "iosnoop_handle_event calloc_ok clock e data_sz paths =
     (if data_sz < 560 then (1, [], paths)
      else let type = uint (ne_type e); args = c_str (ne_args e); fname = c_str (ne_fname e);
               args_disp = (if args \<noteq> [] then take 255 args else ''-'');
               paths = (if (type = 1 \<or> type = 2) \<and> 0 \<le> sint (ne_ret e)
                        then fd_path_set calloc_ok (ne_pid e) (sint (ne_ret e)) fname paths else paths);
               fd = parse_fd_from_args args;
               (args_disp, path_disp) =
                 (if 0 \<le> fd \<and> is_fd_based_type type then
                    (''fd='' @ sdec fd,
                     case fd_path_lookup (ne_pid e) fd paths of None \<Rightarrow> fname | Some p \<Rightarrow> p)
                  else (args_disp, fname));
               line = iosnoop_line clock e args_disp path_disp;
               paths = (if type = 5 \<and> 0 \<le> fd then fd_path_del (ne_pid e) fd paths else paths)
           in (0, line, paths))"

text \<open>The records of one or more polls, in order.\<close>

fun iosnoop_print_all ::
    "bool \<Rightarrow> (u64 \<Rightarrow> string) \<Rightarrow> iosnoop_event list \<Rightarrow> fd_paths \<Rightarrow> string list \<times> fd_paths" where
  "iosnoop_print_all calloc_ok clock [] paths = ([], paths)"
| "iosnoop_print_all calloc_ok clock (e # es) paths =
     (let (r, line, paths) = iosnoop_handle_event calloc_ok clock e 560 paths;
          (lines, paths) = iosnoop_print_all calloc_ok clock es paths
      in (line # lines, paths))"

section \<open>Options and start-up\<close>

definition iosnoop_opts_init :: io_opts where
  "iosnoop_opts_init = \<lparr>io_verbose = False, io_duration = 0, io_mount_path = None\<rparr>"

definition iosnoop_parse_arg :: "bool \<Rightarrow> io_key \<Rightarrow> string \<Rightarrow> io_opts \<Rightarrow> io_opts parsed" where
  "iosnoop_parse_arg dup_ok key arg opts =
     (case key of
        I_verbose \<Rightarrow> Parsed (opts\<lparr>io_verbose := True\<rparr>)
      | I_duration \<Rightarrow> Parsed (opts\<lparr>io_duration := parse_duration arg\<rparr>)
      | I_min \<Rightarrow> Parse_error
      | I_mount \<Rightarrow> Parsed (opts\<lparr>io_mount_path := strdup_opt dup_ok arg\<rparr>)
      | I_arg \<Rightarrow> Usage_exit
      | I_other \<Rightarrow> Parse_error)"

definition iosnoop_setup ::
    "io_sys \<Rightarrow> io_opts \<Rightarrow> int + (int \<times> vfs_prog skeleton \<times> iosnoop_state)" where
  "iosnoop_setup sys opts =
     (let sk = iosnoop_select_vfs_hook_family (io_kernel sys) skeleton_open;
          err = io_load sys
      in if err \<noteq> 0 then Inl err
         else case configure_mount sys (io_mount_path opts) err (snoop_mount_filter_cfg iosnoop_init) of
           Inl err \<Rightarrow> Inl err
         | Inr cfgs \<Rightarrow>
             let err = io_attach sys
             in if err \<noteq> 0 then Inl err
                else if \<not> io_ring_buffer sys then Inl (- 1)
                else if \<not> io_signal sys then Inl 1
                else Inr (err, sk, iosnoop_init\<lparr>snoop_mount_filter_cfg := cfgs\<rparr>))"

definition iosnoop_main ::
    "bool \<Rightarrow> io_sys \<Rightarrow> (bool \<times> int \<times> bool) list \<Rightarrow> (io_key \<times> string) list \<Rightarrow> int option parsed" where
  "iosnoop_main dup_ok sys rounds args =
     bind_parsed (argp_parse (iosnoop_parse_arg dup_ok) args iosnoop_opts_init)
       (\<lambda>opts. Parsed
         (if \<not> io_open sys then Some 1
          else case iosnoop_setup sys opts of
                 Inl err \<Rightarrow> Some (io_exit_status err)
               | Inr (err, sk, s) \<Rightarrow>
                   map_option io_exit_status (poll_loop (io_duration opts \<noteq> 0) err rounds)))"

section \<open>The list implements the dictionary\<close>

definition fd_keys :: "fd_paths \<Rightarrow> (u32 \<times> int) list" where
  "fd_keys paths = map (\<lambda>e. (fp_pid e, fp_fd e)) paths"

definition fd_lookup :: "fd_paths \<Rightarrow> u32 \<times> int \<Rightarrow> string option" where
  "fd_lookup paths = (\<lambda>(pid, fd). fd_path_lookup pid fd paths)"

definition fd_put :: "bool \<Rightarrow> u32 \<times> int \<Rightarrow> string \<Rightarrow> fd_paths \<Rightarrow> fd_paths" where
  "fd_put calloc_ok = (\<lambda>(pid, fd). fd_path_set calloc_ok pid fd)"

definition fd_del :: "u32 \<times> int \<Rightarrow> fd_paths \<Rightarrow> fd_paths" where
  "fd_del = (\<lambda>(pid, fd). fd_path_del pid fd)"

definition fd_accepts :: "bool \<Rightarrow> u32 \<times> int \<Rightarrow> string \<Rightarrow> string option \<Rightarrow> bool" where
  "fd_accepts calloc_ok k path old \<longleftrightarrow> path \<noteq> [] \<and> 0 \<le> snd k \<and> (old \<noteq> None \<or> calloc_ok)"

lemma fd_lookup_None: "fd_lookup paths k = None \<longleftrightarrow> k \<notin> set (fd_keys paths)"
  by (cases k, induction paths) (auto simp: fd_lookup_def fd_keys_def)

lemma fd_replace_None: "fd_path_replace pid fd path paths = None \<longleftrightarrow> (pid, fd) \<notin> set (fd_keys paths)"
  by (induction paths) (auto simp: fd_keys_def)

lemma fd_replace_Some:
  "fd_path_replace pid fd path paths = Some paths' \<Longrightarrow>
     fd_keys paths' = fd_keys paths \<and> fd_lookup paths' = (fd_lookup paths)((pid, fd) \<mapsto> take 255 path)"
  by (induction paths arbitrary: paths') (auto simp: fd_keys_def fd_lookup_def fun_eq_iff split: if_splits)

lemma fd_del_other: "k \<notin> set (fd_keys paths) \<Longrightarrow> fd_del k paths = paths"
  by (cases k, induction paths) (auto simp: fd_del_def fd_keys_def)

lemma set_fd_keys_del: "set (fd_keys (fd_path_del pid fd paths)) \<subseteq> set (fd_keys paths)"
  by (induction paths) (auto simp: fd_keys_def)

lemma fd_keys_del: "distinct (fd_keys paths) \<Longrightarrow> distinct (fd_keys (fd_path_del pid fd paths))"
  using set_fd_keys_del by (induction paths) (fastforce simp: fd_keys_def)+

lemma fd_lookup_del:
  "distinct (fd_keys paths) \<Longrightarrow> fd_lookup (fd_path_del pid fd paths) = (fd_lookup paths)((pid, fd) := None)"
proof (induction paths)
  case Nil
  then show ?case by (auto simp: fd_lookup_def)
next
  case (Cons it paths)
  show ?case
  proof (cases "fp_pid it = pid \<and> fp_fd it = fd")
    case True
    then have "fd_lookup paths (pid, fd) = None"
      using Cons.prems unfolding fd_lookup_None by (simp add: fd_keys_def)
    with True show ?thesis by (auto simp: fd_lookup_def fun_eq_iff)
  next
    case False
    then show ?thesis
      using Cons.IH Cons.prems by (auto simp: fd_lookup_def fd_keys_def fun_eq_iff)
  qed
qed

interpretation fd_table: keyed_store fd_lookup fd_put fd_del "\<lambda>m. distinct (fd_keys m)" fd_accepts "take 255"
proof unfold_locales
  fix m :: fd_paths and x :: bool and k :: "u32 \<times> int" and v :: string
  obtain pid fd where k: "k = (pid, fd)" by (cases k)
  assume inv: "distinct (fd_keys m)"
  show "fd_lookup (fd_put x k v m) =
      (if fd_accepts x k v (fd_lookup m k) then (fd_lookup m)(k \<mapsto> take 255 v) else fd_lookup m)"
    using fd_replace_Some [of pid fd v m] fd_replace_None [of pid fd v m] fd_lookup_None [of m k]
    by (auto simp: k fd_put_def fd_path_set_def fd_accepts_def fd_lookup_def fun_eq_iff split: option.splits)
  show "distinct (fd_keys (fd_put x k v m))"
    using inv fd_replace_Some [of pid fd v m] fd_replace_None [of pid fd v m]
    by (auto simp: k fd_put_def fd_path_set_def fd_keys_def split: option.splits)
  show "fd_lookup (fd_del k m) = (fd_lookup m)(k := None)"
    using fd_lookup_del [OF inv] by (simp add: k fd_del_def)
  show "distinct (fd_keys (fd_del k m))"
    using fd_keys_del [OF inv] by (simp add: k fd_del_def)
qed

section \<open>What the records reach the user program with\<close>

text \<open>
  Every record carries an argument text of some call, so no text begins with \<open>fd=\<close>.
\<close>

definition snoop_texts_inv :: "iosnoop_state \<Rightarrow> bool" where
  "snoop_texts_inv s \<longleftrightarrow>
     (\<forall>k op. op_state s k = Some op \<longrightarrow> (\<exists>km x. snoop_prepared km x op)) \<and>
     (\<forall>ev \<in> set (snoop_events s). \<exists>km x. c_str (ne_args ev) = snoop_args km x)"

lemma snoop_texts_entry:
  "snoop_entry_effect km e x s t \<Longrightarrow> snoop_texts_inv s \<Longrightarrow> snoop_texts_inv t"
  unfolding snoop_texts_inv_def snoop_entry_effect_def
  by (elim conjE disjE exE) (auto split: if_splits)

lemma snoop_texts_exit:
  assumes "snoop_exit_effect e y s t" and inv: "snoop_texts_inv s"
  shows "snoop_texts_inv t"
proof -
  have "\<exists>km x. c_str (ne_args (snoop_record e op r)) = snoop_args km x" if "op_state s k = Some op" for k op r
    using inv that snoop_record_texts(2) unfolding snoop_texts_inv_def by blast
  then show ?thesis
    using assms by (auto simp: snoop_texts_inv_def snoop_exit_effect_def iosnoop_finish_events
        split: option.splits if_splits)
qed

lemma snoop_texts_step: "iosnoop_step s t \<Longrightarrow> snoop_texts_inv s \<Longrightarrow> snoop_texts_inv t"
  by (auto elim!: iosnoop_stepE dest!: iosnoop_entry_effectE
      intro: snoop_texts_entry snoop_texts_exit iosnoop_exit_effect)

lemma snoop_texts_reachable:
  assumes "iosnoop_step\<^sup>*\<^sup>* s t" and "snoop_texts_inv s"
  shows "snoop_texts_inv t"
  using assms by (induction rule: rtranclp_induct) (auto intro: snoop_texts_step)

lemma snoop_texts_start: "snoop_texts_inv (iosnoop_init\<lparr>snoop_mount_filter_cfg := cfgs\<rparr>)"
  by (simp add: snoop_texts_inv_def iosnoop_init_def)

lemma snoop_args_no_fd: "take 3 (snoop_args km x) \<noteq> ''fd=''"
  by (cases x) simp_all

lemma handle_plain_args:
  assumes "c_str (ne_args e) = snoop_args km x"
  shows "fst (snd (iosnoop_handle_event ok clock e 560 paths)) =
           iosnoop_line clock e (if c_str (ne_args e) = [] then ''-'' else c_str (ne_args e)) (c_str (ne_fname e))"
  using length_snoop_args [of km x] snoop_args_no_fd [of km x]
  by (simp add: iosnoop_handle_event_def parse_fd_from_args_def assms Let_def)

lemma print_all_plain:
  assumes "\<forall>e \<in> set es. \<exists>km x. c_str (ne_args e) = snoop_args km x"
  shows "fst (iosnoop_print_all ok clock es paths) =
           map (\<lambda>e. iosnoop_line clock e (if c_str (ne_args e) = [] then ''-'' else c_str (ne_args e)) (c_str (ne_fname e))) es"
  using assms
proof (induction es arbitrary: paths)
  case (Cons e es)
  obtain km x where "c_str (ne_args e) = snoop_args km x" using Cons.prems by auto
  from handle_plain_args [OF this] Cons show ?case
    by (auto simp: case_prod_unfold Let_def)
qed simp

lemma iosnoop_setup_Inr:
  assumes "iosnoop_setup sys opts = Inr (err, sk, s)"
  obtains cfgs where "configure_mount sys (io_mount_path opts) 0 (snoop_mount_filter_cfg iosnoop_init) = Inr cfgs"
    and "s = iosnoop_init\<lparr>snoop_mount_filter_cfg := cfgs\<rparr>"
  using assms by (auto simp: iosnoop_setup_def Let_def split: if_splits sum.splits)

section \<open>Properties\<close>

text \<open>
  C38: the linked list of paths behaves, under every sequence of set and delete operations, as a
  dictionary from process and descriptor to the path cut to 255 characters, whose inserts are
  dropped for an empty path, a negative descriptor or a new key without memory.
\<close>

theorem fd_paths_refine_dictionary:
  "fd_lookup (store_run fd_put fd_del ops []) = store_spec fd_accepts (take 255) ops Map.empty"
proof -
  have "fd_lookup [] = Map.empty" by (auto simp: fd_lookup_def)
  then show ?thesis using fd_table.run_refines_spec [of "[]" ops] by (simp add: fd_keys_def)
qed

text \<open>
  After its set-up iosnoop prints, for the records of every run of its hook programs, one line
  each, in order, with the arguments and the name recorded for that operation. The table of paths
  never changes a line: no argument text of the hook programs begins with \<open>fd=\<close>.
\<close>

theorem iosnoop_prints_each_record:
  assumes "iosnoop_setup sys opts = Inr (err, sk, s)" and "iosnoop_step\<^sup>*\<^sup>* s t"
  shows "fst (iosnoop_print_all ok clock (snoop_events t) paths) =
           map (\<lambda>ev. iosnoop_line clock ev (if c_str (ne_args ev) = [] then ''-'' else c_str (ne_args ev))
                       (c_str (ne_fname ev))) (snoop_events t)"
proof (rule print_all_plain)
  obtain cfgs where "s = iosnoop_init\<lparr>snoop_mount_filter_cfg := cfgs\<rparr>" by (rule iosnoop_setup_Inr [OF assms(1)])
  then have "snoop_texts_inv t"
    using snoop_texts_reachable [OF assms(2)] snoop_texts_start by simp
  then show "\<forall>e \<in> set (snoop_events t). \<exists>km x. c_str (ne_args e) = snoop_args km x"
    by (simp add: snoop_texts_inv_def)
qed

definition snoop_example_sys :: io_sys where
  "snoop_example_sys =
     \<lparr>io_kernel = example_kernel [], io_open = True, io_load = 0, io_realpath = (\<lambda>p. Some p),
      io_stat = (\<lambda>_. Some (encoded_dev 0x800001)), io_update_mount = 0, io_attach = 0,
      io_update_threshold = 0, io_ring_buffer = True, io_signal = True\<rparr>"

lemma snoop_example_setup:
  "iosnoop_setup snoop_example_sys iosnoop_opts_init =
     Inr (0, iosnoop_select_vfs_hook_family (example_kernel []) skeleton_open, iosnoop_init)"
  by (simp add: iosnoop_setup_def snoop_example_sys_def iosnoop_opts_init_def)

text \<open>A directory is removed: the run and its record.\<close>

lemma snoop_example_exit:
  "\<exists>ev. snoop_events (iosnoop_exit Fentry (snoop_example_env 99 0x700000007) (X_rmdir 0)
       (the (iosnoop_entry Fentry example_mem (snoop_example_env 10 0x700000007) (E_rmdir 16 32) iosnoop_init))) = [ev] \<and>
     ne_type ev = SC_RMDIR \<and> c_str (ne_args ev) = [] \<and> c_str (ne_fname ev) = ''data.txt'' \<and> length (ne_comm ev) = 16"
proof -
  let ?e1 = "snoop_example_env 10 0x700000007" and ?e2 = "snoop_example_env 99 0x700000007"
  let ?x = "E_rmdir 16 32"
  define s1 where "s1 = the (iosnoop_entry Fentry example_mem ?e1 ?x iosnoop_init)"
  have s1: "iosnoop_entry Fentry example_mem ?e1 ?x iosnoop_init = Some s1"
    by (simp add: s1_def probe_defs Let_def)
  have eff: "snoop_entry_effect example_mem ?e1 ?x iosnoop_init s1" by (rule iosnoop_entry_effectE [OF s1])
  have "op_state s1 (snoop_key 0x700000007 SC_RMDIR) \<noteq> None"
    using s1 by (auto simp: snoop_example_simps probe_defs Let_def iosnoop_submit_or_drop_pending
        iosnoop_pass_mount_filter_def snoop_key_def)
  with eff obtain op where op: "op_state s1 (snoop_key 0x700000007 SC_RMDIR) = Some op" "snoop_prepared example_mem ?x op"
    by (auto simp: snoop_entry_effect_def iosnoop_init_def snoop_example_env_def)
  have env: "pid_tgid ?e2 = 0x700000007" "rb_reserve ?e2 0" by (simp_all add: snoop_example_env_def)
  have "snoop_events s1 = []" using eff by (simp add: snoop_entry_effect_def iosnoop_init_def)
  then have "snoop_events (iosnoop_exit Fentry ?e2 (X_rmdir 0) s1) = [snoop_record ?e2 op 0]"
    using iosnoop_exit_effect [of ?e2 "X_rmdir 0" s1 Fentry] op(1) env
      iosnoop_finish_events [of ?e2 "0x700000007" SC_RMDIR 0 s1]
    by (simp add: snoop_exit_effect_def)
  moreover have "ne_type (snoop_record ?e2 op 0) = SC_RMDIR"
    using op(2) by (simp add: snoop_record_def snoop_prepared_def)
  moreover have "c_str (ne_args (snoop_record ?e2 op 0)) = []" "c_str (ne_fname (snoop_record ?e2 op 0)) = ''data.txt''"
    using snoop_record_texts [OF op(2), of ?e2 0] by (simp_all add: example_mem_def dentry_text_def c_str_def)
  moreover have "length (ne_comm (snoop_record ?e2 op 0)) = 16"
    by (simp add: snoop_record_def snoop_example_env_def zero_buf_def)
  ultimately show ?thesis unfolding s1_def by blast
qed

lemma snoop_example_run:
  "\<exists>t ev. iosnoop_step\<^sup>*\<^sup>* iosnoop_init t \<and> snoop_events t = [ev] \<and> ne_type ev = SC_RMDIR \<and>
     c_str (ne_args ev) = [] \<and> c_str (ne_fname ev) = ''data.txt'' \<and> length (ne_comm ev) = 16"
proof -
  let ?e1 = "snoop_example_env 10 0x700000007" and ?e2 = "snoop_example_env 99 0x700000007"
  define s1 where "s1 = the (iosnoop_entry Fentry example_mem ?e1 (E_rmdir 16 32) iosnoop_init)"
  have "iosnoop_entry Fentry example_mem ?e1 (E_rmdir 16 32) iosnoop_init = Some s1"
    by (simp add: s1_def probe_defs Let_def)
  from iosnoop_step.entry [OF this] iosnoop_step.exit
  have "iosnoop_step\<^sup>*\<^sup>* iosnoop_init (iosnoop_exit Fentry ?e2 (X_rmdir 0) s1)"
    by (rule converse_rtranclp_into_rtranclp [OF _ r_into_rtranclp])
  with snoop_example_exit show ?thesis unfolding s1_def by blast
qed

theorem iosnoop_prints_each_record_witness:
  "\<exists>t ev. iosnoop_step\<^sup>*\<^sup>* iosnoop_init t \<and> snoop_events t = [ev] \<and> ne_type ev = SC_RMDIR \<and>
     fst (iosnoop_print_all True (\<lambda>_. ''12:00:00'') (snoop_events t) []) =
       [iosnoop_line (\<lambda>_. ''12:00:00'') ev ''-'' ''data.txt'']"
proof -
  obtain t ev where run: "iosnoop_step\<^sup>*\<^sup>* iosnoop_init t" and "snoop_events t = [ev]" "ne_type ev = SC_RMDIR"
      "c_str (ne_args ev) = []" "c_str (ne_fname ev) = ''data.txt''"
    using snoop_example_run by blast
  with iosnoop_prints_each_record [OF snoop_example_setup run, of True "\<lambda>_. ''12:00:00''" "[]"]
  show ?thesis by auto
qed

text \<open>
  C14: from the end of iosnoop's set-up on, with a mount path, whichever calls the threads make in
  whichever order, every pending operation is on the device of that mount or on a device that the
  program could not find out (device 0), and what a call reports is one of these operations.
\<close>

theorem iosnoop_traces_only_the_mount:
  assumes "iosnoop_setup sys opts = Inr (err, sk, s)" and "io_mount_path opts = Some path"
    and "io_realpath sys path = Some resolved" and "io_stat sys resolved = Some (encoded_dev dev)"
    and "iosnoop_step\<^sup>*\<^sup>* s t"
  shows "(\<forall>k op. op_state t k = Some op \<longrightarrow> oc_dev op = dev \<or> oc_dev op = 0) \<and>
    (\<forall>u. iosnoop_step t u \<longrightarrow> snoop_events u = snoop_events t \<or>
       (\<exists>k op e r. op_state t k = Some op \<and> (oc_dev op = dev \<or> oc_dev op = 0) \<and>
          snoop_events u = snoop_events t @ [snoop_record e op r]))"
proof -
  obtain cfgs where cfgs: "configure_mount sys (Some path) 0 (snoop_mount_filter_cfg iosnoop_init) = Inr cfgs"
    and s: "s = iosnoop_init\<lparr>snoop_mount_filter_cfg := cfgs\<rparr>"
    by (rule iosnoop_setup_Inr [OF assms(1)]) (simp add: assms(2))
  have filter: "iosnoop_pass_mount_filter cfgs d \<longleftrightarrow> d = 0 \<or> d = dev" for d
    using snoop_filter_iff [of cfgs _ d, OF configure_mount_dev [OF cfgs assms(3,4)]]
    using small_parts [of dev] by (simp add: dev_parts)
  have "snoop_inv cfgs t"
    using snoop_inv_run [OF assms(5)] snoop_inv_start unfolding s .
  then have dev: "\<forall>k op. op_state t k = Some op \<longrightarrow> oc_dev op = dev \<or> oc_dev op = 0"
    using filter by (auto simp: snoop_inv_def)
  with snoop_step_events show ?thesis by blast
qed

definition snoop_mount_opts :: io_opts where
  "snoop_mount_opts = iosnoop_opts_init\<lparr>io_mount_path := Some ''/mnt''\<rparr>"

lemma snoop_mount_setup:
  "iosnoop_setup snoop_example_sys snoop_mount_opts =
     Inr (0, iosnoop_select_vfs_hook_family (example_kernel []) skeleton_open,
          iosnoop_init\<lparr>snoop_mount_filter_cfg := [0 \<mapsto> \<lparr>cfg_enabled = 1, cfg_dev_major = 8, cfg_dev_minor = 1\<rparr>]\<rparr>)"
  by (simp add: iosnoop_setup_def snoop_example_sys_def snoop_mount_opts_def iosnoop_opts_init_def
      configure_mount_def bpf_map_update_elem_def gnu_dev_major_encoded gnu_dev_minor_encoded
      iosnoop_init_def mask20 Let_def)

theorem iosnoop_traces_only_the_mount_witness:
  "\<exists>err sk s t. iosnoop_setup snoop_example_sys snoop_mount_opts = Inr (err, sk, s) \<and>
     iosnoop_entry Fentry example_mem (snoop_example_env 10 0x700000007) (E_rmdir 16 32) s = Some t \<and>
     map_option oc_dev (op_state t (snoop_key 0x700000007 SC_RMDIR)) \<in> {Some 0x800001, Some 0}"
proof -
  let ?s = "iosnoop_init\<lparr>snoop_mount_filter_cfg := [0 \<mapsto> \<lparr>cfg_enabled = 1, cfg_dev_major = 8, cfg_dev_minor = 1\<rparr>]\<rparr>"
  let ?e = "snoop_example_env 10 0x700000007"
  define t where "t = the (iosnoop_entry Fentry example_mem ?e (E_rmdir 16 32) ?s)"
  have t: "iosnoop_entry Fentry example_mem ?e (E_rmdir 16 32) ?s = Some t"
    by (simp add: t_def probe_defs Let_def)
  have "op_state t (snoop_key 0x700000007 SC_RMDIR) \<noteq> None"
    using t by (auto simp: snoop_example_simps probe_defs Let_def iosnoop_submit_or_drop_pending
        iosnoop_pass_mount_filter_def iosnoop_dev_from_dentry_def iosnoop_dev_from_inode_def snoop_key_def)
  then obtain op where op: "op_state t (snoop_key 0x700000007 SC_RMDIR) = Some op" by blast
  have sys: "io_mount_path snoop_mount_opts = Some ''/mnt''" "io_realpath snoop_example_sys ''/mnt'' = Some ''/mnt''"
      "io_stat snoop_example_sys ''/mnt'' = Some (encoded_dev 0x800001)"
    by (simp_all add: snoop_mount_opts_def snoop_example_sys_def)
  have "iosnoop_step\<^sup>*\<^sup>* ?s t" by (rule r_into_rtranclp) (rule iosnoop_step.entry [OF t])
  from iosnoop_traces_only_the_mount [OF snoop_mount_setup sys this] op
  have "oc_dev op = 0x800001 \<or> oc_dev op = 0" by blast
  with op t snoop_mount_setup show ?thesis by auto
qed

end
