(* ===== verification/Ringbuf_Shim.thy ===== *)
theory Ringbuf_Shim
  imports Aod_Event
begin

text \<open>
  The library the Python consumer reads the pinned ring buffer with (\<open>src/src/ringbuf_shim.c\<close>):
  the callback that copies one event into the buffer of the caller, and the three entry points
  \<open>rb_open\<close>, \<open>rb_poll_into\<close> and \<open>rb_close\<close>. The ring is the list of its records, oldest first, as
  bytes; libbpf's \<open>ring_buffer__poll\<close> is the parameter \<open>poll\<close> of \<open>rb_poll_into\<close>. The second part
  is the memory layout of \<open>struct event\<close> (48 bytes on x86-64), which the programs write and the
  consumer reads.
\<close>

section \<open>Code\<close>

text \<open>
  \<open>rbc_rb\<close>: the pointer \<open>rb\<close> is not NULL. \<open>rbc_fault\<close> records a write outside the buffer of the
  caller, which C leaves undefined.
\<close>

record rb_context =
  rbc_rb :: bool
  ext_buf :: "u8 list"
  ext_capacity :: int
  rbc_count :: int
  rbc_fault :: bool

definition sizeof_event :: nat where
  "sizeof_event = 48"

definition buf_write :: "nat \<Rightarrow> u8 list \<Rightarrow> rb_context \<Rightarrow> rb_context" where
  "buf_write off bs c =
     (if length (ext_buf c) < off + length bs then c\<lparr>rbc_fault := True\<rparr>
      else c\<lparr>ext_buf := take off (ext_buf c) @ bs @ drop (off + length bs) (ext_buf c)\<rparr>)"

definition copy_event :: "u8 list \<Rightarrow> rb_context \<Rightarrow> int \<times> rb_context" where
  "copy_event data c =
     (if length data < sizeof_event then (0, c)
      else if ext_capacity c \<le> rbc_count c then (- 1, c)
      else let c = buf_write (nat (rbc_count c) * sizeof_event) (take sizeof_event data) c
           in (0, c\<lparr>rbc_count := rbc_count c + 1\<rparr>))"

text \<open>
  What is open: descriptors, contexts and ring buffers. \<open>bpf_obj_get\<close> returns \<open>map_fd\<close>; the other
  two flags tell whether \<open>calloc\<close> and \<open>ring_buffer__new\<close> succeed.
\<close>

record shim_resources =
  open_fds :: "int list"
  contexts :: nat
  rings :: nat

definition rb_open :: "int \<Rightarrow> bool \<Rightarrow> bool \<Rightarrow> shim_resources \<Rightarrow> rb_context option \<times> shim_resources" where
  "rb_open map_fd calloc_ok new_ok r =
     (if map_fd < 0 then (None, r)
      else let r = r\<lparr>open_fds := map_fd # open_fds r\<rparr>
           in if \<not> calloc_ok then (None, r)
              else let r = r\<lparr>contexts := contexts r + 1\<rparr>;
                       ctx = \<lparr>rbc_rb = False, ext_buf = [], ext_capacity = 0, rbc_count = 0, rbc_fault = False\<rparr>
                   in if \<not> new_ok then (None, r\<lparr>contexts := contexts r - 1\<rparr>)
                      else (Some (ctx\<lparr>rbc_rb := True\<rparr>), r\<lparr>rings := rings r + 1\<rparr>))"

type_synonym ring = "u8 list list"
type_synonym poll = "int \<Rightarrow> (u8 list \<Rightarrow> rb_context \<Rightarrow> int \<times> rb_context) \<Rightarrow> ring \<Rightarrow> rb_context \<Rightarrow> int \<times> rb_context \<times> ring"

definition rb_poll_into ::
    "poll \<Rightarrow> rb_context \<Rightarrow> u8 list \<Rightarrow> int \<Rightarrow> int \<Rightarrow> ring \<Rightarrow> int \<times> rb_context \<times> ring" where
  "rb_poll_into poll ctx buf capacity timeout_ms rg =
     (let ctx = ctx\<lparr>ext_buf := buf\<rparr>; ctx = ctx\<lparr>ext_capacity := capacity\<rparr>; ctx = ctx\<lparr>rbc_count := 0\<rparr>;
          (err, ctx, rg) = poll timeout_ms copy_event rg ctx
      in if 0 < rbc_count ctx then (rbc_count ctx, ctx, rg)
         else if err < 0 \<and> err \<noteq> - 4 then (err, ctx, rg)
         else (0, ctx, rg))"

definition rb_close :: "rb_context option \<Rightarrow> shim_resources \<Rightarrow> shim_resources" where
  "rb_close ctx r =
     (case ctx of
        None \<Rightarrow> r
      | Some c \<Rightarrow>
          let r = (if rbc_rb c then r\<lparr>rings := rings r - 1\<rparr> else r)
          in r\<lparr>contexts := contexts r - 1\<rparr>)"

section \<open>Specification\<close>

text \<open>
  What libbpf documents about polling: the callback gets the records in order, each record it gets
  is consumed, and a negative result stops the round and is returned.
\<close>

fun deliver :: "(u8 list \<Rightarrow> 'c \<Rightarrow> int \<times> 'c) \<Rightarrow> ring \<Rightarrow> 'c \<Rightarrow> int \<times> 'c \<times> ring" where
  "deliver cb [] c = (0, c, [])"
| "deliver cb (d # ds) c =
     (let (r, c) = cb d c in if r < 0 then (r, c, ds) else deliver cb ds c)"

text \<open>A round either fails before it delivers anything, or sees the k oldest records.\<close>

definition polls_in_order :: "poll \<Rightarrow> bool" where
  "polls_in_order poll \<longleftrightarrow>
     (\<forall>t cb rg c. (\<exists>err < 0. poll t cb rg c = (err, c, rg)) \<or>
        (\<exists>k n. 0 \<le> n \<and>
           (case deliver cb (take k rg) c of
              (r, c', rest) \<Rightarrow> poll t cb rg c = (if r < 0 then r else n, c', rest @ drop k rg))))"

definition is_event :: "u8 list \<Rightarrow> bool" where
  "is_event d \<longleftrightarrow> sizeof_event \<le> length d"

text \<open>The bytes of the events in the first n records.\<close>

definition event_bytes :: "ring \<Rightarrow> u8 list" where
  "event_bytes rg = concat (map (take sizeof_event) (filter is_event rg))"

section \<open>Layout of struct event\<close>

definition le_bytes :: "nat \<Rightarrow> 'a::len word \<Rightarrow> u8 list" where
  "le_bytes n w = map (\<lambda>i. ucast (drop_bit (8 * i) w)) [0..<n]"

definition encode_event :: "event \<Rightarrow> u8 list" where
  "encode_event e =
     le_bytes 4 (ev_pid e) @ le_bytes 2 (ev_command e) @ [ev_tool e, 0] @ le_bytes 8 (ev_cmd_end_time_ns e) @
     le_bytes 8 (ev_rqst_id e) @ le_bytes 8 (ev_metric e) @ map (\<lambda>c. of_nat (of_char c)) (ev_task e)"

definition decode_event :: "u8 list \<Rightarrow> event" where
  "decode_event bs =
     (let at = (\<lambda>i. bs ! i)
      in \<lparr>ev_pid = raw_u32 at 0, ev_command = raw_u16 at 4, ev_tool = at 6, ev_cmd_end_time_ns = raw_u64 at 8,
          ev_rqst_id = raw_u64 at 16, ev_metric = raw_u64 at 24,
          ev_task = map (\<lambda>b. char_of (unat b)) (take 16 (drop 32 bs))\<rparr>)"

section \<open>Facts\<close>

lemma length_le_bytes [simp]: "length (le_bytes n w) = n"
  by (simp add: le_bytes_def)

lemma nth_le_bytes [simp]: "i < n \<Longrightarrow> le_bytes n w ! i = ucast (drop_bit (8 * i) w)"
  by (simp add: le_bytes_def)

lemma raw_le_bytes:
  "raw_u16 (\<lambda>j. (pre @ le_bytes 2 a @ post) ! j) (length pre) = a"
  "raw_u32 (\<lambda>j. (pre @ le_bytes 4 b @ post) ! j) (length pre) = b"
  "raw_u64 (\<lambda>j. (pre @ le_bytes 8 c @ post) ! j) (length pre) = c"
  using raw_u16_bytes [of "\<lambda>j. (pre @ le_bytes 2 a @ post) ! j" "length pre" a]
    raw_u32_bytes [of "\<lambda>j. (pre @ le_bytes 4 b @ post) ! j" "length pre" b]
    raw_u64_bytes [of "\<lambda>j. (pre @ le_bytes 8 c @ post) ! j" "length pre" c]
  by (simp_all add: nth_append)

lemma of_char_word: "char_of (unat (of_nat (of_char c) :: u8)) = c"
proof -
  have "of_char c < (256 :: nat)" by simp
  then show ?thesis by (simp add: unat_of_nat del: nat_of_char_less_256)
qed

lemma copy_event_cases:
  "copy_event d c = (r, c') \<Longrightarrow>
    \<not> is_event d \<and> r = 0 \<and> c' = c \<or>
    is_event d \<and> ext_capacity c \<le> rbc_count c \<and> r = - 1 \<and> c' = c \<or>
    is_event d \<and> rbc_count c < ext_capacity c \<and> r = 0 \<and>
      c' = (buf_write (nat (rbc_count c) * sizeof_event) (take sizeof_event d) c)\<lparr>rbc_count := rbc_count c + 1\<rparr>"
  by (auto simp: copy_event_def is_event_def Let_def buf_write_def split: if_splits)

text \<open>What the buffer holds while a round runs: the events of the records consumed so far.\<close>

definition shim_inv :: "u8 list \<Rightarrow> int \<Rightarrow> ring \<Rightarrow> rb_context \<Rightarrow> bool" where
  "shim_inv buf capacity seen c \<longleftrightarrow>
     \<not> rbc_fault c \<and> ext_capacity c = capacity \<and> length (ext_buf c) = length buf \<and>
     rbc_count c = int (length (filter is_event seen)) \<and> rbc_count c \<le> capacity \<and>
     take (length (event_bytes seen)) (ext_buf c) = event_bytes seen"

lemma length_event_bytes: "length (event_bytes rg) = sizeof_event * length (filter is_event rg)"
  by (induction rg) (auto simp: event_bytes_def is_event_def)

lemma copy_event_inv:
  assumes inv: "shim_inv buf capacity seen c" and cap: "nat capacity * sizeof_event \<le> length buf"
    and step: "copy_event d c = (r, c')" and r: "\<not> r < 0"
  shows "shim_inv buf capacity (seen @ [d]) c'"
proof -
  have n: "nat (rbc_count c) * sizeof_event = length (event_bytes seen)"
    using inv by (simp add: shim_inv_def length_event_bytes)
  consider "\<not> is_event d" "c' = c"
    | "is_event d" "rbc_count c < ext_capacity c"
      "c' = (buf_write (length (event_bytes seen)) (take sizeof_event d) c)\<lparr>rbc_count := rbc_count c + 1\<rparr>"
    using copy_event_cases [OF step] r n by auto
  then show ?thesis
  proof cases
    case 1
    then show ?thesis using inv by (simp add: shim_inv_def event_bytes_def)
  next
    case 2
    have "nat (rbc_count c) + 1 \<le> nat capacity" using inv 2(2) by (auto simp: shim_inv_def)
    then have "(nat (rbc_count c) + 1) * sizeof_event \<le> nat capacity * sizeof_event" by (rule mult_le_mono1)
    then have fits: "length (event_bytes seen) + sizeof_event \<le> length buf"
      using cap n by (simp add: add_mult_distrib)
    with 2 inv show ?thesis
      by (auto simp: shim_inv_def buf_write_def is_event_def event_bytes_def)
  qed
qed

lemma deliver_copy_event:
  assumes "deliver copy_event rg c = (r, c', rest)" and "shim_inv buf capacity seen c"
    and "nat capacity * sizeof_event \<le> length buf"
  shows "(0 \<le> r \<and> rest = [] \<and> shim_inv buf capacity (seen @ rg) c') \<or>
    (r = - 1 \<and> (\<exists>got lost. rg = got @ lost # rest \<and> is_event lost \<and>
                  shim_inv buf capacity (seen @ got) c' \<and> rbc_count c' = capacity))"
  using assms(1,2)
proof (induction rg arbitrary: c seen)
  case Nil
  then show ?case by simp
next
  case (Cons d ds)
  obtain r1 c1 where step: "copy_event d c = (r1, c1)" by (cases "copy_event d c")
  show ?case
  proof (cases "r1 < 0")
    case True
    then have "r = - 1" "rest = ds" "c' = c" "is_event d" "capacity \<le> rbc_count c"
      using Cons.prems copy_event_cases [OF step] by (auto simp: step shim_inv_def)
    with Cons.prems(2) show ?thesis
      by (intro disjI2 conjI exI [of _ "[]"] exI [of _ d]) (auto simp: shim_inv_def)
  next
    case False
    have "deliver copy_event ds c1 = (r, c', rest)" using Cons.prems(1) False by (simp add: step)
    from Cons.IH [OF this copy_event_inv [OF Cons.prems(2) assms(3) step False]]
    show ?thesis by (metis append.assoc append_Cons append_Nil)
  qed
qed

lemma length_encode_event: "length (encode_event e) = 32 + length (ev_task e)"
  by (simp add: encode_event_def)

lemma encode_fields:
  shows "raw_u32 (nth (encode_event e)) 0 = ev_pid e" and "raw_u16 (nth (encode_event e)) 4 = ev_command e"
    and "encode_event e ! 6 = ev_tool e" and "raw_u64 (nth (encode_event e)) 8 = ev_cmd_end_time_ns e"
    and "raw_u64 (nth (encode_event e)) 16 = ev_rqst_id e" and "raw_u64 (nth (encode_event e)) 24 = ev_metric e"
    and "drop 32 (encode_event e) = map (\<lambda>c. of_nat (of_char c)) (ev_task e)"
proof -
  note d = encode_event_def
  show "raw_u32 (nth (encode_event e)) 0 = ev_pid e"
    using raw_le_bytes(2) [of "[]" "ev_pid e"] by (simp add: d)
  show "raw_u16 (nth (encode_event e)) 4 = ev_command e"
    using raw_le_bytes(1) [of "le_bytes 4 (ev_pid e)"] by (simp add: d)
  show "encode_event e ! 6 = ev_tool e"
    by (simp add: d nth_append)
  show "raw_u64 (nth (encode_event e)) 8 = ev_cmd_end_time_ns e"
    using raw_le_bytes(3) [of "le_bytes 4 (ev_pid e) @ le_bytes 2 (ev_command e) @ [ev_tool e, 0]"] by (simp add: d)
  show "raw_u64 (nth (encode_event e)) 16 = ev_rqst_id e"
    using raw_le_bytes(3) [of "le_bytes 4 (ev_pid e) @ le_bytes 2 (ev_command e) @ [ev_tool e, 0] @
                                 le_bytes 8 (ev_cmd_end_time_ns e)"] by (simp add: d)
  show "raw_u64 (nth (encode_event e)) 24 = ev_metric e"
    using raw_le_bytes(3) [of "le_bytes 4 (ev_pid e) @ le_bytes 2 (ev_command e) @ [ev_tool e, 0] @
                                 le_bytes 8 (ev_cmd_end_time_ns e) @ le_bytes 8 (ev_rqst_id e)"] by (simp add: d)
  show "drop 32 (encode_event e) = map (\<lambda>c. of_nat (of_char c)) (ev_task e)" by (simp add: d)
qed

lemma decode_encode:
  assumes "length (ev_task e) = 16"
  shows "decode_event (encode_event e) = e"
proof -
  have "map (\<lambda>b. char_of (unat b)) (take 16 (drop 32 (encode_event e))) = ev_task e"
    using assms by (simp add: encode_fields(7) comp_def of_char_word)
  then show ?thesis by (simp add: decode_event_def encode_fields Let_def)
qed

lemma slot_of_concat:
  assumes "\<forall>x \<in> set xs. length x = n" and "i < length xs"
  shows "take n (drop (i * n) (concat xs)) = xs ! i"
  using assms
proof (induction xs arbitrary: i)
  case Nil
  then show ?case by simp
next
  case (Cons x xs)
  show ?case
  proof (cases i)
    case 0
    with Cons.prems show ?thesis by simp
  next
    case (Suc j)
    with Cons show ?thesis by simp
  qed
qed

lemma rb_poll_into_cases:
  assumes poll: "polls_in_order poll" and cap: "0 \<le> capacity" "nat capacity * sizeof_event \<le> length buf"
    and ctx: "\<not> rbc_fault ctx"
    and run: "rb_poll_into poll ctx buf capacity t rg = (ret, ctx', rest)"
  obtains seen lost where "rg = seen @ lost @ rest" "length lost \<le> 1" "\<forall>d \<in> set lost. is_event d"
    "shim_inv buf capacity seen ctx'" "ret < 0 \<longrightarrow> rest = rg \<or> capacity = 0"
    "0 \<le> ret \<longrightarrow> ret = rbc_count ctx'" "lost \<noteq> [] \<longrightarrow> rbc_count ctx' = capacity"
proof -
  define c0 where "c0 = ctx\<lparr>ext_buf := buf, ext_capacity := capacity, rbc_count := 0\<rparr>"
  have inv0: "shim_inv buf capacity [] c0"
    using ctx cap by (simp add: shim_inv_def c0_def event_bytes_def)
  obtain e c1 rest1 where p: "poll t copy_event rg c0 = (e, c1, rest1)" by (cases "poll t copy_event rg c0")
  have res: "ctx' = c1" "rest = rest1"
      "ret = (if 0 < rbc_count c1 then rbc_count c1 else if e < 0 \<and> e \<noteq> - 4 then e else 0)"
    using run p by (auto simp: rb_poll_into_def c0_def Let_def split: if_splits)
  from poll [unfolded polls_in_order_def, rule_format, of t copy_event rg c0]
  consider (fail) "e < 0" "c1 = c0" "rest1 = rg"
    | (round) k n r rest0 where "0 \<le> n" "deliver copy_event (take k rg) c0 = (r, c1, rest0)"
        "e = (if r < 0 then r else n)" "rest1 = rest0 @ drop k rg"
  proof (elim disjE exE conjE)
    fix err assume "err < 0" "poll t copy_event rg c0 = (err, c0, rg)"
    then show thesis using p by (intro fail) auto
  next
    fix k n
    obtain r c' rest0 where d: "deliver copy_event (take k rg) c0 = (r, c', rest0)"
      by (cases "deliver copy_event (take k rg) c0")
    assume "0 \<le> n" "case deliver copy_event (take k rg) c0 of
      (r, c', rest) \<Rightarrow> poll t copy_event rg c0 = (if r < 0 then r else n, c', rest @ drop k rg)"
    then show thesis using p d by (intro round [of n k r rest0]) auto
  qed
  then show ?thesis
  proof cases
    case fail
    show ?thesis
      by (rule that [of "[]" "[]"]) (use fail res inv0 in \<open>auto simp: c0_def\<close>)
  next
    case round
    have rg: "rg = take k rg @ drop k rg" by simp
    from deliver_copy_event [OF round(2) inv0 cap(2)]
    consider (all) "0 \<le> r" "rest0 = []" "shim_inv buf capacity (take k rg) c1"
      | (full) got lost where "r = - 1" "take k rg = got @ lost # rest0" "is_event lost"
          "shim_inv buf capacity got c1" "rbc_count c1 = capacity"
      by auto
    then show ?thesis
    proof cases
      case all
      show ?thesis
        by (rule that [of "take k rg" "[]"]) (use all round res in \<open>auto simp: shim_inv_def\<close>)
    next
      case full
      show ?thesis
        by (rule that [of got "[lost]"])
           (use full round res cap rg in \<open>auto simp: append_eq_append_conv_if\<close>)
    qed
  qed
qed

text \<open>After the events \<open>xs\<close> the slots of the buffer hold them in order.\<close>

lemma shim_inv_slot:
  assumes inv: "shim_inv buf capacity (map encode_event xs) c"
    and task: "\<forall>e \<in> set xs. length (ev_task e) = 16" and i: "i < length xs"
  shows "take 48 (drop (i * 48) (ext_buf c)) = encode_event (xs ! i)"
proof -
  let ?seen = "map encode_event xs"
  have len: "\<forall>d \<in> set ?seen. length d = 48"
    using task by (auto simp: length_encode_event)
  then have all: "filter is_event ?seen = ?seen" "map (take sizeof_event) ?seen = ?seen"
    by (auto simp: is_event_def sizeof_event_def filter_id_conv intro!: map_idI)
  have bytes: "event_bytes ?seen = concat ?seen" unfolding event_bytes_def all ..
  then have pre: "take (length (concat ?seen)) (ext_buf c) = concat ?seen"
    using inv by (simp add: shim_inv_def)
  have conc: "length (concat ?seen) = length xs * 48"
    using length_event_bytes [of ?seen] unfolding bytes all by (simp add: sizeof_event_def)
  have "take 48 (drop (i * 48) (ext_buf c)) = take 48 (drop (i * 48) (concat ?seen))"
    using i by (subst pre [symmetric]) (simp add: conc drop_take min_def)
  also have "\<dots> = ?seen ! i" by (rule slot_of_concat [OF len]) (simp add: i)
  finally show ?thesis using i by simp
qed

text \<open>A poll of a ring of events fills the buffer with some of the oldest of them.\<close>

lemma poll_prefix:
  assumes "polls_in_order poll" and "0 \<le> capacity" and "nat capacity * sizeof_event \<le> length buf"
    and "\<not> rbc_fault ctx" and task: "\<forall>e \<in> set es. length (ev_task e) = 16"
    and "rb_poll_into poll ctx buf capacity t (map encode_event es) = (ret, ctx', rest)"
  obtains n m where "n \<le> m" "m \<le> length es" "rest = map encode_event (drop m es)"
    "shim_inv buf capacity (map encode_event (take n es)) ctx'" "0 \<le> ret \<longrightarrow> nat ret = n"
proof -
  obtain seen lost where c: "map encode_event es = seen @ lost @ rest" "shim_inv buf capacity seen ctx'"
      "0 \<le> ret \<longrightarrow> ret = rbc_count ctx'"
    by (rule rb_poll_into_cases [OF assms(1-4,6)])
  let ?n = "length seen" and ?m = "length seen + length lost"
  have seen: "seen = map encode_event (take ?n es)"
    using arg_cong [OF c(1), of "take ?n"] by (simp add: take_map)
  have rest: "rest = map encode_event (drop ?m es)"
    using arg_cong [OF c(1), of "drop ?m"] by (simp add: drop_map)
  have "\<forall>d \<in> set seen. length d = 48"
    using task by (subst seen) (auto simp: length_encode_event dest!: in_set_takeD)
  then have "filter is_event seen = seen"
    by (auto simp: is_event_def sizeof_event_def filter_id_conv)
  then have "rbc_count ctx' = int ?n" using c(2) by (simp add: shim_inv_def)
  moreover have "?m \<le> length es" using arg_cong [OF c(1), of length] by simp
  ultimately show thesis
    using that [of ?n ?m] c(2,3) rest seen by auto
qed

lemma poll_yields_events:
  assumes "polls_in_order poll" and "0 \<le> capacity" and "nat capacity * sizeof_event \<le> length buf"
    and "\<not> rbc_fault ctx" and "\<forall>e \<in> set es. length (ev_task e) = 16"
    and "rb_poll_into poll ctx buf capacity t (map encode_event es) = (ret, ctx', rest)"
    and "i < nat ret"
  shows "i < length es \<and> decode_event (take 48 (drop (i * 48) (ext_buf ctx'))) = es ! i"
proof -
  obtain n m where n: "n \<le> m" "m \<le> length es" "shim_inv buf capacity (map encode_event (take n es)) ctx'"
      "0 \<le> ret \<longrightarrow> nat ret = n"
    by (rule poll_prefix [OF assms(1-6)])
  then have i: "i < n" "i < length es" using assms(7) by auto
  have "take 48 (drop (i * 48) (ext_buf ctx')) = encode_event (take n es ! i)"
    using assms(5) i by (intro shim_inv_slot [OF n(3)]) (auto dest!: in_set_takeD)
  then show ?thesis using i assms(5) by (simp add: decode_encode)
qed

section \<open>Properties\<close>

text \<open>
  One round of polling never writes outside the buffer of the caller, returns at most its
  capacity, and consumes a prefix of the ring: the buffer starts with the events among the
  consumed records, in order. At most one event is consumed without being copied, and only when
  the buffer is full; a negative result means that nothing was consumed, or no capacity.
\<close>

theorem rb_poll_into_copies_prefix:
  assumes "polls_in_order poll" and "0 \<le> capacity" and "nat capacity * sizeof_event \<le> length buf"
    and "\<not> rbc_fault ctx" and "rb_poll_into poll ctx buf capacity t rg = (ret, ctx', rest)"
  shows "\<not> rbc_fault ctx' \<and> length (ext_buf ctx') = length buf \<and> ret \<le> capacity \<and>
    (\<exists>seen lost. rg = seen @ lost @ rest \<and>
       take (length (event_bytes seen)) (ext_buf ctx') = event_bytes seen \<and>
       (0 \<le> ret \<longrightarrow> ret = int (length (filter is_event seen))) \<and>
       (lost \<noteq> [] \<longrightarrow> length lost = 1 \<and> int (length (filter is_event seen)) = capacity) \<and>
       (ret < 0 \<longrightarrow> rest = rg \<or> capacity = 0))"
proof -
  obtain seen lost where c: "rg = seen @ lost @ rest" "length lost \<le> 1" "shim_inv buf capacity seen ctx'"
    "ret < 0 \<longrightarrow> rest = rg \<or> capacity = 0" "0 \<le> ret \<longrightarrow> ret = rbc_count ctx'"
    "lost \<noteq> [] \<longrightarrow> rbc_count ctx' = capacity"
    by (rule rb_poll_into_cases [OF assms])
  have "ret \<le> capacity" using c(3,5) assms(2) by (cases "0 \<le> ret") (auto simp: shim_inv_def)
  moreover have "lost \<noteq> [] \<Longrightarrow> length lost = 1" using c(2) by (cases lost) auto
  ultimately show ?thesis using c by (auto simp: shim_inv_def)
qed

text \<open>
  What the consumer gets is what the tools wrote: when the ring holds the bytes of the events
  \<open>es\<close>, every slot of the buffer below the returned count decodes to the event of that position.
\<close>

theorem rb_poll_into_yields_events:
  assumes "polls_in_order poll" and "0 \<le> capacity" and "nat capacity * sizeof_event \<le> length buf"
    and "\<not> rbc_fault ctx" and "\<forall>e \<in> set es. length (ev_task e) = 16"
    and "rb_poll_into poll ctx buf capacity t (map encode_event es) = (ret, ctx', rest)"
    and "i < nat ret"
  shows "i < length es \<and> decode_event (take 48 (drop (i * 48) (ext_buf ctx'))) = es ! i"
  by (rule poll_yields_events [OF assms])

text \<open>
  Opening and closing gives back every context and every ring buffer, on each failure path
  too, but never the descriptor of the pinned map.
\<close>

theorem rb_open_close_balance:
  "case rb_open map_fd calloc_ok new_ok r of
     (ctx, r') \<Rightarrow> rb_close ctx r' =
       (if map_fd < 0 then r else r\<lparr>open_fds := map_fd # open_fds r\<rparr>)"
  by (simp add: rb_open_def rb_close_def Let_def)

section \<open>Witnesses\<close>

definition example_poll :: poll where
  "example_poll t cb rg c = deliver cb rg c"

lemma example_poll_in_order: "polls_in_order example_poll"
  unfolding polls_in_order_def
proof (intro allI disjI2)
  fix t cb rg c
  show "\<exists>k n. 0 \<le> n \<and> (case deliver cb (take k rg) c of
      (r, c', rest) \<Rightarrow> example_poll t cb rg c = (if r < 0 then r else n, c', rest @ drop k rg))"
    by (rule exI [of _ "length rg"], rule exI [of _ "max 0 (fst (deliver cb rg c))"])
       (auto simp: example_poll_def split: prod.split)
qed

definition example_ctx :: rb_context where
  "example_ctx = \<lparr>rbc_rb = True, ext_buf = [], ext_capacity = 0, rbc_count = 0, rbc_fault = False\<rparr>"

definition example_event :: event where
  "example_event = \<lparr>ev_pid = 77, ev_command = 5, ev_tool = 1, ev_cmd_end_time_ns = 9, ev_rqst_id = 4,
                    ev_metric = 12, ev_task = zero_buf 16\<rparr>"

theorem rb_poll_into_copies_prefix_witness:
  "\<exists>ctx'. rb_poll_into example_poll example_ctx (replicate 48 0) 1 0
            [replicate 48 1, replicate 48 2, replicate 48 3] = (1, ctx', [replicate 48 3]) \<and>
          take 48 (ext_buf ctx') = replicate 48 1"
proof -
  let ?rg = "[replicate 48 1, replicate 48 2, replicate 48 3] :: ring"
  have run: "rb_poll_into example_poll example_ctx (replicate 48 0) 1 0 ?rg =
      (1, \<lparr>rbc_rb = True, ext_buf = replicate 48 1, ext_capacity = 1, rbc_count = 1, rbc_fault = False\<rparr>,
       [replicate 48 3])"
    by (simp add: rb_poll_into_def example_poll_def example_ctx_def copy_event_def buf_write_def
        sizeof_event_def Let_def)
  from rb_poll_into_copies_prefix [OF example_poll_in_order _ _ _ run] have "(1 :: int) \<le> 1"
    by (auto simp: example_ctx_def sizeof_event_def)
  then show ?thesis using run by simp
qed

theorem rb_poll_into_yields_events_witness:
  "case rb_poll_into example_poll example_ctx (replicate 48 0) 1 0 (map encode_event [example_event]) of
     (ret, ctx', rest) \<Rightarrow> ret = 1 \<and> decode_event (take 48 (ext_buf ctx')) = example_event"
proof -
  have len: "length (encode_event example_event) = 48"
    by (simp add: length_encode_event example_event_def zero_buf_def)
  have run: "rb_poll_into example_poll example_ctx (replicate 48 0) 1 0 (map encode_event [example_event]) =
      (1, \<lparr>rbc_rb = True, ext_buf = encode_event example_event, ext_capacity = 1, rbc_count = 1,
           rbc_fault = False\<rparr>, [])"
    by (simp add: rb_poll_into_def example_poll_def example_ctx_def copy_event_def buf_write_def
        sizeof_event_def len Let_def)
  have "example_event = [example_event] ! 0" by simp
  with rb_poll_into_yields_events [OF example_poll_in_order _ _ _ _ run, of 0] show ?thesis
    unfolding run by (simp add: sizeof_event_def example_ctx_def example_event_def zero_buf_def)
qed

end
