(* ===== verification/Consumers.thy ===== *)
theory Consumers
  imports Ringbuf_Shim
begin

text \<open>
  The two Python consumers of the shared ring buffer (\<open>src/src/common/shim_consumer.py\<close>, which
  reads batches through the shim, and \<open>src/src/common/sample_consumer.py\<close>, which lets libbpf call it
  back for each record): the layout they declare for \<open>struct event\<close>, the line they print for an
  event, the polling loop of the first one, and \<open>--detach\<close>. A Python \<open>str\<close> is the list of its code
  points, \<open>bytes\<close> are a list of words. The text of a latency (\<open>'.2f'\<close> of a floating point quotient)
  is an argument, \<open>np_ms\<close> where numpy divides and \<open>py_ms\<close> where Python does.
\<close>

section \<open>Layouts\<close>

text \<open>A member: its name, size and alignment.\<close>

type_synonym member = "string \<times> nat \<times> nat"

fun struct_offsets :: "nat \<Rightarrow> member list \<Rightarrow> (string \<times> nat) list" where
  "struct_offsets n [] = []"
| "struct_offsets n ((name, sz, al) # ms) = (name, align_up al n) # struct_offsets (align_up al n + sz) ms"

fun struct_end :: "nat \<Rightarrow> member list \<Rightarrow> nat" where
  "struct_end n [] = n"
| "struct_end n ((name, sz, al) # ms) = struct_end (align_up al n + sz) ms"

definition struct_size :: "member list \<Rightarrow> nat" where
  "struct_size ms = align_up (foldr (\<lambda>(name, sz, al). max al) ms 1) (struct_end 0 ms)"

definition event_members :: "member list" where
  "event_members =
     [(''pid'', 4, 4), (''command'', 2, 2), (''tool'', 1, 1), (''cmd_end_time_ns'', 8, 8),
      (''rqst_id'', 8, 8), (''metric'', 8, 8), (''task'', 16, 1)]"

definition event_dtype :: "member list" where
  "event_dtype =
     [(''pid'', 4, 4), (''command'', 2, 2), (''tool'', 1, 1), (''_pad'', 1, 1),
      (''cmd_end_time_ns'', 8, 8), (''rqst_id'', 8, 8), (''metric_latency_ns'', 8, 8), (''task'', 16, 1)]"

definition sample_fields :: "member list" where
  "sample_fields =
     [(''pid'', 4, 4), (''command'', 2, 2), (''tool'', 1, 1), (''_pad'', 1, 1),
      (''cmd_end_time_ns'', 8, 8), (''rqst_id'', 8, 8), (''metric'', 8, 8), (''task'', 16, 1)]"

definition offset_of :: "member list \<Rightarrow> string \<Rightarrow> nat" where
  "offset_of ms name = the (map_of (struct_offsets 0 ms) name)"

section \<open>Reading an item\<close>

text \<open>
  A numpy \<open>S\<close> field drops its trailing NUL bytes, \<open>split(b"\x00", 1)[0]\<close> cuts at the first one, and
  so does the value of a \<open>ctypes\<close> character array.
\<close>

definition np_bytes :: "u8 list \<Rightarrow> u8 list" where
  "np_bytes bs = rev (dropWhile (\<lambda>b. b = 0) (rev bs))"

definition before_nul :: "u8 list \<Rightarrow> u8 list" where
  "before_nul bs = takeWhile (\<lambda>b. b \<noteq> 0) bs"

text \<open>
  \<open>bytes.decode(errors="replace")\<close>: UTF-8, where each longest prefix of a valid sequence that does not
  become one gives one U+FFFD.
\<close>

fun utf8_tail :: "nat \<Rightarrow> nat \<Rightarrow> nat \<Rightarrow> nat list \<Rightarrow> nat list" where
  "utf8_tail 0 lo hi bs = []"
| "utf8_tail (Suc n) lo hi [] = []"
| "utf8_tail (Suc n) lo hi (b # bs) = (if lo \<le> b \<and> b \<le> hi then b # utf8_tail n 0x80 0xBF bs else [])"

definition utf8_lead :: "nat \<Rightarrow> (nat \<times> nat \<times> nat) option" where
  "utf8_lead b =
     (if 0xC2 \<le> b \<and> b \<le> 0xDF then Some (1, 0x80, 0xBF)
      else if b = 0xE0 then Some (2, 0xA0, 0xBF)
      else if b = 0xED then Some (2, 0x80, 0x9F)
      else if 0xE1 \<le> b \<and> b \<le> 0xEF then Some (2, 0x80, 0xBF)
      else if b = 0xF0 then Some (3, 0x90, 0xBF)
      else if 0xF1 \<le> b \<and> b \<le> 0xF3 then Some (3, 0x80, 0xBF)
      else if b = 0xF4 then Some (3, 0x80, 0x8F)
      else None)"

text \<open>The code point at the head, and how many bytes follow its first one.\<close>

definition utf8_first :: "nat \<Rightarrow> nat list \<Rightarrow> nat \<times> nat" where
  "utf8_first b bs =
     (if b < 0x80 then (b, 0)
      else case utf8_lead b of
             None \<Rightarrow> (0xFFFD, 0)
           | Some (n, lo, hi) \<Rightarrow>
               let tail = utf8_tail n lo hi bs
               in if length tail = n
                  then (foldl (\<lambda>a c. a * 64 + (c - 0x80)) (b mod 2 ^ (6 - n)) tail, n)
                  else (0xFFFD, length tail))"

function utf8_decode :: "nat list \<Rightarrow> nat list" where
  "utf8_decode [] = []"
| "utf8_decode (b # bs) = (let (cp, n) = utf8_first b bs in cp # utf8_decode (drop n bs))"
  by pat_completeness auto

termination by (relation "measure length") auto

record shim_item =
  si_pid :: int
  si_command :: nat
  si_tool :: "u8 list"
  si_rqst_id :: nat
  si_metric :: u64
  si_task :: "nat list"

definition decode_task :: "u8 list \<Rightarrow> nat list" where
  "decode_task bs = utf8_decode (map unat bs)"

definition shim_item_of :: "u8 list \<Rightarrow> shim_item" where
  "shim_item_of bs =
     (let at = (\<lambda>i. bs ! i); off = offset_of event_dtype
      in \<lparr>si_pid = sint (raw_u32 at (off ''pid'')), si_command = unat (raw_u16 at (off ''command'')),
          si_tool = np_bytes [at (off ''tool'')], si_rqst_id = unat (raw_u64 at (off ''rqst_id'')),
          si_metric = raw_u64 at (off ''metric_latency_ns''),
          si_task = decode_task (before_nul (np_bytes (take 16 (drop (off ''task'') bs))))\<rparr>)"

definition sample_item_of :: "u8 list \<Rightarrow> shim_item" where
  "sample_item_of bs =
     (let at = (\<lambda>i. bs ! i); off = offset_of sample_fields
      in \<lparr>si_pid = uint (raw_u32 at (off ''pid'')), si_command = unat (raw_u16 at (off ''command'')),
          si_tool = [at (off ''tool'')], si_rqst_id = unat (raw_u64 at (off ''rqst_id'')),
          si_metric = raw_u64 at (off ''metric''),
          si_task = decode_task (before_nul (before_nul (take 16 (drop (off ''task'') bs))))\<rparr>)"

section \<open>The printed line\<close>

definition code_points :: "string \<Rightarrow> nat list" where
  "code_points s = map of_char s"

definition pad_right :: "nat \<Rightarrow> nat list \<Rightarrow> nat list" where
  "pad_right n xs = xs @ replicate (n - length xs) 32"

fun hex_digits :: "nat \<Rightarrow> nat \<Rightarrow> string" where
  "hex_digits 0 m = []"
| "hex_digits (Suc n) m = hex_digits n (m div 16) @ [''0123456789abcdef'' ! (m mod 16)]"

definition line_prefix :: "shim_item \<Rightarrow> nat list" where
  "line_prefix i =
     code_points ''pid='' @ pad_right 7 (code_points (sdec (si_pid i))) @
     code_points '' task='' @ pad_right 16 (si_task i) @
     code_points '' rqst_id='' @ pad_right 12 (code_points (dec (si_rqst_id i))) @
     code_points '' cmd='' @ pad_right 30 (code_points (dec (si_command i)))"

text \<open>\<open>f"0x{status:08x}"\<close> of a value below 2^32 has exactly eight digits.\<close>

definition shim_line :: "(u64 \<Rightarrow> string) \<Rightarrow> shim_item \<Rightarrow> nat list" where
  "shim_line np_ms i =
     line_prefix i @
     code_points
       (if si_tool i = [0x01] then '' ntstatus=0x'' @ hex_digits 8 (unat (si_metric i AND 0xffffffff))
        else if si_tool i = [0x0b] then '' error='' @ dec (unat (si_metric i AND 0xffffffff))
        else '' latency='' @ np_ms (si_metric i) @ ''ms'')"

definition sample_line :: "(u64 \<Rightarrow> string) \<Rightarrow> shim_item \<Rightarrow> nat list" where
  "sample_line py_ms i =
     line_prefix i @
     code_points
       (if si_tool i = [0x01] then '' ntstatus=0x'' @ hex_digits 8 (unat (metric_retval (si_metric i)))
        else if si_tool i = [0x0b] then '' error='' @ sdec (sint (metric_retval (si_metric i)))
        else '' latency='' @ py_ms (si_metric i) @ ''ms'')"

text \<open>The callback of the sample consumer: its result, and the line if it prints one.\<close>

definition sample_handle_event :: "(u64 \<Rightarrow> string) \<Rightarrow> u8 list \<Rightarrow> int \<times> nat list option" where
  "sample_handle_event py_ms data =
     (if length data < struct_size sample_fields then (0, None)
      else (0, Some (sample_line py_ms (sample_item_of data))))"

section \<open>The polling loop of the shim consumer\<close>

abbreviation (input) MAX_BATCH :: nat where "MAX_BATCH \<equiv> 2048"

text \<open>
  One iteration of \<open>while not exiting\<close>: what \<open>exiting\<close> is when it is tested, what libbpf does in the
  poll, the memory \<open>np.empty\<close> hands out, and the events that have come in since the last iteration.
\<close>

record shim_iteration =
  rd_exiting :: bool
  rd_poll :: poll
  rd_buf :: "u8 list"
  rd_new :: "event list"

text \<open>The count, the printed lines, and the ring afterwards.\<close>

definition shim_round ::
    "(u64 \<Rightarrow> string) \<Rightarrow> poll \<Rightarrow> u8 list \<Rightarrow> rb_context \<Rightarrow> ring \<Rightarrow>
     int \<times> nat list list \<times> rb_context \<times> ring" where
  "shim_round np_ms poll buf ctx rg =
     (let (count, ctx, rg) = rb_poll_into poll ctx buf (int MAX_BATCH) 100 rg
      in (count,
          if count < 0 \<and> count \<noteq> - 4 then []
          else map (\<lambda>i. shim_line np_ms (shim_item_of (take 48 (drop (i * 48) (ext_buf ctx))))) [0..<nat count],
          ctx, rg))"

text \<open>Whether the loop has ended, all printed lines, and the ring.\<close>

fun shim_loop ::
    "(u64 \<Rightarrow> string) \<Rightarrow> shim_iteration list \<Rightarrow> rb_context \<Rightarrow> ring \<Rightarrow> bool \<times> nat list list \<times> rb_context \<times> ring" where
  "shim_loop np_ms [] ctx rg = (False, [], ctx, rg)"
| "shim_loop np_ms (r # rs) ctx rg =
     (let rg = rg @ map encode_event (rd_new r)
      in if rd_exiting r then (True, [], ctx, rg)
         else let (count, lines, ctx, rg) = shim_round np_ms (rd_poll r) (rd_buf r) ctx rg
              in if count < 0 \<and> count \<noteq> - 4 then (True, [], ctx, rg)
                 else let (ended, more, ctx, rg) = shim_loop np_ms rs ctx rg
                      in (ended, lines @ more, ctx, rg))"

section \<open>The polling loop of the sample consumer\<close>

text \<open>The registered callback: what \<open>_handle_event\<close> prints is appended to the output.\<close>

definition sample_cb :: "(u64 \<Rightarrow> string) \<Rightarrow> u8 list \<Rightarrow> nat list list \<Rightarrow> int \<times> nat list list" where
  "sample_cb py_ms data out =
     (let (ret, line) = sample_handle_event py_ms data
      in (ret, case line of None \<Rightarrow> out | Some l \<Rightarrow> out @ [l]))"

type_synonym sample_poll =
  "int \<Rightarrow> (u8 list \<Rightarrow> nat list list \<Rightarrow> int \<times> nat list list) \<Rightarrow> ring \<Rightarrow> nat list list \<Rightarrow>
   int \<times> nat list list \<times> ring"

record sample_iteration =
  sr_exiting :: bool
  sr_poll :: sample_poll
  sr_new :: "event list"

fun sample_loop ::
    "(u64 \<Rightarrow> string) \<Rightarrow> sample_iteration list \<Rightarrow> nat list list \<Rightarrow> ring \<Rightarrow> bool \<times> nat list list \<times> ring" where
  "sample_loop py_ms [] out rg = (False, out, rg)"
| "sample_loop py_ms (r # rs) out rg =
     (let rg = rg @ map encode_event (sr_new r)
      in if sr_exiting r then (True, out, rg)
         else let (err, out, rg) = sr_poll r 100 (sample_cb py_ms) rg out
              in if err < 0 \<and> err \<noteq> - 4 then (True, out, rg) else sample_loop py_ms rs out rg)"

section \<open>Detaching\<close>

text \<open>The paths that exist under \<open>/sys/fs/bpf\<close>, and those that \<open>os.unlink\<close> may not remove.\<close>

record bpffs =
  fs_paths :: "string set"
  fs_denied :: "string set"

definition RINGBUF_PINNED :: string where
  "RINGBUF_PINNED = ''/sys/fs/bpf/aodrb''"

definition tool_links :: "(string \<times> string list) list" where
  "tool_links =
     [(''smb'', [''/sys/fs/bpf/aod_smb_mid_alloc'', ''/sys/fs/bpf/aod_smb_mid_release'']),
      (''nfs'', [''/sys/fs/bpf/aod_nfs_seq_setup'', ''/sys/fs/bpf/aod_nfs_rpc_exit''])]"

text \<open>One \<open>try: os.unlink(path)\<close>; a missing file is passed over, another error is counted.\<close>

definition try_unlink :: "string \<Rightarrow> nat \<times> bpffs \<Rightarrow> nat \<times> bpffs" where
  "try_unlink path = (\<lambda>(errors, fs).
     if path \<notin> fs_paths fs then (errors, fs)
     else if path \<in> fs_denied fs then (errors + 1, fs)
     else (errors, fs\<lparr>fs_paths := fs_paths fs - {path}\<rparr>))"

definition detach_tool :: "string \<Rightarrow> nat \<times> bpffs \<Rightarrow> nat \<times> bpffs" where
  "detach_tool tool = (\<lambda>(errors, fs).
     case map_of tool_links tool of
       None \<Rightarrow> (errors + 1, fs)
     | Some links \<Rightarrow> fold try_unlink links (errors, fs))"

definition detach_targets :: "string list option \<Rightarrow> string list" where
  "detach_targets tools =
     (case tools of None \<Rightarrow> map fst tool_links | Some ts \<Rightarrow> if ts = [] then map fst tool_links else ts)"

definition detach :: "string list option \<Rightarrow> bpffs \<Rightarrow> int \<times> bpffs" where
  "detach tools fs =
     (let targets = detach_targets tools;
          (errors, fs) = fold detach_tool targets (0, fs);
          remaining = concat (map snd (filter (\<lambda>(t, paths). t \<notin> set targets) tool_links));
          (errors, fs) = (if \<exists>p \<in> set remaining. p \<in> fs_paths fs then (errors, fs)
                          else try_unlink RINGBUF_PINNED (errors, fs))
      in (if errors \<noteq> 0 then 1 else 0, fs))"

text \<open>\<open>sys.argv[idx + 1:] or None\<close> behind \<open>--detach\<close>.\<close>

definition detach_args :: "string list \<Rightarrow> string list option option" where
  "detach_args argv =
     (if ''--detach'' \<notin> set argv then None
      else Some (case tl (dropWhile (\<lambda>a. a \<noteq> ''--detach'') argv) of [] \<Rightarrow> None | ts \<Rightarrow> Some ts))"

section \<open>The programs\<close>

text \<open>
  The exit status (\<open>None\<close> while it polls on), the printed lines, the ring, the paths and the open
  resources. \<open>bpf_obj_get\<close> returns \<open>map_fd\<close>; the flags tell which allocations succeed. An error of the
  poll ends the loop with the status 0, as a signal does.
\<close>

definition shim_main ::
    "(u64 \<Rightarrow> string) \<Rightarrow> string list \<Rightarrow> int \<Rightarrow> bool \<Rightarrow> bool \<Rightarrow> shim_iteration list \<Rightarrow> ring \<Rightarrow> bpffs \<Rightarrow> shim_resources \<Rightarrow>
     int option \<times> nat list list \<times> ring \<times> bpffs \<times> shim_resources" where
  "shim_main np_ms argv map_fd calloc_ok new_ok rounds rg fs r =
     (case detach_args argv of
        Some tools \<Rightarrow> (let (ret, fs) = detach tools fs in (Some ret, [], rg, fs, r))
      | None \<Rightarrow>
          (case rb_open map_fd calloc_ok new_ok r of
             (None, r) \<Rightarrow> (Some 1, [], rg, fs, r)
           | (Some ctx, r) \<Rightarrow>
               let (ended, out, ctx, rg) = shim_loop np_ms rounds ctx rg
               in if ended then (Some 0, out, rg, fs, rb_close (Some ctx) r) else (None, out, rg, fs, r)))"

definition sample_main ::
    "(u64 \<Rightarrow> string) \<Rightarrow> string list \<Rightarrow> int \<Rightarrow> bool \<Rightarrow> sample_iteration list \<Rightarrow> ring \<Rightarrow> bpffs \<Rightarrow> shim_resources \<Rightarrow>
     int option \<times> nat list list \<times> ring \<times> bpffs \<times> shim_resources" where
  "sample_main py_ms argv map_fd new_ok rounds rg fs r =
     (case detach_args argv of
        Some tools \<Rightarrow> (let (ret, fs) = detach tools fs in (Some ret, [], rg, fs, r))
      | None \<Rightarrow>
          if map_fd < 0 then (Some 1, [], rg, fs, r)
          else let r = r\<lparr>open_fds := map_fd # open_fds r\<rparr>
               in if \<not> new_ok then (Some 1, [], rg, fs, r)
                  else let r = r\<lparr>rings := rings r + 1\<rparr>;
                           (ended, out, rg) = sample_loop py_ms rounds [] rg
                       in if ended then (Some 0, out, rg, fs, r\<lparr>rings := rings r - 1\<rparr>)
                          else (None, out, rg, fs, r))"

section \<open>Facts\<close>

lemma sample_offsets:
  "offset_of sample_fields ''pid'' = 0" "offset_of sample_fields ''command'' = 4"
  "offset_of sample_fields ''tool'' = 6" "offset_of sample_fields ''rqst_id'' = 16"
  "offset_of sample_fields ''metric'' = 24" "offset_of sample_fields ''task'' = 32"
  by code_simp+

lemma dtype_offsets:
  "offset_of event_dtype ''pid'' = 0" "offset_of event_dtype ''command'' = 4"
  "offset_of event_dtype ''tool'' = 6" "offset_of event_dtype ''rqst_id'' = 16"
  "offset_of event_dtype ''metric_latency_ns'' = 24" "offset_of event_dtype ''task'' = 32"
  by code_simp+

lemma sizes: "struct_size sample_fields = 48" "struct_size event_dtype = 48" "struct_size event_members = 48"
  by code_simp+

text \<open>What both consumers see of a task name.\<close>

definition task_text :: "event \<Rightarrow> nat list" where
  "task_text e = utf8_decode (code_points (c_str (ev_task e)))"

lemma before_nul_np_bytes: "before_nul (np_bytes bs) = before_nul bs"
proof (induction bs rule: rev_induct)
  case (snoc b bs)
  then show ?case
    by (cases "b = 0") (auto simp: np_bytes_def before_nul_def takeWhile_append)
qed (simp add: np_bytes_def before_nul_def)

lemma before_nul_twice [simp]: "before_nul (before_nul bs) = before_nul bs"
  by (simp add: before_nul_def takeWhile_idem)

lemma unat_char_word: "unat (of_nat (of_char c) :: u8) = of_char c"
proof -
  have "of_char c < (256 :: nat)" by simp
  then show ?thesis by (simp add: unat_of_nat del: nat_of_char_less_256)
qed

lemma char_word_0: "(of_nat (of_char c) :: u8) = 0 \<longleftrightarrow> c = NUL"
proof
  assume "(of_nat (of_char c) :: u8) = 0"
  then have "(of_char c :: nat) = of_char NUL" using unat_char_word [of c] by simp
  then show "c = NUL" by (metis of_char_eq_iff)
qed simp

lemma before_nul_chars:
  "before_nul (map (\<lambda>c. of_nat (of_char c)) t) = map (\<lambda>c. of_nat (of_char c)) (c_str t)"
  by (simp add: before_nul_def c_str_def takeWhile_map comp_def char_word_0)

lemma decode_chars: "decode_task (map (\<lambda>c. of_nat (of_char c)) t) = utf8_decode (code_points t)"
  by (simp add: decode_task_def code_points_def comp_def unat_char_word)

lemma shim_item_encode:
  assumes "length (ev_task e) = 16"
  shows "shim_item_of (encode_event e) =
    \<lparr>si_pid = sint (ev_pid e), si_command = unat (ev_command e), si_tool = np_bytes [ev_tool e],
     si_rqst_id = unat (ev_rqst_id e), si_metric = ev_metric e, si_task = task_text e\<rparr>"
  using assms
  by (simp add: shim_item_of_def dtype_offsets encode_fields Let_def before_nul_np_bytes
      before_nul_chars decode_chars task_text_def)

lemma sample_item_encode:
  assumes "length (ev_task e) = 16"
  shows "sample_item_of (encode_event e) =
    \<lparr>si_pid = uint (ev_pid e), si_command = unat (ev_command e), si_tool = [ev_tool e],
     si_rqst_id = unat (ev_rqst_id e), si_metric = ev_metric e, si_task = task_text e\<rparr>"
  using assms
  by (simp add: sample_item_of_def sample_offsets encode_fields Let_def before_nul_chars decode_chars
      task_text_def)

lemma np_bytes_tool: "np_bytes [b] = (if b = 0 then [] else [b])"
  by (simp add: np_bytes_def)

lemma low_word: "unat (m AND 0xffffffff :: u64) = unat (metric_retval m)"
proof -
  have "m AND 0xffffffff = take_bit 32 m" by (simp add: take_bit_eq_mask mask_eq_exp_minus_1)
  then show ?thesis by (simp add: metric_retval_def unsigned_ucast_eq unsigned_take_bit_eq)
qed

lemma sint_nonneg:
  fixes w :: s32
  assumes "0 \<le> sint w"
  shows "sint w = uint w"
proof -
  have "sint w < 2 ^ 32" using sint_less [of w] by simp
  with assms have "take_bit 32 (sint w) = sint w" by (intro take_bit_int_eq_self) auto
  then show ?thesis by (simp add: uint_sint)
qed

lemma sdec_signed: "0 \<le> sint (w :: s32) \<Longrightarrow> sdec (sint w) = dec (unat w)"
  by (simp add: sint_nonneg sdec_def)

lemma sdec_unsigned: "sdec (uint (w :: s32)) = dec (unat w)"
  by (simp add: sdec_def)

text \<open>An ASCII name is shown as it is.\<close>

lemma utf8_decode_ascii: "\<forall>b \<in> set bs. b < 0x80 \<Longrightarrow> utf8_decode bs = bs"
  by (induction bs rule: utf8_decode.induct) (auto simp: utf8_first_def)

section \<open>Facts about the loop\<close>

text \<open>One round over a ring of events prints the lines of a prefix of them.\<close>

lemma shim_round_prefix:
  assumes "polls_in_order poll" and "length buf = MAX_BATCH * 48" and "\<not> rbc_fault ctx"
    and task: "\<forall>e \<in> set es. length (ev_task e) = 16"
    and run: "shim_round np_ms poll buf ctx (map encode_event es) = (count, lines, ctx', rest)"
  obtains n m where "n \<le> m" "m \<le> length es" "rest = map encode_event (drop m es)"
    "lines = map (\<lambda>e. shim_line np_ms (shim_item_of (encode_event e))) (take n es)"
    "\<not> rbc_fault ctx'"
proof -
  have poll: "rb_poll_into poll ctx buf (int MAX_BATCH) 100 (map encode_event es) = (count, ctx', rest)"
    and lines: "lines = (if count < 0 \<and> count \<noteq> - 4 then []
          else map (\<lambda>i. shim_line np_ms (shim_item_of (take 48 (drop (i * 48) (ext_buf ctx'))))) [0..<nat count])"
    using run by (auto simp: shim_round_def split: prod.splits)
  have cap: "nat (int MAX_BATCH) * sizeof_event \<le> length buf" using assms(2) by (simp add: sizeof_event_def)
  obtain n m where n: "n \<le> m" "m \<le> length es" "rest = map encode_event (drop m es)"
      "shim_inv buf (int MAX_BATCH) (map encode_event (take n es)) ctx'" "0 \<le> count \<longrightarrow> nat count = n"
    by (rule poll_prefix [OF assms(1) _ cap assms(3) task poll]) simp_all
  have "\<not> rbc_fault ctx'" using n(4) by (simp add: shim_inv_def)
  show thesis
  proof (cases "0 \<le> count")
    case True
    have "take 48 (drop (i * 48) (ext_buf ctx')) = encode_event (take n es ! i)" if "i < n" for i
      using task that n(1,2) by (intro shim_inv_slot [OF n(4)]) (auto dest!: in_set_takeD)
    then have "lines = map (\<lambda>e. shim_line np_ms (shim_item_of (encode_event e))) (take n es)"
      using True n(1,2,5) by (auto simp: lines intro!: nth_equalityI)
    with n \<open>\<not> rbc_fault ctx'\<close> show thesis by (rule_tac that [of n m]) auto
  next
    case False
    then have "lines = []" by (simp add: lines)
    with n \<open>\<not> rbc_fault ctx'\<close> show thesis by (rule_tac that [of 0 m]) auto
  qed
qed

text \<open>A poll that goes on until the ring is empty or the callback refuses, as libbpf's does.\<close>

definition polls_all ::
    "(int \<Rightarrow> (u8 list \<Rightarrow> 'c \<Rightarrow> int \<times> 'c) \<Rightarrow> ring \<Rightarrow> 'c \<Rightarrow> int \<times> 'c \<times> ring) \<Rightarrow> bool" where
  "polls_all poll \<longleftrightarrow>
     (\<forall>t cb rg c. \<exists>n \<ge> 0. case deliver cb rg c of
        (r, c', rest) \<Rightarrow> poll t cb rg c = (if r < 0 then r else n, c', rest))"

lemma polls_allD:
  assumes "polls_all poll" and "deliver cb rg c = (r, c', rest)"
  shows "\<exists>n \<ge> 0. poll t cb rg c = (if r < 0 then r else n, c', rest)"
  using assms(1) [unfolded polls_all_def, rule_format, of t cb rg c] assms(2)
  by simp

lemma polls_all_in_order: "polls_all poll \<Longrightarrow> polls_in_order poll"
  unfolding polls_all_def polls_in_order_def
proof (intro allI disjI2)
  fix t cb rg c
  assume "\<forall>t cb rg c. \<exists>n \<ge> 0. case deliver cb rg c of
        (r, c', rest) \<Rightarrow> poll t cb rg c = (if r < 0 then r else n, c', rest)"
  then have "\<exists>n \<ge> 0. case deliver cb rg c of (r, c', rest) \<Rightarrow> poll t cb rg c = (if r < 0 then r else n, c', rest)"
    by (elim allE)
  then obtain n where "0 \<le> n" "case deliver cb rg c of (r, c', rest) \<Rightarrow> poll t cb rg c = (if r < 0 then r else n, c', rest)"
    by (elim exE conjE)
  then show "\<exists>k n. 0 \<le> n \<and> (case deliver cb (take k rg) c of
      (r, c', rest) \<Rightarrow> poll t cb rg c = (if r < 0 then r else n, c', rest @ drop k rg))"
    by (intro exI [of _ "length rg"] exI [of _ n]) auto
qed

text \<open>Such a round prints the lines of the oldest 2048 events and takes one more off a longer ring.\<close>

lemma shim_round_all:
  assumes poll: "polls_all poll" and buf: "length buf = MAX_BATCH * 48" and ctx: "\<not> rbc_fault ctx"
    and task: "\<forall>e \<in> set es. length (ev_task e) = 16"
  obtains ctx' where "shim_round np_ms poll buf ctx (map encode_event es) =
      (int (min MAX_BATCH (length es)),
       map (\<lambda>e. shim_line np_ms (shim_item_of (encode_event e))) (take MAX_BATCH es), ctx',
       map encode_event (drop (MAX_BATCH + 1) es))"
    "\<not> rbc_fault ctx'"
proof -
  let ?rg = "map encode_event es"
  define c0 where "c0 = ctx\<lparr>ext_buf := buf, ext_capacity := 2048, rbc_count := 0\<rparr>"
  have inv0: "shim_inv buf (int MAX_BATCH) [] c0"
    using ctx by (simp add: shim_inv_def c0_def event_bytes_def)
  have cap: "nat (int MAX_BATCH) * sizeof_event \<le> length buf" using buf by (simp add: sizeof_event_def)
  have events: "filter is_event (map encode_event xs) = map encode_event xs" if "set xs \<subseteq> set es" for xs
    using task that by (auto simp: filter_id_conv is_event_def sizeof_event_def length_encode_event subset_iff)
  obtain r c1 rest where d: "deliver copy_event ?rg c0 = (r, c1, rest)" by (cases "deliver copy_event ?rg c0")
  obtain n where n: "0 \<le> n" "poll 100 copy_event ?rg c0 = (if r < 0 then r else n, c1, rest)"
    using polls_allD [OF poll d, of 100] by blast
  have got: "shim_inv buf (int MAX_BATCH) (map encode_event (take MAX_BATCH es)) c1 \<and>
        rest = map encode_event (drop (MAX_BATCH + 1) es)"
    using deliver_copy_event [OF d inv0 cap]
  proof (elim disjE exE conjE)
    assume all: "rest = []" "shim_inv buf (int MAX_BATCH) ([] @ ?rg) c1"
    then have "length es \<le> MAX_BATCH" using events [of es] by (simp add: shim_inv_def)
    then show ?thesis using all by simp
  next
    fix got lost
    assume full: "?rg = got @ lost # rest" "shim_inv buf (int MAX_BATCH) ([] @ got) c1" "rbc_count c1 = int MAX_BATCH"
    have g: "got = map encode_event (take (length got) es)"
      using arg_cong [OF full(1), of "take (length got)"] by (simp add: take_map)
    have "filter is_event got = got" by (subst g, subst (2) g) (rule events, auto dest: in_set_takeD)
    then have len: "length got = MAX_BATCH" using full(2,3) by (simp add: shim_inv_def)
    have "rest = map encode_event (drop (MAX_BATCH + 1) es)"
      using arg_cong [OF full(1), of "drop (MAX_BATCH + 1)"] len by (simp add: drop_map)
    with full(2) g len show ?thesis by simp
  qed
  then have count: "rbc_count c1 = int (min MAX_BATCH (length es))"
    using events [of "take MAX_BATCH es"] set_take_subset [of MAX_BATCH es] by (simp add: shim_inv_def del: filter_map)
  have nonneg: "r < 0 \<Longrightarrow> es \<noteq> []" using d by (cases es) auto
  have run: "rb_poll_into poll ctx buf (int MAX_BATCH) 100 ?rg = (int (min MAX_BATCH (length es)), c1, rest)"
    using n nonneg count by (cases "es = []") (auto simp: rb_poll_into_def c0_def [symmetric] Let_def)
  have "take 48 (drop (i * 48) (ext_buf c1)) = encode_event (es ! i)" if "i < min MAX_BATCH (length es)" for i
    using shim_inv_slot [of buf "int MAX_BATCH" "take MAX_BATCH es" c1 i] got task that
    by (auto dest: in_set_takeD)
  then have "map (\<lambda>i. shim_line np_ms (shim_item_of (take 48 (drop (i * 48) (ext_buf c1))))) [0..<min MAX_BATCH (length es)] =
      map (\<lambda>e. shim_line np_ms (shim_item_of (encode_event e))) (take MAX_BATCH es)"
    by (intro nth_equalityI) auto
  then show thesis
    using got run by (intro that [of c1]) (auto simp: shim_round_def shim_inv_def)
qed

text \<open>A poll that meets more events than fit loses the one after the last that fits.\<close>

function polled :: "event list \<Rightarrow> event list" where
  "polled es = (if es = [] then [] else take MAX_BATCH es @ polled (drop (MAX_BATCH + 1) es))"
  by pat_completeness auto

termination by (relation "measure length") auto

declare polled.simps [simp del]

lemma polled_short: "length es \<le> MAX_BATCH \<Longrightarrow> polled es = es"
  by (simp add: polled.simps [of es] polled.simps [of "[]"])

lemma length_polled: "length es \<le> length (polled es) + length es div (MAX_BATCH + 1)"
proof (induction es rule: polled.induct)
  case (1 es)
  show ?case
  proof (cases "length es \<le> MAX_BATCH")
    case True
    then show ?thesis by (simp add: polled_short)
  next
    case False
    then have "length es div (MAX_BATCH + 1) = Suc ((length es - (MAX_BATCH + 1)) div (MAX_BATCH + 1))"
      by (intro le_div_geq) auto
    then show ?thesis using 1 False by (subst polled.simps) auto
  qed
qed

lemma shim_loop_drains:
  assumes "\<forall>r \<in> set rounds. \<not> rd_exiting r \<and> polls_all (rd_poll r) \<and> length (rd_buf r) = MAX_BATCH * 48 \<and> rd_new r = []"
    and "\<forall>e \<in> set es. length (ev_task e) = 16" and "\<not> rbc_fault ctx"
    and "length es \<le> (MAX_BATCH + 1) * length rounds"
  shows "\<exists>ctx'. shim_loop np_ms rounds ctx (map encode_event es) =
    (False, map (\<lambda>e. shim_line np_ms (shim_item_of (encode_event e))) (polled es), ctx', [])"
  using assms
proof (induction rounds arbitrary: es ctx)
  case Nil
  then show ?case by (simp add: polled_short)
next
  case (Cons r rs)
  obtain ctx' where round: "shim_round np_ms (rd_poll r) (rd_buf r) ctx (map encode_event es) =
      (int (min MAX_BATCH (length es)),
       map (\<lambda>e. shim_line np_ms (shim_item_of (encode_event e))) (take MAX_BATCH es), ctx',
       map encode_event (drop (MAX_BATCH + 1) es))"
    and ctx': "\<not> rbc_fault ctx'"
    using shim_round_all [of "rd_poll r" "rd_buf r" ctx es np_ms] Cons.prems by auto
  have "\<exists>ctx2. shim_loop np_ms rs ctx' (map encode_event (drop (MAX_BATCH + 1) es)) =
      (False, map (\<lambda>e. shim_line np_ms (shim_item_of (encode_event e))) (polled (drop (MAX_BATCH + 1) es)), ctx2, [])"
    using Cons.prems ctx' by (intro Cons.IH) (auto dest: in_set_dropD)
  moreover have "polled es = take MAX_BATCH es @ polled (drop (MAX_BATCH + 1) es)"
    by (cases "es = []") (simp_all add: polled.simps [of es] polled.simps [of "[]"])
  ultimately show ?case using Cons.prems(1) by (auto simp: round)
qed

lemma shim_loop_keeps_up:
  assumes "\<forall>r \<in> set rounds. \<not> rd_exiting r \<and> polls_all (rd_poll r) \<and> length (rd_buf r) = MAX_BATCH * 48 \<and>
      length (rd_new r) \<le> MAX_BATCH \<and> (\<forall>e \<in> set (rd_new r). length (ev_task e) = 16)"
    and "\<not> rbc_fault ctx"
  shows "\<exists>ctx'. shim_loop np_ms rounds ctx [] =
    (False, map (\<lambda>e. shim_line np_ms (shim_item_of (encode_event e))) (concat (map rd_new rounds)), ctx', [])"
  using assms
proof (induction rounds arbitrary: ctx)
  case (Cons r rs)
  obtain ctx' where round: "shim_round np_ms (rd_poll r) (rd_buf r) ctx (map encode_event (rd_new r)) =
      (int (min MAX_BATCH (length (rd_new r))),
       map (\<lambda>e. shim_line np_ms (shim_item_of (encode_event e))) (take MAX_BATCH (rd_new r)), ctx',
       map encode_event (drop (MAX_BATCH + 1) (rd_new r)))"
    and ctx': "\<not> rbc_fault ctx'"
    using shim_round_all [of "rd_poll r" "rd_buf r" ctx "rd_new r" np_ms] Cons.prems by auto
  with Cons.IH [OF _ ctx'] Cons.prems(1) show ?case by auto
qed simp

text \<open>The sample consumer never refuses a record.\<close>

lemma deliver_sample_cb:
  assumes "\<forall>e \<in> set es. length (ev_task e) = 16"
  shows "deliver (sample_cb py_ms) (map encode_event es) out =
    (0, out @ map (\<lambda>e. sample_line py_ms (sample_item_of (encode_event e))) es, [])"
  using assms
  by (induction es arbitrary: out)
     (auto simp: sample_cb_def sample_handle_event_def sizes length_encode_event)

lemma sample_loop_prints:
  assumes "\<forall>r \<in> set rounds. \<not> sr_exiting r \<and> polls_all (sr_poll r) \<and> (\<forall>e \<in> set (sr_new r). length (ev_task e) = 16)"
  shows "sample_loop py_ms rounds out [] =
    (False, out @ map (\<lambda>e. sample_line py_ms (sample_item_of (encode_event e))) (concat (map sr_new rounds)), [])"
  using assms
proof (induction rounds arbitrary: out)
  case (Cons r rs)
  then have all: "deliver (sample_cb py_ms) (map encode_event (sr_new r)) out =
      (0, out @ map (\<lambda>e. sample_line py_ms (sample_item_of (encode_event e))) (sr_new r), [])"
    by (intro deliver_sample_cb) simp
  have "polls_all (sr_poll r)" using Cons.prems by simp
  from polls_allD [OF this all, of 100]
  obtain n where "0 \<le> n" "sr_poll r 100 (sample_cb py_ms) (map encode_event (sr_new r)) out =
      (n, out @ map (\<lambda>e. sample_line py_ms (sample_item_of (encode_event e))) (sr_new r), [])"
    by auto
  with Cons show ?case by simp
qed simp

lemma sample_line_eq:
  assumes "length (ev_task e) = 16" and "0 \<le> sint (ev_pid e)"
    and "ev_tool e = NFSIOSNOOP \<longrightarrow> 0 \<le> sint (metric_retval (ev_metric e))"
    and "ev_tool e \<noteq> SMBIOSNOOP \<and> ev_tool e \<noteq> NFSIOSNOOP \<longrightarrow> np_ms (ev_metric e) = py_ms (ev_metric e)"
  shows "sample_line py_ms (sample_item_of (encode_event e)) = shim_line np_ms (shim_item_of (encode_event e))"
  using assms(2-4)
  by (auto simp: sample_line_def shim_line_def line_prefix_def low_word
      shim_item_encode [OF assms(1)] sample_item_encode [OF assms(1)] np_bytes_tool sint_nonneg sdec_unsigned)

text \<open>The loop keeps the ring buffer of the context.\<close>

lemma copy_event_rb: "copy_event d c = (r, c') \<Longrightarrow> rbc_rb c' = rbc_rb c"
  by (auto simp: copy_event_def buf_write_def Let_def split: if_splits)

lemma deliver_rb: "deliver copy_event ds c = (r, c', rest) \<Longrightarrow> rbc_rb c' = rbc_rb c"
  by (induction ds arbitrary: c) (auto split: prod.splits if_splits dest!: copy_event_rb)

lemma poll_rb:
  assumes "polls_in_order poll" and "poll t copy_event rg c = (err, c', rest)"
  shows "rbc_rb c' = rbc_rb c"
  using assms(1) [unfolded polls_in_order_def, rule_format, of t copy_event rg c]
proof (elim disjE exE conjE)
  fix k n
  assume "case deliver copy_event (take k rg) c of
      (r, c', rest) \<Rightarrow> poll t copy_event rg c = (if r < 0 then r else n, c', rest @ drop k rg)"
  then show ?thesis
    using assms(2) by (cases "deliver copy_event (take k rg) c") (auto dest: deliver_rb)
qed (use assms(2) in auto)

lemma shim_round_rb:
  assumes "polls_in_order poll" and "shim_round np_ms poll buf ctx rg = (count, out, ctx', rest)"
  shows "rbc_rb ctx' = rbc_rb ctx"
  using assms(2)
  by (auto simp: shim_round_def rb_poll_into_def Let_def dest!: poll_rb [OF assms(1)] split: prod.splits if_splits)

lemma shim_loop_rb:
  assumes "\<forall>r \<in> set rounds. polls_in_order (rd_poll r)"
    and "shim_loop np_ms rounds ctx rg = (ended, out, ctx', rest)"
  shows "rbc_rb ctx' = rbc_rb ctx"
  using assms
proof (induction rounds arbitrary: ctx rg out ended ctx' rest)
  case (Cons r rs)
  obtain count out1 ctx1 rg1 where round: "shim_round np_ms (rd_poll r) (rd_buf r) ctx
      (rg @ map encode_event (rd_new r)) = (count, out1, ctx1, rg1)"
    by (metis prod_cases4)
  obtain ended2 out2 ctx2 rg2 where more: "shim_loop np_ms rs ctx1 rg1 = (ended2, out2, ctx2, rg2)"
    by (metis prod_cases4)
  have "rbc_rb ctx1 = rbc_rb ctx" using Cons.prems(1) by (intro shim_round_rb [OF _ round]) simp
  moreover have "rbc_rb ctx2 = rbc_rb ctx1" using Cons.prems(1) by (intro Cons.IH [OF _ more]) simp
  ultimately show ?case
    using Cons.prems(2) by (auto simp: round more Let_def split: if_splits)
qed simp

section \<open>Facts about detaching\<close>

definition links_of :: "string \<Rightarrow> string list" where
  "links_of tool = (case map_of tool_links tool of None \<Rightarrow> [] | Some links \<Rightarrow> links)"

text \<open>What unpinning a set of paths leaves: those that may not be removed stay.\<close>

definition unpinned :: "string set \<Rightarrow> bpffs \<Rightarrow> bpffs" where
  "unpinned ps fs = fs\<lparr>fs_paths := fs_paths fs - (ps - fs_denied fs)\<rparr>"

lemma unpinned_sel [simp]:
  "fs_paths (unpinned ps fs) = fs_paths fs - (ps - fs_denied fs)" "fs_denied (unpinned ps fs) = fs_denied fs"
  by (simp_all add: unpinned_def)

lemma unpinned_empty [simp]: "unpinned {} fs = fs"
  by (simp add: unpinned_def)

lemma unpinned_unpinned [simp]: "unpinned qs (unpinned ps fs) = unpinned (ps \<union> qs) fs"
  by (auto simp: unpinned_def intro!: bpffs.equality)

lemma try_unlink_eq:
  "try_unlink p (n, fs) = (if p \<in> fs_paths fs \<and> p \<in> fs_denied fs then n + 1 else n, unpinned {p} fs)"
  by (auto simp: try_unlink_def unpinned_def intro!: bpffs.equality)

lemma unlink_links:
  "fold try_unlink ps (n, fs) = (m, fs') \<Longrightarrow>
     fs' = unpinned (set ps) fs \<and> n \<le> m \<and> (m = n \<longrightarrow> set ps \<inter> fs_paths fs \<inter> fs_denied fs = {})"
proof (induction ps arbitrary: n fs)
  case (Cons p ps)
  let ?n = "if p \<in> fs_paths fs \<and> p \<in> fs_denied fs then n + 1 else n"
  have "fold try_unlink ps (?n, unpinned {p} fs) = (m, fs')" using Cons.prems by (simp add: try_unlink_eq)
  from Cons.IH [OF this] show ?case by (auto split: if_splits)
qed simp

lemma links_of_unknown: "links_of t = [] \<longleftrightarrow> t \<notin> {''smb'', ''nfs''}"
  by (simp add: links_of_def tool_links_def)

lemma detach_tool_eq:
  assumes "detach_tool t (n, fs) = (m, fs')"
  shows "fs' = unpinned (set (links_of t)) fs \<and> n \<le> m \<and>
     (m = n \<longrightarrow> t \<in> {''smb'', ''nfs''} \<and> set (links_of t) \<inter> fs_paths fs \<inter> fs_denied fs = {})"
proof (cases "map_of tool_links t")
  case None
  then show ?thesis using assms by (auto simp: detach_tool_def links_of_def)
next
  case (Some links)
  then have "t \<in> {''smb'', ''nfs''}" by (auto simp: tool_links_def split: if_splits)
  moreover have "links_of t = links" using Some by (simp add: links_of_def)
  moreover have "fold try_unlink links (n, fs) = (m, fs')" using assms Some by (simp add: detach_tool_def)
  note unlink_links [OF this]
  ultimately show ?thesis by blast
qed

lemma detach_tools_eq:
  "fold detach_tool ts (n, fs) = (m, fs') \<Longrightarrow>
     fs' = unpinned (\<Union>t \<in> set ts. set (links_of t)) fs \<and> n \<le> m \<and>
     (m = n \<longrightarrow> set ts \<subseteq> {''smb'', ''nfs''} \<and>
       (\<forall>t \<in> set ts. set (links_of t) \<inter> fs_paths fs \<inter> fs_denied fs = {}))"
proof (induction ts arbitrary: n fs)
  case (Cons t ts)
  obtain k fs1 where one: "detach_tool t (n, fs) = (k, fs1)" by (cases "detach_tool t (n, fs)")
  then have "fold detach_tool ts (k, fs1) = (m, fs')" using Cons.prems by simp
  from Cons.IH [OF this] detach_tool_eq [OF one] show ?case by auto
qed simp

text \<open>The links of the tools and the ring buffer are different paths.\<close>

lemma links_known:
  "set (links_of ''smb'') \<inter> set (links_of ''nfs'') = {}"
  "RINGBUF_PINNED \<notin> set (links_of ''smb'')" "RINGBUF_PINNED \<notin> set (links_of ''nfs'')"
proof -
  have "distinct (RINGBUF_PINNED # links_of ''smb'' @ links_of ''nfs'')" by code_simp
  then show "set (links_of ''smb'') \<inter> set (links_of ''nfs'') = {}"
    and "RINGBUF_PINNED \<notin> set (links_of ''smb'')" and "RINGBUF_PINNED \<notin> set (links_of ''nfs'')"
    by simp_all
qed

lemma links_of_cases [case_names smb nfs unknown]:
  obtains "t = ''smb''" | "t = ''nfs''" | "links_of t = []"
  using links_of_unknown [of t] by blast

lemma ring_not_link: "RINGBUF_PINNED \<notin> set (links_of t)"
  by (cases t rule: links_of_cases) (simp_all add: links_known)

lemma links_disjoint: "t \<noteq> u \<Longrightarrow> set (links_of t) \<inter> set (links_of u) = {}"
  using links_known(1)
  by (cases t rule: links_of_cases; cases u rule: links_of_cases) (simp_all add: Int_commute)

lemma links_apart:
  assumes "t \<notin> ts"
  shows "set (links_of t) \<inter> (\<Union>u \<in> ts. set (links_of u)) = {}"
proof -
  have "set (links_of t) \<inter> set (links_of u) = {}" if "u \<in> ts" for u
    using assms that by (intro links_disjoint) blast
  then show ?thesis by blast
qed

lemma remaining_links:
  "set (concat (map snd (filter (\<lambda>(t, paths). t \<notin> ts) tool_links))) = (\<Union>t \<in> - ts. set (links_of t))"
proof -
  have known: "(\<Union>t \<in> - ts. set (links_of t)) = (\<Union>t \<in> K - ts. set (links_of t))"
    if "\<forall>t. t \<notin> K \<longrightarrow> links_of t = []" for K
    using that by fastforce
  have tools: "tool_links = [(a, links_of a), (b, links_of b)]" if "a = ''smb''" "b = ''nfs''" for a b
    using that by (simp add: tool_links_def links_of_def)
  have "set (concat (map snd (filter (\<lambda>(t, paths). t \<notin> ts) [(a, links_of a), (b, links_of b)]))) =
      (\<Union>t \<in> {a, b} - ts. set (links_of t))" for a b
    by auto
  moreover have "\<forall>t. t \<notin> {''smb'', ''nfs''} \<longrightarrow> links_of t = []" using links_of_unknown by simp
  ultimately show ?thesis by (simp only: known tools [OF refl refl])
qed

lemma set_detach_targets:
  "set (detach_targets tools) =
     (case tools of None \<Rightarrow> {''smb'', ''nfs''} | Some l \<Rightarrow> if l = [] then {''smb'', ''nfs''} else set l)"
  by (auto simp: detach_targets_def tool_links_def split: option.splits)

text \<open>The whole effect of \<open>--detach\<close>.\<close>

lemma detach_eq:
  assumes "detach tools fs = (code, fs')"
  defines "ts \<equiv> set (detach_targets tools)"
  defines "kept \<equiv> \<exists>t. t \<notin> ts \<and> set (links_of t) \<inter> fs_paths fs \<noteq> {}"
  shows "fs' = unpinned ((\<Union>t \<in> ts. set (links_of t)) \<union> (if kept then {} else {RINGBUF_PINNED})) fs \<and>
    (code = 0 \<longrightarrow> ts \<subseteq> {''smb'', ''nfs''} \<and> (\<forall>t \<in> ts. set (links_of t) \<inter> fs_paths fs' = {}))"
proof -
  obtain m fs1 where all: "fold detach_tool (detach_targets tools) (0, fs) = (m, fs1)"
    by (cases "fold detach_tool (detach_targets tools) (0, fs)")
  note fs1 = detach_tools_eq [OF all]
  have untouched: "set (links_of t) \<inter> fs_paths fs1 = set (links_of t) \<inter> fs_paths fs" if "t \<notin> ts" for t
  proof -
    have "set (links_of t) \<inter> (\<Union>u \<in> ts. set (links_of u)) = {}"
      by (rule links_apart [OF that])
    then show ?thesis using fs1 by (auto simp: ts_def)
  qed
  have "(\<exists>p \<in> (\<Union>t \<in> - ts. set (links_of t)). p \<in> fs_paths fs1) \<longleftrightarrow> kept"
    using untouched by (auto simp: kept_def)
  then have run: "detach tools fs =
      (let (errors, fs) = (if kept then (m, fs1) else try_unlink RINGBUF_PINNED (m, fs1))
       in (if errors \<noteq> 0 then 1 else 0, fs))"
    unfolding detach_def Let_def all prod.case remaining_links ts_def by simp
  have "fs' = unpinned (if kept then {} else {RINGBUF_PINNED}) fs1" "code = 0 \<longrightarrow> m = 0"
    using assms(1) unfolding run by (auto simp: try_unlink_eq split: if_splits)
  then show ?thesis
    using fs1 unfolding ts_def [symmetric] by auto
qed

section \<open>Properties\<close>



text \<open>
  A consumer that finds at most 2048 new events in each iteration prints every event, once and in
  order, and leaves the ring empty.
\<close>

theorem shim_consumer_keeps_up:
  assumes "\<forall>r \<in> set rounds. \<not> rd_exiting r \<and> polls_all (rd_poll r) \<and> length (rd_buf r) = MAX_BATCH * 48 \<and>
      length (rd_new r) \<le> MAX_BATCH \<and> (\<forall>e \<in> set (rd_new r). length (ev_task e) = 16)"
    and "\<not> rbc_fault ctx"
  shows "\<exists>ctx'. shim_loop np_ms rounds ctx [] =
    (False, map (\<lambda>e. shim_line np_ms (shim_item_of (encode_event e))) (concat (map rd_new rounds)), ctx', [])"
  by (rule shim_loop_keeps_up [OF assms])

text \<open>
  A backlog of any length is worked off: as soon as there were enough iterations the ring is
  empty, and what was printed is the backlog without the event after each full batch, so at most one
  event in 2049 is lost.
\<close>

theorem shim_consumer_drains:
  assumes "\<forall>r \<in> set rounds. \<not> rd_exiting r \<and> polls_all (rd_poll r) \<and> length (rd_buf r) = MAX_BATCH * 48 \<and> rd_new r = []"
    and "\<forall>e \<in> set es. length (ev_task e) = 16" and "\<not> rbc_fault ctx"
    and "length es \<le> (MAX_BATCH + 1) * length rounds"
  shows "\<exists>ctx'. shim_loop np_ms rounds ctx (map encode_event es) =
      (False, map (\<lambda>e. shim_line np_ms (shim_item_of (encode_event e))) (polled es), ctx', []) \<and>
    length es \<le> length (polled es) + length es div (MAX_BATCH + 1)"
  using shim_loop_drains [OF assms] length_polled by auto

text \<open>
  C26: \<open>--detach\<close> never touches a link of a tool that was not named, and reports success only when the
  tools are known and none of their links is left. The ring buffer stays exactly when it may not be
  removed or some other tool still has a link, so it goes also when the loader of a running tool
  pinned no link.
\<close>

theorem detach_spares_other_tools:
  assumes "detach tools fs = (code, fs')"
    and "ts = set (detach_targets tools)"
  shows "(\<forall>t. t \<notin> ts \<longrightarrow> set (links_of t) \<inter> fs_paths fs \<subseteq> fs_paths fs') \<and>
    (RINGBUF_PINNED \<in> fs_paths fs' \<longleftrightarrow> RINGBUF_PINNED \<in> fs_paths fs \<and>
       (RINGBUF_PINNED \<in> fs_denied fs \<or> (\<exists>t. t \<notin> ts \<and> set (links_of t) \<inter> fs_paths fs \<noteq> {}))) \<and>
    (code = 0 \<longrightarrow> ts \<subseteq> {''smb'', ''nfs''} \<and> (\<forall>t \<in> ts. set (links_of t) \<inter> fs_paths fs' = {}))"
proof (intro conjI allI impI)
  note eq = detach_eq [OF assms(1), folded assms(2)]
  show "set (links_of t) \<inter> fs_paths fs \<subseteq> fs_paths fs'" if "t \<notin> ts" for t
    using eq ring_not_link [of t] links_apart [OF that] by (auto split: if_splits)
  show "RINGBUF_PINNED \<in> fs_paths fs' \<longleftrightarrow> RINGBUF_PINNED \<in> fs_paths fs \<and>
      (RINGBUF_PINNED \<in> fs_denied fs \<or> (\<exists>t. t \<notin> ts \<and> set (links_of t) \<inter> fs_paths fs \<noteq> {}))"
    using eq ring_not_link by auto
  show "ts \<subseteq> {''smb'', ''nfs''}" if "code = 0" using that eq by blast
  show "\<forall>t \<in> ts. set (links_of t) \<inter> fs_paths fs' = {}" if "code = 0" using that eq by blast
qed

text \<open>
  C27: when the shim consumer exits, by a signal or an error of the poll or because it could not open
  the ring, it has given back every context and every ring buffer, but not the descriptor of the map.
\<close>

theorem shim_main_gives_back:
  assumes "\<forall>r \<in> set rounds. polls_in_order (rd_poll r)"
    and "shim_main np_ms argv map_fd calloc_ok new_ok rounds rg fs r = (Some code, out, rg', fs', r')"
  shows "(code = 0 \<or> code = 1) \<and>
    r' = (if ''--detach'' \<in> set argv \<or> map_fd < 0 then r else r\<lparr>open_fds := map_fd # open_fds r\<rparr>)"
proof (cases "''--detach'' \<in> set argv")
  case True
  then show ?thesis
    using assms(2) by (auto simp: shim_main_def detach_args_def detach_def Let_def split: prod.splits if_splits)
next
  case False
  then have none: "detach_args argv = None" by (simp add: detach_args_def)
  show ?thesis
  proof (cases "rb_open map_fd calloc_ok new_ok r")
    case (Pair ctx r1)
    show ?thesis
    proof (cases ctx)
      case None
      with Pair False show ?thesis
        using assms(2) by (auto simp: shim_main_def none rb_open_def Let_def split: if_splits)
    next
      case (Some c)
      obtain ended out1 c1 rg1 where loop: "shim_loop np_ms rounds c rg = (ended, out1, c1, rg1)"
        by (metis prod_cases4)
      have "rbc_rb c1 = rbc_rb c" by (rule shim_loop_rb [OF assms(1) loop])
      with Pair Some False show ?thesis
        using assms(2)
        by (auto simp: shim_main_def none loop rb_open_def rb_close_def Let_def split: if_splits)
    qed
  qed
qed

section \<open>Witnesses\<close>

lemma example_polls_all: "polls_all example_poll"
  unfolding polls_all_def
proof (intro allI)
  show "\<exists>n \<ge> 0. case deliver cb rg c of
      (r, c', rest) \<Rightarrow> example_poll t cb rg c = (if r < 0 then r else n, c', rest)" for t cb rg c
    by (rule exI [of _ "max 0 (fst (deliver cb rg c))"]) (auto simp: example_poll_def split: prod.split)
qed

definition example_ms :: "u64 \<Rightarrow> string" where
  "example_ms ns = dec (unat ns div 1000000) @ ''.00''"

definition example_round :: "event list \<Rightarrow> shim_iteration" where
  "example_round new = \<lparr>rd_exiting = False, rd_poll = example_poll, rd_buf = replicate (MAX_BATCH * 48) 0,
     rd_new = new\<rparr>"

definition example_sample_round :: "event list \<Rightarrow> sample_iteration" where
  "example_sample_round new =
     \<lparr>sr_exiting = False, sr_poll = (\<lambda>t cb rg c. deliver cb rg c), sr_new = new\<rparr>"

lemma example_sample_polls_all: "polls_all (\<lambda>t cb rg c. deliver cb rg c)"
  unfolding polls_all_def
proof (intro allI)
  show "\<exists>n \<ge> 0. case deliver cb rg c of (r, c', rest) \<Rightarrow> deliver cb rg c = (if r < 0 then r else n, c', rest)"
    for cb rg and c :: 'c
    by (rule exI [of _ "max 0 (fst (deliver cb rg c))"]) (auto split: prod.split)
qed


theorem shim_consumer_keeps_up_witness:
  "\<exists>ctx'. shim_loop example_ms [example_round [example_event], example_round []] example_ctx [] =
     (False, [shim_line example_ms (shim_item_of (encode_event example_event))], ctx', [])"
  using shim_consumer_keeps_up [of "[example_round [example_event], example_round []]" example_ctx example_ms]
  by (simp add: example_round_def example_polls_all example_ctx_def example_event_def zero_buf_def
      del: shim_loop.simps)

theorem shim_consumer_drains_witness:
  "\<exists>ctx'. shim_loop example_ms (replicate 2 (example_round [])) example_ctx
       (map encode_event (replicate 3000 example_event)) =
     (False, map (\<lambda>e. shim_line example_ms (shim_item_of (encode_event e))) (polled (replicate 3000 example_event)),
      ctx', [])"
  using shim_consumer_drains [of "replicate 2 (example_round [])" "replicate 3000 example_event" example_ctx example_ms]
  by (simp add: example_round_def example_polls_all example_ctx_def example_event_def zero_buf_def
      del: shim_loop.simps)

theorem detach_spares_other_tools_witness:
  "RINGBUF_PINNED \<notin>
     fs_paths (snd (detach (Some [''smb'']) \<lparr>fs_paths = {RINGBUF_PINNED}, fs_denied = {}\<rparr>))"
  using detach_spares_other_tools
      [of "Some [''smb'']" "\<lparr>fs_paths = {RINGBUF_PINNED}, fs_denied = {}\<rparr>", OF prod.collapse [symmetric] refl]
    ring_not_link
  by simp

theorem shim_main_gives_back_witness:
  "case shim_main example_ms [''shim_consumer.py''] 5 True True
       [(example_round [])\<lparr>rd_exiting := True\<rparr>] [] \<lparr>fs_paths = {}, fs_denied = {}\<rparr>
       \<lparr>open_fds = [], contexts = 0, rings = 0\<rparr> of
     (code, out, rg, fs, r) \<Rightarrow> code = Some 0 \<and> r = \<lparr>open_fds = [5], contexts = 0, rings = 0\<rparr>"
proof -
  let ?rounds = "[(example_round [])\<lparr>rd_exiting := True\<rparr>]"
  obtain code out rg fs r where run: "shim_main example_ms [''shim_consumer.py''] 5 True True ?rounds []
      \<lparr>fs_paths = {}, fs_denied = {}\<rparr> \<lparr>open_fds = [], contexts = 0, rings = 0\<rparr> = (Some code, out, rg, fs, r)"
    and "code = 0"
    by (simp add: shim_main_def detach_args_def rb_open_def example_round_def Let_def)
  have "\<forall>r \<in> set ?rounds. polls_in_order (rd_poll r)"
    by (simp add: example_round_def example_poll_in_order)
  from shim_main_gives_back [OF this run] \<open>code = 0\<close> show ?thesis by (simp add: run)
qed

end
