(* ===== verification/Io_Records.thy ===== *)
theory Io_Records
  imports Ioslower_User Iosnoop_User Consumers
begin

text \<open>
  The records of ioslower and iosnoop on their way through the ring buffer: the bytes that the BPF
  programs write (\<open>struct ioslower_event\<close> and \<open>struct iosnoop_event\<close> of \<open>src/src/bpf\<close>), the structs by which
  the user programs read them (\<open>struct ioslower_event\<close> and \<open>struct io_event\<close> of \<open>src/src/user\<close>), and the lines
  printed for what libbpf delivers.
\<close>

section \<open>Bytes\<close>

definition char_bytes :: "string \<Rightarrow> u8 list" where
  "char_bytes s = map (\<lambda>c. of_nat (of_char c)) s"

definition byte_chars :: "u8 list \<Rightarrow> string" where
  "byte_chars bs = map (\<lambda>b. char_of (unat b)) bs"

text \<open>
  What the BPF programs write. The last four bytes of the record of ioslower pad the struct to a
  multiple of 8; no reader looks at them.
\<close>

definition encode_slow_event :: "ioslower_event \<Rightarrow> u8 list" where
  "encode_slow_event e =
     le_bytes 8 (se_ts e) @ le_bytes 4 (se_pid e) @ le_bytes 4 (se_uid e) @ le_bytes 4 (se_gid e) @
     le_bytes 4 (se_delta_us e) @ [se_type e, se_pad1 e] @ le_bytes 2 (se_pad2 e) @ le_bytes 4 (se_ret e) @
     le_bytes 4 (se_pad3 e) @ char_bytes (se_comm e) @ char_bytes (se_fname e) @ [0, 0, 0, 0]"

definition encode_snoop_event :: "iosnoop_event \<Rightarrow> u8 list" where
  "encode_snoop_event e =
     le_bytes 8 (ne_ts e) @ le_bytes 4 (ne_pid e) @ le_bytes 4 (ne_uid e) @ le_bytes 4 (ne_gid e) @
     [ne_type e, ne_pad1 e] @ le_bytes 2 (ne_pad2 e) @ le_bytes 4 (ne_ret e) @ le_bytes 4 (ne_pad3 e) @
     char_bytes (ne_comm e) @ char_bytes (ne_fname e) @ char_bytes (ne_args e)"

text \<open>What the user programs read through their own structs.\<close>

definition view_slow_event :: "u8 list \<Rightarrow> ioslower_event" where
  "view_slow_event bs =
     (let at = (\<lambda>i. bs ! i)
      in \<lparr>se_ts = raw_u64 at 0, se_pid = raw_u32 at 8, se_uid = raw_u32 at 12, se_gid = raw_u32 at 16,
          se_delta_us = raw_u32 at 20, se_type = at 24, se_pad1 = at 25, se_pad2 = raw_u16 at 26,
          se_ret = raw_u32 at 28, se_pad3 = raw_u32 at 32, se_comm = byte_chars (take 16 (drop 36 bs)),
          se_fname = byte_chars (take 256 (drop 52 bs))\<rparr>)"

definition view_io_event :: "u8 list \<Rightarrow> iosnoop_event" where
  "view_io_event bs =
     (let at = (\<lambda>i. bs ! i)
      in \<lparr>ne_ts = raw_u64 at 0, ne_pid = raw_u32 at 8, ne_uid = raw_u32 at 12, ne_gid = raw_u32 at 16,
          ne_type = at 20, ne_pad1 = at 21, ne_pad2 = raw_u16 at 22, ne_ret = raw_u32 at 24,
          ne_pad3 = raw_u32 at 28, ne_comm = byte_chars (take 16 (drop 32 bs)),
          ne_fname = byte_chars (take 256 (drop 48 bs)), ne_args = byte_chars (take 256 (drop 304 bs))\<rparr>)"

section \<open>The callbacks\<close>

text \<open>\<open>handle_event\<close> as libbpf calls it, with everything printed so far.\<close>

definition slow_cb :: "(u64 \<Rightarrow> string) \<Rightarrow> u8 list \<Rightarrow> string list \<Rightarrow> int \<times> string list" where
  "slow_cb clock data out =
     (let (r, line) = ioslower_handle_event clock (view_slow_event data) (length data)
      in (r, if r = 0 then out @ [line] else out))"

definition snoop_cb ::
    "bool \<Rightarrow> (u64 \<Rightarrow> string) \<Rightarrow> u8 list \<Rightarrow> fd_paths \<times> string list \<Rightarrow> int \<times> fd_paths \<times> string list" where
  "snoop_cb calloc_ok clock data = (\<lambda>(paths, out).
     let (r, line, paths) = iosnoop_handle_event calloc_ok clock (view_io_event data) (length data) paths
     in (r, paths, if r = 0 then out @ [line] else out))"

section \<open>The poll loop with its callback\<close>

text \<open>
  One round of \<open>while (!exiting)\<close>: the flag, what libbpf does in \<open>ring_buffer__poll\<close>, whether the deadline has
  passed, and the records that came in since the last round.
\<close>

record 'c io_round =
  ir_exiting :: bool
  ir_poll :: "int \<Rightarrow> (u8 list \<Rightarrow> 'c \<Rightarrow> int \<times> 'c) \<Rightarrow> ring \<Rightarrow> 'c \<Rightarrow> int \<times> 'c \<times> ring"
  ir_late :: bool
  ir_new :: ring

text \<open>\<open>t\<close> is the timeout of a poll. The value of \<open>err\<close> when the loop ends, the ring and what the callback has done.\<close>

fun io_loop ::
    "bool \<Rightarrow> int \<Rightarrow> (u8 list \<Rightarrow> 'c \<Rightarrow> int \<times> 'c) \<Rightarrow> int \<Rightarrow> 'c io_round list \<Rightarrow> ring \<Rightarrow> 'c \<Rightarrow> int option \<times> ring \<times> 'c" where
  "io_loop deadline t cb err [] rg c = (None, rg, c)"
| "io_loop deadline t cb err (r # rs) rg c =
     (let rg = rg @ ir_new r
      in if ir_exiting r then (Some err, rg, c)
         else let (err, c, rg) = ir_poll r t cb rg c
              in if err < 0 \<and> err \<noteq> - 4 then (Some err, rg, c)
                 else if deadline \<and> ir_late r then (Some err, rg, c)
                 else io_loop deadline t cb err rs rg c)"

text \<open>What \<open>poll_loop\<close> sees of the rounds.\<close>

fun io_results :: "int \<Rightarrow> (u8 list \<Rightarrow> 'c \<Rightarrow> int \<times> 'c) \<Rightarrow> 'c io_round list \<Rightarrow> ring \<Rightarrow> 'c \<Rightarrow> (bool \<times> int \<times> bool) list" where
  "io_results t cb [] rg c = []"
| "io_results t cb (r # rs) rg c =
     (let (err, c, rg) = ir_poll r t cb (rg @ ir_new r) c
      in (ir_exiting r, err, ir_late r) # io_results t cb rs rg c)"

text \<open>A round that goes on and in which libbpf hands over everything.\<close>

definition io_running :: "bool \<Rightarrow> 'c io_round \<Rightarrow> bool" where
  "io_running deadline r \<longleftrightarrow> \<not> ir_exiting r \<and> polls_all (ir_poll r) \<and> \<not> (deadline \<and> ir_late r)"

section \<open>Facts\<close>

lemma io_loop_poll_loop: "fst (io_loop deadline t cb err rs rg c) = poll_loop deadline err (io_results t cb rs rg c)"
  by (induction rs arbitrary: err rg c) (auto simp: Let_def split: prod.splits)

lemma deliver_append:
  "deliver cb (xs @ ys) c =
     (case deliver cb xs c of (r, c', rest) \<Rightarrow> if r < 0 then (r, c', rest @ ys) else deliver cb ys c')"
  by (induction xs arbitrary: c) (auto split: prod.splits)

lemma deliver_done: "deliver cb xs c = (r, c', rest) \<Longrightarrow> \<not> r < 0 \<Longrightarrow> r = 0 \<and> rest = []"
  by (induction xs arbitrary: c) (auto split: prod.splits if_splits)

text \<open>As long as the loop goes on, the callback gets every record, in order.\<close>

lemma io_loop_delivers:
  assumes "\<forall>r \<in> set rs. io_running deadline r" and "deliver cb (concat (map ir_new rs)) c = (0, c', [])"
  shows "io_loop deadline t cb err rs [] c = (None, [], c')"
  using assms
proof (induction rs arbitrary: c err)
  case (Cons r rs)
  obtain q d rest where one: "deliver cb (ir_new r) c = (q, d, rest)" by (cases "deliver cb (ir_new r) c")
  have q: "\<not> q < 0" and more: "deliver cb (concat (map ir_new rs)) d = (0, c', [])"
    using Cons.prems(2) by (auto simp: deliver_append one split: if_splits)
  have "polls_all (ir_poll r)" using Cons.prems(1) by (simp add: io_running_def)
  from polls_allD [OF this one, of t] deliver_done [OF one q]
  obtain n where "0 \<le> n" "ir_poll r t cb (ir_new r) c = (n, d, [])" by auto
  with Cons.IH [OF _ more] Cons.prems(1) show ?case by (auto simp: io_running_def)
qed simp

lemma length_char_bytes [simp]: "length (char_bytes s) = length s"
  by (simp add: char_bytes_def)

lemma byte_chars_char_bytes [simp]: "byte_chars (char_bytes s) = s"
  by (simp add: byte_chars_def char_bytes_def comp_def of_char_word)

lemma length_encode_slow: "length (encode_slow_event e) = 40 + length (se_comm e) + length (se_fname e)"
  by (simp add: encode_slow_event_def)

lemma length_encode_snoop:
  "length (encode_snoop_event e) = 32 + length (ne_comm e) + length (ne_fname e) + length (ne_args e)"
  by (simp add: encode_snoop_event_def)

text \<open>A member is read back where the bytes before it end.\<close>

lemma read_member:
  "length pre = i \<Longrightarrow> raw_u16 (\<lambda>j. (pre @ le_bytes 2 a @ post) ! j) i = a"
  "length pre = i \<Longrightarrow> raw_u32 (\<lambda>j. (pre @ le_bytes 4 b @ post) ! j) i = b"
  "length pre = i \<Longrightarrow> raw_u64 (\<lambda>j. (pre @ le_bytes 8 c @ post) ! j) i = c"
  using raw_le_bytes by blast+

lemma view_encode_slow:
  assumes "length (se_comm e) = 16" and "length (se_fname e) = 256"
  shows "view_slow_event (encode_slow_event e) = e"
proof -
  note d = encode_slow_event_def
  have "raw_u64 (nth (encode_slow_event e)) 0 = se_ts e"
    using read_member(3) [of "[]" 0 "se_ts e"] by (simp add: d)
  moreover have "raw_u32 (nth (encode_slow_event e)) 8 = se_pid e"
    using read_member(2) [of "le_bytes 8 (se_ts e)" 8] by (simp add: d)
  moreover have "raw_u32 (nth (encode_slow_event e)) 12 = se_uid e"
    using read_member(2) [of "le_bytes 8 (se_ts e) @ le_bytes 4 (se_pid e)" 12] by (simp add: d)
  moreover have "raw_u32 (nth (encode_slow_event e)) 16 = se_gid e"
    using read_member(2) [of "le_bytes 8 (se_ts e) @ le_bytes 4 (se_pid e) @ le_bytes 4 (se_uid e)" 16]
    by (simp add: d)
  moreover have "raw_u32 (nth (encode_slow_event e)) 20 = se_delta_us e"
    using read_member(2) [of "le_bytes 8 (se_ts e) @ le_bytes 4 (se_pid e) @ le_bytes 4 (se_uid e) @
        le_bytes 4 (se_gid e)" 20] by (simp add: d)
  moreover have "encode_slow_event e ! 24 = se_type e" "encode_slow_event e ! 25 = se_pad1 e"
    by (simp_all add: d nth_append)
  moreover
  define pre where "pre = le_bytes 8 (se_ts e) @ le_bytes 4 (se_pid e) @ le_bytes 4 (se_uid e) @
        le_bytes 4 (se_gid e) @ le_bytes 4 (se_delta_us e) @ [se_type e, se_pad1 e]"
  have len: "length pre = 26" by (simp add: pre_def)
  have enc: "encode_slow_event e = pre @ le_bytes 2 (se_pad2 e) @ le_bytes 4 (se_ret e) @
     le_bytes 4 (se_pad3 e) @ char_bytes (se_comm e) @ char_bytes (se_fname e) @ [0, 0, 0, 0]"
    by (simp add: d pre_def)
  have "raw_u16 (nth (encode_slow_event e)) 26 = se_pad2 e"
    unfolding enc by (rule read_member(1) [OF len])
  moreover have "raw_u32 (nth (encode_slow_event e)) 28 = se_ret e"
    using read_member(2) [of "pre @ le_bytes 2 (se_pad2 e)" 28] len by (simp add: enc)
  moreover have "raw_u32 (nth (encode_slow_event e)) 32 = se_pad3 e"
    using read_member(2) [of "pre @ le_bytes 2 (se_pad2 e) @ le_bytes 4 (se_ret e)" 32] len by (simp add: enc)
  moreover have "take 16 (drop 36 (encode_slow_event e)) = char_bytes (se_comm e)"
      "take 256 (drop 52 (encode_slow_event e)) = char_bytes (se_fname e)"
    using assms by (simp_all add: enc len)
  ultimately show ?thesis by (simp add: view_slow_event_def Let_def)
qed

lemma view_encode_snoop:
  assumes "length (ne_comm e) = 16" and "length (ne_fname e) = 256" and "length (ne_args e) = 256"
  shows "view_io_event (encode_snoop_event e) = e"
proof -
  note d = encode_snoop_event_def
  have "raw_u64 (nth (encode_snoop_event e)) 0 = ne_ts e"
    using read_member(3) [of "[]" 0 "ne_ts e"] by (simp add: d)
  moreover have "raw_u32 (nth (encode_snoop_event e)) 8 = ne_pid e"
    using read_member(2) [of "le_bytes 8 (ne_ts e)" 8] by (simp add: d)
  moreover have "raw_u32 (nth (encode_snoop_event e)) 12 = ne_uid e"
    using read_member(2) [of "le_bytes 8 (ne_ts e) @ le_bytes 4 (ne_pid e)" 12] by (simp add: d)
  moreover have "raw_u32 (nth (encode_snoop_event e)) 16 = ne_gid e"
    using read_member(2) [of "le_bytes 8 (ne_ts e) @ le_bytes 4 (ne_pid e) @ le_bytes 4 (ne_uid e)" 16]
    by (simp add: d)
  moreover have "encode_snoop_event e ! 20 = ne_type e" "encode_snoop_event e ! 21 = ne_pad1 e"
    by (simp_all add: d nth_append)
  moreover
  define pre where "pre = le_bytes 8 (ne_ts e) @ le_bytes 4 (ne_pid e) @ le_bytes 4 (ne_uid e) @
        le_bytes 4 (ne_gid e) @ [ne_type e, ne_pad1 e]"
  have len: "length pre = 22" by (simp add: pre_def)
  have enc: "encode_snoop_event e = pre @ le_bytes 2 (ne_pad2 e) @ le_bytes 4 (ne_ret e) @
     le_bytes 4 (ne_pad3 e) @ char_bytes (ne_comm e) @ char_bytes (ne_fname e) @ char_bytes (ne_args e)"
    by (simp add: d pre_def)
  have "raw_u16 (nth (encode_snoop_event e)) 22 = ne_pad2 e"
    unfolding enc by (rule read_member(1) [OF len])
  moreover have "raw_u32 (nth (encode_snoop_event e)) 24 = ne_ret e"
    using read_member(2) [of "pre @ le_bytes 2 (ne_pad2 e)" 24] len by (simp add: enc)
  moreover have "raw_u32 (nth (encode_snoop_event e)) 28 = ne_pad3 e"
    using read_member(2) [of "pre @ le_bytes 2 (ne_pad2 e) @ le_bytes 4 (ne_ret e)" 28] len by (simp add: enc)
  moreover have "take 16 (drop 32 (encode_snoop_event e)) = char_bytes (ne_comm e)"
      "take 256 (drop 48 (encode_snoop_event e)) = char_bytes (ne_fname e)"
      "take 256 (drop 304 (encode_snoop_event e)) = char_bytes (ne_args e)"
    using assms by (simp_all add: enc len)
  ultimately show ?thesis by (simp add: view_io_event_def Let_def)
qed

text \<open>The line of a record, and all lines of a round.\<close>

definition slow_line :: "(u64 \<Rightarrow> string) \<Rightarrow> ioslower_event \<Rightarrow> string" where
  "slow_line clock e = snd (ioslower_handle_event clock e 312)"

lemma deliver_slow_cb:
  assumes "\<forall>e \<in> set es. length (se_comm e) = 16 \<and> length (se_fname e) = 256"
  shows "deliver (slow_cb clock) (map encode_slow_event es) out = (0, out @ map (slow_line clock) es, [])"
  using assms
proof (induction es arbitrary: out)
  case (Cons e es)
  then have "slow_cb clock (encode_slow_event e) out = (0, out @ [slow_line clock e])"
    by (simp add: slow_cb_def view_encode_slow length_encode_slow slow_line_def ioslower_handle_event_def Let_def)
  with Cons show ?case by simp
qed simp

lemma handle_event_returns_0: "fst (iosnoop_handle_event ok clock e 560 paths) = 0"
  by (simp add: iosnoop_handle_event_def Let_def split: prod.splits)

lemma deliver_snoop_cb:
  assumes "\<forall>e \<in> set es. length (ne_comm e) = 16 \<and> length (ne_fname e) = 256 \<and> length (ne_args e) = 256"
    and "iosnoop_print_all ok clock es paths = (lines, paths')"
  shows "deliver (snoop_cb ok clock) (map encode_snoop_event es) (paths, out) = (0, (paths', out @ lines), [])"
  using assms
proof (induction es arbitrary: paths out lines paths')
  case (Cons e es)
  obtain line paths1 where one: "iosnoop_handle_event ok clock e 560 paths = (0, line, paths1)"
    using handle_event_returns_0 [of ok clock e paths]
    by (cases "iosnoop_handle_event ok clock e 560 paths") auto
  obtain lines2 paths2 where more: "iosnoop_print_all ok clock es paths1 = (lines2, paths2)"
    by (cases "iosnoop_print_all ok clock es paths1")
  have "lines = line # lines2" "paths' = paths2" using Cons.prems(2) by (simp_all add: one more)
  moreover have "snoop_cb ok clock (encode_snoop_event e) (paths, out) = (0, paths1, out @ [line])"
    using Cons.prems(1) one by (simp add: snoop_cb_def view_encode_snoop length_encode_snoop)
  ultimately show ?case
    using Cons.IH [OF _ more, of "out @ [line]"] Cons.prems(1) by simp
qed simp

lemma snoop_record_lengths:
  "snoop_event_ok ev \<Longrightarrow> length (ne_fname ev) = 256 \<and> length (ne_args ev) = 256"
  by (simp add: snoop_event_ok_def)

definition snoop_line :: "(u64 \<Rightarrow> string) \<Rightarrow> iosnoop_event \<Rightarrow> string" where
  "snoop_line clock ev =
     iosnoop_line clock ev (if c_str (ne_args ev) = [] then ''-'' else c_str (ne_args ev)) (c_str (ne_fname ev))"

lemma snoop_reachable_lengths:
  assumes "iosnoop_setup sys opts = Inr (err, sk, s)" and "iosnoop_step\<^sup>*\<^sup>* s t"
  shows "\<forall>e \<in> set (snoop_events t). length (ne_fname e) = 256 \<and> length (ne_args e) = 256"
proof -
  obtain cfgs where s: "s = iosnoop_init\<lparr>snoop_mount_filter_cfg := cfgs\<rparr>" by (rule iosnoop_setup_Inr [OF assms(1)])
  have "snoop_inv cfgs t" using snoop_inv_run [OF assms(2)] snoop_inv_start by (simp add: s)
  then show ?thesis using snoop_record_lengths by (auto simp: snoop_inv_def)
qed

lemma iosnoop_records_printed:
  assumes "iosnoop_setup sys opts = Inr (err, sk, s)" and "iosnoop_step\<^sup>*\<^sup>* s t"
    and "\<forall>ev \<in> set (snoop_events t). length (ne_comm ev) = 16"
  shows "\<exists>paths. deliver (snoop_cb ok clock) (map encode_snoop_event (snoop_events t)) ([], out) =
    (0, (paths, out @ map (snoop_line clock) (snoop_events t)), [])"
proof -
  obtain cfgs where s: "s = iosnoop_init\<lparr>snoop_mount_filter_cfg := cfgs\<rparr>" by (rule iosnoop_setup_Inr [OF assms(1)])
  have "snoop_texts_inv t"
    using snoop_texts_reachable [OF assms(2)] snoop_texts_start by (simp add: s)
  then have args: "\<forall>e \<in> set (snoop_events t). \<exists>km x. c_str (ne_args e) = snoop_args km x"
    by (simp add: snoop_texts_inv_def)
  have len: "\<forall>e \<in> set (snoop_events t). length (ne_comm e) = 16 \<and> length (ne_fname e) = 256 \<and> length (ne_args e) = 256"
    using assms(3) snoop_reachable_lengths [OF assms(1,2)] by blast
  obtain lines paths' where all: "iosnoop_print_all ok clock (snoop_events t) [] = (lines, paths')"
    by (cases "iosnoop_print_all ok clock (snoop_events t) []")
  have "lines = map (snoop_line clock) (snoop_events t)"
    using print_all_plain [OF args, of ok clock "[]"] by (simp add: all snoop_line_def)
  with deliver_snoop_cb [OF len all, of out] show ?thesis by blast
qed

section \<open>Properties\<close>

text \<open>
  C40: the user programs of ioslower and iosnoop read out of the bytes of a record exactly what the BPF
  programs wrote, every member at its width.
\<close>

theorem io_records_roundtrip:
  "(length (se_comm e) = 16 \<and> length (se_fname e) = 256 \<longrightarrow>
      length (encode_slow_event e) = 312 \<and> view_slow_event (encode_slow_event e) = e) \<and>
   (length (ne_comm f) = 16 \<and> length (ne_fname f) = 256 \<and> length (ne_args f) = 256 \<longrightarrow>
      length (encode_snoop_event f) = 560 \<and> view_io_event (encode_snoop_event f) = f)"
  by (simp add: view_encode_slow view_encode_snoop length_encode_slow length_encode_snoop)

text \<open>
  Ioslower from its options to the printed lines. After the set-up with a mount path, whichever calls
  the threads make in whichever order, each new record has a latency not below the threshold of the
  options, every pending operation is on the device of the mount, and however the new records are
  spread over the rounds of the poll loop, it prints one line for the bytes of each, in order. (\<open>bpf_get_current_comm\<close> fills the 16 bytes of a task name.)
\<close>

theorem ioslower_prints_selected:
  assumes "ioslower_setup sys window opts = Inr (err, sk, s)" and "io_mount_path opts = Some path"
    and "io_realpath sys path = Some resolved" and "io_stat sys resolved = Some (encoded_dev dev)"
    and "s' = probe_run ioslower_enter ioslower_leave cs s"
    and "\<forall>ev \<in> set (slow_events s'). length (se_comm ev) = 16"
    and "\<forall>r \<in> set rounds. io_running deadline r"
  shows "\<exists>new. slow_events s' = slow_events s @ new \<and>
           (\<forall>ev \<in> set new. slow_event_ok (io_min_us opts) ev) \<and>
           (\<forall>tid st. op_start s' tid = Some st \<longrightarrow> st_dev st = dev) \<and>
           (concat (map ir_new rounds) = map encode_slow_event new \<longrightarrow>
              io_loop deadline 100 (slow_cb clock) err rounds [] [] = (None, [], map (slow_line clock) new))"
proof -
  obtain new where new: "slow_events s' = slow_events s @ new" "\<forall>ev \<in> set new. slow_event_ok (io_min_us opts) ev"
      "\<forall>tid st. op_start s' tid = Some st \<longrightarrow> st_dev st = dev"
    using ioslower_traces_only_the_mount [OF assms(1-5)] by blast
  then have "\<forall>ev \<in> set new. length (se_comm ev) = 16 \<and> length (se_fname ev) = 256"
    using assms(6) by (auto simp: slow_event_ok_def)
  then have "deliver (slow_cb clock) (map encode_slow_event new) [] = (0, map (slow_line clock) new, [])"
    using deliver_slow_cb [of new clock "[]"] by simp
  with new io_loop_delivers [OF assms(7)] show ?thesis by metis
qed

text \<open>
  Iosnoop from its set-up to the printed lines. Whatever the hook programs do, and however the
  records are spread over the rounds of the poll loop, it prints one line for each, in order, with the arguments and the name recorded for that operation. The table of
  paths never changes a line: no argument text of the hook programs begins with \<open>fd=\<close>.
\<close>

theorem iosnoop_prints_ring:
  assumes "iosnoop_setup sys opts = Inr (err, sk, s)" and "iosnoop_step\<^sup>*\<^sup>* s t"
    and "\<forall>ev \<in> set (snoop_events t). length (ne_comm ev) = 16"
    and "\<forall>r \<in> set rounds. io_running deadline r"
    and "concat (map ir_new rounds) = map encode_snoop_event (snoop_events t)"
  shows "\<exists>paths'. io_loop deadline 10 (snoop_cb ok clock) err rounds [] ([], []) =
    (None, [], paths', map (\<lambda>ev. iosnoop_line clock ev (if c_str (ne_args ev) = [] then ''-'' else c_str (ne_args ev))
                             (c_str (ne_fname ev))) (snoop_events t))"
proof -
  from iosnoop_records_printed [OF assms(1-3), of ok clock "[]"] obtain paths
    where "deliver (snoop_cb ok clock) (concat (map ir_new rounds)) ([], []) =
      (0, (paths, map (snoop_line clock) (snoop_events t)), [])"
    unfolding assms(5) by auto
  from io_loop_delivers [OF assms(4) this] show ?thesis by (simp add: snoop_line_def [abs_def])
qed

section \<open>Witnesses\<close>

theorem io_records_roundtrip_witness:
  "\<exists>e. length (encode_slow_event e) = 312 \<and> view_slow_event (encode_slow_event e) = e \<and> se_delta_us e = 5"
proof -
  let ?e = "\<lparr>se_ts = 1, se_pid = 2, se_uid = 3, se_gid = 4, se_delta_us = 5, se_type = SC_OPEN, se_pad1 = 0,
     se_pad2 = 0, se_ret = - 1, se_pad3 = 0, se_comm = zero_buf 16, se_fname = zero_buf 256\<rparr>"
  have "length (encode_slow_event ?e) = 312 \<and> view_slow_event (encode_slow_event ?e) = ?e"
    using io_records_roundtrip [of ?e undefined] by (simp add: zero_buf_def)
  then show ?thesis by (intro exI [of _ ?e]) simp
qed

text \<open>A round in which everything new is delivered.\<close>

definition example_io_round :: "ring \<Rightarrow> 'c io_round" where
  "example_io_round new =
     \<lparr>ir_exiting = False, ir_poll = (\<lambda>t cb rg c. deliver cb rg c), ir_late = False, ir_new = new\<rparr>"

lemma example_io_running: "io_running deadline (example_io_round new)"
  by (simp add: io_running_def example_io_round_def example_sample_polls_all)

text \<open>An open of 20 milliseconds on the mount.\<close>

theorem ioslower_prints_selected_witness:
  "\<exists>err sk s s' ev. ioslower_setup example_io_sys [] example_io_opts = Inr (err, sk, s) \<and>
     s' = probe_run ioslower_enter ioslower_leave
       [Enter (Fentry, example_mem, slow_example_env 1000000 0x700000007, E_open (Some \<lparr>path_dentry = 64\<rparr>) 0),
        Leave (Fentry, slow_example_env 21000000 0x700000007, X_open 0)] s \<and>
     slow_events s' = [ev] \<and>
     io_loop False 100 (slow_cb (\<lambda>_. ''12:00:00'')) 0 [example_io_round [], example_io_round [encode_slow_event ev]] [] [] =
       (None, [], [slow_line (\<lambda>_. ''12:00:00'') ev])"
proof -
  let ?s = "ioslower_init\<lparr>slow_mount_filter_cfg := [0 \<mapsto> \<lparr>cfg_enabled = 1, cfg_dev_major = 8, cfg_dev_minor = 1\<rparr>],
                        threshold_config := [0 \<mapsto> 10000]\<rparr>"
  let ?cs = "[Enter (Fentry, example_mem, slow_example_env 1000000 0x700000007, E_open (Some \<lparr>path_dentry = 64\<rparr>) 0),
        Leave (Fentry, slow_example_env 21000000 0x700000007, X_open 0)] :: (slow_in, slow_out) probe_call list"
  define t where "t = probe_run ioslower_enter ioslower_leave ?cs ?s"
  have "\<exists>ev. slow_events t = [ev] \<and> length (se_comm ev) = 16"
    by (simp add: t_def slow_example_simps ioslower_enter_def ioslower_leave_def probe_defs Let_def
        ioslower_start_or_drop_def ioslower_pass_mount_filter_def ioslower_dev_from_path_def
        ioslower_finish_event_def ioslower_emit_event_def zero_buf_def)
  then obtain ev where ev: "slow_events t = [ev]" "length (se_comm ev) = 16" by blast
  have sys: "io_mount_path example_io_opts = Some ''/mnt''" "io_realpath example_io_sys ''/mnt'' = Some ''/mnt''"
      "io_stat example_io_sys ''/mnt'' = Some (encoded_dev 0x800001)"
    by (simp_all add: example_io_opts_def example_io_sys_def)
  have "\<forall>e \<in> set (slow_events t). length (se_comm e) = 16" using ev by simp
  note prints = ioslower_prints_selected [OF example_setup sys t_def this]
  define rounds :: "string list io_round list"
    where "rounds = [example_io_round [], example_io_round [encode_slow_event ev]]"
  have run: "\<forall>r \<in> set rounds. io_running False r" and new: "concat (map ir_new rounds) = [encode_slow_event ev]"
    by (simp_all add: rounds_def example_io_running) (simp add: example_io_round_def)
  have "slow_events ?s = []" by (simp add: ioslower_init_def)
  with prints [OF run, of "\<lambda>_. ''12:00:00''"] ev(1) new
  have "io_loop False 100 (slow_cb (\<lambda>_. ''12:00:00'')) 0 rounds [] [] =
      (None, [], [slow_line (\<lambda>_. ''12:00:00'') ev])"
    by auto
  note this [unfolded rounds_def]
  with example_setup ev(1) t_def show ?thesis by blast
qed

text \<open>A removed directory, from the hook to the line.\<close>

theorem iosnoop_prints_ring_witness:
  "\<exists>t ev paths'. iosnoop_step\<^sup>*\<^sup>* iosnoop_init t \<and> snoop_events t = [ev] \<and>
     io_loop False 10 (snoop_cb True (\<lambda>_. ''12:00:00'')) 0 [example_io_round [encode_snoop_event ev]] [] ([], []) =
       (None, [], paths', [iosnoop_line (\<lambda>_. ''12:00:00'') ev ''-'' ''data.txt''])"
proof -
  obtain t ev where run: "iosnoop_step\<^sup>*\<^sup>* iosnoop_init t" and ev: "snoop_events t = [ev]"
      "c_str (ne_args ev) = []" "c_str (ne_fname ev) = ''data.txt''" "length (ne_comm ev) = 16"
    using snoop_example_run by blast
  have "\<forall>e \<in> set (snoop_events t). length (ne_comm e) = 16" using ev by simp
  note prints = iosnoop_prints_ring [OF snoop_example_setup run this]
  define rounds :: "(fd_paths \<times> string list) io_round list" where "rounds = [example_io_round [encode_snoop_event ev]]"
  have "\<forall>r \<in> set rounds. io_running False r" "concat (map ir_new rounds) = map encode_snoop_event (snoop_events t)"
    by (simp_all add: rounds_def example_io_running ev) (simp add: example_io_round_def)
  from prints [OF this, of True "\<lambda>_. ''12:00:00''"] run ev show ?thesis
    unfolding rounds_def by auto
qed

end
