(* ===== verification/Slower_Options.thy ===== *)
theory Slower_Options
  imports Loader_Common
begin

text \<open>
  The options of smbslower and nfsslower (\<open>src/src/user/smbslower.c\<close>,
  \<open>src/src/user/nfsslower.c\<close>) and the command filter they build. The two files contain the same
  code for a different number of commands, which is the argument \<open>maxc\<close> here (20 for SMB, 70 for
  NFS); smbslower has one more option.
\<close>

section \<open>Code\<close>

record slower_opts =
  so_verbose :: bool
  so_skip_tracepoints :: bool
  so_min_lat_ms :: u64
  so_wakeup_data_size :: u64
  so_include_mode :: bool
  so_exclude_mode :: bool
  so_cmd_filter :: "u8 list"

definition slower_opts_init :: "nat \<Rightarrow> slower_opts" where
  "slower_opts_init maxc =
     \<lparr>so_verbose = False, so_skip_tracepoints = False, so_min_lat_ms = 10, so_wakeup_data_size = 0,
      so_include_mode = False, so_exclude_mode = False, so_cmd_filter = replicate maxc 0\<rparr>"

text \<open>The \<open>while\<close> loop over the tokens.\<close>

fun parse_cmd_loop :: "nat \<Rightarrow> nat \<Rightarrow> string list \<Rightarrow> nat \<Rightarrow> u8 list \<Rightarrow> nat \<times> u8 list" where
  "parse_cmd_loop maxc max_cmds [] count f = (count, f)"
| "parse_cmd_loop maxc max_cmds (token # ts) count f =
     (if count < max_cmds then
        let cmd = atoi token
        in if 0 \<le> cmd \<and> cmd < int maxc
           then parse_cmd_loop maxc max_cmds ts (count + 1) (f[nat cmd := 1])
           else parse_cmd_loop maxc max_cmds ts count f
      else (count, f))"

text \<open>\<open>dup_ok\<close>: whether \<open>strdup\<close> succeeds. The result is the return value and the filter.\<close>

definition parse_cmd_list :: "nat \<Rightarrow> bool \<Rightarrow> string \<Rightarrow> nat \<Rightarrow> u8 list \<Rightarrow> int \<times> u8 list" where
  "parse_cmd_list maxc dup_ok arg max_cmds f =
     (if \<not> dup_ok then (- 1, f)
      else let (count, f) = parse_cmd_loop maxc max_cmds (tokens arg) 0 f in (int count, f))"

datatype slower_key = K_w | K_c | K_x | K_m | K_h | K_v | K_skip | K_other

definition slower_parse_arg ::
    "nat \<Rightarrow> bool \<Rightarrow> slower_key \<Rightarrow> string \<Rightarrow> slower_opts \<Rightarrow> slower_opts parsed" where
  "slower_parse_arg maxc dup_ok key arg g =
     (case key of
        K_w \<Rightarrow> let r = strtol 10 arg
               in if num_erange r then Usage_exit
                  else Parsed (g\<lparr>so_wakeup_data_size := word_of_int (num_val r)\<rparr>)
      | K_c \<Rightarrow> if so_exclude_mode g then Usage_exit
               else let g = g\<lparr>so_include_mode := True\<rparr>;
                        (err, f) = parse_cmd_list maxc dup_ok arg maxc (so_cmd_filter g)
                    in if err \<le> 0 then Usage_exit else Parsed (g\<lparr>so_cmd_filter := f\<rparr>)
      | K_x \<Rightarrow> if so_include_mode g then Usage_exit
               else let g = g\<lparr>so_exclude_mode := True\<rparr>;
                        (err, f) = parse_cmd_list maxc dup_ok arg maxc (so_cmd_filter g)
                    in if err \<le> 0 then Usage_exit else Parsed (g\<lparr>so_cmd_filter := f\<rparr>)
      | K_m \<Rightarrow> let r = strtol 10 arg
               in if num_erange r then Usage_exit
                  else Parsed (g\<lparr>so_min_lat_ms := word_of_int (num_val r)\<rparr>)
      | K_h \<Rightarrow> Help_exit
      | K_v \<Rightarrow> Parsed (g\<lparr>so_verbose := True\<rparr>)
      | K_skip \<Rightarrow> Parsed (g\<lparr>so_skip_tracepoints := True\<rparr>)
      | K_other \<Rightarrow> Parse_error)"

text \<open>The loop of \<open>update_denylist_map\<close>; \<open>rc cmd\<close> is the outcome of the map update for \<open>cmd\<close>.\<close>

fun update_denylist_loop ::
    "(u16 \<Rightarrow> int) \<Rightarrow> slower_opts \<Rightarrow> nat list \<Rightarrow> (u16 \<Rightarrow> u8 option) \<Rightarrow> int \<times> (u16 \<Rightarrow> u8 option)" where
  "update_denylist_loop rc g [] m = (0, m)"
| "update_denylist_loop rc g (cmd # cmds) m =
     (let deny = (if so_exclude_mode g \<and> so_cmd_filter g ! cmd \<noteq> 0 then True
                  else so_include_mode g \<and> so_cmd_filter g ! cmd = 0)
      in if deny then
           let (r, m) = bpf_map_update_elem (rc (of_nat cmd)) BPF_ANY (of_nat cmd) 1 m
           in if r < 0 then (- 1, m) else update_denylist_loop rc g cmds m
         else update_denylist_loop rc g cmds m)"

definition slower_update_denylist_map ::
    "nat \<Rightarrow> (u16 \<Rightarrow> int) \<Rightarrow> slower_opts \<Rightarrow> (u16 \<Rightarrow> u8 option) \<Rightarrow> int \<times> (u16 \<Rightarrow> u8 option)" where
  "slower_update_denylist_map maxc rc g m = update_denylist_loop rc g [0..<maxc] m"

text \<open>The read-only data: \<open>wakeup_data_size\<close> is cut from 64 bit to \<open>int\<close> there.\<close>

definition slower_fill_rodata :: "slower_opts \<Rightarrow> slower_rodata" where
  "slower_fill_rodata g =
     \<lparr>min_lat_ns = so_min_lat_ms g * 1000 * 1000,
      slower_wakeup_data_size = ucast (so_wakeup_data_size g)\<rparr>"

section \<open>Specification\<close>

text \<open>The commands named by a list argument.\<close>

definition listed_cmds :: "nat \<Rightarrow> string \<Rightarrow> nat set" where
  "listed_cmds maxc arg = {nat (atoi t) | t. t \<in> set (tokens arg) \<and> 0 \<le> atoi t \<and> atoi t < int maxc}"

text \<open>The filter as a set, and the commands it denies.\<close>

definition filter_set :: "slower_opts \<Rightarrow> nat set" where
  "filter_set g = {c. c < length (so_cmd_filter g) \<and> so_cmd_filter g ! c \<noteq> 0}"

definition denied :: "nat \<Rightarrow> slower_opts \<Rightarrow> nat set" where
  "denied maxc g =
     {c. c < maxc \<and> (so_exclude_mode g \<and> c \<in> filter_set g \<or> so_include_mode g \<and> c \<notin> filter_set g)}"

text \<open>Invariant of the globals: never both modes, one flag per command, a mode has commands.\<close>

definition opts_inv :: "nat \<Rightarrow> slower_opts \<Rightarrow> bool" where
  "opts_inv maxc g \<longleftrightarrow>
     \<not> (so_include_mode g \<and> so_exclude_mode g) \<and> length (so_cmd_filter g) = maxc \<and>
     ((so_include_mode g \<or> so_exclude_mode g) = (filter_set g \<noteq> {}))"

section \<open>Facts\<close>

lemma length_parse_cmd_loop [simp]:
  "length (snd (parse_cmd_loop maxc k ts n f)) = length f"
  by (induction ts arbitrary: n f) (simp_all add: Let_def)

text \<open>As long as the bound on the count is not reached every listed command is marked.\<close>

lemma parse_cmd_loop_marks:
  assumes "length f = maxc" and "n + length ts \<le> k"
  shows "{c. c < maxc \<and> snd (parse_cmd_loop maxc k ts n f) ! c \<noteq> 0} =
         {c. c < maxc \<and> f ! c \<noteq> 0} \<union>
         {nat (atoi t) | t. t \<in> set ts \<and> 0 \<le> atoi t \<and> atoi t < int maxc}"
  using assms
proof (induction ts arbitrary: n f)
  case Nil
  then show ?case by simp
next
  case (Cons t ts)
  show ?case
  proof (cases "0 \<le> atoi t \<and> atoi t < int maxc")
    case True
    have "{c. c < maxc \<and> (f[nat (atoi t) := 1]) ! c \<noteq> 0} =
          insert (nat (atoi t)) {c. c < maxc \<and> f ! c \<noteq> 0}"
      using Cons.prems(1) True by (auto simp: nth_list_update split: if_splits)
    then show ?thesis
      using Cons.IH [of "f[nat (atoi t) := 1]" "n + 1"] Cons.prems True by (auto simp: Let_def)
  next
    case False
    then show ?thesis using Cons.IH [of f n] Cons.prems by (auto simp: Let_def)
  qed
qed

lemma parse_cmd_loop_mono:
  "c < length f \<Longrightarrow> f ! c \<noteq> 0 \<Longrightarrow> snd (parse_cmd_loop maxc k ts n f) ! c \<noteq> 0"
proof (induction ts arbitrary: n f)
  case Nil
  then show ?case by simp
next
  case (Cons t ts)
  have "(f[i := 1]) ! c \<noteq> 0" for i
    using Cons.prems by (cases "i = c") simp_all
  with Cons show ?case by (simp add: Let_def)
qed

lemma parse_cmd_loop_count:
  assumes "length f = maxc" and "n < fst (parse_cmd_loop maxc k ts n f)"
  shows "\<exists>c < maxc. snd (parse_cmd_loop maxc k ts n f) ! c \<noteq> 0"
  using assms
proof (induction ts arbitrary: f)
  case Nil
  then show ?case by simp
next
  case (Cons t ts)
  show ?case
  proof (cases "n < k \<and> 0 \<le> atoi t \<and> atoi t < int maxc")
    case True
    have "snd (parse_cmd_loop maxc k ts (n + 1) (f[nat (atoi t) := 1])) ! nat (atoi t) \<noteq> 0"
      using True Cons.prems(1) by (intro parse_cmd_loop_mono) auto
    with True show ?thesis by (intro exI [of _ "nat (atoi t)"]) (auto simp: Let_def)
  next
    case False
    with Cons show ?thesis by (auto simp: Let_def split: if_splits)
  qed
qed

lemma opts_inv_init: "opts_inv maxc (slower_opts_init maxc)"
  by (simp add: opts_inv_def slower_opts_init_def filter_set_def)

lemma parse_cmd_list_ok:
  assumes "parse_cmd_list maxc ok arg k f = (err, f')" and "0 < err" and "length f = maxc"
  shows "length f' = maxc" and "\<exists>c < maxc. f' ! c \<noteq> 0"
proof -
  have f': "f' = snd (parse_cmd_loop maxc k (tokens arg) 0 f)"
    and "err = int (fst (parse_cmd_loop maxc k (tokens arg) 0 f))"
    using assms(1,2) by (auto simp: parse_cmd_list_def split: if_splits prod.splits)
  then show "length f' = maxc" and "\<exists>c < maxc. f' ! c \<noteq> 0"
    using assms(2,3) parse_cmd_loop_count [of f maxc 0 k "tokens arg"] by simp_all
qed

lemma opts_inv_step:
  assumes "opts_inv maxc g" and "slower_parse_arg maxc ok key arg g = Parsed g'"
  shows "opts_inv maxc g'"
proof -
  obtain err f where p: "parse_cmd_list maxc ok arg maxc (so_cmd_filter g) = (err, f)"
    by (cases "parse_cmd_list maxc ok arg maxc (so_cmd_filter g)")
  have "length (so_cmd_filter g) = maxc" using assms(1) by (simp add: opts_inv_def)
  note f = parse_cmd_list_ok [OF p _ this]
  have keep: "opts_inv maxc h" if "so_include_mode h = so_include_mode g"
      "so_exclude_mode h = so_exclude_mode g" "so_cmd_filter h = so_cmd_filter g" for h
    using assms(1) that by (simp add: opts_inv_def filter_set_def)
  have set: "opts_inv maxc g'" if "so_cmd_filter g' = f" "0 < err"
      "so_include_mode g' \<noteq> so_exclude_mode g'"
    using f that by (auto simp: opts_inv_def filter_set_def)
  show ?thesis
  proof (cases key)
    case K_c
    then show ?thesis
      using assms(2) p by (intro set) (auto simp: slower_parse_arg_def Let_def split: if_splits)
  next
    case K_x
    then show ?thesis
      using assms(2) p by (intro set) (auto simp: slower_parse_arg_def Let_def split: if_splits)
  qed (use assms(2) in \<open>auto intro!: keep simp: slower_parse_arg_def Let_def split: if_splits\<close>)
qed

lemma opts_inv_parse:
  "opts_inv maxc g \<Longrightarrow> argp_parse (slower_parse_arg maxc ok) opts g = Parsed g' \<Longrightarrow> opts_inv maxc g'"
proof (induction opts arbitrary: g)
  case Nil
  then show ?case by simp
next
  case (Cons opt opts)
  obtain k arg where "opt = (k, arg)" by (cases opt)
  with Cons show ?case
    by (cases "slower_parse_arg maxc ok k arg g") (auto dest: opts_inv_step)
qed

text \<open>A successful fill puts exactly the denied commands into the map.\<close>

lemma update_denylist_loop_ok:
  assumes "update_denylist_loop rc g cmds m = (0, m')" and "\<forall>c \<in> set cmds. c < length (so_cmd_filter g)"
  shows "m' k \<noteq> None \<longleftrightarrow> m k \<noteq> None \<or>
           (\<exists>c \<in> set cmds. k = of_nat c \<and>
              (so_exclude_mode g \<and> c \<in> filter_set g \<or> so_include_mode g \<and> c \<notin> filter_set g))"
  using assms
proof (induction cmds arbitrary: m)
  case Nil
  then show ?case by simp
next
  case (Cons c cmds)
  let ?deny = "so_exclude_mode g \<and> c \<in> filter_set g \<or> so_include_mode g \<and> c \<notin> filter_set g"
  have c: "c \<in> filter_set g \<longleftrightarrow> so_cmd_filter g ! c \<noteq> 0"
    using Cons.prems(2) by (simp add: filter_set_def)
  have dn: "(if so_exclude_mode g \<and> so_cmd_filter g ! c \<noteq> 0 then True
             else so_include_mode g \<and> so_cmd_filter g ! c = 0) = ?deny"
    unfolding c by argo
  show ?case
  proof (cases ?deny)
    case True
    then have rc: "0 \<le> rc (of_nat c)"
      and run: "update_denylist_loop rc g cmds (m(of_nat c \<mapsto> 1)) = (0, m')"
      using Cons.prems(1) c
      by (auto simp: Let_def bpf_map_update_elem_def split: if_splits)
    have "(m(of_nat c \<mapsto> 1)) k \<noteq> None \<longleftrightarrow> k = of_nat c \<or> m k \<noteq> None" by simp
    moreover have "\<forall>c \<in> set cmds. c < length (so_cmd_filter g)" using Cons.prems(2) by simp
    note Cons.IH [OF run this]
    ultimately show ?thesis using True unfolding list.set(2) by blast
  next
    case False
    then have run: "update_denylist_loop rc g cmds m = (0, m')"
      using Cons.prems(1) by (simp only: update_denylist_loop.simps Let_def dn if_False)
    have "\<forall>c \<in> set cmds. c < length (so_cmd_filter g)" using Cons.prems(2) by simp
    from Cons.IH [OF run this] False show ?thesis unfolding list.set(2) by blast
  qed
qed

lemma update_denylist_ok:
  assumes "slower_update_denylist_map maxc rc g Map.empty = (0, m)" and "opts_inv maxc g"
    and "maxc \<le> 2 ^ 16"
  shows "m k \<noteq> None \<longleftrightarrow> unat k \<in> denied maxc g"
proof -
  have "m k \<noteq> None \<longleftrightarrow> (\<exists>c < maxc. k = of_nat c \<and>
          (so_exclude_mode g \<and> c \<in> filter_set g \<or> so_include_mode g \<and> c \<notin> filter_set g))"
    using update_denylist_loop_ok [of rc g "[0..<maxc]" Map.empty m k] assms(1,2)
    by (auto simp: slower_update_denylist_map_def opts_inv_def)
  moreover have "k = of_nat c \<longleftrightarrow> unat k = c" if "c < maxc" for c
    using that assms(3) by (auto simp: unsigned_of_nat take_bit_nat_eq_self)
  ultimately show ?thesis by (auto simp: denied_def)
qed

lemma update_denylist_rc: "fst (slower_update_denylist_map maxc rc g m) \<in> {0, - 1}"
proof -
  have "fst (update_denylist_loop rc g cmds m) \<in> {0, - 1}" for cmds
    by (induction cmds arbitrary: m) (simp_all add: Let_def case_prod_beta)
  then show ?thesis by (simp add: slower_update_denylist_map_def)
qed

lemma denylist_of_single:
  assumes "length (tokens arg) \<le> maxc"
  shows "slower_parse_arg maxc True K_c arg (slower_opts_init maxc) = Parsed g \<Longrightarrow>
           so_include_mode g \<and> \<not> so_exclude_mode g \<and> filter_set g = listed_cmds maxc arg"
    and "slower_parse_arg maxc True K_x arg (slower_opts_init maxc) = Parsed g \<Longrightarrow>
           so_exclude_mode g \<and> \<not> so_include_mode g \<and> filter_set g = listed_cmds maxc arg"
proof -
  obtain n f where loop: "parse_cmd_loop maxc maxc (tokens arg) 0 (replicate maxc 0) = (n, f)"
    by (cases "parse_cmd_loop maxc maxc (tokens arg) 0 (replicate maxc 0)")
  have len: "length f = maxc"
    using length_parse_cmd_loop [of maxc maxc "tokens arg" 0 "replicate maxc 0"] by (simp add: loop)
  have f: "{c. c < maxc \<and> f ! c \<noteq> 0} = listed_cmds maxc arg"
    using parse_cmd_loop_marks [of "replicate maxc 0" maxc 0 "tokens arg" maxc] assms
    by (auto simp: listed_cmds_def loop)
  have pc: "parse_cmd_list maxc True arg maxc (replicate maxc 0) = (int n, f)"
    by (simp add: parse_cmd_list_def loop)
  show "slower_parse_arg maxc True K_c arg (slower_opts_init maxc) = Parsed g \<Longrightarrow>
          so_include_mode g \<and> \<not> so_exclude_mode g \<and> filter_set g = listed_cmds maxc arg"
    unfolding f [symmetric]
    by (simp add: slower_parse_arg_def slower_opts_init_def Let_def pc split: if_splits)
       (auto simp: filter_set_def len)
  show "slower_parse_arg maxc True K_x arg (slower_opts_init maxc) = Parsed g \<Longrightarrow>
          so_exclude_mode g \<and> \<not> so_include_mode g \<and> filter_set g = listed_cmds maxc arg"
    unfolding f [symmetric]
    by (simp add: slower_parse_arg_def slower_opts_init_def Let_def pc split: if_splits)
       (auto simp: filter_set_def len)
qed

lemma comma_no_digit: "CHR '','' \<notin> set (dec n)"
proof
  assume "CHR '','' \<in> set (dec n)"
  then have "digit_val (CHR '','') < 10" using dec_digits by blast
  then show False by (simp add: digit_val_def)
qed

text \<open>A list of numbers, written and read.\<close>

lemma tokens_decs: "tokens (commas (map dec ns)) = map dec ns"
  by (rule tokens_commas) (auto simp: comma_no_digit)

lemma listed_commas:
  assumes "\<forall>n \<in> set ns. n < maxc" and "maxc \<le> 2 ^ 16"
  shows "listed_cmds maxc (commas (map dec ns)) = set ns"
proof -
  have small: "\<forall>n \<in> set ns. n < 2 ^ 31" using assms by fastforce
  have "listed_cmds maxc (commas (map dec ns)) = {nat (atoi t) | t. t \<in> dec ` set ns \<and> 0 \<le> atoi t \<and> atoi t < int maxc}"
    by (simp add: listed_cmds_def tokens_decs)
  also have "\<dots> = {nat (atoi (dec n)) | n. n \<in> set ns \<and> 0 \<le> atoi (dec n) \<and> atoi (dec n) < int maxc}"
    by blast
  also have "\<dots> = set ns" using assms(1) small by (auto simp: atoi_dec intro!: exI)
  finally show ?thesis .
qed

section \<open>Properties\<close>



text \<open>
  A list of commands written in decimal and separated by commas is read back as exactly
  these commands: with \<open>-c\<close> the deny map then lets through the listed commands and whatever has a
  code outside the command range, with \<open>-x\<close> it denies exactly the listed ones.
\<close>

theorem slower_list_roundtrip:
  assumes "\<forall>n \<in> set ns. n < maxc" and "length ns \<le> maxc" and "maxc \<le> 2 ^ 16"
    and "slower_parse_arg maxc True K_c (commas (map dec ns)) (slower_opts_init maxc) = Parsed gi"
    and "slower_update_denylist_map maxc rc gi Map.empty = (0, mi)"
    and "slower_parse_arg maxc True K_x (commas (map dec ns)) (slower_opts_init maxc) = Parsed gx"
    and "slower_update_denylist_map maxc rc' gx Map.empty = (0, mx)"
  shows "(mi cmd = None \<longleftrightarrow> unat cmd \<in> set ns \<or> maxc \<le> unat cmd) \<and>
         (mx cmd \<noteq> None \<longleftrightarrow> unat cmd \<in> set ns)"
proof -
  have listed: "listed_cmds maxc (commas (map dec ns)) = set ns" by (rule listed_commas [OF assms(1,3)])
  have len: "length (tokens (commas (map dec ns))) \<le> maxc" using assms(2) by (simp add: tokens_decs)
  have inv: "opts_inv maxc gi" "opts_inv maxc gx"
    using opts_inv_step [OF opts_inv_init assms(4)] opts_inv_step [OF opts_inv_init assms(6)] .
  show ?thesis
    using update_denylist_ok [OF assms(5) inv(1) assms(3), of cmd]
      update_denylist_ok [OF assms(7) inv(2) assms(3), of cmd]
      denylist_of_single(1) [OF len assms(4)] denylist_of_single(2) [OF len assms(6)] assms(1)
    by (auto simp: denied_def listed)
qed

theorem slower_list_roundtrip_witness:
  "\<exists>gi mi. slower_parse_arg 4 True K_c ''2'' (slower_opts_init 4) = Parsed gi \<and>
           slower_update_denylist_map 4 (\<lambda>_. 0) gi Map.empty = (0, mi) \<and> mi 2 = None \<and> mi 3 \<noteq> None"
proof -
  define gi where "gi = (slower_opts_init 4)\<lparr>so_include_mode := True, so_cmd_filter := [0, 0, 1, 0]\<rparr>"
  define gx where "gx = (slower_opts_init 4)\<lparr>so_exclude_mode := True, so_cmd_filter := [0, 0, 1, 0]\<rparr>"
  define mi where "mi = snd (slower_update_denylist_map 4 (\<lambda>_. 0) gi Map.empty)"
  define mx where "mx = snd (slower_update_denylist_map 4 (\<lambda>_. 0) gx Map.empty)"
  have shown: "commas (map dec [2]) = ''2''" by code_simp
  have gi: "slower_parse_arg 4 True K_c ''2'' (slower_opts_init 4) = Parsed gi"
    and gx: "slower_parse_arg 4 True K_x ''2'' (slower_opts_init 4) = Parsed gx"
    unfolding gi_def gx_def by code_simp+
  have mi: "slower_update_denylist_map 4 (\<lambda>_. 0) gi Map.empty = (0, mi)"
    and mx: "slower_update_denylist_map 4 (\<lambda>_. 0) gx Map.empty = (0, mx)"
    by (simp_all add: mi_def mx_def gi_def gx_def slower_opts_init_def slower_update_denylist_map_def
        upt_rec Let_def bpf_map_update_elem_def)
  note rt = slower_list_roundtrip [of "[2]" 4 gi "\<lambda>_. 0" mi gx "\<lambda>_. 0" mx, unfolded shown, OF _ _ _ gi mi gx mx]
  have "mi 2 = None" using rt [of 2] by simp
  moreover have "mi 3 \<noteq> None" using rt [of 3] by simp
  ultimately show ?thesis using gi mi by blast
qed

text \<open>
  The bound of the loop counts tokens, not commands. After as many valid tokens as there are
  commands, repetitions included, the rest of the list is ignored.
\<close>

theorem slower_repetitions_exhaust_bound:
  assumes "c < maxc" and "maxc \<le> 2 ^ 16"
  shows "parse_cmd_loop maxc maxc (replicate maxc (dec c) @ ts) 0 f =
         parse_cmd_loop maxc maxc (replicate maxc (dec c)) 0 f"
proof -
  have c: "atoi (dec c) = int c" using assms by (intro atoi_dec) simp
  have "n + k = maxc \<Longrightarrow> parse_cmd_loop maxc maxc (replicate k (dec c) @ ts) n f =
          parse_cmd_loop maxc maxc (replicate k (dec c)) n f" for n k f
  proof (induction k arbitrary: n f)
    case 0
    then show ?case by (cases ts) simp_all
  next
    case (Suc k)
    then show ?case using Suc.IH [of "n + 1"] assms(1) by (simp add: c Let_def)
  qed
  then show ?thesis by simp
qed

theorem slower_repetitions_exhaust_bound_witness:
  "parse_cmd_loop 2 2 (replicate 2 (dec 0) @ [''1'']) 0 [0, 0] = (2, [1, 0])"
proof -
  have "dec 0 = ''0''" by code_simp
  then show ?thesis
    using slower_repetitions_exhaust_bound [of 0 2 "[''1'']" "[0, 0]"]
      atoi_dec [of 0] by (simp add: numeral_2_eq_2 Let_def)
qed

text \<open>
  A token that is no number is not rejected: \<open>atoi\<close> makes it command 0, so a misspelt list
  is accepted as a list that names command 0.
\<close>

theorem slower_garbage_is_command_0:
  assumes "t \<in> set (tokens arg)" and "scan_signed 10 t = None" and "0 < maxc"
  shows "0 \<in> listed_cmds maxc arg"
proof -
  have "atoi t = 0" using assms(2) by (simp add: atoi_def strtol_def to_int_small)
  with assms(1,3) show ?thesis unfolding listed_cmds_def by (intro CollectI exI [of _ t]) simp
qed

theorem slower_garbage_is_command_0_witness: "0 \<in> listed_cmds 20 ''read''"
proof -
  have "tokens ''read'' = [''read'']" and "scan_signed 10 ''read'' = None" by code_simp+
  then show ?thesis by (intro slower_garbage_is_command_0 [of "''read''"]) simp_all
qed

end
