(* ===== verification/Command_Line.thy ===== *)
theory Command_Line
  imports Slower_Options Io_User Loader_Common "HOL-Library.Sublist"
begin

text \<open>
  The command lines of the six tools. Each hands a table \<open>struct argp_option opts[]\<close> to \<open>argp_parse\<close> of the C
  library; here are the six tables, and how argp splits the words of a command line by such a table into the calls
  of \<open>parse_arg\<close>, as its manual describes it: short options alone or in a cluster, with the argument in the
  same word or the next, long options with their argument after \<open>=\<close> or in the next word and abbreviated as long
  as they stay unique, \<open>--\<close>, and the words that are no options after all options. argp adds
  \<open>--help\<close>, \<open>--usage\<close>, \<open>--version\<close>, \<open>-?\<close> and \<open>-V\<close>.
\<close>

section \<open>The tables\<close>

text \<open>The long name, the key, and whether there is an argument.\<close>

record argp_option =
  opt_name :: "string option"
  opt_key :: char
  opt_arg :: bool

definition ioslower_options :: "argp_option list" where
  "ioslower_options =
     [\<lparr>opt_name = Some ''verbose'', opt_key = CHR ''v'', opt_arg = False\<rparr>,
      \<lparr>opt_name = Some ''duration'', opt_key = CHR ''d'', opt_arg = True\<rparr>,
      \<lparr>opt_name = Some ''threshold'', opt_key = CHR ''m'', opt_arg = True\<rparr>,
      \<lparr>opt_name = Some ''mount'', opt_key = CHR ''p'', opt_arg = True\<rparr>]"

definition iosnoop_options :: "argp_option list" where
  "iosnoop_options =
     [\<lparr>opt_name = Some ''verbose'', opt_key = CHR ''v'', opt_arg = False\<rparr>,
      \<lparr>opt_name = Some ''duration'', opt_key = CHR ''d'', opt_arg = True\<rparr>,
      \<lparr>opt_name = Some ''mount'', opt_key = CHR ''m'', opt_arg = True\<rparr>]"

definition smbslower_options :: "argp_option list" where
  "smbslower_options =
     [\<lparr>opt_name = Some ''wakeupsize'', opt_key = CHR ''w'', opt_arg = True\<rparr>,
      \<lparr>opt_name = Some ''include-cmds'', opt_key = CHR ''c'', opt_arg = True\<rparr>,
      \<lparr>opt_name = Some ''exclude-cmds'', opt_key = CHR ''x'', opt_arg = True\<rparr>,
      \<lparr>opt_name = Some ''min'', opt_key = CHR ''m'', opt_arg = True\<rparr>,
      \<lparr>opt_name = Some ''skip-tracepoints'', opt_key = CHR 0x01, opt_arg = False\<rparr>,
      \<lparr>opt_name = Some ''verbose'', opt_key = CHR ''v'', opt_arg = False\<rparr>,
      \<lparr>opt_name = None, opt_key = CHR ''h'', opt_arg = False\<rparr>]"

definition nfsslower_options :: "argp_option list" where
  "nfsslower_options =
     [\<lparr>opt_name = Some ''wakeupsize'', opt_key = CHR ''w'', opt_arg = True\<rparr>,
      \<lparr>opt_name = Some ''include-cmds'', opt_key = CHR ''c'', opt_arg = True\<rparr>,
      \<lparr>opt_name = Some ''exclude-cmds'', opt_key = CHR ''x'', opt_arg = True\<rparr>,
      \<lparr>opt_name = Some ''min'', opt_key = CHR ''m'', opt_arg = True\<rparr>,
      \<lparr>opt_name = Some ''verbose'', opt_key = CHR ''v'', opt_arg = False\<rparr>,
      \<lparr>opt_name = None, opt_key = CHR ''h'', opt_arg = False\<rparr>]"

definition smbiosnoop_options :: "argp_option list" where
  "smbiosnoop_options =
     [\<lparr>opt_name = Some ''wakeupsize'', opt_key = CHR ''w'', opt_arg = True\<rparr>,
      \<lparr>opt_name = Some ''cmds'', opt_key = CHR ''c'', opt_arg = True\<rparr>,
      \<lparr>opt_name = Some ''errors'', opt_key = CHR ''e'', opt_arg = True\<rparr>,
      \<lparr>opt_name = Some ''verbose'', opt_key = CHR ''v'', opt_arg = False\<rparr>,
      \<lparr>opt_name = None, opt_key = CHR ''h'', opt_arg = False\<rparr>]"

definition nfsiosnoop_options :: "argp_option list" where
  "nfsiosnoop_options =
     [\<lparr>opt_name = Some ''wakeupsize'', opt_key = CHR ''w'', opt_arg = True\<rparr>,
      \<lparr>opt_name = Some ''cmds'', opt_key = CHR ''c'', opt_arg = True\<rparr>,
      \<lparr>opt_name = Some ''errors'', opt_key = CHR ''e'', opt_arg = True\<rparr>,
      \<lparr>opt_name = Some ''verbose'', opt_key = CHR ''v'', opt_arg = False\<rparr>,
      \<lparr>opt_name = None, opt_key = CHR ''h'', opt_arg = False\<rparr>]"

text \<open>The \<open>case\<close> labels of \<open>parse_arg\<close>.\<close>

definition ioslower_key :: "char \<Rightarrow> io_key" where
  "ioslower_key c =
     (if c = CHR ''v'' then I_verbose else if c = CHR ''d'' then I_duration else if c = CHR ''m'' then I_min
      else if c = CHR ''p'' then I_mount else I_other)"

definition iosnoop_key :: "char \<Rightarrow> io_key" where
  "iosnoop_key c =
     (if c = CHR ''v'' then I_verbose else if c = CHR ''d'' then I_duration
      else if c = CHR ''m'' then I_mount else I_other)"

definition smbslower_key :: "char \<Rightarrow> slower_key" where
  "smbslower_key c =
     (if c = CHR ''w'' then K_w else if c = CHR ''c'' then K_c else if c = CHR ''x'' then K_x
      else if c = CHR ''m'' then K_m else if c = CHR ''h'' then K_h else if c = CHR ''v'' then K_v
      else if c = CHR 0x01 then K_skip else K_other)"

definition nfsslower_key :: "char \<Rightarrow> slower_key" where
  "nfsslower_key c =
     (if c = CHR ''w'' then K_w else if c = CHR ''c'' then K_c else if c = CHR ''x'' then K_x
      else if c = CHR ''m'' then K_m else if c = CHR ''h'' then K_h else if c = CHR ''v'' then K_v else K_other)"

definition smbiosnoop_key :: "char \<Rightarrow> snoop_opt" where
  "smbiosnoop_key c =
     (if c = CHR ''w'' then N_w else if c = CHR ''c'' then N_c else if c = CHR ''e'' then N_e
      else if c = CHR ''h'' then N_h else if c = CHR ''v'' then N_v else N_other)"

definition nfsiosnoop_key :: "char \<Rightarrow> snoop_opt" where
  "nfsiosnoop_key c =
     (if c = CHR ''w'' then N_w else if c = CHR ''c'' then N_c else if c = CHR ''e'' then N_e
      else if c = CHR ''h'' then N_h else if c = CHR ''v'' then N_v else N_other)"

section \<open>Splitting a command line\<close>

text \<open>How the options end: with the command line, with a request for help, or with an error.\<close>

datatype argv_end = Argv_done | Argv_help | Argv_bad

text \<open>A key is a short option when it is a printable character.\<close>

definition is_short :: "char \<Rightarrow> bool" where
  "is_short c \<longleftrightarrow> 32 \<le> (of_char c :: nat) \<and> (of_char c :: nat) < 127"

fun getopt_short :: "argp_option list \<Rightarrow> string \<Rightarrow> string list \<Rightarrow> (char \<times> string) list \<times> string list \<times> argv_end" where
  "getopt_short tab [] words = ([], words, Argv_done)"
| "getopt_short tab (c # cs) words =
     (if c = CHR ''?'' \<or> c = CHR ''V'' then ([], words, Argv_help)
      else case find (\<lambda>op. opt_key op = c \<and> is_short c) tab of
             None \<Rightarrow> ([], words, Argv_bad)
           | Some op \<Rightarrow>
               if \<not> opt_arg op then (case getopt_short tab cs words of (items, words', e) \<Rightarrow> ((c, []) # items, words', e))
               else if cs \<noteq> [] then ([(c, cs)], words, Argv_done)
               else (case words of [] \<Rightarrow> ([], [], Argv_bad) | arg # words' \<Rightarrow> ([(c, arg)], words', Argv_done)))"

text \<open>All long names, those argp adds without a key; an exact match goes before an abbreviation.\<close>

definition long_names :: "argp_option list \<Rightarrow> (string \<times> argp_option option) list" where
  "long_names tab =
     map (\<lambda>op. (the (opt_name op), Some op)) (filter (\<lambda>op. opt_name op \<noteq> None) tab) @
     [(''help'', None), (''usage'', None), (''version'', None)]"

definition find_long :: "argp_option list \<Rightarrow> string \<Rightarrow> argp_option option option" where
  "find_long tab name =
     (case find (\<lambda>(n, x). n = name) (long_names tab) of
        Some (n, x) \<Rightarrow> Some x
      | None \<Rightarrow> (case filter (\<lambda>(n, x). prefix name n) (long_names tab) of [(n, x)] \<Rightarrow> Some x | _ \<Rightarrow> None))"

definition getopt_long :: "argp_option list \<Rightarrow> string \<Rightarrow> string list \<Rightarrow> (char \<times> string) list \<times> string list \<times> argv_end" where
  "getopt_long tab w words =
     (let name = takeWhile (\<lambda>c. c \<noteq> CHR ''='') w;
          val = (if CHR ''='' \<in> set w then Some (drop (length name + 1) w) else None)
      in case find_long tab name of
           None \<Rightarrow> ([], words, Argv_bad)
         | Some None \<Rightarrow> ([], words, if val = None then Argv_help else Argv_bad)
         | Some (Some op) \<Rightarrow>
             if \<not> opt_arg op then (if val = None then ([(opt_key op, [])], words, Argv_done) else ([], words, Argv_bad))
             else (case val of
                     Some arg \<Rightarrow> ([(opt_key op, arg)], words, Argv_done)
                   | None \<Rightarrow> (case words of [] \<Rightarrow> ([], [], Argv_bad)
                              | arg # words' \<Rightarrow> ([(opt_key op, arg)], words', Argv_done))))"

lemma getopt_short_shorter: "getopt_short tab cs words = (items, words', e) \<Longrightarrow> length words' \<le> length words"
  by (induction tab cs words arbitrary: items words' e rule: getopt_short.induct)
     (auto split: if_splits option.splits prod.splits list.splits)

lemma getopt_long_shorter: "getopt_long tab w words = (items, words', e) \<Longrightarrow> length words' \<le> length words"
  by (auto simp: getopt_long_def Let_def split: if_splits option.splits list.splits)

text \<open>The options with their arguments, the words that are no options, and how it ends.\<close>

function argv_split :: "argp_option list \<Rightarrow> string list \<Rightarrow> (char \<times> string) list \<times> string list \<times> argv_end" where
  "argv_split tab [] = ([], [], Argv_done)"
| "argv_split tab (w # words) =
     (if w = ''--'' then ([], words, Argv_done)
      else if take 1 w \<noteq> ''-'' \<or> w = ''-'' then
        (case argv_split tab words of (items, others, e) \<Rightarrow> (items, w # others, e))
      else case (if take 2 w = ''--'' then getopt_long tab (drop 2 w) words else getopt_short tab (drop 1 w) words) of
             (items, words', e) \<Rightarrow>
               if e \<noteq> Argv_done then (items, [], e)
               else (case argv_split tab words' of (items2, others, e) \<Rightarrow> (items @ items2, others, e)))"
  by pat_completeness auto
termination
  by (relation "measure (\<lambda>(tab, words). length words)")
     (auto dest!: getopt_short_shorter [OF sym] getopt_long_shorter [OF sym] split: if_splits)

declare argv_split.simps [simp del]

text \<open>
  A tool on its command line: \<open>run\<close> is its \<open>main\<close> for a list of options, \<open>arg_key\<close> the key for a word that is no
  option. An error of the command line and a request for help take effect when the options before them have been
  handled.
\<close>

definition on_command_line ::
    "argp_option list \<Rightarrow> (char \<Rightarrow> 'k) \<Rightarrow> 'k \<Rightarrow> (('k \<times> string) list \<Rightarrow> 'r parsed) \<Rightarrow> string list \<Rightarrow> 'r parsed" where
  "on_command_line tab key_of arg_key run argv =
     (let (items, others, e) = argv_split tab argv;
          opts = map (\<lambda>(c, arg). (key_of c, arg)) items
      in case e of
           Argv_done \<Rightarrow> run (opts @ map (\<lambda>w. (arg_key, w)) others)
         | Argv_help \<Rightarrow> bind_parsed (run opts) (\<lambda>_. Help_exit)
         | Argv_bad \<Rightarrow> bind_parsed (run opts) (\<lambda>_. Parse_error))"

text \<open>A \<open>main\<close> that first parses its options, with a command line they can be read from.\<close>

lemma on_command_line_bind:
  assumes "on_command_line tab key_of arg_key p argv = Parsed g"
  shows "on_command_line tab key_of arg_key (\<lambda>opts. bind_parsed (p opts) f) argv = f g"
proof -
  obtain items others e where "argv_split tab argv = (items, others, e)" by (cases "argv_split tab argv")
  with assms show ?thesis
    by (cases e) (auto simp: on_command_line_def elim: bind_parsed.elims)
qed

section \<open>How an option can be written\<close>

inductive option_written :: "argp_option list \<Rightarrow> argp_option \<Rightarrow> string \<Rightarrow> string list \<Rightarrow> bool" for tab where
  short_flag: "op \<in> set tab \<Longrightarrow> is_short (opt_key op) \<Longrightarrow> \<not> opt_arg op \<Longrightarrow> option_written tab op [] [''-'' @ [opt_key op]]"
| short_next: "op \<in> set tab \<Longrightarrow> is_short (opt_key op) \<Longrightarrow> opt_arg op \<Longrightarrow>
     option_written tab op arg [''-'' @ [opt_key op], arg]"
| short_joined: "op \<in> set tab \<Longrightarrow> is_short (opt_key op) \<Longrightarrow> opt_arg op \<Longrightarrow> arg \<noteq> [] \<Longrightarrow>
     option_written tab op arg [''-'' @ [opt_key op] @ arg]"
| long_flag: "op \<in> set tab \<Longrightarrow> opt_name op = Some name \<Longrightarrow> \<not> opt_arg op \<Longrightarrow> option_written tab op [] [''--'' @ name]"
| long_equals: "op \<in> set tab \<Longrightarrow> opt_name op = Some name \<Longrightarrow> opt_arg op \<Longrightarrow>
     option_written tab op arg [''--'' @ name @ ''='' @ arg]"
| long_next: "op \<in> set tab \<Longrightarrow> opt_name op = Some name \<Longrightarrow> opt_arg op \<Longrightarrow>
     option_written tab op arg [''--'' @ name, arg]"

text \<open>What the tables have to keep for that: no key and no name twice, and none that means something else.\<close>

definition table_ok :: "argp_option list \<Rightarrow> bool" where
  "table_ok tab \<longleftrightarrow>
     distinct (map opt_key tab) \<and> distinct (map fst (long_names tab)) \<and>
     (\<forall>op \<in> set tab. opt_key op \<noteq> CHR ''?'' \<and> opt_key op \<noteq> CHR ''V'' \<and> opt_key op \<noteq> CHR ''-'' \<and>
        (case opt_name op of None \<Rightarrow> True | Some name \<Rightarrow> name \<noteq> [] \<and> CHR ''='' \<notin> set name))"

definition tool_tables :: "argp_option list list" where
  "tool_tables =
     [ioslower_options, iosnoop_options, smbslower_options, nfsslower_options, smbiosnoop_options, nfsiosnoop_options]"

lemma tool_tables_ok: "list_all table_ok tool_tables"
  by code_simp

section \<open>Facts\<close>

lemma find_unique:
  assumes "x \<in> set xs" and "P x" and "\<forall>y \<in> set xs. P y \<longrightarrow> y = x"
  shows "find P xs = Some x"
  using assms
proof (induction xs)
  case (Cons a xs)
  show ?case
  proof (cases "P a")
    case True
    moreover have "a = x" using bspec [OF Cons.prems(3) list.set_intros(1)] True by (rule mp)
    ultimately show ?thesis by simp
  next
    case False
    then have "x \<in> set xs" using Cons.prems(1,2) by auto
    moreover have "\<forall>y \<in> set xs. P y \<longrightarrow> y = x" by (rule ballI, rule bspec [OF Cons.prems(3)], rule list.set_intros(2))
    ultimately have "find P xs = Some x" by (rule Cons.IH [OF _ Cons.prems(2)])
    then show ?thesis using False by simp
  qed
qed simp

lemma find_short:
  assumes "table_ok tab" and "op \<in> set tab" and "is_short (opt_key op)"
  shows "find (\<lambda>q. opt_key q = opt_key op \<and> is_short (opt_key op)) tab = Some op"
  using assms by (intro find_unique) (auto simp: table_ok_def distinct_map inj_on_def)

lemma find_long_name:
  assumes "table_ok tab" and "op \<in> set tab" and "opt_name op = Some name"
  shows "find_long tab name = Some (Some op)"
proof -
  have mem: "(name, Some op) \<in> set (long_names tab)"
    using assms(2,3) by (force simp: long_names_def)
  have keys: "distinct (map fst (long_names tab))" using assms(1) by (simp add: table_ok_def)
  have "\<forall>y \<in> set (long_names tab). (\<lambda>(n, x). n = name) y \<longrightarrow> y = (name, Some op)"
    using eq_key_imp_eq_value [OF keys _ mem] by auto
  then have "find (\<lambda>(n, x). n = name) (long_names tab) = Some (name, Some op)"
    by (intro find_unique [OF mem]) simp_all
  then show ?thesis by (simp add: find_long_def)
qed

lemma name_part: "CHR ''='' \<notin> set name \<Longrightarrow> takeWhile (\<lambda>c. c \<noteq> CHR ''='') (name @ CHR ''='' # arg) = name"
    "CHR ''='' \<notin> set name \<Longrightarrow> takeWhile (\<lambda>c. c \<noteq> CHR ''='') name = name"
  by (induction name) auto

text \<open>However an option is written, its words are split off as this option with its argument.\<close>

lemma option_written_split:
  assumes "option_written tab op arg ws" and ok: "table_ok tab"
  shows "argv_split tab (ws @ rest) =
    (case argv_split tab rest of (items, others, e) \<Rightarrow> ((opt_key op, arg) # items, others, e))"
  using assms(1)
proof cases
  case short_flag
  with ok find_short [OF ok short_flag(3,4)] show ?thesis
    by (auto simp: argv_split.simps(2) table_ok_def split: prod.splits)
next
  case short_next
  with ok find_short [OF ok short_next(2,3)] show ?thesis
    by (auto simp: argv_split.simps(2) table_ok_def split: prod.splits)
next
  case short_joined
  with ok find_short [OF ok short_joined(2,3)] show ?thesis
    by (auto simp: argv_split.simps(2) table_ok_def split: prod.splits)
next
  case (long_flag name)
  then have "name \<noteq> []" "CHR ''='' \<notin> set name" using ok by (auto simp: table_ok_def)
  with long_flag find_long_name [OF ok long_flag(3,4)] show ?thesis
    by (auto simp: argv_split.simps(2) getopt_long_def name_part split: prod.splits)
next
  case (long_equals name)
  then have "name \<noteq> []" "CHR ''='' \<notin> set name" using ok by (auto simp: table_ok_def)
  with long_equals find_long_name [OF ok long_equals(2,3)] show ?thesis
    by (auto simp: argv_split.simps(2) getopt_long_def name_part split: prod.splits)
next
  case (long_next name)
  then have "name \<noteq> []" "CHR ''='' \<notin> set name" using ok by (auto simp: table_ok_def)
  with long_next find_long_name [OF ok long_next(2,3)] show ?thesis
    by (auto simp: argv_split.simps(2) getopt_long_def name_part split: prod.splits)
qed

text \<open>A whole command line; \<open>lines\<close> holds each option with its argument and its words.\<close>

lemma options_written_split:
  assumes "\<forall>(op, arg, ws) \<in> set lines. option_written tab op arg ws" and "table_ok tab"
  shows "argv_split tab (concat (map (\<lambda>(op, arg, ws). ws) lines)) = (map (\<lambda>(op, arg, ws). (opt_key op, arg)) lines, [], Argv_done)"
  using assms(1)
proof (induction lines)
  case Nil
  then show ?case by (simp add: argv_split.simps)
next
  case (Cons l lines)
  obtain op arg ws where l: "l = (op, arg, ws)" by (cases l)
  then have "option_written tab op arg ws" using Cons.prems by simp
  from option_written_split [OF this assms(2)] Cons show ?case by (simp add: l)
qed

section \<open>Properties\<close>


section \<open>Witness\<close>


end
