(* ===== verification/Io_Main.thy ===== *)
theory Io_Main
  imports Io_Records Command_Line
begin

text \<open>
  The complete user programs of ioslower and iosnoop, \<open>main\<close> of \<open>src/src/user/ioslower.c\<close> and
  \<open>src/src/user/iosnoop.c\<close>, from the command line to the exit status and everything written to
  standard output, with the BPF programs running beside the poll loop and the ring buffer
  between the two. What goes to standard error is not modelled.
\<close>

section \<open>The poll loop beside the BPF programs\<close>

text \<open>
  One iteration of \<open>while (!exiting)\<close>: the calls of the traced threads since the last one, the flag, what libbpf
  does in \<open>ring_buffer__poll\<close>, and whether the deadline has passed.
\<close>

record ('call, 'c) io_turn =
  it_calls :: "'call list"
  it_exiting :: bool
  it_poll :: "int \<Rightarrow> (u8 list \<Rightarrow> 'c \<Rightarrow> int \<times> 'c) \<Rightarrow> ring \<Rightarrow> 'c \<Rightarrow> int \<times> 'c \<times> ring"
  it_late :: bool

definition turn_round :: "('call, 'c) io_turn \<Rightarrow> ring \<Rightarrow> 'c io_round" where
  "turn_round t new = \<lparr>ir_exiting = it_exiting t, ir_poll = it_poll t, ir_late = it_late t, ir_new = new\<rparr>"

definition turn_calls :: "('call, 'c) io_turn list \<Rightarrow> 'call list" where
  "turn_calls ts = concat (map it_calls ts)"

text \<open>\<open>run\<close> is what the BPF programs do for a list of calls, \<open>recs\<close> the records they have written so far.\<close>

fun io_rounds ::
    "('call list \<Rightarrow> 's \<Rightarrow> 's) \<Rightarrow> ('s \<Rightarrow> ring) \<Rightarrow> ('call, 'c) io_turn list \<Rightarrow> 's \<Rightarrow> 'c io_round list" where
  "io_rounds run recs [] s = []"
| "io_rounds run recs (t # ts) s =
     (let s' = run (it_calls t) s
      in turn_round t (drop (length (recs s)) (recs s')) # io_rounds run recs ts s')"

section \<open>What is printed before the loop\<close>

definition mount_messages :: "io_sys \<Rightarrow> string option \<Rightarrow> string list" where
  "mount_messages sys mount_path =
     (case mount_path of
        None \<Rightarrow> []
      | Some path \<Rightarrow>
          (case io_realpath sys path of
             None \<Rightarrow> []
           | Some resolved \<Rightarrow>
               (case io_stat sys resolved of
                  None \<Rightarrow> []
                | Some dev_id \<Rightarrow>
                    [''Filtering by mount path: '' @ resolved @ '' (dev: '' @ dec (unat dev_id) @ '')'' @ [CHR 0x0A],
                     ''Mount filter device components: major='' @ dec (unat (gnu_dev_major dev_id)) @
                       '' minor='' @ dec (unat (gnu_dev_minor dev_id)) @ [CHR 0x0A]])))"

definition io_setup_output :: "io_sys \<Rightarrow> string option \<Rightarrow> string list" where
  "io_setup_output sys mount_path = (if io_load sys \<noteq> 0 then [] else mount_messages sys mount_path)"

definition ioslower_banner :: "u64 \<Rightarrow> string list" where
  "ioslower_banner min_us =
     [''Tracing filesystem syscalls slower than '' @ dec (unat (min_us div 1000)) @ ''.'' @
        zpad 3 (dec (unat (min_us mod 1000))) @ '' ms...'' @ [CHR 0x0A],
      ljust 8 ''TIME'' @ '' '' @ ljust 6 ''PID'' @ '' '' @ ljust 16 ''COMM'' @ '' '' @ ljust 12 ''SYSCALL'' @ '' '' @
        ljust 10 ''LATENCY(ms)'' @ '' '' @ ljust 8 ''STATUS'' @ '' '' @ ''PATH'' @ [CHR 0x0A]]"

definition iosnoop_banner :: "string list" where
  "iosnoop_banner =
     [ljust 8 ''TIME'' @ '' '' @ ljust 6 ''PID'' @ '' '' @ ljust 16 ''COMM'' @ '' '' @ ljust 12 ''TYPE'' @ '' '' @
        rjust 6 ''RET'' @ '' '' @ ljust 30 ''ARGS'' @ '' '' @ ''PATH'' @ [CHR 0x0A]]"

section \<open>The two programs\<close>

text \<open>
  The exit status, \<open>None\<close> while the loop has not ended within the turns, and the output. The records that the
  programs wrote before the threshold was set are in the ring when the loop begins.
\<close>

definition ioslower_session ::
    "bool \<Rightarrow> (u64 \<Rightarrow> string) \<Rightarrow> io_sys \<Rightarrow> (slow_in, slow_out) probe_call list \<Rightarrow>
     ((slow_in, slow_out) probe_call, string list) io_turn list \<Rightarrow> (io_key \<times> string) list \<Rightarrow>
     (int option \<times> string list) parsed" where
  "ioslower_session dup_ok clock sys window turns args =
     bind_parsed (argp_parse (ioslower_parse_arg dup_ok) args ioslower_opts_init)
       (\<lambda>opts. Parsed
         (if \<not> io_open sys then (Some 1, [])
          else let printed = io_setup_output sys (io_mount_path opts)
               in case ioslower_setup sys window opts of
                    Inl err \<Rightarrow> (Some (io_exit_status err), printed)
                  | Inr (err, sk, s) \<Rightarrow>
                      let recs = (\<lambda>s. map encode_slow_event (slow_events s));
                          rounds = io_rounds (probe_run ioslower_enter ioslower_leave) recs turns s;
                          (err, rg, printed) =
                            io_loop (io_duration opts \<noteq> 0) 100 (slow_cb clock) err rounds (recs s)
                              (printed @ ioslower_banner (io_min_us opts))
                      in (map_option io_exit_status err, printed)))"

text \<open>\<open>calloc_ok\<close> tells whether the table of paths gets memory; it is freed at the end.\<close>

definition iosnoop_session ::
    "bool \<Rightarrow> bool \<Rightarrow> (u64 \<Rightarrow> string) \<Rightarrow> io_sys \<Rightarrow>
     ((snoop_in, snoop_out) probe_call, fd_paths \<times> string list) io_turn list \<Rightarrow> (io_key \<times> string) list \<Rightarrow>
     (int option \<times> string list) parsed" where
  "iosnoop_session dup_ok calloc_ok clock sys turns args =
     bind_parsed (argp_parse (iosnoop_parse_arg dup_ok) args iosnoop_opts_init)
       (\<lambda>opts. Parsed
         (if \<not> io_open sys then (Some 1, [])
          else let printed = io_setup_output sys (io_mount_path opts)
               in case iosnoop_setup sys opts of
                    Inl err \<Rightarrow> (Some (io_exit_status err), printed)
                  | Inr (err, sk, s) \<Rightarrow>
                      let recs = (\<lambda>s. map encode_snoop_event (snoop_events s));
                          rounds = io_rounds (probe_run iosnoop_enter iosnoop_leave) recs turns s;
                          (err, rg, paths, printed) =
                            io_loop (io_duration opts \<noteq> 0) 10 (snoop_cb calloc_ok clock) err rounds (recs s)
                              ([], printed @ iosnoop_banner)
                      in (map_option io_exit_status err, printed)))"

text \<open>On their command lines, and the option values they read from them.\<close>

definition ioslower_program ::
    "bool \<Rightarrow> (u64 \<Rightarrow> string) \<Rightarrow> io_sys \<Rightarrow> (slow_in, slow_out) probe_call list \<Rightarrow>
     ((slow_in, slow_out) probe_call, string list) io_turn list \<Rightarrow> string list \<Rightarrow> (int option \<times> string list) parsed" where
  "ioslower_program dup_ok clock sys window turns =
     on_command_line ioslower_options ioslower_key I_arg (ioslower_session dup_ok clock sys window turns)"

definition iosnoop_program ::
    "bool \<Rightarrow> bool \<Rightarrow> (u64 \<Rightarrow> string) \<Rightarrow> io_sys \<Rightarrow>
     ((snoop_in, snoop_out) probe_call, fd_paths \<times> string list) io_turn list \<Rightarrow> string list \<Rightarrow>
     (int option \<times> string list) parsed" where
  "iosnoop_program dup_ok calloc_ok clock sys turns =
     on_command_line iosnoop_options iosnoop_key I_arg (iosnoop_session dup_ok calloc_ok clock sys turns)"

definition ioslower_read_options :: "bool \<Rightarrow> string list \<Rightarrow> ioslower_opts parsed" where
  "ioslower_read_options dup_ok =
     on_command_line ioslower_options ioslower_key I_arg (\<lambda>args. argp_parse (ioslower_parse_arg dup_ok) args ioslower_opts_init)"

definition iosnoop_read_options :: "bool \<Rightarrow> string list \<Rightarrow> io_opts parsed" where
  "iosnoop_read_options dup_ok =
     on_command_line iosnoop_options iosnoop_key I_arg (\<lambda>args. argp_parse (iosnoop_parse_arg dup_ok) args iosnoop_opts_init)"

section \<open>Interface: BPF programs that only append records\<close>

locale appending_programs =
  fixes run :: "'call list \<Rightarrow> 's \<Rightarrow> 's" and recs :: "'s \<Rightarrow> ring"
  assumes run_append: "run (cs @ ds) s = run ds (run cs s)"
    and run_nothing: "run [] s = s"
    and run_appends: "\<exists>new. recs (run cs s) = recs s @ new"
begin

lemma recs_split: "recs s @ drop (length (recs s)) (recs (run cs s)) = recs (run cs s)"
  using run_appends [of cs s] by auto

text \<open>The records of all turns together are those of one run of all their calls.\<close>

lemma rounds_records:
  "recs s @ concat (map ir_new (io_rounds run recs ts s)) = recs (run (turn_calls ts) s)"
proof (induction ts arbitrary: s)
  case (Cons t ts)
  have "recs s @ drop (length (recs s)) (recs (run (it_calls t) s)) = recs (run (it_calls t) s)" by (rule recs_split)
  with Cons.IH [of "run (it_calls t) s"] show ?case
    by (simp add: turn_calls_def run_append Let_def turn_round_def flip: append_assoc)
qed (simp add: turn_calls_def run_nothing)

lemma rounds_append:
  "io_rounds run recs (ts @ us) s = io_rounds run recs ts s @ io_rounds run recs us (run (turn_calls ts) s)"
  by (induction ts arbitrary: s) (simp_all add: turn_calls_def run_append run_nothing Let_def)

end

interpretation slow_programs: appending_programs "probe_run ioslower_enter ioslower_leave"
    "\<lambda>s :: ioslower_state. map encode_slow_event (slow_events s)"
proof
  fix cs and s :: ioslower_state
  show "\<exists>new. map encode_slow_event (slow_events (probe_run ioslower_enter ioslower_leave cs s)) =
      map encode_slow_event (slow_events s) @ new"
    using slow_probes.run_only_appends [of cs s] by auto
qed (simp_all add: probe_run_append)

interpretation snoop_programs: appending_programs "probe_run iosnoop_enter iosnoop_leave"
    "\<lambda>s :: iosnoop_state. map encode_snoop_event (snoop_events s)"
proof
  fix cs and s :: iosnoop_state
  show "\<exists>new. map encode_snoop_event (snoop_events (probe_run iosnoop_enter iosnoop_leave cs s)) =
      map encode_snoop_event (snoop_events s) @ new"
    using snoop_probes.run_only_appends [of cs s] by auto
qed (simp_all add: probe_run_append)

section \<open>How the loop ends\<close>

text \<open>A turn that goes on and in which libbpf hands over everything; a poll that a signal cuts short.\<close>

definition turn_running :: "bool \<Rightarrow> ('call, 'c) io_turn \<Rightarrow> bool" where
  "turn_running deadline t \<longleftrightarrow> \<not> it_exiting t \<and> polls_all (it_poll t) \<and> \<not> (deadline \<and> it_late t)"

definition turn_interrupted :: "bool \<Rightarrow> ('call, 'c) io_turn \<Rightarrow> bool" where
  "turn_interrupted deadline t \<longleftrightarrow>
     \<not> it_exiting t \<and> (\<forall>n cb rg c. it_poll t n cb rg c = (- 4, c, rg)) \<and> \<not> (deadline \<and> it_late t)"

text \<open>
  The ways out of the loop after turns in which everything was handed over: the flag is set between two polls,
  the signal that sets it cuts a poll short, or the deadline passes. The last argument is the exit status.
\<close>

inductive session_ends :: "bool \<Rightarrow> ('call, 'c) io_turn list \<Rightarrow> ('call, 'c) io_turn list \<Rightarrow> int \<Rightarrow> bool" for deadline where
  stopped: "ts \<noteq> [] \<Longrightarrow> \<forall>t \<in> set ts. turn_running deadline t \<Longrightarrow> it_exiting stop \<Longrightarrow> session_ends deadline ts [stop] 0"
| interrupted: "ts \<noteq> [] \<Longrightarrow> \<forall>t \<in> set ts. turn_running deadline t \<Longrightarrow> turn_interrupted deadline broken \<Longrightarrow>
     it_exiting stop \<Longrightarrow> session_ends deadline ts [broken, stop] 1"
| timed_out: "\<forall>t \<in> set ts. turn_running deadline t \<Longrightarrow> \<not> it_exiting final \<Longrightarrow> polls_all (it_poll final) \<Longrightarrow>
     deadline \<and> it_late final \<Longrightarrow> session_ends deadline (ts @ [final]) [] 0"

text \<open>A poll that hands over everything.\<close>

lemma polls_all_done:
  "polls_all poll \<Longrightarrow> deliver cb rg c = (0, d, []) \<Longrightarrow> \<exists>n \<ge> 0. poll t cb rg c = (n, d, [])"
  using polls_allD [of poll cb rg c 0 d "[]" t] by simp

lemma deliver_split:
  assumes "deliver cb (xs @ ys) c = (0, d, [])"
  obtains c1 where "deliver cb xs c = (0, c1, [])" "deliver cb ys c1 = (0, d, [])"
proof -
  obtain q c1 rest where one: "deliver cb xs c = (q, c1, rest)" by (cases "deliver cb xs c")
  have q: "\<not> q < 0" and more: "deliver cb ys c1 = (0, d, [])"
    using assms by (auto simp: deliver_append one split: if_splits)
  from deliver_done [OF one q] one more show ?thesis by (intro that) simp_all
qed

lemma io_loop_goes_on:
  assumes "rs \<noteq> []" and "\<forall>r \<in> set rs. io_running deadline r"
    and "deliver cb (rg @ concat (map ir_new rs)) c = (0, d, [])"
  shows "\<exists>n \<ge> 0. \<forall>us. io_loop deadline t cb err (rs @ us) rg c = io_loop deadline t cb n us [] d"
  using assms
proof (induction rs arbitrary: rg c err)
  case (Cons r rs)
  have "deliver cb ((rg @ ir_new r) @ concat (map ir_new rs)) c = (0, d, [])" using Cons.prems(3) by simp
  then obtain c1 where "deliver cb (rg @ ir_new r) c = (0, c1, [])"
    and more: "deliver cb (concat (map ir_new rs)) c1 = (0, d, [])"
    by (rule deliver_split)
  moreover have run: "io_running deadline r" "\<forall>r \<in> set rs. io_running deadline r" using Cons.prems(2) by auto
  ultimately obtain n where n: "0 \<le> n" "ir_poll r t cb (rg @ ir_new r) c = (n, c1, [])"
    using polls_all_done by (force simp: io_running_def)
  then have step: "io_loop deadline t cb err ((r # rs) @ us) rg c = io_loop deadline t cb n (rs @ us) [] c1" for us
    using run(1) by (auto simp: io_running_def)
  show ?case
  proof (cases "rs = []")
    case True
    with more step n(1) show ?thesis by auto
  next
    case False
    with Cons.IH [OF False run(2), of "[]" c1 n] more show ?thesis unfolding step by simp
  qed
qed simp

lemma io_running_round: "io_running deadline (turn_round t new) = turn_running deadline t"
  by (simp add: io_running_def turn_running_def turn_round_def)

lemma rounds_running:
  "\<forall>r \<in> set (io_rounds run recs ts s). io_running deadline r" if "\<forall>t \<in> set ts. turn_running deadline t"
  using that by (induction ts arbitrary: s) (simp_all add: io_running_round Let_def)

lemma rounds_Nil: "io_rounds run recs ts s = [] \<longleftrightarrow> ts = []"
  by (cases ts) (simp_all add: Let_def)

context appending_programs
begin

text \<open>However the loop ends, the callback has had every record of the turns before, once and in order.\<close>

lemma loop_delivers_all:
  assumes "session_ends deadline ts us status" and "deliver cb (recs (run (turn_calls ts) s)) c = (0, d, [])"
  shows "\<exists>err rg. io_loop deadline n cb e (io_rounds run recs (ts @ us) s) (recs s) c = (Some err, rg, d) \<and>
    io_exit_status err = status"
  using assms
proof cases
  case (stopped stop)
  have "deliver cb (recs s @ concat (map ir_new (io_rounds run recs ts s))) c = (0, d, [])"
    using assms(2) by (simp add: rounds_records)
  from io_loop_goes_on [OF _ rounds_running [OF stopped(4)] this, of n e]
  obtain m where "0 \<le> m" "\<forall>us. io_loop deadline n cb e (io_rounds run recs ts s @ us) (recs s) c = io_loop deadline n cb m us [] d"
    using stopped(3) by (auto simp: rounds_Nil)
  with stopped show ?thesis by (simp add: rounds_append turn_round_def Let_def io_exit_status_def)
next
  case (interrupted broken stop)
  have "deliver cb (recs s @ concat (map ir_new (io_rounds run recs ts s))) c = (0, d, [])"
    using assms(2) by (simp add: rounds_records)
  from io_loop_goes_on [OF _ rounds_running [OF interrupted(4)] this, of n e]
  obtain m where "0 \<le> m" "\<forall>us. io_loop deadline n cb e (io_rounds run recs ts s @ us) (recs s) c = io_loop deadline n cb m us [] d"
    using interrupted(3) by (auto simp: rounds_Nil)
  with interrupted show ?thesis
    by (auto simp add: rounds_append turn_round_def Let_def io_exit_status_def turn_interrupted_def)
next
  case (timed_out ts' final)
  let ?s = "run (turn_calls ts') s"
  let ?new = "drop (length (recs ?s)) (recs (run (it_calls final) ?s))"
  have all: "recs (run (turn_calls ts) s) = recs ?s @ ?new"
    unfolding recs_split by (simp add: timed_out turn_calls_def run_append)
  obtain c1 where "deliver cb (recs ?s) c = (0, c1, [])" and more: "deliver cb ?new c1 = (0, d, [])"
    using assms(2) unfolding all by (rule deliver_split)
  then have first: "deliver cb (recs s @ concat (map ir_new (io_rounds run recs ts' s))) c = (0, c1, [])"
    by (simp add: rounds_records)
  show ?thesis
  proof (cases "ts' = []")
    case True
    then have "deliver cb (recs s @ ?new) c = (0, d, [])" using assms(2) all by (simp add: turn_calls_def run_nothing)
    from polls_all_done [OF timed_out(6) this, of n] obtain m
      where "0 \<le> m" "it_poll final n cb (recs s @ ?new) c = (m, d, [])" by blast
    with timed_out True show ?thesis
      by (simp add: turn_round_def Let_def io_exit_status_def turn_calls_def run_nothing)
  next
    case False
    from io_loop_goes_on [OF _ rounds_running [OF timed_out(4)] first, of n e] False
    obtain m where "0 \<le> m" "\<forall>us. io_loop deadline n cb e (io_rounds run recs ts' s @ us) (recs s) c = io_loop deadline n cb m us [] c1"
      by (auto simp: rounds_Nil)
    from polls_all_done [OF timed_out(6) more, of n] obtain j
      where "0 \<le> j" "it_poll final n cb ?new c1 = (j, d, [])" by blast
    with timed_out \<open>\<forall>us. io_loop _ _ _ _ (_ @ us) _ _ = _\<close> show ?thesis
      by (simp add: rounds_append turn_round_def Let_def io_exit_status_def)
  qed
qed

end

section \<open>From the set-up to the records\<close>

lemma ioslower_setup_window:
  "ioslower_setup sys window opts = Inr (err, sk, s) \<Longrightarrow> \<forall>ev \<in> set (slow_events s). slow_event_ok 0 ev"
proof -
  assume "ioslower_setup sys window opts = Inr (err, sk, s)"
  then obtain cfgs where s: "slow_events s =
      slow_events (probe_run ioslower_enter ioslower_leave window (ioslower_init\<lparr>slow_mount_filter_cfg := cfgs\<rparr>))"
    by (auto simp: ioslower_setup_def Let_def split: sum.splits if_splits prod.splits)
  have "slow_inv_from 0 cfgs [] (ioslower_init\<lparr>slow_mount_filter_cfg := cfgs\<rparr>)"
    by (simp add: slow_inv_from_def slow_inv_def ioslower_init_def)
  from slow_inv_from_run [OF this, of window] show ?thesis
    by (simp add: s slow_inv_from_def slow_inv_def)
qed

lemma ioslower_new_records:
  assumes "ioslower_setup sys window opts = Inr (err, sk, s)"
  shows "\<exists>new. slow_events (probe_run ioslower_enter ioslower_leave cs s) = slow_events s @ new \<and>
    (\<forall>ev \<in> set new. slow_event_ok (io_min_us opts) ev)"
proof -
  obtain cfgs where "slow_inv_from (io_min_us opts) cfgs (slow_events s) s" by (rule ioslower_setup_Inr [OF assms])
  from slow_inv_from_run [OF this, of cs] show ?thesis by (auto simp: slow_inv_from_def slow_inv_def)
qed

lemma iosnoop_run_steps: "iosnoop_step\<^sup>*\<^sup>* s (probe_run iosnoop_enter iosnoop_leave cs s)"
proof (induction cs arbitrary: s)
  case (Cons d cs)
  have "iosnoop_step s (iosnoop_enter i s)" for i :: snoop_in
  proof -
    obtain h km e x where i: "i = (h, km, e, x)" by (cases i)
    obtain t where "iosnoop_entry h km e x s = Some t" using iosnoop_entry_effect by blast
    then show ?thesis using iosnoop_step.entry by (simp add: i iosnoop_enter_def)
  qed
  note enter = this
  have leave: "iosnoop_step s (iosnoop_leave x s)" for x :: snoop_out
    by (auto simp: iosnoop_leave_def intro: iosnoop_step.exit split: prod.splits)
  show ?case
    by (cases d) (simp_all add: converse_rtranclp_into_rtranclp [OF enter Cons.IH] converse_rtranclp_into_rtranclp [OF leave Cons.IH])
qed simp

lemma ioslower_record_names:
  assumes "ioslower_setup sys window opts = Inr (err, sk, s)"
  shows "\<forall>ev \<in> set (slow_events (probe_run ioslower_enter ioslower_leave cs s)). length (se_fname ev) = 256"
proof -
  obtain new where "slow_events (probe_run ioslower_enter ioslower_leave cs s) = slow_events s @ new"
      "\<forall>ev \<in> set new. slow_event_ok (io_min_us opts) ev"
    using ioslower_new_records [OF assms] by blast
  with ioslower_setup_window [OF assms] show ?thesis by (auto simp: slow_event_ok_def)
qed

text \<open>What ioslower prints, told from the records.\<close>

lemma ioslower_program_output:
  assumes "ioslower_read_options dup_ok argv = Parsed opts" and "io_open sys"
    and "ioslower_setup sys window opts = Inr (err, sk, s)"
    and "session_ends (io_duration opts \<noteq> 0) turns ends status"
    and "s' = probe_run ioslower_enter ioslower_leave (turn_calls turns) s"
    and "\<forall>ev \<in> set (slow_events s'). length (se_comm ev) = 16"
  shows "ioslower_program dup_ok clock sys window (turns @ ends) argv =
      Parsed (Some status, io_setup_output sys (io_mount_path opts) @ ioslower_banner (io_min_us opts) @
                map (slow_line clock) (slow_events s'))"
proof -
  have "\<forall>ev \<in> set (slow_events s'). length (se_comm ev) = 16 \<and> length (se_fname ev) = 256"
    using assms(6) ioslower_record_names [OF assms(3)] assms(5) by blast
  note lines = deliver_slow_cb [OF this, of clock, unfolded assms(5)]
  define out where "out = io_setup_output sys (io_mount_path opts) @ ioslower_banner (io_min_us opts)"
  obtain e rg where "io_loop (io_duration opts \<noteq> 0) 100 (slow_cb clock) err
      (io_rounds (probe_run ioslower_enter ioslower_leave) (\<lambda>s. map encode_slow_event (slow_events s)) (turns @ ends) s)
      (map encode_slow_event (slow_events s)) out = (Some e, rg, out @ map (slow_line clock) (slow_events s'))"
      "io_exit_status e = status"
    using slow_programs.loop_delivers_all [OF assms(4) lines] unfolding assms(5) by blast
  then have "ioslower_program dup_ok clock sys window (turns @ ends) argv =
      Parsed (Some status, out @ map (slow_line clock) (slow_events s'))"
    unfolding ioslower_program_def ioslower_session_def [abs_def]
    by (subst on_command_line_bind [OF assms(1) [unfolded ioslower_read_options_def]]) (simp add: assms(2,3) out_def)
  then show ?thesis by (simp add: out_def)
qed

section \<open>Properties\<close>


text \<open>
  C5: iosnoop from its command line to its exit status and everything on its standard output: the messages of the
  set-up, the header, and one line for each record the hook programs wrote in whatever calls happened between
  the polls, in order, with the arguments and the name recorded for that operation. The table of descriptor paths
  never changes a line. An interrupted poll makes the exit status 1.
\<close>

theorem iosnoop_session_prints:
  assumes "iosnoop_read_options dup_ok argv = Parsed opts" and "io_open sys"
    and "iosnoop_setup sys opts = Inr (err, sk, s)"
    and "session_ends (io_duration opts \<noteq> 0) turns ends status"
    and "t = probe_run iosnoop_enter iosnoop_leave (turn_calls turns) s"
    and "\<forall>ev \<in> set (snoop_events t). length (ne_comm ev) = 16"
  shows "iosnoop_program dup_ok calloc_ok clock sys (turns @ ends) argv =
      Parsed (Some status, io_setup_output sys (io_mount_path opts) @ iosnoop_banner @
                map (snoop_line clock) (snoop_events t))"
proof -
  define out where "out = io_setup_output sys (io_mount_path opts) @ iosnoop_banner"
  have "iosnoop_step\<^sup>*\<^sup>* s t" unfolding assms(5) by (rule iosnoop_run_steps)
  from iosnoop_records_printed [OF assms(3) this assms(6), of calloc_ok clock out] obtain paths
    where lines: "deliver (snoop_cb calloc_ok clock) (map encode_snoop_event (snoop_events t)) ([], out) =
      (0, (paths, out @ map (snoop_line clock) (snoop_events t)), [])"
    by blast
  obtain e rg where "io_loop (io_duration opts \<noteq> 0) 10 (snoop_cb calloc_ok clock) err
      (io_rounds (probe_run iosnoop_enter iosnoop_leave) (\<lambda>s. map encode_snoop_event (snoop_events s)) (turns @ ends) s)
      (map encode_snoop_event (snoop_events s)) ([], out) =
        (Some e, rg, paths, out @ map (snoop_line clock) (snoop_events t))"
      "io_exit_status e = status"
    using snoop_programs.loop_delivers_all [OF assms(4) lines [unfolded assms(5)]] unfolding assms(5) by blast
  then have "iosnoop_program dup_ok calloc_ok clock sys (turns @ ends) argv =
      Parsed (Some status, out @ map (snoop_line clock) (snoop_events t))"
    unfolding iosnoop_program_def iosnoop_session_def [abs_def]
    by (subst on_command_line_bind [OF assms(1) [unfolded iosnoop_read_options_def]]) (simp add: assms(2,3) out_def)
  then show ?thesis by (simp add: out_def)
qed

section \<open>Witnesses\<close>

text \<open>A turn with its calls in which everything new is delivered, and the interrupted one after it.\<close>

definition example_turn :: "'call list \<Rightarrow> ('call, 'c) io_turn" where
  "example_turn cs = \<lparr>it_calls = cs, it_exiting = False, it_poll = (\<lambda>t cb rg c. deliver cb rg c), it_late = False\<rparr>"

definition example_interrupt :: "('call, 'c) io_turn list" where
  "example_interrupt =
     [\<lparr>it_calls = [], it_exiting = False, it_poll = (\<lambda>t cb rg c. (- 4, c, rg)), it_late = False\<rparr>,
      \<lparr>it_calls = [], it_exiting = True, it_poll = (\<lambda>t cb rg c. (0, c, rg)), it_late = False\<rparr>]"

lemma example_session_ends: "session_ends False [example_turn cs, example_turn ds] example_interrupt 1"
  unfolding example_interrupt_def
  by (rule session_ends.interrupted)
     (simp_all add: turn_running_def turn_interrupted_def example_turn_def example_sample_polls_all)

text \<open>An open of 20 milliseconds on the mount, and Ctrl-C.\<close>

definition slow_example_turns :: "((slow_in, slow_out) probe_call, string list) io_turn list" where
  "slow_example_turns =
     [example_turn [Enter (Fentry, example_mem, slow_example_env 1000000 0x700000007, E_open (Some \<lparr>path_dentry = 64\<rparr>) 0)],
      example_turn [Leave (Fentry, slow_example_env 21000000 0x700000007, X_open 0)]]"

definition slow_example_started :: ioslower_state where
  "slow_example_started =
     ioslower_init\<lparr>slow_mount_filter_cfg := [0 \<mapsto> \<lparr>cfg_enabled = 1, cfg_dev_major = 8, cfg_dev_minor = 1\<rparr>],
                   threshold_config := [0 \<mapsto> 10000]\<rparr>"

lemma slow_example_record:
  "\<exists>ev. slow_events (probe_run ioslower_enter ioslower_leave (turn_calls slow_example_turns) slow_example_started) = [ev] \<and>
     length (se_comm ev) = 16"
  by (simp add: turn_calls_def example_turn_def slow_example_simps ioslower_enter_def ioslower_leave_def
      slow_example_turns_def slow_example_started_def
      probe_defs Let_def ioslower_start_or_drop_def ioslower_pass_mount_filter_def ioslower_dev_from_path_def
      ioslower_finish_event_def ioslower_emit_event_def zero_buf_def)

lemma slow_example_session:
  shows "ioslower_read_options True [''--mount=/mnt''] = Parsed example_io_opts"
    and "io_open example_io_sys"
    and "\<exists>err sk. ioslower_setup example_io_sys [] example_io_opts = Inr (err, sk, slow_example_started)"
    and "session_ends (io_duration example_io_opts \<noteq> 0) slow_example_turns example_interrupt 1"
    and "slow_events slow_example_started = []"
    and "io_min_us example_io_opts = 10000" and "io_mount_path example_io_opts = Some ''/mnt''"
proof -
  have "argv_split ioslower_options [''--mount=/mnt''] = ([(CHR ''p'', ''/mnt'')], [], Argv_done)" by code_simp
  then show "ioslower_read_options True [''--mount=/mnt''] = Parsed example_io_opts"
    by (simp add: ioslower_read_options_def on_command_line_def ioslower_key_def ioslower_parse_arg_def strdup_opt_def
        example_io_opts_def)
  show opts: "io_open example_io_sys" "io_min_us example_io_opts = 10000" "io_mount_path example_io_opts = Some ''/mnt''"
    by (simp_all add: example_io_sys_def example_io_opts_def ioslower_opts_init_def)
  have "io_duration example_io_opts = 0" by (simp add: example_io_opts_def ioslower_opts_init_def)
  then show "session_ends (io_duration example_io_opts \<noteq> 0) slow_example_turns example_interrupt 1"
    using example_session_ends by (simp add: slow_example_turns_def)
  show "slow_events slow_example_started = []" by (simp add: slow_example_started_def ioslower_init_def)
  show "\<exists>err sk. ioslower_setup example_io_sys [] example_io_opts = Inr (err, sk, slow_example_started)"
    unfolding slow_example_started_def using example_setup by blast
qed


text \<open>A removed directory, from the hook to the line.\<close>

theorem iosnoop_session_prints_witness:
  "\<exists>ev. c_str (ne_fname ev) = ''data.txt'' \<and>
     iosnoop_program True True (\<lambda>_. ''12:00:00'') snoop_example_sys
       ([example_turn [Enter (Fentry, example_mem, snoop_example_env 10 0x700000007, E_rmdir 16 32)],
         example_turn [Leave (Fentry, snoop_example_env 99 0x700000007, X_rmdir 0)]] @ example_interrupt) [] =
     Parsed (Some 1, iosnoop_banner @ [snoop_line (\<lambda>_. ''12:00:00'') ev])"
proof -
  let ?turns = "[example_turn [Enter (Fentry, example_mem, snoop_example_env 10 0x700000007, E_rmdir 16 32)],
         example_turn [Leave (Fentry, snoop_example_env 99 0x700000007, X_rmdir 0)]]
    :: ((snoop_in, snoop_out) probe_call, fd_paths \<times> string list) io_turn list"
  define t where "t = probe_run iosnoop_enter iosnoop_leave (turn_calls ?turns) iosnoop_init"
  have t: "t = iosnoop_exit Fentry (snoop_example_env 99 0x700000007) (X_rmdir 0)
      (the (iosnoop_entry Fentry example_mem (snoop_example_env 10 0x700000007) (E_rmdir 16 32) iosnoop_init))"
    by (simp add: t_def turn_calls_def example_turn_def iosnoop_enter_def iosnoop_leave_def)
  obtain ev where ev: "snoop_events t = [ev]" "c_str (ne_fname ev) = ''data.txt''" "length (ne_comm ev) = 16"
    using snoop_example_exit unfolding t by blast
  have parse: "iosnoop_read_options True [] = Parsed iosnoop_opts_init"
    by (simp add: iosnoop_read_options_def on_command_line_def argv_split.simps)
  have opts: "io_open snoop_example_sys" "io_mount_path iosnoop_opts_init = None" "io_duration iosnoop_opts_init = 0"
      "io_setup_output snoop_example_sys None = []"
    by (simp_all add: snoop_example_sys_def iosnoop_opts_init_def io_setup_output_def mount_messages_def)
  have ends: "session_ends (io_duration iosnoop_opts_init \<noteq> 0) ?turns example_interrupt 1"
    using example_session_ends by (simp add: opts(3))
  have "\<forall>e \<in> set (snoop_events t). length (ne_comm e) = 16" using ev by simp
  from iosnoop_session_prints [OF parse opts(1) snoop_example_setup ends t_def this, of True "\<lambda>_. ''12:00:00''"]
    ev opts show ?thesis by auto
qed

end
