(* ===== verification/Smb_Common.thy ===== *)
theory Smb_Common
  imports Aod_Event
begin

text \<open>
  \<open>src/src/common/smb_diag.h\<close> and the records of the cifs tracepoints that both SMB tools
  read. The members are where the C compiler puts them (\<open>smb3_args_layout\<close>).
\<close>

abbreviation (input) MAX_SMB_COMMANDS :: nat where "MAX_SMB_COMMANDS \<equiv> 20"
abbreviation (input) MAX_SMB_STATUS_CODES :: nat where "MAX_SMB_STATUS_CODES \<equiv> 256"

record smb_partial_event =
  smbcommand :: u16
  smb_metric :: u64
  smb_mid :: u64

record smb3_cmd_done_args =
  sd_tid :: u32
  sd_sesid :: u64
  sd_cmd :: u16
  sd_mid :: u64

record smb3_cmd_err_args =
  er_tid :: u32
  er_sesid :: u64
  er_cmd :: u16
  er_mid :: u64
  er_status :: u32
  er_rc :: s32

definition view_smb3_cmd_done_args :: "(nat \<Rightarrow> u8) \<Rightarrow> smb3_cmd_done_args" where
  "view_smb3_cmd_done_args ctx =
     \<lparr>sd_tid = raw_u32 ctx 8, sd_sesid = raw_u64 ctx 16, sd_cmd = raw_u16 ctx 24,
      sd_mid = raw_u64 ctx 32\<rparr>"

definition view_smb3_cmd_err_args :: "(nat \<Rightarrow> u8) \<Rightarrow> smb3_cmd_err_args" where
  "view_smb3_cmd_err_args ctx =
     \<lparr>er_tid = raw_u32 ctx 8, er_sesid = raw_u64 ctx 16, er_cmd = raw_u16 ctx 24,
      er_mid = raw_u64 ctx 32, er_status = raw_u32 ctx 40, er_rc = raw_u32 ctx 44\<rparr>"

text \<open>The offsets of all members, in order, of \<open>struct smb3_cmd_err_args\<close>.\<close>

lemma smb3_args_layout:
  "member_offsets 0 [8, 4, 4, 8, 2, 2, 4, 8, 4, 4] = [0, 8, 12, 16, 24, 26, 28, 32, 40, 44]"
  by (simp add: align_up_def)

end
