(* ===== verification/Smbslower_Bpf.thy ===== *)
theory Smbslower_Bpf
  imports Smb_Common
begin

text \<open>
  The BPF side of smbslower (\<open>src/src/bpf/smbslower.bpf.c\<close>). Two independent ways to time a
  request: the cifs tracepoints \<open>smb3_cmd_enter\<close> and \<open>smb3_cmd_done\<close>/\<open>smb3_cmd_err\<close> around the table
  \<open>trace_temp\<close>, keyed by tree, session and message id; and function probes from
  \<open>smb2_mid_entry_alloc\<close> to one of the release functions around the table \<open>temp\<close>, keyed by the
  address of the \<open>mid_q_entry\<close>.
\<close>

section \<open>State\<close>

text \<open>
  The members of a tracepoint key; \<open>tk_pad\<close> are the four bytes between \<open>tid\<close> and \<open>sesid\<close>,
  which the initialiser leaves alone and the map compares.
\<close>

record smb_trace_key =
  tk_tid :: u32
  tk_pad :: "char list"
  tk_sesid :: u64
  tk_mid :: u64

record smbslower_state =
  smb_rodata :: slower_rodata
  smb_denylist :: "u16 \<Rightarrow> u8 option"
  smb_temp :: "ptr \<Rightarrow> smb_partial_event option"
  smb_trace_temp :: "smb_trace_key \<Rightarrow> smb_partial_event option"
  smb_aodrb :: aod_ring

text \<open>
  What the function probes read of a \<open>mid_q_entry\<close>: \<open>command\<close> and \<open>mid\<close> at the offsets CO-RE
  finds, plain reads at fixed offsets, and the offset of \<open>refcount\<close>. A faulting read yields 0.
\<close>

record cifs_mem =
  mid_command :: "ptr \<Rightarrow> u16"
  mid_mid :: "ptr \<Rightarrow> u64"
  mid_refcount_offset :: u64
  read_u16 :: "ptr \<Rightarrow> u16"
  read_u64 :: "ptr \<Rightarrow> u64"

section \<open>Programs\<close>

definition smbslower_get_flags :: "slower_rodata \<Rightarrow> event bpf_env \<Rightarrow> nat \<Rightarrow> u64" where
  "smbslower_get_flags ro e i =
     (if slower_wakeup_data_size ro = 0 then 0
      else let sz = rb_avail e i
           in if sint sz \<ge> sint (slower_wakeup_data_size ro)
              then BPF_RB_FORCE_WAKEUP else BPF_RB_NO_WAKEUP)"

definition smbslower_probe_exit ::
    "event bpf_env \<Rightarrow> ptr \<Rightarrow> smbslower_state \<Rightarrow> smbslower_state" where [probe_defs]:
  "smbslower_probe_exit e mid_struct s =
     (case smb_temp s mid_struct of
        None \<Rightarrow> s
      | Some partial \<Rightarrow>
          let now = ktime e 0;
              latency = now - smb_metric partial;
              s = s\<lparr>smb_temp := bpf_map_delete_elem mid_struct (smb_temp s)\<rparr>
          in if latency < min_lat_ns (smb_rodata s) then s
             else if \<not> rb_reserve e 0 then s
             else let ev = (rb_mem e)\<lparr>ev_pid := ucast (drop_bit 32 (pid_tgid e)),
                             ev_cmd_end_time_ns := now,
                             ev_metric := latency,
                             ev_rqst_id := smb_mid partial,
                             ev_command := smbcommand partial,
                             ev_tool := SMBSLOWER,
                             ev_task := comm e\<rparr>
                  in s\<lparr>smb_aodrb := smb_aodrb s @ [(smbslower_get_flags (smb_rodata s) e 0, ev)]\<rparr>)"

definition trace_smb3_cmd_enter ::
    "event bpf_env \<Rightarrow> (nat \<Rightarrow> u8) \<Rightarrow> smbslower_state \<Rightarrow> smbslower_state" where [probe_defs]:
  "trace_smb3_cmd_enter e ctx s =
     (let a = view_smb3_cmd_done_args ctx;
          key = \<lparr>tk_tid = sd_tid a, tk_pad = uninit e 4, tk_sesid = sd_sesid a, tk_mid = sd_mid a\<rparr>;
          pe = \<lparr>smbcommand = sd_cmd a, smb_metric = 0, smb_mid = 0\<rparr>
      in case smb_denylist s (smbcommand pe) of
           Some blocked \<Rightarrow> s
         | None \<Rightarrow>
             let pe = pe\<lparr>smb_metric := ktime e 0, smb_mid := sd_mid a\<rparr>
             in s\<lparr>smb_trace_temp :=
                   snd (bpf_map_update_elem (update_rc e) BPF_ANY key pe (smb_trace_temp s))\<rparr>)"

definition complete_trace_event ::
    "event bpf_env \<Rightarrow> smb_trace_key \<Rightarrow> smbslower_state \<Rightarrow> smbslower_state" where [probe_defs]:
  "complete_trace_event e key s =
     (case smb_trace_temp s key of
        None \<Rightarrow> s
      | Some completed \<Rightarrow>
          let now = ktime e 0;
              latency = now - smb_metric completed;
              s = s\<lparr>smb_trace_temp := bpf_map_delete_elem key (smb_trace_temp s)\<rparr>
          in if latency < min_lat_ns (smb_rodata s) then s
             else if \<not> rb_reserve e 0 then s
             else let ev = (rb_mem e)\<lparr>ev_pid := ucast (drop_bit 32 (pid_tgid e)),
                             ev_cmd_end_time_ns := now,
                             ev_metric := latency,
                             ev_rqst_id := smb_mid completed,
                             ev_command := smbcommand completed,
                             ev_tool := SMBSLOWER,
                             ev_task := comm e\<rparr>
                  in s\<lparr>smb_aodrb := smb_aodrb s @ [(smbslower_get_flags (smb_rodata s) e 0, ev)]\<rparr>)"

definition trace_smb3_cmd_done ::
    "event bpf_env \<Rightarrow> (nat \<Rightarrow> u8) \<Rightarrow> smbslower_state \<Rightarrow> smbslower_state" where [probe_defs]:
  "trace_smb3_cmd_done e ctx s =
     (let a = view_smb3_cmd_done_args ctx
      in complete_trace_event e
           \<lparr>tk_tid = sd_tid a, tk_pad = uninit e 4, tk_sesid = sd_sesid a, tk_mid = sd_mid a\<rparr> s)"

definition trace_smb3_cmd_err ::
    "event bpf_env \<Rightarrow> (nat \<Rightarrow> u8) \<Rightarrow> smbslower_state \<Rightarrow> smbslower_state" where [probe_defs]:
  "trace_smb3_cmd_err e ctx s =
     (let a = view_smb3_cmd_err_args ctx
      in complete_trace_event e
           \<lparr>tk_tid = er_tid a, tk_pad = uninit e 4, tk_sesid = er_sesid a, tk_mid = er_mid a\<rparr> s)"

definition mid_alloc_fexit ::
    "cifs_mem \<Rightarrow> event bpf_env \<Rightarrow> ptr \<Rightarrow> smbslower_state \<Rightarrow> smbslower_state" where [probe_defs]:
  "mid_alloc_fexit km e mid_struct s =
     (let pe = \<lparr>smbcommand = bpf_le16_to_cpu Little (mid_command km mid_struct), smb_metric = 0, smb_mid = 0\<rparr>
      in case smb_denylist s (smbcommand pe) of
           Some blocked \<Rightarrow> s
         | None \<Rightarrow>
             let pe = pe\<lparr>smb_metric := ktime e 0, smb_mid := mid_mid km mid_struct\<rparr>
             in s\<lparr>smb_temp :=
                   snd (bpf_map_update_elem (update_rc e) BPF_NOEXIST mid_struct pe (smb_temp s))\<rparr>)"

definition mid_alloc_kretprobe ::
    "cifs_mem \<Rightarrow> event bpf_env \<Rightarrow> ptr \<Rightarrow> smbslower_state \<Rightarrow> smbslower_state" where [probe_defs]:
  "mid_alloc_kretprobe km e mid_struct s =
     (if mid_struct = 0 then s
      else let cmd = mid_command km mid_struct;
               pe = \<lparr>smbcommand = bpf_le16_to_cpu Little cmd, smb_metric = 0, smb_mid = 0\<rparr>
           in case smb_denylist s (smbcommand pe) of
                Some blocked \<Rightarrow> s
              | None \<Rightarrow>
                  let pe = pe\<lparr>smb_metric := ktime e 0, smb_mid := mid_mid km mid_struct\<rparr>
                  in s\<lparr>smb_temp :=
                        snd (bpf_map_update_elem (update_rc e) BPF_NOEXIST mid_struct pe (smb_temp s))\<rparr>)"

definition mid_alloc_rhel810_kretprobe ::
    "cifs_mem \<Rightarrow> event bpf_env \<Rightarrow> ptr \<Rightarrow> smbslower_state \<Rightarrow> smbslower_state" where [probe_defs]:
  "mid_alloc_rhel810_kretprobe km e mid_struct s =
     (if mid_struct = 0 then s
      else let cmd = read_u16 km (mid_struct + 124);
               pe = \<lparr>smbcommand = bpf_le16_to_cpu Little cmd, smb_metric = 0, smb_mid = 0\<rparr>
           in case smb_denylist s (smbcommand pe) of
                Some blocked \<Rightarrow> s
              | None \<Rightarrow>
                  let pe = pe\<lparr>smb_metric := ktime e 0, smb_mid := read_u64 km (mid_struct + 32)\<rparr>
                  in s\<lparr>smb_temp :=
                        snd (bpf_map_update_elem (update_rc e) BPF_NOEXIST mid_struct pe (smb_temp s))\<rparr>)"

definition mid_alloc_rhel810_553_134_kretprobe ::
    "cifs_mem \<Rightarrow> event bpf_env \<Rightarrow> ptr \<Rightarrow> smbslower_state \<Rightarrow> smbslower_state" where [probe_defs]:
  "mid_alloc_rhel810_553_134_kretprobe km e mid_struct s =
     (if mid_struct = 0 then s
      else let cmd = read_u16 km (mid_struct + 40);
               pe = \<lparr>smbcommand = bpf_le16_to_cpu Little cmd, smb_metric = 0, smb_mid = 0\<rparr>
           in case smb_denylist s (smbcommand pe) of
                Some blocked \<Rightarrow> s
              | None \<Rightarrow>
                  let pe = pe\<lparr>smb_metric := ktime e 0, smb_mid := read_u64 km (mid_struct + 24)\<rparr>
                  in s\<lparr>smb_temp :=
                        snd (bpf_map_update_elem (update_rc e) BPF_NOEXIST mid_struct pe (smb_temp s))\<rparr>)"

definition release_kref ::
    "cifs_mem \<Rightarrow> event bpf_env \<Rightarrow> ptr \<Rightarrow> smbslower_state \<Rightarrow> smbslower_state" where [probe_defs]:
  "release_kref km e refcount s = smbslower_probe_exit e (refcount - mid_refcount_offset km) s"

definition mid_release_kref_fentry ::
    "cifs_mem \<Rightarrow> event bpf_env \<Rightarrow> ptr \<Rightarrow> smbslower_state \<Rightarrow> smbslower_state" where [probe_defs]:
  "mid_release_kref_fentry km e refcount s = release_kref km e refcount s"

definition mid_release_kref_kprobe ::
    "cifs_mem \<Rightarrow> event bpf_env \<Rightarrow> ptr \<Rightarrow> smbslower_state \<Rightarrow> smbslower_state" where [probe_defs]:
  "mid_release_kref_kprobe km e refcount s = release_kref km e refcount s"

definition mid_release_legacy_fentry ::
    "cifs_mem \<Rightarrow> event bpf_env \<Rightarrow> ptr \<Rightarrow> smbslower_state \<Rightarrow> smbslower_state" where [probe_defs]:
  "mid_release_legacy_fentry km e refcount s = release_kref km e refcount s"

definition mid_release_legacy_kprobe ::
    "cifs_mem \<Rightarrow> event bpf_env \<Rightarrow> ptr \<Rightarrow> smbslower_state \<Rightarrow> smbslower_state" where [probe_defs]:
  "mid_release_legacy_kprobe km e refcount s = release_kref km e refcount s"

definition mid_release_rhel810_kprobe ::
    "event bpf_env \<Rightarrow> ptr \<Rightarrow> smbslower_state \<Rightarrow> smbslower_state" where [probe_defs]:
  "mid_release_rhel810_kprobe e refcount s = smbslower_probe_exit e (refcount - 16) s"

definition mid_release_rhel810_553_134_kprobe ::
    "event bpf_env \<Rightarrow> ptr \<Rightarrow> smbslower_state \<Rightarrow> smbslower_state" where [probe_defs]:
  "mid_release_rhel810_553_134_kprobe e refcount s = smbslower_probe_exit e (refcount - 16) s"

definition mid_release_single_direct_fentry ::
    "event bpf_env \<Rightarrow> ptr \<Rightarrow> smbslower_state \<Rightarrow> smbslower_state" where [probe_defs]:
  "mid_release_single_direct_fentry e midEntry s = smbslower_probe_exit e midEntry s"

definition mid_release_single_direct_kprobe ::
    "event bpf_env \<Rightarrow> ptr \<Rightarrow> smbslower_state \<Rightarrow> smbslower_state" where [probe_defs]:
  "mid_release_single_direct_kprobe e midEntry s = smbslower_probe_exit e midEntry s"

definition mid_release_direct_fentry ::
    "event bpf_env \<Rightarrow> ptr \<Rightarrow> smbslower_state \<Rightarrow> smbslower_state" where [probe_defs]:
  "mid_release_direct_fentry e midEntry s = smbslower_probe_exit e midEntry s"

definition mid_release_direct_kprobe ::
    "event bpf_env \<Rightarrow> ptr \<Rightarrow> smbslower_state \<Rightarrow> smbslower_state" where [probe_defs]:
  "mid_release_direct_kprobe e midEntry s = smbslower_probe_exit e midEntry s"

section \<open>Dispatch\<close>

text \<open>
  The programs by name. The loader enables one allocation and one release program, or the
  three tracepoint programs.
\<close>

datatype smb_alloc_prog =
    P_mid_alloc_fexit | P_mid_alloc_kretprobe | P_mid_alloc_rhel810_kretprobe
  | P_mid_alloc_rhel810_553_134_kretprobe

datatype smb_release_prog =
    P_mid_release_kref_fentry | P_mid_release_kref_kprobe
  | P_mid_release_legacy_fentry | P_mid_release_legacy_kprobe
  | P_mid_release_rhel810_kprobe | P_mid_release_rhel810_553_134_kprobe
  | P_mid_release_single_direct_fentry | P_mid_release_single_direct_kprobe
  | P_mid_release_direct_fentry | P_mid_release_direct_kprobe

type_synonym smb_in = "smb_alloc_prog \<times> cifs_mem \<times> event bpf_env \<times> ptr"
type_synonym smb_out = "smb_release_prog \<times> cifs_mem \<times> event bpf_env \<times> ptr"

fun smbslower_alloc :: "smb_in \<Rightarrow> smbslower_state \<Rightarrow> smbslower_state" where
  "smbslower_alloc (P_mid_alloc_fexit, km, e, p) s = mid_alloc_fexit km e p s"
| "smbslower_alloc (P_mid_alloc_kretprobe, km, e, p) s = mid_alloc_kretprobe km e p s"
| "smbslower_alloc (P_mid_alloc_rhel810_kretprobe, km, e, p) s = mid_alloc_rhel810_kretprobe km e p s"
| "smbslower_alloc (P_mid_alloc_rhel810_553_134_kretprobe, km, e, p) s =
     mid_alloc_rhel810_553_134_kretprobe km e p s"

text \<open>The argument is what the hooked release function gets: a \<open>mid_q_entry\<close> or its \<open>refcount\<close>.\<close>

fun smbslower_release :: "smb_out \<Rightarrow> smbslower_state \<Rightarrow> smbslower_state" where
  "smbslower_release (P_mid_release_kref_fentry, km, e, p) s = mid_release_kref_fentry km e p s"
| "smbslower_release (P_mid_release_kref_kprobe, km, e, p) s = mid_release_kref_kprobe km e p s"
| "smbslower_release (P_mid_release_legacy_fentry, km, e, p) s = mid_release_legacy_fentry km e p s"
| "smbslower_release (P_mid_release_legacy_kprobe, km, e, p) s = mid_release_legacy_kprobe km e p s"
| "smbslower_release (P_mid_release_rhel810_kprobe, km, e, p) s = mid_release_rhel810_kprobe e p s"
| "smbslower_release (P_mid_release_rhel810_553_134_kprobe, km, e, p) s =
     mid_release_rhel810_553_134_kprobe e p s"
| "smbslower_release (P_mid_release_single_direct_fentry, km, e, p) s = mid_release_single_direct_fentry e p s"
| "smbslower_release (P_mid_release_single_direct_kprobe, km, e, p) s = mid_release_single_direct_kprobe e p s"
| "smbslower_release (P_mid_release_direct_fentry, km, e, p) s = mid_release_direct_fentry e p s"
| "smbslower_release (P_mid_release_direct_kprobe, km, e, p) s = mid_release_direct_kprobe e p s"

section \<open>Specification\<close>

text \<open>The command and message id each allocation program takes from a request.\<close>

fun smb_command_read :: "smb_alloc_prog \<Rightarrow> cifs_mem \<Rightarrow> ptr \<Rightarrow> u16" where
  "smb_command_read P_mid_alloc_fexit km p = mid_command km p"
| "smb_command_read P_mid_alloc_kretprobe km p = mid_command km p"
| "smb_command_read P_mid_alloc_rhel810_kretprobe km p = read_u16 km (p + 124)"
| "smb_command_read P_mid_alloc_rhel810_553_134_kretprobe km p = read_u16 km (p + 40)"

fun smb_mid_read :: "smb_alloc_prog \<Rightarrow> cifs_mem \<Rightarrow> ptr \<Rightarrow> u64" where
  "smb_mid_read P_mid_alloc_fexit km p = mid_mid km p"
| "smb_mid_read P_mid_alloc_kretprobe km p = mid_mid km p"
| "smb_mid_read P_mid_alloc_rhel810_kretprobe km p = read_u64 km (p + 32)"
| "smb_mid_read P_mid_alloc_rhel810_553_134_kretprobe km p = read_u64 km (p + 24)"

text \<open>The request that a release program takes its argument to belong to.\<close>

fun smb_released :: "smb_release_prog \<Rightarrow> cifs_mem \<Rightarrow> ptr \<Rightarrow> ptr" where
  "smb_released P_mid_release_kref_fentry km p = p - mid_refcount_offset km"
| "smb_released P_mid_release_kref_kprobe km p = p - mid_refcount_offset km"
| "smb_released P_mid_release_legacy_fentry km p = p - mid_refcount_offset km"
| "smb_released P_mid_release_legacy_kprobe km p = p - mid_refcount_offset km"
| "smb_released P_mid_release_rhel810_kprobe km p = p - 16"
| "smb_released P_mid_release_rhel810_553_134_kprobe km p = p - 16"
| "smb_released _ km p = p"

fun smb_key_in :: "smb_in \<Rightarrow> ptr" where
  "smb_key_in (v, km, e, p) = p"

fun smb_key_out :: "smb_out \<Rightarrow> ptr" where
  "smb_key_out (v, km, e, p) = smb_released v km p"

text \<open>The tracepoint programs as calls.\<close>

datatype smb_end_prog = P_trace_smb3_cmd_done | P_trace_smb3_cmd_err

type_synonym smbt_in = "event bpf_env \<times> (nat \<Rightarrow> u8)"
type_synonym smbt_out = "smb_end_prog \<times> event bpf_env \<times> (nat \<Rightarrow> u8)"

definition smb_ctx_key :: "event bpf_env \<Rightarrow> (nat \<Rightarrow> u8) \<Rightarrow> smb_trace_key" where
  "smb_ctx_key e ctx =
     \<lparr>tk_tid = raw_u32 ctx 8, tk_pad = uninit e 4, tk_sesid = raw_u64 ctx 16, tk_mid = raw_u64 ctx 32\<rparr>"

fun smb_trace_begin :: "smbt_in \<Rightarrow> smbslower_state \<Rightarrow> smbslower_state" where
  "smb_trace_begin (e, ctx) s = trace_smb3_cmd_enter e ctx s"

fun smb_trace_end :: "smbt_out \<Rightarrow> smbslower_state \<Rightarrow> smbslower_state" where
  "smb_trace_end (P_trace_smb3_cmd_done, e, ctx) s = trace_smb3_cmd_done e ctx s"
| "smb_trace_end (P_trace_smb3_cmd_err, e, ctx) s = trace_smb3_cmd_err e ctx s"

fun smbt_key_in :: "smbt_in \<Rightarrow> smb_trace_key" where
  "smbt_key_in (e, ctx) = smb_ctx_key e ctx"

fun smbt_key_out :: "smbt_out \<Rightarrow> smb_trace_key" where
  "smbt_key_out (v, e, ctx) = smb_ctx_key e ctx"

definition smb_record :: "event bpf_env \<Rightarrow> u64 \<Rightarrow> u64 \<Rightarrow> u16 \<Rightarrow> event" where
  "smb_record e latency mid cmd =
     (rb_mem e)\<lparr>ev_pid := ucast (drop_bit 32 (pid_tgid e)), ev_cmd_end_time_ns := ktime e 0,
        ev_metric := latency, ev_rqst_id := mid, ev_command := cmd, ev_tool := SMBSLOWER,
        ev_task := comm e\<rparr>"

definition smbslower_init :: "slower_rodata \<Rightarrow> (u16 \<Rightarrow> u8 option) \<Rightarrow> smbslower_state" where
  "smbslower_init ro deny =
     \<lparr>smb_rodata = ro, smb_denylist = deny, smb_temp = Map.empty, smb_trace_temp = Map.empty,
      smb_aodrb = []\<rparr>"

definition cifs_example_mem :: cifs_mem where
  "cifs_example_mem = \<lparr>mid_command = (\<lambda>_. 8), mid_mid = (\<lambda>p. p), mid_refcount_offset = 16,
     read_u16 = (\<lambda>_. 9), read_u64 = (\<lambda>p. p)\<rparr>"

section \<open>Effects\<close>

lemma smbslower_get_flags_wakeup:
  "smbslower_get_flags ro e i = wakeup_flags (slower_wakeup_data_size ro) (rb_avail e i)"
  by (simp add: smbslower_get_flags_def wakeup_flags_def Let_def)

lemma le16_little [simp]: "bpf_le16_to_cpu Little x = x"
  by (simp add: bpf_le16_to_cpu_def)

lemma smbslower_alloc_frame [simp]:
  "smb_aodrb (smbslower_alloc (v, km, e, p) s) = smb_aodrb s"
  "smb_rodata (smbslower_alloc (v, km, e, p) s) = smb_rodata s"
  "smb_denylist (smbslower_alloc (v, km, e, p) s) = smb_denylist s"
  "smb_trace_temp (smbslower_alloc (v, km, e, p) s) = smb_trace_temp s"
  by (cases v; simp add: probe_defs Let_def split: option.splits)+

lemma smbslower_alloc_temp:
  "smb_temp (smbslower_alloc (v, km, e, p) s) =
     (if (p = 0 \<longrightarrow> v = P_mid_alloc_fexit) \<and> smb_denylist s (smb_command_read v km p) = None \<and>
         0 \<le> update_rc e \<and> smb_temp s p = None
      then (smb_temp s)(p \<mapsto> \<lparr>smbcommand = smb_command_read v km p, smb_metric = ktime e 0,
                              smb_mid = smb_mid_read v km p\<rparr>)
      else smb_temp s)"
  by (cases v) (auto simp: probe_defs Let_def split: option.splits)

lemma smbslower_release_eq:
  "smbslower_release (v, km, e, p) s = smbslower_probe_exit e (smb_released v km p) s"
  by (cases v) (simp_all add: probe_defs)

lemma smbslower_exit_frame [simp]:
  "smb_temp (smbslower_probe_exit e p s) = (smb_temp s)(p := None)"
  "smb_rodata (smbslower_probe_exit e p s) = smb_rodata s"
  "smb_denylist (smbslower_probe_exit e p s) = smb_denylist s"
  by (auto simp: smbslower_probe_exit_def Let_def fun_eq_iff split: option.splits)

lemma smbslower_exit_aodrb:
  "smb_aodrb (smbslower_probe_exit e p s) =
     smb_aodrb s @
     (case smb_temp s p of
        None \<Rightarrow> []
      | Some pe \<Rightarrow>
          if ktime e 0 - smb_metric pe < min_lat_ns (smb_rodata s) \<or> \<not> rb_reserve e 0 then []
          else [(wakeup_flags (slower_wakeup_data_size (smb_rodata s)) (rb_avail e 0),
                 smb_record e (ktime e 0 - smb_metric pe) (smb_mid pe) (smbcommand pe))])"
  by (simp add: smbslower_probe_exit_def Let_def smb_record_def smbslower_get_flags_wakeup
      split: option.splits)

interpretation smb_probes: first_entry_table "smb_temp :: smbslower_state \<Rightarrow> _"
    "smb_aodrb :: smbslower_state \<Rightarrow> _" smbslower_alloc smbslower_release smb_key_in smb_key_out
proof
  fix i :: smb_in and s :: smbslower_state
  obtain v km e p where i: "i = (v, km, e, p)" by (cases i)
  show "smb_aodrb (smbslower_alloc i s) = smb_aodrb s" by (simp add: i)
  show "smb_temp (smbslower_alloc i s) k = smb_temp s k" if "k \<noteq> smb_key_in i" for k
    using that by (simp add: i smbslower_alloc_temp)
  show "smb_temp (smbslower_alloc i s) k = Some w" if "smb_temp s k = Some w" for k w
    using that by (auto simp: i smbslower_alloc_temp)
next
  fix r :: smb_out and s :: smbslower_state
  obtain v km e p where r: "r = (v, km, e, p)" by (cases r)
  show "smb_temp (smbslower_release r s) = (smb_temp s)(smb_key_out r := None)"
    by (simp add: r smbslower_release_eq)
  show "smb_aodrb (smbslower_release r s) = smb_aodrb s" if "smb_temp s (smb_key_out r) = None"
    using that by (simp add: r smbslower_release_eq smbslower_exit_aodrb)
  show "\<exists>es. smb_aodrb (smbslower_release r s) = smb_aodrb s @ es \<and> length es \<le> 1"
    by (simp add: r smbslower_release_eq smbslower_exit_aodrb split: option.splits)
qed

lemma smb_run_config [simp]:
  "smb_rodata (probe_run smbslower_alloc smbslower_release cs s) = smb_rodata s"
  by (rule probe_run_preserves) (auto simp: smbslower_release_eq split: prod.splits)

section \<open>Effects of the tracepoint programs\<close>

lemma smb_trace_begin_frame [simp]:
  "smb_aodrb (smb_trace_begin i s) = smb_aodrb s"
  "smb_rodata (smb_trace_begin i s) = smb_rodata s"
  "smb_denylist (smb_trace_begin i s) = smb_denylist s"
  by (cases i; simp add: probe_defs Let_def split: option.splits)+

lemma smb_trace_begin_temp:
  "smb_trace_temp (smb_trace_begin (e, ctx) s) =
     (if smb_denylist s (raw_u16 ctx 24) = None \<and> 0 \<le> update_rc e
      then (smb_trace_temp s)(smb_ctx_key e ctx \<mapsto>
              \<lparr>smbcommand = raw_u16 ctx 24, smb_metric = ktime e 0, smb_mid = raw_u64 ctx 32\<rparr>)
      else smb_trace_temp s)"
  by (auto simp: probe_defs Let_def view_smb3_cmd_done_args_def smb_ctx_key_def split: option.splits)

lemma smb_trace_end_eq: "smb_trace_end (v, e, ctx) s = complete_trace_event e (smb_ctx_key e ctx) s"
  by (cases v) (simp_all add: trace_smb3_cmd_done_def trace_smb3_cmd_err_def Let_def smb_ctx_key_def
      view_smb3_cmd_done_args_def view_smb3_cmd_err_args_def)

lemma complete_trace_frame [simp]:
  "smb_trace_temp (complete_trace_event e k s) = (smb_trace_temp s)(k := None)"
  "smb_rodata (complete_trace_event e k s) = smb_rodata s"
  "smb_denylist (complete_trace_event e k s) = smb_denylist s"
  by (auto simp: complete_trace_event_def Let_def fun_eq_iff split: option.splits)

lemma complete_trace_aodrb:
  "smb_aodrb (complete_trace_event e k s) =
     smb_aodrb s @
     (case smb_trace_temp s k of
        None \<Rightarrow> []
      | Some pe \<Rightarrow>
          if ktime e 0 - smb_metric pe < min_lat_ns (smb_rodata s) \<or> \<not> rb_reserve e 0 then []
          else [(wakeup_flags (slower_wakeup_data_size (smb_rodata s)) (rb_avail e 0),
                 smb_record e (ktime e 0 - smb_metric pe) (smb_mid pe) (smbcommand pe))])"
  by (simp add: complete_trace_event_def Let_def smb_record_def smbslower_get_flags_wakeup
      split: option.splits)

interpretation smb_trace_probes: probe_table "smb_trace_temp :: smbslower_state \<Rightarrow> _"
    "smb_aodrb :: smbslower_state \<Rightarrow> _" smb_trace_begin smb_trace_end smbt_key_in smbt_key_out
proof
  fix i :: smbt_in and s :: smbslower_state
  obtain e ctx where i: "i = (e, ctx)" by (cases i)
  show "smb_aodrb (smb_trace_begin i s) = smb_aodrb s" by simp
  show "smb_trace_temp (smb_trace_begin i s) k = smb_trace_temp s k" if "k \<noteq> smbt_key_in i" for k
    using that by (simp add: i smb_trace_begin_temp del: smb_trace_begin.simps)
next
  fix r :: smbt_out and s :: smbslower_state
  obtain v e ctx where r: "r = (v, e, ctx)" by (cases r)
  show "smb_trace_temp (smb_trace_end r s) = (smb_trace_temp s)(smbt_key_out r := None)"
    by (simp add: r smb_trace_end_eq)
  show "smb_aodrb (smb_trace_end r s) = smb_aodrb s" if "smb_trace_temp s (smbt_key_out r) = None"
    using that by (simp add: r smb_trace_end_eq complete_trace_aodrb)
  show "\<exists>es. smb_aodrb (smb_trace_end r s) = smb_aodrb s @ es \<and> length es \<le> 1"
    by (simp add: r smb_trace_end_eq complete_trace_aodrb split: option.splits)
qed

lemma smbt_run_config [simp]:
  "smb_rodata (probe_run smb_trace_begin smb_trace_end cs s) = smb_rodata s"
  by (rule probe_run_preserves)
     (auto simp: smb_trace_end_eq simp del: smb_trace_begin.simps split: prod.splits)

section \<open>Properties\<close>

text \<open>
  C8: a request of smbslower seen by the function probes is timed from its allocation. Whatever
  allocation and release programs the loader chose, once a request that was not pending and whose
  command is not denied is allocated, other allocations and the release of other requests leave
  it alone; when a release program gets the request (or its reference count, at the offset that
  program assumes), exactly one record goes into the ring buffer, with the command and message id
  read at allocation and the latency since then, iff that latency reaches the minimum and there
  is room, and the request is no longer pending.
\<close>

theorem smbslower_measures_request:
  assumes "p \<noteq> 0" and "smb_temp s p = None" and "smb_denylist s (smb_command_read v km p) = None"
    and "0 \<le> update_rc e1" and "smb_released w km' q = p"
    and "\<forall>x. Leave x \<in> set cs \<longrightarrow> smb_key_out x \<noteq> p"
  shows "let s1 = smbslower_alloc (v, km, e1, p) s;
             s2 = probe_run smbslower_alloc smbslower_release cs s1;
             s3 = smbslower_release (w, km', e2, q) s2;
             lat = ktime e2 0 - ktime e1 0
         in smb_temp s3 p = None \<and>
            smb_aodrb s3 = smb_aodrb s2 @
              (if lat < min_lat_ns (smb_rodata s) \<or> \<not> rb_reserve e2 0 then []
               else [(wakeup_flags (slower_wakeup_data_size (smb_rodata s)) (rb_avail e2 0),
                      smb_record e2 lat (smb_mid_read v km p) (smb_command_read v km p))])"
proof -
  define s1 where "s1 = smbslower_alloc (v, km, e1, p) s"
  define pe where "pe = \<lparr>smbcommand = smb_command_read v km p, smb_metric = ktime e1 0,
                          smb_mid = smb_mid_read v km p\<rparr>"
  have "smb_temp s1 p = Some pe"
    using assms(1-4) by (simp add: s1_def pe_def smbslower_alloc_temp)
  then have "smb_temp (probe_run smbslower_alloc smbslower_release cs s1) p = Some pe"
    by (rule smb_probes.run_keeps_first [OF assms(6)])
  moreover have "smb_rodata s1 = smb_rodata s" by (simp add: s1_def)
  ultimately show ?thesis
    unfolding s1_def [symmetric] using assms(5)
    by (simp add: Let_def smbslower_release_eq smbslower_exit_aodrb pe_def)
qed

theorem smbslower_measures_request_witness:
  "map (\<lambda>(f, ev). (ev_metric ev, ev_command ev, ev_rqst_id ev))
     (smb_aodrb (smbslower_release (P_mid_release_rhel810_kprobe, cifs_example_mem, aod_example_env 900 0, 0x1010)
        (smbslower_alloc (P_mid_alloc_rhel810_kretprobe, cifs_example_mem, aod_example_env 100 0, 0x1000)
           (smbslower_init \<lparr>min_lat_ns = 10, slower_wakeup_data_size = 0\<rparr> Map.empty)))) =
   [(800, 9, 0x1020)]"
  using smbslower_measures_request
    [of "0x1000" "smbslower_init \<lparr>min_lat_ns = 10, slower_wakeup_data_size = 0\<rparr> Map.empty"
        P_mid_alloc_rhel810_kretprobe cifs_example_mem "aod_example_env 100 0"
        P_mid_release_rhel810_kprobe cifs_example_mem "0x1010" "[]" "aod_example_env 900 0"]
  by (simp add: smbslower_init_def aod_example_env_def cifs_example_mem_def Let_def smb_record_def
      probe_defs)

text \<open>
  C10: a request of smbslower seen by the tracepoints. Between \<open>smb3_cmd_enter\<close> and the
  \<open>smb3_cmd_done\<close> or \<open>smb3_cmd_err\<close> of the same tree, session and message, any calls for other
  keys may run; provided the two runs agree on the padding of the key, the end reports exactly one
  record with command, message id and latency, iff the latency reaches the minimum and there is
  room, and the request is no longer pending.
\<close>

theorem smbslower_trace_measures_request:
  assumes "smb_denylist s (raw_u16 ctx 24) = None" and "0 \<le> update_rc e1"
    and "raw_u32 ctx' 8 = raw_u32 ctx 8" and "raw_u64 ctx' 16 = raw_u64 ctx 16"
    and "raw_u64 ctx' 32 = raw_u64 ctx 32" and "uninit e2 4 = uninit e1 4"
    and "\<forall>c \<in> set cs. call_key smbt_key_in smbt_key_out c \<noteq> smb_ctx_key e1 ctx"
  shows "let s1 = smb_trace_begin (e1, ctx) s;
             s2 = probe_run smb_trace_begin smb_trace_end cs s1;
             s3 = smb_trace_end (w, e2, ctx') s2;
             lat = ktime e2 0 - ktime e1 0
         in smb_trace_temp s3 (smb_ctx_key e1 ctx) = None \<and>
            smb_aodrb s3 = smb_aodrb s2 @
              (if lat < min_lat_ns (smb_rodata s) \<or> \<not> rb_reserve e2 0 then []
               else [(wakeup_flags (slower_wakeup_data_size (smb_rodata s)) (rb_avail e2 0),
                      smb_record e2 lat (raw_u64 ctx 32) (raw_u16 ctx 24))])"
proof -
  define s1 where "s1 = smb_trace_begin (e1, ctx) s"
  have key: "smb_ctx_key e2 ctx' = smb_ctx_key e1 ctx" using assms(3-6) by (simp add: smb_ctx_key_def)
  have "smb_trace_temp s1 (smb_ctx_key e1 ctx) =
        Some \<lparr>smbcommand = raw_u16 ctx 24, smb_metric = ktime e1 0, smb_mid = raw_u64 ctx 32\<rparr>"
    using assms(1,2) by (simp add: s1_def smb_trace_begin_temp del: smb_trace_begin.simps)
  then have "smb_trace_temp (probe_run smb_trace_begin smb_trace_end cs s1) (smb_ctx_key e1 ctx) =
        Some \<lparr>smbcommand = raw_u16 ctx 24, smb_metric = ktime e1 0, smb_mid = raw_u64 ctx 32\<rparr>"
    using smb_trace_probes.run_other_keys [OF assms(7)] by simp
  moreover have "smb_rodata s1 = smb_rodata s" by (simp add: s1_def del: smb_trace_begin.simps)
  ultimately show ?thesis
    unfolding s1_def [symmetric]
    by (simp add: Let_def smb_trace_end_eq complete_trace_aodrb key)
qed

theorem smbslower_trace_measures_request_witness:
  "map (\<lambda>(f, ev). (ev_metric ev, ev_command ev, ev_rqst_id ev))
     (smb_aodrb (smb_trace_end (P_trace_smb3_cmd_err, aod_example_env 900 0, (\<lambda>i. if i = 24 then 8 else 0))
        (smb_trace_begin (aod_example_env 100 0, (\<lambda>i. if i = 24 then 8 else 0))
           (smbslower_init \<lparr>min_lat_ns = 10, slower_wakeup_data_size = 0\<rparr> Map.empty)))) =
   [(800, 8, 0)]"
  using smbslower_trace_measures_request
    [of "smbslower_init \<lparr>min_lat_ns = 10, slower_wakeup_data_size = 0\<rparr> Map.empty"
        "\<lambda>i. if i = 24 then 8 else 0" "aod_example_env 100 0" "\<lambda>i. if i = 24 then 8 else 0"
        "aod_example_env 900 0" "[]" P_trace_smb3_cmd_err]
  by (simp add: smbslower_init_def aod_example_env_def uninit_def Let_def smb_record_def
      raw_u64_def raw_u32_def raw_u16_def probe_defs view_smb3_cmd_done_args_def)

text \<open>
  Where module type information is available the two allocation programs agree on every
  request. They differ on a failed allocation: the kretprobe ignores a NULL result, the fexit
  program records a pending request of command 0 under the address NULL unless that command is
  denied.
\<close>

theorem smbslower_alloc_null:
  assumes "smb_denylist s (mid_command km 0) = None" and "0 \<le> update_rc e"
  shows "(\<forall>p. p = 0 \<or> smbslower_alloc (P_mid_alloc_fexit, km, e, p) s =
                     smbslower_alloc (P_mid_alloc_kretprobe, km, e, p) s) \<and>
         smbslower_alloc (P_mid_alloc_kretprobe, km, e, 0) s = s \<and>
         smb_temp (smbslower_alloc (P_mid_alloc_fexit, km, e, 0) s) 0 \<noteq> None"
proof (intro conjI allI)
  show "p = 0 \<or> smbslower_alloc (P_mid_alloc_fexit, km, e, p) s =
                     smbslower_alloc (P_mid_alloc_kretprobe, km, e, p) s" for p
    by (simp add: probe_defs Let_def)
  show "smbslower_alloc (P_mid_alloc_kretprobe, km, e, 0) s = s" by (simp add: probe_defs)
  show "smb_temp (smbslower_alloc (P_mid_alloc_fexit, km, e, 0) s) 0 \<noteq> None"
    using assms by (simp only: smbslower_alloc_temp) simp
qed

theorem smbslower_alloc_null_witness:
  "smb_temp (smbslower_alloc (P_mid_alloc_fexit, cifs_example_mem, aod_example_env 1 0, 0)
     (smbslower_init \<lparr>min_lat_ns = 10, slower_wakeup_data_size = 0\<rparr> Map.empty)) 0 \<noteq> None"
  using smbslower_alloc_null [of "smbslower_init \<lparr>min_lat_ns = 10, slower_wakeup_data_size = 0\<rparr> Map.empty"
      cifs_example_mem "aod_example_env 1 0"]
  by (simp add: smbslower_init_def aod_example_env_def)

end
