(* ===== verification/Smbslower_Loader.thy ===== *)
theory Smbslower_Loader
  imports Smbslower_Bpf Slower_Options
begin

text \<open>
  The loader of smbslower (\<open>src/src/user/smbslower.c\<close>): which of its BPF programs it loads on which
  kernel, and its \<open>main\<close> up to the wait for a signal. What it asks the system is the record
  \<open>smb_sys\<close>; messages are left out.
\<close>

section \<open>System answers\<close>

datatype smb_prog =
    P_trace_smb3_cmd_enter
  | P_end smb_end_prog
  | P_alloc smb_alloc_prog
  | P_release smb_release_prog

text \<open>
  \<open>sys_release\<close> is \<open>None\<close> when \<open>uname\<close> fails, \<open>sys_srcversion\<close> is the content of the file, \<open>None\<close>
  when it cannot be opened. \<open>sys_param_count\<close> is \<open>get_func_param_count (_, "cifs")\<close>.
\<close>

record smb_sys =
  sys_tracepoint_exists :: "string \<Rightarrow> bool"
  sys_cifs_btf :: bool
  sys_release :: "string option"
  sys_srcversion :: "string option"
  sys_fentry_can_attach :: "string \<Rightarrow> bool"
  sys_param_count :: "string \<Rightarrow> int"
  sys_load :: int
  sys_update :: "u16 \<Rightarrow> int"
  sys_attach :: int

section \<open>Helpers\<close>

text \<open>\<open>fgets\<close> with 128 bytes, the cut at the first line end, the comparison.\<close>

definition file_equals :: "string option \<Rightarrow> string \<Rightarrow> bool" where
  "file_equals content expected =
     (case content of
        None \<Rightarrow> False
      | Some text \<Rightarrow>
          if text = [] then False
          else c_str (takeWhile (\<lambda>c. c \<noteq> CHR 0x0D \<and> c \<noteq> CHR 0x0A) (take 127 text)) = expected)"

text \<open>
  \<open>waits\<close> are the outcomes of the successive \<open>waitpid\<close> calls: \<open>Inl e\<close> a failure with \<open>errno\<close> e,
  \<open>Inr st\<close> the exit status of the child, \<open>None\<close> when it was killed.
\<close>

fun wait_modprobe :: "(int + int option) list \<Rightarrow> int" where
  "wait_modprobe [] = - 4"
| "wait_modprobe (Inl e # ws) = (if e = 4 then wait_modprobe ws else - e)"
| "wait_modprobe (Inr st # ws) = (if st = Some 0 then 0 else - EIO)"

definition run_modprobe :: "bool \<Rightarrow> int option \<Rightarrow> (int + int option) list \<Rightarrow> int" where
  "run_modprobe executable fork_errno waits =
     (if \<not> executable then - ENOENT
      else case fork_errno of Some e \<Rightarrow> - e | None \<Rightarrow> wait_modprobe waits)"

text \<open>The loop over the two paths; \<open>runs\<close> are the results of \<open>run_modprobe\<close> for them.\<close>

fun modprobe_loop :: "int list \<Rightarrow> int \<Rightarrow> int" where
  "modprobe_loop [] err = err"
| "modprobe_loop (r # rs) err = (if r = 0 then 0 else modprobe_loop rs r)"

definition ensure_cifs_module_loaded :: "bool \<Rightarrow> int list \<Rightarrow> int" where
  "ensure_cifs_module_loaded present runs = (if present then 0 else modprobe_loop runs (- ENOENT))"

section \<open>Program selection\<close>

definition use_tracepoints :: "smb_sys \<Rightarrow> bool \<Rightarrow> bool" where
  "use_tracepoints sys skip \<longleftrightarrow>
     \<not> skip \<and> sys_tracepoint_exists sys ''smb3_cmd_enter'' \<and>
     sys_tracepoint_exists sys ''smb3_cmd_done'' \<and> sys_tracepoint_exists sys ''smb3_cmd_err''"

text \<open>The flags \<open>rhel810_no_module_btf\<close> and \<open>rhel810_553_errata\<close>, or the error.\<close>

definition rhel810_layout :: "smb_sys \<Rightarrow> int + (bool \<times> bool)" where
  "rhel810_layout sys =
     (if \<not> sys_cifs_btf sys then
        if sys_release sys = Some ''4.18.0-553.el8_10.x86_64'' \<and>
           file_equals (sys_srcversion sys) ''77983F3F095C933642E503B'' then Inr (True, False)
        else if sys_release sys = Some ''4.18.0-553.134.1.el8_10.x86_64'' \<and>
                file_equals (sys_srcversion sys) ''E89B9572651524136F71AD9'' then Inr (True, True)
        else if sys_release sys = Some ''4.18.0-553.164.1.el8_10.x86_64'' \<and>
                file_equals (sys_srcversion sys) ''16DF298BB09E70BCC9C148F'' then Inr (True, True)
        else Inl (- ENOTSUP)
      else Inr (False, False))"

text \<open>The first part of \<open>main\<close>: tracepoints or an allocation program.\<close>

definition select_alloc ::
    "smb_sys \<Rightarrow> bool \<Rightarrow> smb_prog skeleton \<Rightarrow> int + (smb_prog skeleton \<times> bool \<times> bool)" where
  "select_alloc sys tracepoints sk =
     (if tracepoints then
        let sk = set_auto (P_alloc P_mid_alloc_fexit) False sk;
            sk = set_auto (P_alloc P_mid_alloc_kretprobe) False sk;
            sk = set_auto (P_alloc P_mid_alloc_rhel810_kretprobe) False sk;
            sk = set_auto (P_alloc P_mid_alloc_rhel810_553_134_kretprobe) False sk
        in Inr (sk, False, False)
      else
        let sk = set_auto P_trace_smb3_cmd_enter False sk;
            sk = set_auto (P_end P_trace_smb3_cmd_done) False sk;
            sk = set_auto (P_end P_trace_smb3_cmd_err) False sk;
            sk = set_auto (P_alloc P_mid_alloc_rhel810_kretprobe) False sk;
            sk = set_auto (P_alloc P_mid_alloc_rhel810_553_134_kretprobe) False sk
        in case rhel810_layout sys of
             Inl err \<Rightarrow> Inl err
           | Inr (no_btf, errata) \<Rightarrow>
               if no_btf then
                 let sk = set_auto (P_alloc P_mid_alloc_fexit) False sk;
                     sk = set_auto (P_alloc P_mid_alloc_kretprobe) False sk;
                     sk = (if errata then set_auto (P_alloc P_mid_alloc_rhel810_553_134_kretprobe) True sk
                           else set_auto (P_alloc P_mid_alloc_rhel810_kretprobe) True sk)
                 in Inr (sk, no_btf, errata)
               else if sys_fentry_can_attach sys ''smb2_mid_entry_alloc'' then
                 Inr (set_auto (P_alloc P_mid_alloc_kretprobe) False sk, no_btf, errata)
               else Inr (set_auto (P_alloc P_mid_alloc_fexit) False sk, no_btf, errata))"

definition disable_releases :: "smb_prog skeleton \<Rightarrow> smb_prog skeleton" where
  "disable_releases sk =
     fold (\<lambda>p. set_auto (P_release p) False)
       [P_mid_release_kref_fentry, P_mid_release_kref_kprobe, P_mid_release_direct_fentry,
        P_mid_release_direct_kprobe, P_mid_release_legacy_fentry, P_mid_release_legacy_kprobe,
        P_mid_release_rhel810_kprobe, P_mid_release_rhel810_553_134_kprobe,
        P_mid_release_single_direct_fentry, P_mid_release_single_direct_kprobe] sk"

text \<open>The second part: which release program, or the error.\<close>

definition release_program :: "smb_sys \<Rightarrow> bool \<Rightarrow> bool \<Rightarrow> int + smb_release_prog" where
  "release_program sys no_btf errata =
     (let (release_func, legacy_release, release_mid_params) =
            (if no_btf then (if errata then ''__release_mid'' else ''_cifs_mid_q_entry_release'', True, 1)
             else (''__release_mid'', False, sys_param_count sys ''__release_mid''));
          (release_func, single_direct, release_mid_params) =
            (if release_mid_params = - ENOENT
             then let n = sys_param_count sys ''release_mid'' in (''release_mid'', n = 1, n)
             else (release_func, False, release_mid_params));
          (release_func, legacy_release, release_mid_params) =
            (if release_mid_params = - ENOENT
             then (''_cifs_mid_q_entry_release'', True, sys_param_count sys ''_cifs_mid_q_entry_release'')
             else (release_func, legacy_release, release_mid_params))
      in if release_mid_params \<noteq> 1 \<and> release_mid_params \<noteq> 2 \<or>
            legacy_release \<and> release_mid_params \<noteq> 1 then Inl (- ENOTSUP)
         else let fentry = sys_cifs_btf sys \<and> sys_fentry_can_attach sys release_func
              in Inr (if no_btf then
                        (if errata then P_mid_release_rhel810_553_134_kprobe else P_mid_release_rhel810_kprobe)
                      else if single_direct then
                        (if fentry then P_mid_release_single_direct_fentry else P_mid_release_single_direct_kprobe)
                      else if legacy_release then
                        (if fentry then P_mid_release_legacy_fentry else P_mid_release_legacy_kprobe)
                      else if release_mid_params = 2 then
                        (if fentry then P_mid_release_direct_fentry else P_mid_release_direct_kprobe)
                      else
                        (if fentry then P_mid_release_kref_fentry else P_mid_release_kref_kprobe)))"

definition smbslower_select :: "smb_sys \<Rightarrow> bool \<Rightarrow> int + smb_prog skeleton" where
  "smbslower_select sys skip =
     (case select_alloc sys (use_tracepoints sys skip) skeleton_open of
        Inl err \<Rightarrow> Inl err
      | Inr (sk, no_btf, errata) \<Rightarrow>
          let sk = disable_releases sk
          in if use_tracepoints sys skip then Inr sk
             else case release_program sys no_btf errata of
                    Inl err \<Rightarrow> Inl err
                  | Inr p \<Rightarrow> Inr (set_auto (P_release p) True sk))"

section \<open>main\<close>

text \<open>
  The end of \<open>main\<close>: load, fill the deny map, attach and wait. A deny map that cannot be filled leaves
  \<open>err\<close> at 0.
\<close>

definition smbslower_start ::
    "smb_sys \<Rightarrow> slower_opts \<Rightarrow> slower_rodata \<Rightarrow> smb_prog skeleton \<Rightarrow> (smb_prog, smbslower_state) main_result" where
  "smbslower_start sys g ro sk =
     (let err = sys_load sys
      in if err \<noteq> 0 then Exit (exit_status err)
         else let (r, deny) = slower_update_denylist_map MAX_SMB_COMMANDS (sys_update sys) g Map.empty
              in if r < 0 then Exit (exit_status err)
                 else let err = sys_attach sys
                      in if err \<noteq> 0 then Exit (exit_status err)
                         else Waiting sk (smbslower_init ro deny))"

text \<open>
  \<open>open_ok\<close>: whether the skeleton could be opened; \<open>present\<close> and \<open>runs\<close> are the arguments of
  \<open>ensure_cifs_module_loaded\<close>. Loading the module changes what the system answers, so \<open>world err\<close>
  is the system as it is when that attempt has returned \<open>err\<close>.
\<close>

definition smbslower_main ::
    "bool \<Rightarrow> bool \<Rightarrow> bool \<Rightarrow> int list \<Rightarrow> (int \<Rightarrow> smb_sys) \<Rightarrow> (slower_key \<times> string) list \<Rightarrow>
     (smb_prog, smbslower_state) main_result parsed" where
  "smbslower_main dup_ok open_ok present runs world opts =
     bind_parsed (argp_parse (slower_parse_arg MAX_SMB_COMMANDS dup_ok) opts (slower_opts_init MAX_SMB_COMMANDS))
       (\<lambda>g. Parsed
         (if \<not> open_ok then Exit 1
          else let ro = slower_fill_rodata g;
                   err = ensure_cifs_module_loaded present runs;
                   sys = world err
               in case smbslower_select sys (so_skip_tracepoints g) of
                    Inl err \<Rightarrow> Exit (exit_status err)
                  | Inr sk \<Rightarrow> smbslower_start sys g ro sk))"

section \<open>Specification\<close>

text \<open>The kernel function a release program is attached to, and how many arguments it expects.\<close>

fun release_target :: "smb_release_prog \<Rightarrow> string" where
  "release_target P_mid_release_kref_fentry = ''__release_mid''"
| "release_target P_mid_release_kref_kprobe = ''__release_mid''"
| "release_target P_mid_release_legacy_fentry = ''_cifs_mid_q_entry_release''"
| "release_target P_mid_release_legacy_kprobe = ''_cifs_mid_q_entry_release''"
| "release_target P_mid_release_rhel810_kprobe = ''_cifs_mid_q_entry_release''"
| "release_target P_mid_release_rhel810_553_134_kprobe = ''__release_mid''"
| "release_target P_mid_release_single_direct_fentry = ''release_mid''"
| "release_target P_mid_release_single_direct_kprobe = ''release_mid''"
| "release_target P_mid_release_direct_fentry = ''__release_mid''"
| "release_target P_mid_release_direct_kprobe = ''__release_mid''"

fun release_params :: "smb_release_prog \<Rightarrow> int" where
  "release_params P_mid_release_direct_fentry = 2"
| "release_params P_mid_release_direct_kprobe = 2"
| "release_params _ = 1"

fun fixed_release :: "smb_release_prog \<Rightarrow> bool" where
  "fixed_release P_mid_release_rhel810_kprobe = True"
| "fixed_release P_mid_release_rhel810_553_134_kprobe = True"
| "fixed_release _ = False"

text \<open>The kernels for which fixed offsets were verified, with the programs for them.\<close>

definition verified_layouts :: "(string \<times> string \<times> smb_alloc_prog \<times> smb_release_prog) set" where
  "verified_layouts =
     {(''4.18.0-553.el8_10.x86_64'', ''77983F3F095C933642E503B'',
         P_mid_alloc_rhel810_kretprobe, P_mid_release_rhel810_kprobe),
      (''4.18.0-553.134.1.el8_10.x86_64'', ''E89B9572651524136F71AD9'',
         P_mid_alloc_rhel810_553_134_kretprobe, P_mid_release_rhel810_553_134_kprobe),
      (''4.18.0-553.164.1.el8_10.x86_64'', ''16DF298BB09E70BCC9C148F'',
         P_mid_alloc_rhel810_553_134_kretprobe, P_mid_release_rhel810_553_134_kprobe)}"

text \<open>A system for concrete runs: module type information, \<open>release_mid\<close> with \<open>n\<close> arguments.\<close>

definition smb_example_sys :: "int \<Rightarrow> smb_sys" where
  "smb_example_sys n =
     \<lparr>sys_tracepoint_exists = (\<lambda>_. False), sys_cifs_btf = True, sys_release = None,
      sys_srcversion = None, sys_fentry_can_attach = (\<lambda>_. True),
      sys_param_count = (\<lambda>f. if f = ''release_mid'' then n else - ENOENT),
      sys_load = 0, sys_update = (\<lambda>_. 0), sys_attach = 0\<rparr>"

section \<open>Facts\<close>

lemma release_prog_cases:
  "p \<in> {P_mid_release_kref_fentry, P_mid_release_kref_kprobe, P_mid_release_direct_fentry,
        P_mid_release_direct_kprobe, P_mid_release_legacy_fentry, P_mid_release_legacy_kprobe,
        P_mid_release_rhel810_kprobe, P_mid_release_rhel810_553_134_kprobe,
        P_mid_release_single_direct_fentry, P_mid_release_single_direct_kprobe}"
  by (cases p) simp_all

lemma disable_releases_auto [simp]:
  "autoload (disable_releases sk) p \<longleftrightarrow> (\<forall>r. p \<noteq> P_release r) \<and> autoload sk p"
  "autoattach (disable_releases sk) p \<longleftrightarrow> (\<forall>r. p \<noteq> P_release r) \<and> autoattach sk p"
  using release_prog_cases by (cases p; auto simp: disable_releases_def)+


lemma no_alloc:
  "(\<forall>a. p \<noteq> P_alloc a) \<longleftrightarrow> p \<noteq> P_alloc P_mid_alloc_fexit \<and> p \<noteq> P_alloc P_mid_alloc_kretprobe \<and>
     p \<noteq> P_alloc P_mid_alloc_rhel810_kretprobe \<and> p \<noteq> P_alloc P_mid_alloc_rhel810_553_134_kretprobe"
proof (cases p)
  case (P_alloc a)
  then show ?thesis by (cases a) auto
qed auto

lemma other_prog:
  "\<forall>a. p \<noteq> P_alloc a \<Longrightarrow> \<forall>r. p \<noteq> P_release r \<Longrightarrow>
   p = P_trace_smb3_cmd_enter \<or> p = P_end P_trace_smb3_cmd_done \<or> p = P_end P_trace_smb3_cmd_err"
proof (cases p)
  case (P_end x)
  then show ?thesis by (cases x) auto
qed auto

lemma select_alloc_cases:
  assumes "select_alloc sys tp skeleton_open = Inr (sk, no_btf, errata)"
  shows "autoload sk = autoattach sk"
    and "tp \<Longrightarrow> \<not> no_btf \<and> (\<forall>p. autoload sk p \<longleftrightarrow> (\<forall>a. p \<noteq> P_alloc a))"
    and "\<not> tp \<Longrightarrow> rhel810_layout sys = Inr (no_btf, errata) \<and>
      (\<exists>a. (\<forall>p. autoload sk p \<longleftrightarrow> p = P_alloc a \<or> (\<exists>r. p = P_release r)) \<and>
        (if no_btf then a = (if errata then P_mid_alloc_rhel810_553_134_kretprobe else P_mid_alloc_rhel810_kretprobe)
         else a \<in> {P_mid_alloc_fexit, P_mid_alloc_kretprobe}))"
proof -
  show "autoload sk = autoattach sk"
    using assms by (auto simp: select_alloc_def Let_def fun_eq_iff split: if_splits sum.splits prod.splits)
next
  assume tp
  show "\<not> no_btf \<and> (\<forall>p. autoload sk p \<longleftrightarrow> (\<forall>a. p \<noteq> P_alloc a))"
    using assms \<open>tp\<close> by (auto simp: select_alloc_def Let_def no_alloc)
next
  assume "\<not> tp"
  have all: "p = P_trace_smb3_cmd_enter \<or> p = P_end P_trace_smb3_cmd_done \<or> p = P_end P_trace_smb3_cmd_err \<or>
     p = P_alloc P_mid_alloc_fexit \<or> p = P_alloc P_mid_alloc_kretprobe \<or>
     p = P_alloc P_mid_alloc_rhel810_kretprobe \<or> p = P_alloc P_mid_alloc_rhel810_553_134_kretprobe \<or>
     (\<exists>r. p = P_release r)" for p
    using other_prog [of p] no_alloc [of p] by blast
  show "rhel810_layout sys = Inr (no_btf, errata) \<and>
      (\<exists>a. (\<forall>p. autoload sk p \<longleftrightarrow> p = P_alloc a \<or> (\<exists>r. p = P_release r)) \<and>
        (if no_btf then a = (if errata then P_mid_alloc_rhel810_553_134_kretprobe else P_mid_alloc_rhel810_kretprobe)
         else a \<in> {P_mid_alloc_fexit, P_mid_alloc_kretprobe}))"
  proof -
    define sk0 where "sk0 = set_auto (P_alloc P_mid_alloc_rhel810_553_134_kretprobe) False
       (set_auto (P_alloc P_mid_alloc_rhel810_kretprobe) False
         (set_auto (P_end P_trace_smb3_cmd_err) False
           (set_auto (P_end P_trace_smb3_cmd_done) False
             (set_auto P_trace_smb3_cmd_enter False (skeleton_open :: smb_prog skeleton)))))"
    have sk0: "autoload sk0 p \<longleftrightarrow> p = P_alloc P_mid_alloc_fexit \<or> p = P_alloc P_mid_alloc_kretprobe \<or>
        (\<exists>r. p = P_release r)" for p
      using all [of p] by (elim disjE) (auto simp: sk0_def)
    have lay: "rhel810_layout sys = Inr (no_btf, errata)"
      using assms \<open>\<not> tp\<close> by (auto simp: select_alloc_def Let_def split: sum.splits prod.splits if_splits)
    then have "sk =
      (if no_btf then
         (let sk = set_auto (P_alloc P_mid_alloc_kretprobe) False (set_auto (P_alloc P_mid_alloc_fexit) False sk0)
          in if errata then set_auto (P_alloc P_mid_alloc_rhel810_553_134_kretprobe) True sk
             else set_auto (P_alloc P_mid_alloc_rhel810_kretprobe) True sk)
       else if sys_fentry_can_attach sys ''smb2_mid_entry_alloc''
       then set_auto (P_alloc P_mid_alloc_kretprobe) False sk0
       else set_auto (P_alloc P_mid_alloc_fexit) False sk0)"
      using assms \<open>\<not> tp\<close> by (simp add: select_alloc_def Let_def sk0_def split: if_splits)
    then have "\<forall>p. autoload sk p \<longleftrightarrow>
        p = P_alloc (if no_btf then if errata then P_mid_alloc_rhel810_553_134_kretprobe
                                    else P_mid_alloc_rhel810_kretprobe
                     else if sys_fentry_can_attach sys ''smb2_mid_entry_alloc'' then P_mid_alloc_fexit
                     else P_mid_alloc_kretprobe) \<or> (\<exists>r. p = P_release r)"
      by (auto simp: Let_def sk0)
    with lay show ?thesis by (intro conjI exI) (assumption, assumption, simp)
  qed
qed

lemma rhel810_layout_verified:
  assumes "rhel810_layout sys = Inr (no_btf, errata)"
  shows "no_btf = (\<not> sys_cifs_btf sys)"
    and "no_btf \<Longrightarrow> \<exists>rel src. sys_release sys = Some rel \<and> file_equals (sys_srcversion sys) src \<and>
      (rel, src,
       (if errata then P_mid_alloc_rhel810_553_134_kretprobe else P_mid_alloc_rhel810_kretprobe),
       (if errata then P_mid_release_rhel810_553_134_kprobe else P_mid_release_rhel810_kprobe))
        \<in> verified_layouts"
  using assms by (auto simp: rhel810_layout_def verified_layouts_def split: if_splits)

lemma release_program_no_btf:
  "release_program sys True errata =
     Inr (if errata then P_mid_release_rhel810_553_134_kprobe else P_mid_release_rhel810_kprobe)"
  by (simp add: release_program_def Let_def ENOENT_def)

lemma release_program_btf:
  assumes "release_program sys False errata = Inr r"
  shows "\<not> fixed_release r"
    and "sys_param_count sys ''__release_mid'' \<noteq> - ENOENT \<or> sys_param_count sys ''release_mid'' \<noteq> 2 \<Longrightarrow>
         sys_param_count sys (release_target r) = release_params r"
  using assms by (auto simp: release_program_def Let_def ENOENT_def split: if_splits)

lemma smbslower_select_tp:
  assumes "smbslower_select sys skip = Inr sk" and "use_tracepoints sys skip"
  shows "autoload sk = autoattach sk"
    and "autoload sk p \<longleftrightarrow> (\<forall>a. p \<noteq> P_alloc a) \<and> (\<forall>r. p \<noteq> P_release r)"
proof -
  obtain sk0 no_btf errata where "select_alloc sys True skeleton_open = Inr (sk0, no_btf, errata)"
    and "sk = disable_releases sk0"
    using assms by (auto simp: smbslower_select_def Let_def split: sum.splits prod.splits)
  with select_alloc_cases(1,2) [OF this(1)]
  show "autoload sk = autoattach sk"
    and "autoload sk p \<longleftrightarrow> (\<forall>a. p \<noteq> P_alloc a) \<and> (\<forall>r. p \<noteq> P_release r)"
    by (auto simp: fun_eq_iff)
qed

lemma smbslower_select_fn:
  assumes "smbslower_select sys skip = Inr sk" and "\<not> use_tracepoints sys skip"
  obtains a r no_btf errata where "autoload sk = autoattach sk"
    and "\<And>p. autoload sk p \<longleftrightarrow> p = P_alloc a \<or> p = P_release r"
    and "rhel810_layout sys = Inr (no_btf, errata)" and "release_program sys no_btf errata = Inr r"
    and "if no_btf then a = (if errata then P_mid_alloc_rhel810_553_134_kretprobe else P_mid_alloc_rhel810_kretprobe)
         else a \<in> {P_mid_alloc_fexit, P_mid_alloc_kretprobe}"
proof -
  obtain sk0 no_btf errata r where al: "select_alloc sys False skeleton_open = Inr (sk0, no_btf, errata)"
    and rp: "release_program sys no_btf errata = Inr r"
    and sk: "sk = set_auto (P_release r) True (disable_releases sk0)"
    using assms by (auto simp: smbslower_select_def Let_def split: sum.splits prod.splits)
  obtain a where lay: "rhel810_layout sys = Inr (no_btf, errata)"
    and load: "\<forall>p. autoload sk0 p \<longleftrightarrow> p = P_alloc a \<or> (\<exists>r. p = P_release r)"
    and a: "if no_btf then a = (if errata then P_mid_alloc_rhel810_553_134_kretprobe else P_mid_alloc_rhel810_kretprobe)
         else a \<in> {P_mid_alloc_fexit, P_mid_alloc_kretprobe}"
    using select_alloc_cases(3) [OF al] by auto
  have "autoload sk p \<longleftrightarrow> p = P_alloc a \<or> p = P_release r" for p
    using load by (auto simp: sk)
  moreover have "autoload sk = autoattach sk"
    using select_alloc_cases(1) [OF al] by (auto simp: sk fun_eq_iff)
  ultimately show thesis using that lay rp a by blast
qed

lemma smbslower_select_Inr:
  assumes "sys_cifs_btf sys" and "\<not> use_tracepoints sys skip" and "release_program sys False False = Inr r"
  shows "\<exists>sk. smbslower_select sys skip = Inr sk \<and> P_release r \<in> enabled sk"
  using assms
  by (simp add: smbslower_select_def select_alloc_def rhel810_layout_def Let_def enabled_def)

lemma smb_example_select:
  "\<exists>sk. smbslower_select (smb_example_sys 1) True = Inr sk \<and>
        P_release P_mid_release_single_direct_fentry \<in> enabled sk"
  by (rule smbslower_select_Inr)
     (simp_all add: release_program_def use_tracepoints_def smb_example_sys_def ENOENT_def)

section \<open>Properties\<close>

text \<open>
  C17: the loader of smbslower never enables a mixture. Either it enables exactly the three
  tracepoint programs, or exactly one allocation and one release program. Programs with fixed
  offsets are enabled only where the cifs module has no type information, and then only as the
  pair that was verified for the running kernel release and module source version.
\<close>

theorem smbslower_selects_consistent_programs:
  assumes "smbslower_select sys skip = Inr sk"
  shows "autoload sk = autoattach sk \<and>
    (if use_tracepoints sys skip
     then enabled sk = {P_trace_smb3_cmd_enter, P_end P_trace_smb3_cmd_done, P_end P_trace_smb3_cmd_err}
     else \<exists>a r. enabled sk = {P_alloc a, P_release r} \<and>
            (if sys_cifs_btf sys
             then a \<in> {P_mid_alloc_fexit, P_mid_alloc_kretprobe} \<and> \<not> fixed_release r
             else \<exists>rel src. sys_release sys = Some rel \<and> file_equals (sys_srcversion sys) src \<and>
                    (rel, src, a, r) \<in> verified_layouts))"
proof (cases "use_tracepoints sys skip")
  case True
  have "enabled sk = {P_trace_smb3_cmd_enter, P_end P_trace_smb3_cmd_done, P_end P_trace_smb3_cmd_err}"
    using smbslower_select_tp [OF assms True] other_prog by (auto simp: enabled_def)
  with True smbslower_select_tp(1) [OF assms True] show ?thesis by simp
next
  case False
  obtain a r no_btf errata where eq: "autoload sk = autoattach sk"
    and load: "\<And>p. autoload sk p \<longleftrightarrow> p = P_alloc a \<or> p = P_release r"
    and lay: "rhel810_layout sys = Inr (no_btf, errata)" and rel: "release_program sys no_btf errata = Inr r"
    and a: "if no_btf then a = (if errata then P_mid_alloc_rhel810_553_134_kretprobe else P_mid_alloc_rhel810_kretprobe)
         else a \<in> {P_mid_alloc_fexit, P_mid_alloc_kretprobe}"
    by (rule smbslower_select_fn [OF assms False], rule that)
  have "enabled sk = {P_alloc a, P_release r}"
    using load eq by (auto simp: enabled_def)
  moreover have "if sys_cifs_btf sys
      then a \<in> {P_mid_alloc_fexit, P_mid_alloc_kretprobe} \<and> \<not> fixed_release r
      else \<exists>rel src. sys_release sys = Some rel \<and> file_equals (sys_srcversion sys) src \<and>
             (rel, src, a, r) \<in> verified_layouts"
    using rhel810_layout_verified [OF lay] a rel release_program_btf(1) [of sys errata r]
    by (cases no_btf) (auto simp: release_program_no_btf)
  ultimately show ?thesis
    unfolding if_not_P [OF False] using eq by (intro conjI exI [of _ a] exI [of _ r]; assumption?)
qed

theorem smbslower_selects_consistent_programs_witness:
  "\<exists>sk. smbslower_select (smb_example_sys 1) True = Inr sk \<and>
        (\<exists>a r. enabled sk = {P_alloc a, P_release r} \<and> \<not> fixed_release r)"
proof -
  obtain sk where "smbslower_select (smb_example_sys 1) True = Inr sk"
    using smb_example_select by blast
  with smbslower_selects_consistent_programs [OF this] show ?thesis
    by (auto simp: use_tracepoints_def smb_example_sys_def)
qed

text \<open>
  With type information, the release program that is enabled expects as many arguments as the
  kernel function it is attached to has, as long as the kernel does not have a two-argument
  \<open>release_mid\<close> in place of \<open>__release_mid\<close>.
\<close>

theorem smbslower_release_signature:
  assumes "smbslower_select sys skip = Inr sk" and "sys_cifs_btf sys" and "P_release r \<in> enabled sk"
    and "sys_param_count sys ''__release_mid'' \<noteq> - ENOENT \<or> sys_param_count sys ''release_mid'' \<noteq> 2"
  shows "sys_param_count sys (release_target r) = release_params r"
proof -
  have fn: "\<not> use_tracepoints sys skip"
    using smbslower_select_tp(2) [OF assms(1)] assms(3) by (auto simp: enabled_def)
  obtain a r' no_btf errata where eq: "autoload sk = autoattach sk"
    and load: "\<And>p. autoload sk p \<longleftrightarrow> p = P_alloc a \<or> p = P_release r'"
    and lay: "rhel810_layout sys = Inr (no_btf, errata)" and rel: "release_program sys no_btf errata = Inr r'"
    and a: "if no_btf then a = (if errata then P_mid_alloc_rhel810_553_134_kretprobe else P_mid_alloc_rhel810_kretprobe)
         else a \<in> {P_mid_alloc_fexit, P_mid_alloc_kretprobe}"
    by (rule smbslower_select_fn [OF assms(1) fn], rule that)
  have "r = r'" using assms(3) load by (simp add: enabled_def)
  moreover have "\<not> no_btf" using rhel810_layout_verified(1) [OF lay] assms(2) by simp
  ultimately show ?thesis using release_program_btf(2) rel assms(4) by simp
qed

theorem smbslower_release_signature_witness:
  "\<exists>sk. smbslower_select (smb_example_sys 1) True = Inr sk \<and>
        sys_param_count (smb_example_sys 1) (release_target P_mid_release_single_direct_fentry) = 1"
proof -
  obtain sk where sk: "smbslower_select (smb_example_sys 1) True = Inr sk"
    and "P_release P_mid_release_single_direct_fentry \<in> enabled sk"
    using smb_example_select by blast
  then show ?thesis
    using smbslower_release_signature [OF sk, of P_mid_release_single_direct_fentry]
    by (auto simp: smb_example_sys_def ENOENT_def)
qed

text \<open>
  Where \<open>release_mid\<close> has two arguments and \<open>__release_mid\<close> does not exist, the loader enables a
  release program for \<open>__release_mid\<close>, the function it has just found missing.
\<close>

theorem smbslower_two_argument_release_mid:
  assumes "sys_param_count sys ''__release_mid'' = - ENOENT" and "sys_param_count sys ''release_mid'' = 2"
    and "sys_cifs_btf sys" and "\<not> use_tracepoints sys skip"
  shows "\<exists>sk r. smbslower_select sys skip = Inr sk \<and> P_release r \<in> enabled sk \<and>
           release_target r = ''__release_mid'' \<and> sys_param_count sys (release_target r) = - ENOENT"
proof -
  have "\<exists>r. release_program sys False False = Inr r"
    using assms(1,2) by (simp add: release_program_def ENOENT_def)
  then obtain sk where sk: "smbslower_select sys skip = Inr sk"
    using smbslower_select_Inr [OF assms(3,4)] by blast
  obtain a r no_btf errata where eq: "autoload sk = autoattach sk"
    and load: "\<And>p. autoload sk p \<longleftrightarrow> p = P_alloc a \<or> p = P_release r"
    and lay: "rhel810_layout sys = Inr (no_btf, errata)" and rel: "release_program sys no_btf errata = Inr r"
    and a: "if no_btf then a = (if errata then P_mid_alloc_rhel810_553_134_kretprobe else P_mid_alloc_rhel810_kretprobe)
         else a \<in> {P_mid_alloc_fexit, P_mid_alloc_kretprobe}"
    by (rule smbslower_select_fn [OF sk assms(4)], rule that)
  have "r \<in> {P_mid_release_direct_fentry, P_mid_release_direct_kprobe}"
    using rel rhel810_layout_verified(1) [OF lay] assms(1-3)
    by (auto simp: release_program_def ENOENT_def Let_def split: if_splits)
  then have "release_target r = ''__release_mid''" by auto
  moreover have "P_release r \<in> enabled sk" using load [of "P_release r"] eq by (auto simp: enabled_def)
  ultimately show ?thesis using sk assms(1) by auto
qed

theorem smbslower_two_argument_release_mid_witness:
  "\<exists>sk r. smbslower_select (smb_example_sys 2) True = Inr sk \<and> P_release r \<in> enabled sk \<and>
          sys_param_count (smb_example_sys 2) (release_target r) = - ENOENT"
proof -
  have "sys_param_count (smb_example_sys 2) ''__release_mid'' = - ENOENT"
    and "sys_param_count (smb_example_sys 2) ''release_mid'' = 2"
    and "sys_cifs_btf (smb_example_sys 2)" and "\<not> use_tracepoints (smb_example_sys 2) True"
    by (simp_all add: smb_example_sys_def use_tracepoints_def)
  from smbslower_two_argument_release_mid [OF this] show ?thesis by blast
qed

text \<open>
  When smbslower reaches its wait loop, the BPF programs start with the minimum latency in
  nanoseconds, empty tables and a deny map that holds exactly the commands the options ask to
  deny, and the enabled programs are those of the selection.
\<close>

lemma smbslower_main_ready:
  assumes "smbslower_main ok open_ok present runs world opts = Parsed (Waiting sk s)"
  shows "\<exists>g. argp_parse (slower_parse_arg 20 ok) opts (slower_opts_init 20) = Parsed g \<and>
           smbslower_select (world (ensure_cifs_module_loaded present runs)) (so_skip_tracepoints g) = Inr sk \<and>
           min_lat_ns (smb_rodata s) = so_min_lat_ms g * 1000000 \<and>
           (\<forall>cmd. smb_denylist s cmd \<noteq> None \<longleftrightarrow> unat cmd \<in> denied 20 g) \<and>
           smb_temp s = Map.empty \<and> smb_trace_temp s = Map.empty \<and> smb_aodrb s = []"
proof -
  let ?sys = "world (ensure_cifs_module_loaded present runs)"
  obtain g where g: "argp_parse (slower_parse_arg 20 ok) opts (slower_opts_init 20) = Parsed g"
    using assms by (cases "argp_parse (slower_parse_arg 20 ok) opts (slower_opts_init 20)")
      (auto simp: smbslower_main_def)
  obtain r deny where m: "slower_update_denylist_map 20 (sys_update ?sys) g Map.empty = (r, deny)"
    by (cases "slower_update_denylist_map 20 (sys_update ?sys) g Map.empty")
  have sel: "smbslower_select ?sys (so_skip_tracepoints g) = Inr sk"
    and r: "\<not> r < 0" and s: "s = smbslower_init (slower_fill_rodata g) deny"
    using assms by (auto simp: smbslower_main_def smbslower_start_def g m Let_def split: if_splits sum.splits)
  have "r = 0" using r update_denylist_rc [of 20 "sys_update ?sys" g Map.empty] m by auto
  then have "\<forall>cmd. deny cmd \<noteq> None \<longleftrightarrow> unat cmd \<in> denied 20 g"
    using update_denylist_ok [of 20 "sys_update ?sys" g deny] m opts_inv_parse [OF opts_inv_init g] by simp
  with g sel show ?thesis
    by (auto simp: s smbslower_init_def slower_fill_rodata_def)
qed

text \<open>
  An error while the deny map is filled ends smbslower before it attaches anything, but with
  the exit status of success: the status comes from the load before, which succeeded.
\<close>

theorem smbslower_map_failure_exits_0:
  assumes "argp_parse (slower_parse_arg 20 ok) opts (slower_opts_init 20) = Parsed g"
    and "sys = world (ensure_cifs_module_loaded present runs)"
    and "smbslower_select sys (so_skip_tracepoints g) = Inr sk" and "sys_load sys = 0"
    and "fst (slower_update_denylist_map 20 (sys_update sys) g Map.empty) < 0"
  shows "smbslower_main ok True present runs world opts = Parsed (Exit 0)"
  using assms by (auto simp: smbslower_main_def smbslower_start_def exit_status_def Let_def split: prod.splits)


lemma smbslower_example_main:
  "\<exists>sk. smbslower_main True True True [] (\<lambda>_. smb_example_sys 1) [(K_skip, [])] =
          Parsed (Waiting sk (smbslower_init \<lparr>min_lat_ns = 10000000, slower_wakeup_data_size = 0\<rparr> Map.empty))"
proof -
  let ?g = "(slower_opts_init 20)\<lparr>so_skip_tracepoints := True\<rparr>"
  have g: "argp_parse (slower_parse_arg 20 True) [(K_skip, [])] (slower_opts_init 20) = Parsed ?g"
    by (simp add: slower_parse_arg_def)
  obtain sk where sk: "smbslower_select (smb_example_sys 1) True = Inr sk"
    using smb_example_select by blast
  have "slower_update_denylist_map 20 rc ?g Map.empty = (0, Map.empty)" for rc
    by (simp add: slower_update_denylist_map_def upt_rec slower_opts_init_def Let_def)
  moreover have "sys_load (smb_example_sys 1) = 0" "sys_attach (smb_example_sys 1) = 0"
    by (simp_all add: smb_example_sys_def)
  moreover have "slower_fill_rodata ?g = \<lparr>min_lat_ns = 10000000, slower_wakeup_data_size = 0\<rparr>"
    by (simp add: slower_fill_rodata_def slower_opts_init_def)
  ultimately have "smbslower_main True True True [] (\<lambda>_. smb_example_sys 1) [(K_skip, [])] =
      Parsed (Waiting sk (smbslower_init \<lparr>min_lat_ns = 10000000, slower_wakeup_data_size = 0\<rparr> Map.empty))"
    by (simp only: smbslower_main_def g bind_parsed.simps) (simp add: sk smbslower_start_def Let_def)
  then show ?thesis by blast
qed

theorem smbslower_map_failure_exits_0_witness:
  "smbslower_main True True True [] (\<lambda>_. (smb_example_sys 1)\<lparr>sys_update := \<lambda>_. - 7\<rparr>) [(K_skip, []), (K_x, ''3'')] =
     Parsed (Exit 0)"
proof -
  let ?sys = "(smb_example_sys 1)\<lparr>sys_update := \<lambda>_. - 7\<rparr>"
  let ?g = "(slower_opts_init 20)\<lparr>so_skip_tracepoints := True, so_exclude_mode := True,
              so_cmd_filter := (replicate 20 0)[3 := 1]\<rparr>"
  have g: "argp_parse (slower_parse_arg 20 True) [(K_skip, []), (K_x, ''3'')] (slower_opts_init 20) = Parsed ?g"
    by code_simp
  have "\<exists>sk. smbslower_select ?sys True = Inr sk \<and>
          P_release P_mid_release_single_direct_fentry \<in> enabled sk"
    by (rule smbslower_select_Inr)
       (simp_all add: release_program_def use_tracepoints_def smb_example_sys_def ENOENT_def)
  then obtain sk where sk: "smbslower_select ?sys True = Inr sk" by blast
  have "fst (slower_update_denylist_map 20 (\<lambda>_. - 7) ?g Map.empty) = - 1"
    by (simp add: slower_update_denylist_map_def upt_rec slower_opts_init_def Let_def
        bpf_map_update_elem_def nth_list_update)
  with smbslower_map_failure_exits_0 [OF g, of ?sys "\<lambda>_. ?sys" True "[]" sk] sk show ?thesis
    by (simp add: smb_example_sys_def)
qed

end
