(* ===== verification/Nfs_Common.thy ===== *)
theory Nfs_Common
  imports Aod_Event
begin

text \<open>
  \<open>src/src/common/nfs_diag.h\<close> and what the NFS programs read of a \<open>struct rpc_task\<close>. The
  readers yield 0 where a CO-RE read faults; \<open>bpf_ntohl\<close> is the macro of libbpf.
\<close>

section \<open>Constants and records\<close>

abbreviation (input) MAX_NFS_COMMANDS :: nat where "MAX_NFS_COMMANDS \<equiv> 70"
abbreviation (input) MAX_ERROR_CODES :: nat where "MAX_ERROR_CODES \<equiv> 113"

record nfs_partial_event =
  nfscommand :: u16
  nfs_metric :: u64

record nfs_mem =
  task_rpc_proc :: "ptr \<Rightarrow> ptr"
  proc_p_statidx :: "ptr \<Rightarrow> u32"
  task_tk_status :: "ptr \<Rightarrow> s32"
  task_tk_rqstp :: "ptr \<Rightarrow> ptr"
  rqst_rq_xid :: "ptr \<Rightarrow> u32"
  bpf_ntohl :: "u32 \<Rightarrow> u32"

definition nfs4_errors :: "int list" where
  "nfs4_errors =
     [1, 2, 5, 6, 13, 17, 18, 20, 21, 22, 27, 28, 30, 31, 63, 66,
      69, 70, 10001, 10003, 10004, 10005, 10006, 10007, 10008, 10009, 10010, 10011,
      10012, 10013, 10014, 10015, 10016, 10017, 10018, 10019, 10020, 10021, 10022,
      10023, 10024, 10025, 10026, 10027, 10028, 10029, 10030, 10031, 10032, 10033,
      10034, 10035, 10036, 10037, 10038, 10039, 10040, 10041, 10042, 10043, 10044,
      10045, 10046, 10047, 10048, 10049, 10050, 10051, 10052, 10053, 10054, 10055,
      10056, 10057, 10058, 10059, 10060, 10061, 10062, 10063, 10064, 10065, 10066,
      10067, 10068, 10069, 10070, 10071, 10072, 10074, 10075, 10076, 10077, 10078,
      10079, 10080, 10081, 10082, 10083, 10084, 10085, 10086, 10087, 10088, 10089,
      10090, 10091, 10092, 10093, 10094, 10095, 10096, 10097]"

text \<open>An NFS kernel for concrete runs: the statistics index of a task is its address.\<close>

definition nfs_example_mem :: nfs_mem where
  "nfs_example_mem = \<lparr>task_rpc_proc = (\<lambda>p. p), proc_p_statidx = ucast, task_tk_status = (\<lambda>_. - 116),
     task_tk_rqstp = (\<lambda>p. p), rqst_rq_xid = ucast, bpf_ntohl = bswap32\<rparr>"

end
