(* ===== verification/Nfsslower_Bpf.thy ===== *)
theory Nfsslower_Bpf
  imports Nfs_Common
begin

text \<open>
  The BPF side of nfsslower (\<open>src/src/bpf/nfsslower.bpf.c\<close>): a request is timed from the
  first \<open>nfs4_setup_sequence\<close> of its \<open>rpc_task\<close> to \<open>rpc_exit_task\<close>.
\<close>

section \<open>Programs\<close>

record nfsslower_state =
  nslow_rodata :: slower_rodata
  nslow_denylist :: "u16 \<Rightarrow> u8 option"
  nslow_temp :: "ptr \<Rightarrow> nfs_partial_event option"
  nslow_aodrb :: aod_ring

definition nfsslower_get_flags :: "slower_rodata \<Rightarrow> event bpf_env \<Rightarrow> nat \<Rightarrow> u64" where
  "nfsslower_get_flags ro e i =
     (if slower_wakeup_data_size ro = 0 then 0
      else let sz = rb_avail e i
           in if sint sz \<ge> sint (slower_wakeup_data_size ro)
              then BPF_RB_FORCE_WAKEUP else BPF_RB_NO_WAKEUP)"

definition nfsslower_probe_entry ::
    "nfs_mem \<Rightarrow> event bpf_env \<Rightarrow> ptr \<Rightarrow> nfsslower_state \<Rightarrow> nfsslower_state" where [probe_defs]:
  "nfsslower_probe_entry km e task s =
     (let pe = \<lparr>nfscommand = ucast (proc_p_statidx km (task_rpc_proc km task)), nfs_metric = 0\<rparr>
      in case nslow_denylist s (nfscommand pe) of
           Some blocked \<Rightarrow> s
         | None \<Rightarrow>
             let pe = pe\<lparr>nfs_metric := ktime e 0\<rparr>
             in s\<lparr>nslow_temp :=
                   snd (bpf_map_update_elem (update_rc e) BPF_NOEXIST task pe (nslow_temp s))\<rparr>)"

text \<open>
  The exit program keeps the pointer \<open>pe\<close> into the map while it deletes the element and reads
  the command through it afterwards. \<open>reused\<close> is what an entry program on another processor has
  put into the freed slot in between, if any.
\<close>

definition nfsslower_probe_exit ::
    "nfs_mem \<Rightarrow> event bpf_env \<Rightarrow> nfs_partial_event option \<Rightarrow> ptr \<Rightarrow> nfsslower_state \<Rightarrow> nfsslower_state"
    where [probe_defs]:
  "nfsslower_probe_exit km e reused task s =
     (case nslow_temp s task of
        None \<Rightarrow> s
      | Some pe \<Rightarrow>
          let now = ktime e 0;
              latency = now - nfs_metric pe;
              s = s\<lparr>nslow_temp := bpf_map_delete_elem task (nslow_temp s)\<rparr>;
              pe = (case reused of None \<Rightarrow> pe | Some other \<Rightarrow> other)
          in if latency < min_lat_ns (nslow_rodata s) then s
             else if \<not> rb_reserve e 0 then s
             else let ev = (rb_mem e)\<lparr>ev_pid := ucast (drop_bit 32 (pid_tgid e)),
                             ev_cmd_end_time_ns := now,
                             ev_metric := latency,
                             ev_rqst_id := ucast (bpf_ntohl km (rqst_rq_xid km (task_tk_rqstp km task))),
                             ev_command := nfscommand pe,
                             ev_tool := NFSSLOWER,
                             ev_task := comm e\<rparr>
                  in s\<lparr>nslow_aodrb := nslow_aodrb s @ [(nfsslower_get_flags (nslow_rodata s) e 0, ev)]\<rparr>)"

definition nfs4_setup_sequence_entry ::
    "nfs_mem \<Rightarrow> event bpf_env \<Rightarrow> ptr \<Rightarrow> nfsslower_state \<Rightarrow> nfsslower_state" where [probe_defs]:
  "nfs4_setup_sequence_entry km e task s = nfsslower_probe_entry km e task s"

definition nfs4_setup_sequence_kprobe ::
    "nfs_mem \<Rightarrow> event bpf_env \<Rightarrow> ptr \<Rightarrow> nfsslower_state \<Rightarrow> nfsslower_state" where [probe_defs]:
  "nfs4_setup_sequence_kprobe km e task s = nfsslower_probe_entry km e task s"

definition rpc_done_entry ::
    "nfs_mem \<Rightarrow> event bpf_env \<Rightarrow> nfs_partial_event option \<Rightarrow> ptr \<Rightarrow> nfsslower_state \<Rightarrow> nfsslower_state"
    where [probe_defs]:
  "rpc_done_entry km e reused task s = nfsslower_probe_exit km e reused task s"

definition rpc_done_kprobe ::
    "nfs_mem \<Rightarrow> event bpf_env \<Rightarrow> nfs_partial_event option \<Rightarrow> ptr \<Rightarrow> nfsslower_state \<Rightarrow> nfsslower_state"
    where [probe_defs]:
  "rpc_done_kprobe km e reused task s = nfsslower_probe_exit km e reused task s"

section \<open>Specification\<close>

type_synonym nslow_in = "hook \<times> nfs_mem \<times> event bpf_env \<times> ptr"
type_synonym nslow_out = "hook \<times> nfs_mem \<times> event bpf_env \<times> nfs_partial_event option \<times> ptr"

fun nfsslower_enter :: "nslow_in \<Rightarrow> nfsslower_state \<Rightarrow> nfsslower_state" where
  "nfsslower_enter (Fentry, km, e, task) s = nfs4_setup_sequence_entry km e task s"
| "nfsslower_enter (Kprobe, km, e, task) s = nfs4_setup_sequence_kprobe km e task s"

fun nfsslower_leave :: "nslow_out \<Rightarrow> nfsslower_state \<Rightarrow> nfsslower_state" where
  "nfsslower_leave (Fentry, km, e, reused, task) s = rpc_done_entry km e reused task s"
| "nfsslower_leave (Kprobe, km, e, reused, task) s = rpc_done_kprobe km e reused task s"

fun nslow_key_in :: "nslow_in \<Rightarrow> ptr" where
  "nslow_key_in (h, km, e, task) = task"

fun nslow_key_out :: "nslow_out \<Rightarrow> ptr" where
  "nslow_key_out (h, km, e, reused, task) = task"

text \<open>The command of a task, and the record that a completed task is to give.\<close>

definition nfs_task_command :: "nfs_mem \<Rightarrow> ptr \<Rightarrow> u16" where
  "nfs_task_command km task = ucast (proc_p_statidx km (task_rpc_proc km task))"

definition nslow_record :: "nfs_mem \<Rightarrow> event bpf_env \<Rightarrow> ptr \<Rightarrow> u64 \<Rightarrow> u16 \<Rightarrow> event" where
  "nslow_record km e task latency cmd =
     (rb_mem e)\<lparr>ev_pid := ucast (drop_bit 32 (pid_tgid e)), ev_cmd_end_time_ns := ktime e 0,
        ev_metric := latency,
        ev_rqst_id := ucast (bpf_ntohl km (rqst_rq_xid km (task_tk_rqstp km task))),
        ev_command := cmd, ev_tool := NFSSLOWER, ev_task := comm e\<rparr>"

definition nfsslower_init :: "slower_rodata \<Rightarrow> (u16 \<Rightarrow> u8 option) \<Rightarrow> nfsslower_state" where
  "nfsslower_init ro deny =
     \<lparr>nslow_rodata = ro, nslow_denylist = deny, nslow_temp = Map.empty, nslow_aodrb = []\<rparr>"

section \<open>Effects\<close>

lemma nfsslower_get_flags_wakeup:
  "nfsslower_get_flags ro e i = wakeup_flags (slower_wakeup_data_size ro) (rb_avail e i)"
  by (simp add: nfsslower_get_flags_def wakeup_flags_def Let_def)

lemma nfsslower_enter_eq: "nfsslower_enter (h, km, e, task) s = nfsslower_probe_entry km e task s"
  by (cases h) (simp_all add: probe_defs)

lemma nfsslower_leave_eq:
  "nfsslower_leave (h, km, e, reused, task) s = nfsslower_probe_exit km e reused task s"
  by (cases h) (simp_all add: probe_defs)

lemma nfsslower_entry_frame [simp]:
  "nslow_aodrb (nfsslower_probe_entry km e task s) = nslow_aodrb s"
  "nslow_rodata (nfsslower_probe_entry km e task s) = nslow_rodata s"
  "nslow_denylist (nfsslower_probe_entry km e task s) = nslow_denylist s"
  by (simp_all add: probe_defs Let_def split: option.splits)

lemma nfsslower_entry_temp:
  "nslow_temp (nfsslower_probe_entry km e task s) =
     (if nslow_denylist s (nfs_task_command km task) = None \<and> 0 \<le> update_rc e \<and> nslow_temp s task = None
      then (nslow_temp s)(task \<mapsto> \<lparr>nfscommand = nfs_task_command km task, nfs_metric = ktime e 0\<rparr>)
      else nslow_temp s)"
  by (auto simp: probe_defs Let_def nfs_task_command_def split: option.splits)

lemma nfsslower_exit_frame [simp]:
  "nslow_temp (nfsslower_probe_exit km e reused task s) = (nslow_temp s)(task := None)"
  "nslow_rodata (nfsslower_probe_exit km e reused task s) = nslow_rodata s"
  "nslow_denylist (nfsslower_probe_exit km e reused task s) = nslow_denylist s"
  by (auto simp: probe_defs Let_def fun_eq_iff split: option.splits)

lemma nfsslower_exit_aodrb:
  "nslow_aodrb (nfsslower_probe_exit km e reused task s) =
     nslow_aodrb s @
     (case nslow_temp s task of
        None \<Rightarrow> []
      | Some pe \<Rightarrow>
          if ktime e 0 - nfs_metric pe < min_lat_ns (nslow_rodata s) \<or> \<not> rb_reserve e 0 then []
          else [(wakeup_flags (slower_wakeup_data_size (nslow_rodata s)) (rb_avail e 0),
                 nslow_record km e task (ktime e 0 - nfs_metric pe)
                   (nfscommand (case reused of None \<Rightarrow> pe | Some other \<Rightarrow> other)))])"
  by (simp add: probe_defs Let_def nslow_record_def nfsslower_get_flags_wakeup split: option.splits)

interpretation nslow_probes: first_entry_table "nslow_temp :: nfsslower_state \<Rightarrow> _"
    "nslow_aodrb :: nfsslower_state \<Rightarrow> _" nfsslower_enter nfsslower_leave nslow_key_in nslow_key_out
proof
  fix i :: nslow_in and s :: nfsslower_state
  obtain h km e task where i: "i = (h, km, e, task)" by (cases i)
  show "nslow_aodrb (nfsslower_enter i s) = nslow_aodrb s"
    by (simp add: i nfsslower_enter_eq)
  show "nslow_temp (nfsslower_enter i s) k = nslow_temp s k" if "k \<noteq> nslow_key_in i" for k
    using that by (simp add: i nfsslower_enter_eq nfsslower_entry_temp)
  show "nslow_temp (nfsslower_enter i s) k = Some v" if "nslow_temp s k = Some v" for k v
    using that by (auto simp: i nfsslower_enter_eq nfsslower_entry_temp)
next
  fix r :: nslow_out and s :: nfsslower_state
  obtain h km e reused task where r: "r = (h, km, e, reused, task)" by (cases r)
  show "nslow_temp (nfsslower_leave r s) = (nslow_temp s)(nslow_key_out r := None)"
    by (simp add: r nfsslower_leave_eq)
  show "nslow_aodrb (nfsslower_leave r s) = nslow_aodrb s" if "nslow_temp s (nslow_key_out r) = None"
    using that by (simp add: r nfsslower_leave_eq nfsslower_exit_aodrb)
  show "\<exists>es. nslow_aodrb (nfsslower_leave r s) = nslow_aodrb s @ es \<and> length es \<le> 1"
    by (simp add: r nfsslower_leave_eq nfsslower_exit_aodrb split: option.splits)
qed

lemma nslow_run_config [simp]:
  "nslow_rodata (probe_run nfsslower_enter nfsslower_leave cs s) = nslow_rodata s"
  by (rule probe_run_preserves) (auto simp: nfsslower_enter_eq nfsslower_leave_eq split: prod.splits)

section \<open>Properties\<close>

text \<open>
  C9: a request of nfsslower is timed from its first \<open>nfs4_setup_sequence\<close>. Once a task that
  was not pending and whose command is not denied has entered, any further entries, of this task
  too, and exits of other tasks leave its start time alone; when the task is done, exactly one
  record is put into the ring buffer, with the latency since the first entry, the task's command
  (unless the freed slot was reused before it was read) and the wake-up flag for the fill level,
  iff the latency reaches the minimum and there is room.
\<close>

theorem nfsslower_measures_first_setup:
  assumes "nslow_temp s task = None" and "nslow_denylist s (nfs_task_command km task) = None"
    and "0 \<le> update_rc e1"
    and "\<forall>x. Leave x \<in> set cs \<longrightarrow> nslow_key_out x \<noteq> task"
  shows "let s1 = nfsslower_enter (h, km, e1, task) s;
             s2 = probe_run nfsslower_enter nfsslower_leave cs s1;
             s3 = nfsslower_leave (h', km', e2, None, task) s2;
             lat = ktime e2 0 - ktime e1 0
         in nslow_temp s3 task = None \<and>
            nslow_aodrb s3 = nslow_aodrb s2 @
              (if lat < min_lat_ns (nslow_rodata s) \<or> \<not> rb_reserve e2 0 then []
               else [(wakeup_flags (slower_wakeup_data_size (nslow_rodata s)) (rb_avail e2 0),
                      nslow_record km' e2 task lat (nfs_task_command km task))])"
proof -
  define s1 where "s1 = nfsslower_enter (h, km, e1, task) s"
  have "nslow_temp s1 task = Some \<lparr>nfscommand = nfs_task_command km task, nfs_metric = ktime e1 0\<rparr>"
    using assms(1-3) by (simp add: s1_def nfsslower_enter_eq nfsslower_entry_temp)
  then have "nslow_temp (probe_run nfsslower_enter nfsslower_leave cs s1) task =
             Some \<lparr>nfscommand = nfs_task_command km task, nfs_metric = ktime e1 0\<rparr>"
    by (rule nslow_probes.run_keeps_first [OF assms(4)])
  moreover have "nslow_rodata s1 = nslow_rodata s" by (simp add: s1_def nfsslower_enter_eq)
  ultimately show ?thesis
    unfolding s1_def [symmetric] by (simp add: Let_def nfsslower_leave_eq nfsslower_exit_aodrb)
qed

theorem nfsslower_measures_first_setup_witness:
  "map (\<lambda>(f, ev). (ev_metric ev, ev_command ev, ev_rqst_id ev))
     (nslow_aodrb
       (nfsslower_leave (Kprobe, nfs_example_mem, aod_example_env 900 0, None, 5)
         (probe_run nfsslower_enter nfsslower_leave
           [Enter (Fentry, nfs_example_mem, aod_example_env 300 0, 5)]
           (nfsslower_enter (Fentry, nfs_example_mem, aod_example_env 100 0, 5)
             (nfsslower_init \<lparr>min_lat_ns = 10, slower_wakeup_data_size = 0\<rparr> Map.empty))))) =
   [(800, 5, 0x5000000)]"
  using nfsslower_measures_first_setup
    [of "nfsslower_init \<lparr>min_lat_ns = 10, slower_wakeup_data_size = 0\<rparr> Map.empty" 5 nfs_example_mem
        "aod_example_env 100 0" "[Enter (Fentry, nfs_example_mem, aod_example_env 300 0, 5)]"
        Fentry Kprobe nfs_example_mem "aod_example_env 900 0"]
  by (simp add: nfsslower_init_def aod_example_env_def nfs_example_mem_def Let_def nslow_record_def
      nfs_task_command_def nfsslower_enter_eq probe_defs bswap32_def)

text \<open>
  A denied command is never recorded by nfsslower, so no later exit of the task reports it.
\<close>

theorem nfsslower_denied_not_reported:
  assumes "nslow_temp s task = None" and "nslow_denylist s (nfs_task_command km task) \<noteq> None"
  shows "nslow_aodrb (nfsslower_leave (h', km', e2, reused, task) (nfsslower_enter (h, km, e1, task) s)) =
         nslow_aodrb s"
  using assms by (simp add: nfsslower_enter_eq nfsslower_leave_eq nfsslower_exit_aodrb nfsslower_entry_temp)

theorem nfsslower_denied_not_reported_witness:
  "nslow_aodrb (nfsslower_leave (Fentry, nfs_example_mem, aod_example_env 900 0, None, 5)
     (nfsslower_enter (Fentry, nfs_example_mem, aod_example_env 100 0, 5)
       (nfsslower_init \<lparr>min_lat_ns = 10, slower_wakeup_data_size = 0\<rparr> [5 \<mapsto> 1]))) = []"
  using nfsslower_denied_not_reported
    [of "nfsslower_init \<lparr>min_lat_ns = 10, slower_wakeup_data_size = 0\<rparr> [5 \<mapsto> 1]" 5 nfs_example_mem
        Fentry nfs_example_mem "aod_example_env 900 0" None Fentry "aod_example_env 100 0"]
  by (simp add: nfsslower_init_def nfs_task_command_def nfs_example_mem_def)

text \<open>
  The exit program reads the command through a pointer to the element it has already
  deleted. When another processor reuses the slot in between, the record carries the latency
  and the transaction id of this request with the command of the other one.
\<close>

theorem nfsslower_reused_slot_command:
  assumes "nslow_temp s task = Some pe" and "min_lat_ns (nslow_rodata s) \<le> ktime e 0 - nfs_metric pe"
    and "rb_reserve e 0"
  shows "\<exists>f. nslow_aodrb (nfsslower_probe_exit km e (Some other) task s) =
             nslow_aodrb s @ [(f, nslow_record km e task (ktime e 0 - nfs_metric pe) (nfscommand other))]"
  using assms by (simp add: nfsslower_exit_aodrb not_less)

theorem nfsslower_reused_slot_command_witness:
  "\<exists>f ev. nslow_aodrb (nfsslower_probe_exit nfs_example_mem (aod_example_env 900 0)
             (Some \<lparr>nfscommand = 40, nfs_metric = 890\<rparr>) 5
             ((nfsslower_init \<lparr>min_lat_ns = 10, slower_wakeup_data_size = 0\<rparr> Map.empty)
                \<lparr>nslow_temp := [5 \<mapsto> \<lparr>nfscommand = 5, nfs_metric = 100\<rparr>]\<rparr>)) = [(f, ev)] \<and>
           ev_command ev = 40 \<and> ev_metric ev = 800"
  using nfsslower_reused_slot_command
    [of "(nfsslower_init \<lparr>min_lat_ns = 10, slower_wakeup_data_size = 0\<rparr> Map.empty)
           \<lparr>nslow_temp := [5 \<mapsto> \<lparr>nfscommand = 5, nfs_metric = 100\<rparr>]\<rparr>" 5
        "\<lparr>nfscommand = 5, nfs_metric = 100\<rparr>" "aod_example_env 900 0" nfs_example_mem
        "\<lparr>nfscommand = 40, nfs_metric = 890\<rparr>"]
  by (auto simp: nfsslower_init_def aod_example_env_def nslow_record_def)

end
