(* ===== verification/Nfsslower_Loader.thy ===== *)
theory Nfsslower_Loader
  imports Nfsslower_Bpf Slower_Options
begin

text \<open>
  The loader of nfsslower (\<open>src/src/user/nfsslower.c\<close>). Its option handling is the shared one of
  \<open>Slower_Options\<close> with 70 commands and without the option 1 of smbslower.
\<close>

section \<open>Code\<close>

definition nfsslower_opts_init :: slower_opts where
  "nfsslower_opts_init = slower_opts_init MAX_NFS_COMMANDS"

definition nfsslower_parse_cmd_list :: "bool \<Rightarrow> string \<Rightarrow> nat \<Rightarrow> u8 list \<Rightarrow> int \<times> u8 list" where
  "nfsslower_parse_cmd_list = parse_cmd_list MAX_NFS_COMMANDS"

definition nfsslower_parse_arg :: "bool \<Rightarrow> slower_key \<Rightarrow> string \<Rightarrow> slower_opts \<Rightarrow> slower_opts parsed" where
  "nfsslower_parse_arg dup_ok key arg g =
     (if key = K_skip then Parse_error else slower_parse_arg MAX_NFS_COMMANDS dup_ok key arg g)"

definition nfsslower_update_denylist_map ::
    "(u16 \<Rightarrow> int) \<Rightarrow> slower_opts \<Rightarrow> (u16 \<Rightarrow> u8 option) \<Rightarrow> int \<times> (u16 \<Rightarrow> u8 option)" where
  "nfsslower_update_denylist_map = slower_update_denylist_map MAX_NFS_COMMANDS"

datatype nfs_prog =
    P_nfs4_setup_sequence_entry | P_nfs4_setup_sequence_kprobe
  | P_rpc_done_entry | P_rpc_done_kprobe

text \<open>The programs are finitely many, so what a skeleton enables can be computed.\<close>

instantiation nfs_prog :: enum
begin

definition enum_nfs_prog :: "nfs_prog list" where
  "enum_nfs_prog = [P_nfs4_setup_sequence_entry, P_nfs4_setup_sequence_kprobe, P_rpc_done_entry, P_rpc_done_kprobe]"

definition enum_all_nfs_prog :: "(nfs_prog \<Rightarrow> bool) \<Rightarrow> bool" where
  "enum_all_nfs_prog P \<longleftrightarrow> P P_nfs4_setup_sequence_entry \<and> P P_nfs4_setup_sequence_kprobe \<and> P P_rpc_done_entry \<and> P P_rpc_done_kprobe"

definition enum_ex_nfs_prog :: "(nfs_prog \<Rightarrow> bool) \<Rightarrow> bool" where
  "enum_ex_nfs_prog P \<longleftrightarrow> P P_nfs4_setup_sequence_entry \<or> P P_nfs4_setup_sequence_kprobe \<or> P P_rpc_done_entry \<or> P P_rpc_done_kprobe"

instance
proof
  show univ: "(UNIV :: nfs_prog set) = set enum_class.enum"
    unfolding enum_nfs_prog_def using nfs_prog.exhaust by auto
  show "distinct (enum_class.enum :: nfs_prog list)" by (simp add: enum_nfs_prog_def)
  show "enum_class.enum_all P \<longleftrightarrow> Ball UNIV P" "enum_class.enum_ex P \<longleftrightarrow> Bex UNIV P" for P :: "nfs_prog \<Rightarrow> bool"
    unfolding univ by (simp_all add: enum_nfs_prog_def enum_all_nfs_prog_def enum_ex_nfs_prog_def)
qed

end

record nfs_sys =
  nsys_fentry_can_attach :: "string \<Rightarrow> string \<Rightarrow> bool"
  nsys_load :: int
  nsys_update :: "u16 \<Rightarrow> int"
  nsys_attach :: int

definition nfsslower_select :: "nfs_sys \<Rightarrow> nfs_prog skeleton" where
  "nfsslower_select sys =
     (let sk = skeleton_open;
          sk = (if nsys_fentry_can_attach sys ''nfs4_setup_sequence'' ''nfsv4''
                then set_auto P_nfs4_setup_sequence_kprobe False sk
                else set_auto P_nfs4_setup_sequence_entry False sk);
          sk = (if nsys_fentry_can_attach sys ''rpc_exit_task'' ''sunrpc''
                then set_auto P_rpc_done_kprobe False sk
                else set_auto P_rpc_done_entry False sk)
      in sk)"

definition nfsslower_main ::
    "bool \<Rightarrow> bool \<Rightarrow> nfs_sys \<Rightarrow> (slower_key \<times> string) list \<Rightarrow> (nfs_prog, nfsslower_state) main_result parsed" where
  "nfsslower_main dup_ok open_ok sys opts =
     bind_parsed (argp_parse (nfsslower_parse_arg dup_ok) opts nfsslower_opts_init)
       (\<lambda>g. Parsed
         (if \<not> open_ok then Exit 1
          else let ro = slower_fill_rodata g;
                   sk = nfsslower_select sys;
                   err = nsys_load sys
               in if err \<noteq> 0 then Exit (exit_status err)
                  else let (r, deny) = nfsslower_update_denylist_map (nsys_update sys) g Map.empty
                       in if r < 0 then Exit (exit_status err)
                          else let err = nsys_attach sys
                               in if err \<noteq> 0 then Exit (exit_status err)
                                  else Waiting sk (nfsslower_init ro deny)))"

section \<open>Facts\<close>

lemma nfsslower_parse_shared:
  "argp_parse (nfsslower_parse_arg ok) opts g0 = Parsed g \<Longrightarrow>
   argp_parse (slower_parse_arg 70 ok) opts g0 = Parsed g"
proof (induction opts arbitrary: g0)
  case Nil
  then show ?case by simp
next
  case (Cons x opts)
  obtain k arg where x: "x = (k, arg)" by (cases x)
  show ?case
  proof (cases "k = K_skip")
    case True
    with Cons.prems show ?thesis by (simp add: x nfsslower_parse_arg_def)
  next
    case False
    with Cons show ?thesis by (cases "slower_parse_arg 70 ok k arg g0") (simp_all add: x nfsslower_parse_arg_def)
  qed
qed

section \<open>Properties\<close>

text \<open>
  Nfsslower enables one entry and one exit program, each of the family that works for its
  kernel function; and when it reaches its wait loop the BPF programs start with the minimum
  latency in nanoseconds, no pending request and a deny map that holds exactly the commands the
  options ask to deny.
\<close>

lemma nfsslower_select_enables:
  "enabled (nfsslower_select sys) =
      {if nsys_fentry_can_attach sys ''nfs4_setup_sequence'' ''nfsv4''
       then P_nfs4_setup_sequence_entry else P_nfs4_setup_sequence_kprobe,
       if nsys_fentry_can_attach sys ''rpc_exit_task'' ''sunrpc''
       then P_rpc_done_entry else P_rpc_done_kprobe}"
  by (simp add: nfsslower_select_def enabled_enum enum_nfs_prog_def Let_def)

lemma nfsslower_main_ready:
  assumes "nfsslower_main ok open_ok sys opts = Parsed (Waiting sk s)"
  shows "\<exists>g. argp_parse (nfsslower_parse_arg ok) opts nfsslower_opts_init = Parsed g \<and>
           enabled sk =
             {if nsys_fentry_can_attach sys ''nfs4_setup_sequence'' ''nfsv4''
              then P_nfs4_setup_sequence_entry else P_nfs4_setup_sequence_kprobe,
              if nsys_fentry_can_attach sys ''rpc_exit_task'' ''sunrpc''
              then P_rpc_done_entry else P_rpc_done_kprobe} \<and>
           min_lat_ns (nslow_rodata s) = so_min_lat_ms g * 1000000 \<and>
           (\<forall>cmd. nslow_denylist s cmd \<noteq> None \<longleftrightarrow> unat cmd \<in> denied 70 g) \<and>
           nslow_temp s = Map.empty \<and> nslow_aodrb s = []"
proof -
  obtain g where g: "argp_parse (nfsslower_parse_arg ok) opts nfsslower_opts_init = Parsed g"
    using assms by (cases "argp_parse (nfsslower_parse_arg ok) opts nfsslower_opts_init")
      (auto simp: nfsslower_main_def)
  obtain r deny where m: "nfsslower_update_denylist_map (nsys_update sys) g Map.empty = (r, deny)"
    by (cases "nfsslower_update_denylist_map (nsys_update sys) g Map.empty")
  have sel: "nfsslower_select sys = sk"
    and r: "\<not> r < 0" and s: "s = nfsslower_init (slower_fill_rodata g) deny"
    using assms by (auto simp: nfsslower_main_def g m Let_def split: if_splits)
  note parse = nfsslower_parse_shared [OF g, unfolded nfsslower_opts_init_def]
  have m: "slower_update_denylist_map 70 (nsys_update sys) g Map.empty = (r, deny)"
    using m by (simp add: nfsslower_update_denylist_map_def)
  have "r = 0" using r update_denylist_rc [of 70 "nsys_update sys" g Map.empty] m by auto
  then have deny: "\<forall>cmd. deny cmd \<noteq> None \<longleftrightarrow> unat cmd \<in> denied 70 g"
    using update_denylist_ok [of 70 "nsys_update sys" g deny] m opts_inv_parse [OF opts_inv_init parse] by simp
  note nfsslower_select_enables [of sys, unfolded sel]
  with g deny show ?thesis
    by (auto simp: s nfsslower_init_def slower_fill_rodata_def)
qed

definition nfs_example_sys :: nfs_sys where
  "nfs_example_sys = \<lparr>nsys_fentry_can_attach = (\<lambda>_ _. False), nsys_load = 0, nsys_update = (\<lambda>_. 0), nsys_attach = 0\<rparr>"

lemma nfsslower_example_main:
  "nfsslower_main True True nfs_example_sys [] =
     Parsed (Waiting (nfsslower_select nfs_example_sys)
       (nfsslower_init \<lparr>min_lat_ns = 10000000, slower_wakeup_data_size = 0\<rparr> Map.empty))"
proof -
  have "nfsslower_update_denylist_map rc nfsslower_opts_init Map.empty = (0, Map.empty)" for rc
    by (simp add: nfsslower_update_denylist_map_def nfsslower_opts_init_def slower_update_denylist_map_def upt_rec slower_opts_init_def Let_def)
  moreover have "slower_fill_rodata nfsslower_opts_init = \<lparr>min_lat_ns = 10000000, slower_wakeup_data_size = 0\<rparr>"
    by (simp add: slower_fill_rodata_def nfsslower_opts_init_def slower_opts_init_def)
  ultimately show ?thesis
    by (simp add: nfsslower_main_def nfs_example_sys_def Let_def)
qed

end
