(* ===== verification/Nfsiosnoop_Bpf.thy ===== *)
theory Nfsiosnoop_Bpf
  imports Nfs_Common
begin

text \<open>
  The BPF side of nfsiosnoop (\<open>src/src/bpf/nfsiosnoop.bpf.c\<close>): failed requests, seen by the
  \<open>nfs4_xdr_status\<close> tracepoint or at \<open>rpc_exit_task\<close>, are filtered by error and command and
  put into the ring buffer.
\<close>

section \<open>Programs\<close>

record nfsiosnoop_state =
  nsnoop_rodata :: iosnoop_rodata
  nsnoop_allowlist_errors :: "s32 \<Rightarrow> u8 option"
  nsnoop_allowlist_cmds :: "u16 \<Rightarrow> u8 option"
  nsnoop_aodrb :: aod_ring

record nfs4_xdr_status_args =
  xs_pad :: u64
  xs_task_id :: u32
  xs_client_id :: u32
  xs_xid :: u32
  xs_op :: u32
  xs_error :: u64

record nfs4_xdr_status_lazy_args =
  xl_pad :: u64
  xl_common_preempt_lazy_count :: u32
  xl_task_id :: u32
  xl_client_id :: u32
  xl_xid :: u32
  xl_op :: u32
  xl_error :: u64

text \<open>
  The struct a program sees behind its context pointer, with the members where the compiler
  puts them: see \<open>xdr_status_layout\<close> for the offsets.
\<close>

definition view_nfs4_xdr_status_args :: "(nat \<Rightarrow> u8) \<Rightarrow> nfs4_xdr_status_args" where
  "view_nfs4_xdr_status_args ctx =
     \<lparr>xs_pad = raw_u64 ctx 0, xs_task_id = raw_u32 ctx 8, xs_client_id = raw_u32 ctx 12,
      xs_xid = raw_u32 ctx 16, xs_op = raw_u32 ctx 20, xs_error = raw_u64 ctx 24\<rparr>"

definition view_nfs4_xdr_status_lazy_args :: "(nat \<Rightarrow> u8) \<Rightarrow> nfs4_xdr_status_lazy_args" where
  "view_nfs4_xdr_status_lazy_args ctx =
     \<lparr>xl_pad = raw_u64 ctx 0, xl_common_preempt_lazy_count = raw_u32 ctx 8,
      xl_task_id = raw_u32 ctx 12, xl_client_id = raw_u32 ctx 16,
      xl_xid = raw_u32 ctx 20, xl_op = raw_u32 ctx 24, xl_error = raw_u64 ctx 32\<rparr>"

definition nfsiosnoop_get_flags :: "iosnoop_rodata \<Rightarrow> event bpf_env \<Rightarrow> nat \<Rightarrow> u64" where
  "nfsiosnoop_get_flags ro e i =
     (if snoop_wakeup_data_size ro = 0 then 0
      else let sz = rb_avail e i
           in if sint sz \<ge> sint (snoop_wakeup_data_size ro)
              then BPF_RB_FORCE_WAKEUP else BPF_RB_NO_WAKEUP)"

definition nfsiosnoop_probe_entry ::
    "nfs_mem \<Rightarrow> event bpf_env \<Rightarrow> ptr \<Rightarrow> nfsiosnoop_state \<Rightarrow> nfsiosnoop_state" where [probe_defs]:
  "nfsiosnoop_probe_entry km e task s =
     (let ro = nsnoop_rodata s; retval = task_tk_status km task
      in if retval = 0 then s
         else let retval = (if sint retval < 0 then - retval else retval)
              in if filter_errors ro \<noteq> 0 \<and> nsnoop_allowlist_errors s retval = None then s
                 else let nfscommand = ucast (proc_p_statidx km (task_rpc_proc km task))
                      in if filter_cmds ro \<noteq> 0 \<and> nsnoop_allowlist_cmds s nfscommand = None then s
                         else if \<not> rb_reserve e (nfsiosnoop_get_flags ro e 0) then s
                         else let ev = (rb_mem e)\<lparr>ev_pid := ucast (drop_bit 32 (pid_tgid e)),
                                         ev_cmd_end_time_ns := ktime e 0,
                                         ev_metric := set_metric_retval retval (ev_metric (rb_mem e)),
                                         ev_rqst_id := ucast (bpf_ntohl km (rqst_rq_xid km (task_tk_rqstp km task))),
                                         ev_command := nfscommand,
                                         ev_tool := NFSIOSNOOP,
                                         ev_task := comm e\<rparr>
                              in s\<lparr>nsnoop_aodrb := nsnoop_aodrb s @ [(nfsiosnoop_get_flags ro e 1, ev)]\<rparr>)"

text \<open>The error map has \<open>int\<close> keys: a lookup reads the low four bytes of \<open>error\<close>.\<close>

definition emit_xdr_status ::
    "event bpf_env \<Rightarrow> u32 \<Rightarrow> u16 \<Rightarrow> u64 \<Rightarrow> nfsiosnoop_state \<Rightarrow> nfsiosnoop_state" where [probe_defs]:
  "emit_xdr_status e xid command error s =
     (let ro = nsnoop_rodata s
      in if error = 0 then s
         else if filter_errors ro \<noteq> 0 \<and> nsnoop_allowlist_errors s (ucast error) = None then s
         else if filter_cmds ro \<noteq> 0 \<and> nsnoop_allowlist_cmds s command = None then s
         else if \<not> rb_reserve e (nfsiosnoop_get_flags ro e 0) then s
         else let ev = (rb_mem e)\<lparr>ev_pid := ucast (drop_bit 32 (pid_tgid e)),
                         ev_cmd_end_time_ns := ktime e 0,
                         ev_metric := set_metric_retval (ucast error) (ev_metric (rb_mem e)),
                         ev_rqst_id := ucast xid,
                         ev_command := command,
                         ev_tool := NFSIOSNOOP,
                         ev_task := comm e\<rparr>
              in s\<lparr>nsnoop_aodrb := nsnoop_aodrb s @ [(nfsiosnoop_get_flags ro e 1, ev)]\<rparr>)"

definition trace_nfs4_xdr_status ::
    "event bpf_env \<Rightarrow> (nat \<Rightarrow> u8) \<Rightarrow> nfsiosnoop_state \<Rightarrow> nfsiosnoop_state" where [probe_defs]:
  "trace_nfs4_xdr_status e ctx s =
     (let a = view_nfs4_xdr_status_args ctx
      in emit_xdr_status e (xs_xid a) (ucast (xs_op a)) (xs_error a) s)"

definition trace_nfs4_xdr_status_lazy ::
    "event bpf_env \<Rightarrow> (nat \<Rightarrow> u8) \<Rightarrow> nfsiosnoop_state \<Rightarrow> nfsiosnoop_state" where [probe_defs]:
  "trace_nfs4_xdr_status_lazy e ctx s =
     (let a = view_nfs4_xdr_status_lazy_args ctx
      in emit_xdr_status e (xl_xid a) (ucast (xl_op a)) (xl_error a) s)"

definition nfsiosnoop_rpc_done_exit ::
    "nfs_mem \<Rightarrow> event bpf_env \<Rightarrow> ptr \<Rightarrow> nfsiosnoop_state \<Rightarrow> nfsiosnoop_state" where [probe_defs]:
  "nfsiosnoop_rpc_done_exit km e task s = nfsiosnoop_probe_entry km e task s"

definition nfsiosnoop_rpc_done_kprobe ::
    "nfs_mem \<Rightarrow> event bpf_env \<Rightarrow> ptr \<Rightarrow> nfsiosnoop_state \<Rightarrow> nfsiosnoop_state" where [probe_defs]:
  "nfsiosnoop_rpc_done_kprobe km e task s = nfsiosnoop_probe_entry km e task s"

section \<open>Specification\<close>

text \<open>A failed request that the filters let through.\<close>

definition nsnoop_admits :: "nfsiosnoop_state \<Rightarrow> s32 \<Rightarrow> u16 \<Rightarrow> bool" where
  "nsnoop_admits s err cmd \<longleftrightarrow>
     (filter_errors (nsnoop_rodata s) = 0 \<or> nsnoop_allowlist_errors s err \<noteq> None) \<and>
     (filter_cmds (nsnoop_rodata s) = 0 \<or> nsnoop_allowlist_cmds s cmd \<noteq> None)"

definition nsnoop_record :: "event bpf_env \<Rightarrow> u64 \<Rightarrow> u16 \<Rightarrow> s32 \<Rightarrow> event" where
  "nsnoop_record e xid cmd err =
     (rb_mem e)\<lparr>ev_pid := ucast (drop_bit 32 (pid_tgid e)), ev_cmd_end_time_ns := ktime e 0,
        ev_metric := set_metric_retval err (ev_metric (rb_mem e)), ev_rqst_id := xid,
        ev_command := cmd, ev_tool := NFSIOSNOOP, ev_task := comm e\<rparr>"

definition nfsiosnoop_init :: "iosnoop_rodata \<Rightarrow> nfsiosnoop_state" where
  "nfsiosnoop_init ro =
     \<lparr>nsnoop_rodata = ro, nsnoop_allowlist_errors = Map.empty, nsnoop_allowlist_cmds = Map.empty,
      nsnoop_aodrb = []\<rparr>"

text \<open>A trace record in the layout with the extra word of the lazy preemption header.\<close>

definition lazy_ctx :: "u32 \<Rightarrow> u32 \<Rightarrow> u64 \<Rightarrow> (nat \<Rightarrow> u8) \<Rightarrow> nat \<Rightarrow> u8" where
  "lazy_ctx xid op error rest i =
     (if i < 20 then rest i
      else if i < 24 then ucast (drop_bit (8 * (i - 20)) xid)
      else if i < 28 then ucast (drop_bit (8 * (i - 24)) op)
      else if i < 32 then rest i
      else if i < 40 then ucast (drop_bit (8 * (i - 32)) error)
      else rest i)"

section \<open>Effects\<close>

lemma nfsiosnoop_get_flags_wakeup:
  "nfsiosnoop_get_flags ro e i = wakeup_flags (snoop_wakeup_data_size ro) (rb_avail e i)"
  by (simp add: nfsiosnoop_get_flags_def wakeup_flags_def Let_def)

lemma emit_xdr_status_eq:
  "emit_xdr_status e xid cmd error s =
     (if error \<noteq> 0 \<and> nsnoop_admits s (ucast error) cmd \<and>
         rb_reserve e (wakeup_flags (snoop_wakeup_data_size (nsnoop_rodata s)) (rb_avail e 0))
      then s\<lparr>nsnoop_aodrb := nsnoop_aodrb s @
               [(wakeup_flags (snoop_wakeup_data_size (nsnoop_rodata s)) (rb_avail e 1),
                 nsnoop_record e (ucast xid) cmd (ucast error))]\<rparr>
      else s)"
  by (simp add: emit_xdr_status_def Let_def nsnoop_admits_def nsnoop_record_def
      nfsiosnoop_get_flags_wakeup)

lemma nfsiosnoop_probe_entry_eq:
  "nfsiosnoop_probe_entry km e task s =
     (let err = (if sint (task_tk_status km task) < 0 then - task_tk_status km task
                 else task_tk_status km task);
          cmd = ucast (proc_p_statidx km (task_rpc_proc km task))
      in if task_tk_status km task \<noteq> 0 \<and> nsnoop_admits s err cmd \<and>
            rb_reserve e (wakeup_flags (snoop_wakeup_data_size (nsnoop_rodata s)) (rb_avail e 0))
         then s\<lparr>nsnoop_aodrb := nsnoop_aodrb s @
                  [(wakeup_flags (snoop_wakeup_data_size (nsnoop_rodata s)) (rb_avail e 1),
                    nsnoop_record e (ucast (bpf_ntohl km (rqst_rq_xid km (task_tk_rqstp km task)))) cmd err)]\<rparr>
         else s)"
  by (simp add: nfsiosnoop_probe_entry_def Let_def nsnoop_admits_def nsnoop_record_def
      nfsiosnoop_get_flags_wakeup)

lemma view_lazy:
  "view_nfs4_xdr_status_lazy_args (lazy_ctx xid op error rest) =
     \<lparr>xl_pad = raw_u64 rest 0, xl_common_preempt_lazy_count = raw_u32 rest 8,
      xl_task_id = raw_u32 rest 12, xl_client_id = raw_u32 rest 16, xl_xid = xid, xl_op = op,
      xl_error = error\<rparr>"
proof -
  have "raw_u32 (lazy_ctx xid op error rest) 20 = xid"
    and "raw_u32 (lazy_ctx xid op error rest) 24 = op"
    and "raw_u64 (lazy_ctx xid op error rest) 32 = error"
    by (intro raw_u32_bytes raw_u64_bytes; simp add: lazy_ctx_def)+
  then show ?thesis
    by (simp add: view_nfs4_xdr_status_lazy_args_def raw_u64_def raw_u32_def raw_u16_def lazy_ctx_def)
qed

lemma view_normal_of_lazy:
  "xs_xid (view_nfs4_xdr_status_args (lazy_ctx xid op error rest)) = raw_u32 rest 16"
  "xs_op (view_nfs4_xdr_status_args (lazy_ctx xid op error rest)) = xid"
  "ucast (xs_error (view_nfs4_xdr_status_args (lazy_ctx xid op error rest))) = op"
proof -
  have op: "raw_u32 (lazy_ctx xid op error rest) 24 = op"
    and xid: "raw_u32 (lazy_ctx xid op error rest) 20 = xid"
    by (intro raw_u32_bytes; simp add: lazy_ctx_def)+
  show "xs_xid (view_nfs4_xdr_status_args (lazy_ctx xid op error rest)) = raw_u32 rest 16"
    by (simp add: view_nfs4_xdr_status_args_def raw_u32_def raw_u16_def lazy_ctx_def)
  show "xs_op (view_nfs4_xdr_status_args (lazy_ctx xid op error rest)) = xid"
    by (simp add: view_nfs4_xdr_status_args_def xid)
  show "ucast (xs_error (view_nfs4_xdr_status_args (lazy_ctx xid op error rest))) = op"
    by (simp add: view_nfs4_xdr_status_args_def raw_u64_def op)
       (rule bit_word_eqI, auto simp: bit_simps)
qed

section \<open>Properties\<close>

text \<open>
  Nfsiosnoop reports exactly the failed requests its filters admit. A traced status puts at
  most one record into the ring buffer, and it does so iff the status is an error, the error and
  the command are on their allow lists (where a list was given) and a record can be reserved; the
  record carries the error, the command, the transaction id and the tool's code.
\<close>

theorem nfsiosnoop_reports_iff_admitted:
  "if error \<noteq> 0 \<and> nsnoop_admits s (ucast error) cmd \<and>
      rb_reserve e (wakeup_flags (snoop_wakeup_data_size (nsnoop_rodata s)) (rb_avail e 0))
   then \<exists>f ev. nsnoop_aodrb (emit_xdr_status e xid cmd error s) = nsnoop_aodrb s @ [(f, ev)] \<and>
          metric_retval (ev_metric ev) = ucast error \<and> ev_command ev = cmd \<and>
          ev_rqst_id ev = ucast xid \<and> ev_tool ev = NFSIOSNOOP \<and> ev_cmd_end_time_ns ev = ktime e 0
   else emit_xdr_status e xid cmd error s = s"
  by (auto simp: emit_xdr_status_eq nsnoop_record_def metric_retval_set)

text \<open>
  With a non-zero wake-up size nfsiosnoop never reports anything. The programs pass the
  wake-up flag to \<open>bpf_ringbuf_reserve\<close> as well, whose flags argument must be zero, and for a
  non-zero size that flag is never zero.
\<close>

theorem nfsiosnoop_wakeup_size_silences:
  assumes "reserve_wants_no_flags e" and "snoop_wakeup_data_size (nsnoop_rodata s) \<noteq> 0"
  shows "trace_nfs4_xdr_status e ctx s = s \<and> trace_nfs4_xdr_status_lazy e ctx s = s \<and>
         nfsiosnoop_rpc_done_exit km e task s = s \<and> nfsiosnoop_rpc_done_kprobe km e task s = s"
proof -
  have "\<not> rb_reserve e (wakeup_flags (snoop_wakeup_data_size (nsnoop_rodata s)) a)" for a
    using assms wakeup_flags_zero by (simp add: reserve_wants_no_flags_def)
  then show ?thesis
    by (simp add: trace_nfs4_xdr_status_def trace_nfs4_xdr_status_lazy_def emit_xdr_status_eq
        nfsiosnoop_rpc_done_exit_def nfsiosnoop_rpc_done_kprobe_def nfsiosnoop_probe_entry_eq Let_def)
qed

theorem nfsiosnoop_wakeup_size_silences_witness:
  "nfsiosnoop_rpc_done_exit nfs_example_mem (aod_example_env 7 0) 5
     (nfsiosnoop_init \<lparr>snoop_wakeup_data_size = 256, filter_errors = 0, filter_cmds = 0\<rparr>) =
   nfsiosnoop_init \<lparr>snoop_wakeup_data_size = 256, filter_errors = 0, filter_cmds = 0\<rparr>"
  using nfsiosnoop_wakeup_size_silences [of "aod_example_env 7 0"
      "nfsiosnoop_init \<lparr>snoop_wakeup_data_size = 256, filter_errors = 0, filter_cmds = 0\<rparr>"
      "\<lambda>_. 0" nfs_example_mem 5]
  by (simp add: nfsiosnoop_init_def aod_example_env_def reserve_wants_no_flags_def)

text \<open>
  The two tracepoint programs differ in the layout they assume. Both structs have the offsets
  that the compiler gives their members. On a record with the extra header word the lazy program
  sees the transaction id, operation and error of the record; the other one would take the
  transaction id for the operation and the operation for the error.
\<close>

theorem nfsiosnoop_xdr_status_layout:
  "member_offsets 0 [8, 4, 4, 4, 4, 8] = [0, 8, 12, 16, 20, 24] \<and>
   member_offsets 0 [8, 4, 4, 4, 4, 4, 8] = [0, 8, 12, 16, 20, 24, 32] \<and>
   trace_nfs4_xdr_status_lazy e (lazy_ctx xid op error rest) s =
     emit_xdr_status e xid (ucast op) error s \<and>
   (\<exists>junk. ucast junk = op \<and>
      trace_nfs4_xdr_status e (lazy_ctx xid op error rest) s =
        emit_xdr_status e (raw_u32 rest 16) (ucast xid) junk s)"
  using view_normal_of_lazy [of xid op error rest]
  by (auto simp: align_up_def trace_nfs4_xdr_status_lazy_def trace_nfs4_xdr_status_def view_lazy Let_def)

text \<open>
  At \<open>rpc_exit_task\<close> a task status is reported as a positive error whatever its sign, and a
  task that succeeded is never reported.
\<close>

theorem nfsiosnoop_task_error_positive:
  assumes "task_tk_status km task \<noteq> - (2 ^ 31)"
  shows "nsnoop_aodrb (nfsiosnoop_rpc_done_exit km e task s) = nsnoop_aodrb s \<or>
     task_tk_status km task \<noteq> 0 \<and>
     (\<exists>f ev. nsnoop_aodrb (nfsiosnoop_rpc_done_exit km e task s) = nsnoop_aodrb s @ [(f, ev)] \<and>
        sint (metric_retval (ev_metric ev)) = \<bar>sint (task_tk_status km task)\<bar> \<and>
        nsnoop_admits s (metric_retval (ev_metric ev)) (ev_command ev))"
proof -
  have "sint (- task_tk_status km task) = - sint (task_tk_status km task)"
    if "sint (task_tk_status km task) < 0"
    using that assms by (rule sint_uminus_s32)
  then show ?thesis
    by (auto simp: nfsiosnoop_rpc_done_exit_def nfsiosnoop_probe_entry_eq Let_def nsnoop_record_def
        metric_retval_set)
qed

theorem nfsiosnoop_task_error_positive_witness:
  "\<exists>f ev. nsnoop_aodrb (nfsiosnoop_rpc_done_exit nfs_example_mem (aod_example_env 7 0) 5
            (nfsiosnoop_init \<lparr>snoop_wakeup_data_size = 0, filter_errors = 0, filter_cmds = 0\<rparr>)) = [(f, ev)] \<and>
          sint (metric_retval (ev_metric ev)) = 116"
proof -
  let ?s = "nfsiosnoop_init \<lparr>snoop_wakeup_data_size = 0, filter_errors = 0, filter_cmds = 0\<rparr>"
  have "nsnoop_aodrb (nfsiosnoop_rpc_done_exit nfs_example_mem (aod_example_env 7 0) 5 ?s) \<noteq> nsnoop_aodrb ?s"
    by (simp add: nfsiosnoop_rpc_done_exit_def nfsiosnoop_probe_entry_eq nfsiosnoop_init_def
        nfs_example_mem_def aod_example_env_def nsnoop_admits_def wakeup_flags_def Let_def)
  then show ?thesis
    using nfsiosnoop_task_error_positive [of nfs_example_mem 5 "aod_example_env 7 0" ?s]
    by (auto simp: nfs_example_mem_def nfsiosnoop_init_def)
qed

end
