(* ===== verification/Nfsiosnoop_Loader.thy ===== *)
theory Nfsiosnoop_Loader
  imports Nfsiosnoop_Bpf Loader_Common "HOL-Library.Sublist"
begin

text \<open>
  The loader of nfsiosnoop (\<open>src/src/user/nfsiosnoop.c\<close>): its filters, the choice of the program
  for the layout of the trace record, and \<open>main\<close>. The arrays \<open>cmd_filter\<close> and \<open>err_filter\<close> with
  their counts are the lists of the entries in use.
\<close>

section \<open>Code\<close>

record nsnoop_opts =
  no_wakeup_data_size :: u64
  no_cmd_filter :: "u16 list"
  no_cmd_filter_set :: bool
  no_err_filter :: "int list"
  no_err_filter_set :: bool
  no_verbose :: bool

definition nsnoop_opts_init :: nsnoop_opts where
  "nsnoop_opts_init =
     \<lparr>no_wakeup_data_size = 0, no_cmd_filter = [], no_cmd_filter_set = False, no_err_filter = [],
      no_err_filter_set = False, no_verbose = False\<rparr>"

fun nsnoop_cmd_loop :: "string list \<Rightarrow> u16 list \<Rightarrow> u16 list" where
  "nsnoop_cmd_loop [] f = f"
| "nsnoop_cmd_loop (token # ts) f =
     (let cmd = atoi token
      in if 0 \<le> cmd \<and> cmd < 70 \<and> length f < MAX_NFS_COMMANDS
         then nsnoop_cmd_loop ts (f @ [word_of_int cmd])
         else nsnoop_cmd_loop ts f)"

definition nsnoop_parse_cmd_list :: "bool \<Rightarrow> string \<Rightarrow> u16 list \<Rightarrow> int \<times> u16 list" where
  "nsnoop_parse_cmd_list dup_ok arg f =
     (if \<not> dup_ok then (- 1, f)
      else let f = nsnoop_cmd_loop (tokens arg) f in (int (length f), f))"

definition compare_ints :: "int \<Rightarrow> int \<Rightarrow> int" where
  "compare_ints val_a val_b = (if val_a < val_b then - 1 else if val_b < val_a then 1 else 0)"

definition validate_err_code :: "int \<Rightarrow> bool" where
  "validate_err_code code = (bsearch (compare_ints code) nfs4_errors 0 MAX_ERROR_CODES \<noteq> None)"

text \<open>The loop over the tokens; the first component tells whether every token was a number.\<close>

fun nsnoop_err_loop :: "string list \<Rightarrow> int list \<Rightarrow> bool \<times> int list" where
  "nsnoop_err_loop [] f = (True, f)"
| "nsnoop_err_loop (token # ts) f =
     (let r = strtol 10 token; code = num_val r
      in if num_end r \<noteq> [] \<or> num_erange r \<or> code \<le> 0 then (False, f)
         else if validate_err_code (to_int code) \<and> length f < MAX_ERROR_CODES
         then nsnoop_err_loop ts (f @ [to_int code])
         else nsnoop_err_loop ts f)"

definition nsnoop_parse_err_list :: "bool \<Rightarrow> string \<Rightarrow> int list \<Rightarrow> int \<times> int list" where
  "nsnoop_parse_err_list dup_ok arg f =
     (if \<not> dup_ok then (- 1, f)
      else let (ok, f) = nsnoop_err_loop (tokens arg) f
           in (if ok then int (length f) else - 1, f))"

definition nsnoop_parse_arg :: "bool \<Rightarrow> snoop_opt \<Rightarrow> string \<Rightarrow> nsnoop_opts \<Rightarrow> nsnoop_opts parsed" where
  "nsnoop_parse_arg dup_ok key arg g =
     (case key of
        N_w \<Rightarrow> let r = strtol 10 arg
               in if num_erange r then Usage_exit
                  else Parsed (g\<lparr>no_wakeup_data_size := word_of_int (num_val r)\<rparr>)
      | N_c \<Rightarrow> let (err, f) = nsnoop_parse_cmd_list dup_ok arg (no_cmd_filter g)
               in if err \<le> 0 then Usage_exit
                  else Parsed (g\<lparr>no_cmd_filter_set := True, no_cmd_filter := f\<rparr>)
      | N_e \<Rightarrow> let (err, f) = nsnoop_parse_err_list dup_ok arg (no_err_filter g)
               in if err \<le> 0 then Usage_exit
                  else Parsed (g\<lparr>no_err_filter_set := True, no_err_filter := f\<rparr>)
      | N_h \<Rightarrow> Help_exit
      | N_v \<Rightarrow> Parsed (g\<lparr>no_verbose := True\<rparr>)
      | N_other \<Rightarrow> Parse_error)"

definition nsnoop_update_allowlist_cmds ::
    "(u16 \<Rightarrow> int) \<Rightarrow> nsnoop_opts \<Rightarrow> (u16 \<Rightarrow> u8 option) \<Rightarrow> int \<times> (u16 \<Rightarrow> u8 option)" where
  "nsnoop_update_allowlist_cmds rc g m =
     (if no_cmd_filter_set g then allow_loop rc (no_cmd_filter g) m else (0, m))"

definition nsnoop_update_allowlist_errors ::
    "(s32 \<Rightarrow> int) \<Rightarrow> nsnoop_opts \<Rightarrow> (s32 \<Rightarrow> u8 option) \<Rightarrow> int \<times> (s32 \<Rightarrow> u8 option)" where
  "nsnoop_update_allowlist_errors rc g m =
     (if no_err_filter_set g then allow_loop rc (map word_of_int (no_err_filter g)) m else (0, m))"

text \<open>
  The format file of the tracepoint under its two paths: \<open>None\<close> when it cannot be opened,
  otherwise the pieces \<open>fgets\<close> returns.
\<close>

fun tracepoint_has_lazy_preempt :: "string list option list \<Rightarrow> bool" where
  "tracepoint_has_lazy_preempt [] = False"
| "tracepoint_has_lazy_preempt (None # fs) = tracepoint_has_lazy_preempt fs"
| "tracepoint_has_lazy_preempt (Some pieces # fs) =
     ((\<exists>line \<in> set pieces. sublist ''common_preempt_lazy_count'' line) \<or> tracepoint_has_lazy_preempt fs)"

datatype nsnoop_prog =
    P_trace_nfs4_xdr_status | P_trace_nfs4_xdr_status_lazy | P_nsnoop_rpc_done_exit | P_nsnoop_rpc_done_kprobe

text \<open>The programs are finitely many, so what a skeleton enables can be computed.\<close>

instantiation nsnoop_prog :: enum
begin

definition enum_nsnoop_prog :: "nsnoop_prog list" where
  "enum_nsnoop_prog = [P_trace_nfs4_xdr_status, P_trace_nfs4_xdr_status_lazy, P_nsnoop_rpc_done_exit, P_nsnoop_rpc_done_kprobe]"

definition enum_all_nsnoop_prog :: "(nsnoop_prog \<Rightarrow> bool) \<Rightarrow> bool" where
  "enum_all_nsnoop_prog P \<longleftrightarrow> P P_trace_nfs4_xdr_status \<and> P P_trace_nfs4_xdr_status_lazy \<and> P P_nsnoop_rpc_done_exit \<and> P P_nsnoop_rpc_done_kprobe"

definition enum_ex_nsnoop_prog :: "(nsnoop_prog \<Rightarrow> bool) \<Rightarrow> bool" where
  "enum_ex_nsnoop_prog P \<longleftrightarrow> P P_trace_nfs4_xdr_status \<or> P P_trace_nfs4_xdr_status_lazy \<or> P P_nsnoop_rpc_done_exit \<or> P P_nsnoop_rpc_done_kprobe"

instance
proof
  show univ: "(UNIV :: nsnoop_prog set) = set enum_class.enum"
    unfolding enum_nsnoop_prog_def using nsnoop_prog.exhaust by auto
  show "distinct (enum_class.enum :: nsnoop_prog list)" by (simp add: enum_nsnoop_prog_def)
  show "enum_class.enum_all P \<longleftrightarrow> Ball UNIV P" "enum_class.enum_ex P \<longleftrightarrow> Bex UNIV P" for P :: "nsnoop_prog \<Rightarrow> bool"
    unfolding univ by (simp_all add: enum_nsnoop_prog_def enum_all_nsnoop_prog_def enum_ex_nsnoop_prog_def)
qed

end

record nsnoop_sys =
  nss_tracepoint_exists :: bool
  nss_formats :: "string list option list"
  nss_fentry_can_attach :: bool
  nss_load :: int
  nss_update_cmd :: "u16 \<Rightarrow> int"
  nss_update_err :: "s32 \<Rightarrow> int"
  nss_attach :: int

definition nfsiosnoop_select :: "nsnoop_sys \<Rightarrow> nsnoop_prog skeleton" where
  "nfsiosnoop_select sys =
     (let sk = skeleton_open
      in if nss_tracepoint_exists sys then
           let lazy = tracepoint_has_lazy_preempt (nss_formats sys);
               sk = set_auto (if lazy then P_trace_nfs4_xdr_status else P_trace_nfs4_xdr_status_lazy) False sk;
               sk = set_auto P_nsnoop_rpc_done_exit False sk
           in set_auto P_nsnoop_rpc_done_kprobe False sk
         else if nss_fentry_can_attach sys then
           let sk = set_auto P_trace_nfs4_xdr_status False sk;
               sk = set_auto P_trace_nfs4_xdr_status_lazy False sk
           in set_auto P_nsnoop_rpc_done_kprobe False sk
         else
           let sk = set_auto P_trace_nfs4_xdr_status False sk;
               sk = set_auto P_trace_nfs4_xdr_status_lazy False sk
           in set_auto P_nsnoop_rpc_done_exit False sk)"

definition nsnoop_fill_rodata :: "nsnoop_opts \<Rightarrow> iosnoop_rodata" where
  "nsnoop_fill_rodata g =
     \<lparr>snoop_wakeup_data_size = ucast (no_wakeup_data_size g),
      filter_errors = (if no_err_filter_set g then 1 else 0),
      filter_cmds = (if no_cmd_filter_set g then 1 else 0)\<rparr>"

definition nfsiosnoop_main ::
    "bool \<Rightarrow> bool \<Rightarrow> nsnoop_sys \<Rightarrow> (snoop_opt \<times> string) list \<Rightarrow>
     (nsnoop_prog, nfsiosnoop_state) main_result parsed" where
  "nfsiosnoop_main dup_ok open_ok sys opts =
     bind_parsed (argp_parse (nsnoop_parse_arg dup_ok) opts nsnoop_opts_init)
       (\<lambda>g. Parsed
         (if \<not> no_cmd_filter_set g \<and> \<not> no_err_filter_set g then Exit 1
          else if \<not> open_ok then Exit 1
          else let s = nfsiosnoop_init (nsnoop_fill_rodata g);
                   sk = nfsiosnoop_select sys;
                   err = nss_load sys
               in if err \<noteq> 0 then Exit (exit_status err)
                  else let (r, cmds) = nsnoop_update_allowlist_cmds (nss_update_cmd sys) g (nsnoop_allowlist_cmds s)
                       in if r < 0 then Exit (exit_status err)
                          else let (r, errs) = nsnoop_update_allowlist_errors (nss_update_err sys) g
                                                 (nsnoop_allowlist_errors s)
                               in if r < 0 then Exit (exit_status err)
                                  else let err = nss_attach sys
                                       in if err \<noteq> 0 then Exit (exit_status err)
                                          else Waiting sk (s\<lparr>nsnoop_allowlist_cmds := cmds,
                                                             nsnoop_allowlist_errors := errs\<rparr>)))"

section \<open>Specification\<close>

text \<open>The filters hold at most what their arrays hold, and only valid entries.\<close>

definition nsnoop_opts_inv :: "nsnoop_opts \<Rightarrow> bool" where
  "nsnoop_opts_inv g \<longleftrightarrow>
     length (no_cmd_filter g) \<le> MAX_NFS_COMMANDS \<and> (\<forall>c \<in> set (no_cmd_filter g). c < 70) \<and>
     length (no_err_filter g) \<le> MAX_ERROR_CODES \<and> set (no_err_filter g) \<subseteq> set nfs4_errors \<and>
     (no_cmd_filter_set g = (no_cmd_filter g \<noteq> [])) \<and> (no_err_filter_set g = (no_err_filter g \<noteq> []))"

section \<open>Facts\<close>

lemma nfsiosnoop_select_enables:
  "enabled (nfsiosnoop_select sys) =
             {if nss_tracepoint_exists sys then
                if tracepoint_has_lazy_preempt (nss_formats sys) then P_trace_nfs4_xdr_status_lazy
                else P_trace_nfs4_xdr_status
              else if nss_fentry_can_attach sys then P_nsnoop_rpc_done_exit else P_nsnoop_rpc_done_kprobe}"
  by (simp add: nfsiosnoop_select_def enabled_enum enum_nsnoop_prog_def Let_def)

lemma nfs4_errors_sorted: "sorted_wrt (<) nfs4_errors" and nfs4_errors_length: "length nfs4_errors = 113"
  by code_simp+

lemma validate_iff: "validate_err_code code \<longleftrightarrow> code \<in> set nfs4_errors"
  using bsearch_iff [OF nfs4_errors_sorted, of "compare_ints code" code] nfs4_errors_length
  by (simp add: validate_err_code_def compare_ints_def)

lemma nfs4_errors_positive: "\<forall>c \<in> set nfs4_errors. 0 < c \<and> c < 2 ^ 31"
  by (simp add: nfs4_errors_def)

lemma nsnoop_cmd_loop_inv:
  "length f \<le> 70 \<Longrightarrow> \<forall>c \<in> set f. c < 70 \<Longrightarrow>
   length (nsnoop_cmd_loop ts f) \<le> 70 \<and> (\<forall>c \<in> set (nsnoop_cmd_loop ts f). c < 70)"
proof (induction ts arbitrary: f)
  case Nil
  then show ?case by simp
next
  case (Cons t ts)
  have "(word_of_int (atoi t) :: u16) < 70" if "0 \<le> atoi t" "atoi t < 70"
    using that by (simp add: word_less_def uint_word_of_int)
  then show ?case
    using Cons.prems Cons.IH [of f] Cons.IH [of "f @ [word_of_int (atoi t)]"] by (auto simp: Let_def)
qed

lemma nsnoop_err_loop_inv:
  "length f \<le> 113 \<Longrightarrow> set f \<subseteq> set nfs4_errors \<Longrightarrow>
   length (snd (nsnoop_err_loop ts f)) \<le> 113 \<and> set (snd (nsnoop_err_loop ts f)) \<subseteq> set nfs4_errors"
  by (induction ts arbitrary: f) (auto simp: Let_def validate_iff)

lemma nsnoop_opts_inv_step:
  assumes "nsnoop_opts_inv g" and "nsnoop_parse_arg ok key arg g = Parsed g'"
  shows "nsnoop_opts_inv g'"
  using assms nsnoop_cmd_loop_inv [of "no_cmd_filter g" "tokens arg"]
    nsnoop_err_loop_inv [of "no_err_filter g" "tokens arg"]
  by (cases key)
     (auto simp: nsnoop_parse_arg_def nsnoop_opts_inv_def nsnoop_parse_cmd_list_def
        nsnoop_parse_err_list_def Let_def split: if_splits prod.splits)

lemma nsnoop_opts_inv_parse:
  "nsnoop_opts_inv g \<Longrightarrow> argp_parse (nsnoop_parse_arg ok) opts g = Parsed g' \<Longrightarrow> nsnoop_opts_inv g'"
proof (induction opts arbitrary: g)
  case Nil
  then show ?case by simp
next
  case (Cons opt opts)
  obtain k arg where "opt = (k, arg)" by (cases opt)
  with Cons show ?case
    by (cases "nsnoop_parse_arg ok k arg g") (auto dest: nsnoop_opts_inv_step)
qed

lemma nsnoop_err_loop_decimal:
  "\<forall>n \<in> set ns. int n \<in> set nfs4_errors \<Longrightarrow> length f + length ns \<le> 113 \<Longrightarrow>
   nsnoop_err_loop (map dec ns) f = (True, f @ map int ns)"
proof (induction ns arbitrary: f)
  case Nil
  then show ?case by simp
next
  case (Cons n ns)
  have n: "0 < n" "n < 2 ^ 31" "validate_err_code (int n)"
    using Cons.prems(1) nfs4_errors_positive by (auto simp: validate_iff)
  then have "strtol 10 (dec n) = \<lparr>num_val = int n, num_end = [], num_erange = False\<rparr>"
    using strtol_dec [of "[]" n] by simp
  moreover have "to_int (int n) = int n" using n by (intro to_int_small) auto
  ultimately show ?case using Cons n by (simp add: Let_def)
qed

section \<open>Properties\<close>

text \<open>
  The binary search of nfsiosnoop over its table of NFSv4 errors accepts exactly the codes of
  the table: the table is strictly ascending and has the number of entries the search is told.
\<close>

theorem nfsiosnoop_validate_exact: "validate_err_code code \<longleftrightarrow> code \<in> set nfs4_errors"
  by (rule validate_iff)

text \<open>
  When nfsiosnoop reaches its wait loop, exactly one program is enabled, the one for the
  layout of the trace record where there is a tracepoint, a list was given, and the BPF side
  starts with an empty ring buffer and with allow lists that hold exactly the entries of the
  filters: an error filter admits known NFSv4 errors only, a command filter only command codes.
\<close>

lemma nfsiosnoop_main_state:
  assumes "nfsiosnoop_main ok open_ok sys opts = Parsed (Waiting sk s)"
  shows "\<exists>g. argp_parse (nsnoop_parse_arg ok) opts nsnoop_opts_init = Parsed g \<and>
           enabled sk =
             {if nss_tracepoint_exists sys then
                if tracepoint_has_lazy_preempt (nss_formats sys) then P_trace_nfs4_xdr_status_lazy
                else P_trace_nfs4_xdr_status
              else if nss_fentry_can_attach sys then P_nsnoop_rpc_done_exit else P_nsnoop_rpc_done_kprobe} \<and>
           nsnoop_aodrb s = [] \<and> (no_cmd_filter g \<noteq> [] \<or> no_err_filter g \<noteq> []) \<and>
           set (no_err_filter g) \<subseteq> set nfs4_errors \<and> (\<forall>c \<in> set (no_cmd_filter g). c < 70) \<and>
           snoop_wakeup_data_size (nsnoop_rodata s) = ucast (no_wakeup_data_size g) \<and>
           (\<forall>err cmd. nsnoop_admits s err cmd =
              ((no_err_filter g = [] \<or> err \<in> word_of_int ` set (no_err_filter g)) \<and>
               (no_cmd_filter g = [] \<or> cmd \<in> set (no_cmd_filter g)))) \<and>
           dom (nsnoop_allowlist_cmds s) = set (no_cmd_filter g) \<and>
           dom (nsnoop_allowlist_errors s) = word_of_int ` set (no_err_filter g) \<and> nsnoop_opts_inv g"
proof -
  obtain g where g: "argp_parse (nsnoop_parse_arg ok) opts nsnoop_opts_init = Parsed g"
    using assms by (cases "argp_parse (nsnoop_parse_arg ok) opts nsnoop_opts_init")
      (auto simp: nfsiosnoop_main_def)
  have "nsnoop_opts_inv nsnoop_opts_init" by (simp add: nsnoop_opts_inv_def nsnoop_opts_init_def)
  then have inv: "nsnoop_opts_inv g" using g by (rule nsnoop_opts_inv_parse)
  obtain r1 cmds where c: "nsnoop_update_allowlist_cmds (nss_update_cmd sys) g Map.empty = (r1, cmds)"
    by (cases "nsnoop_update_allowlist_cmds (nss_update_cmd sys) g Map.empty")
  obtain r2 errs where e: "nsnoop_update_allowlist_errors (nss_update_err sys) g Map.empty = (r2, errs)"
    by (cases "nsnoop_update_allowlist_errors (nss_update_err sys) g Map.empty")
  have set: "no_cmd_filter_set g \<or> no_err_filter_set g" and sel: "nfsiosnoop_select sys = sk"
    and r: "\<not> r1 < 0" "\<not> r2 < 0"
    and s: "s = (nfsiosnoop_init (nsnoop_fill_rodata g))\<lparr>nsnoop_allowlist_cmds := cmds,
                  nsnoop_allowlist_errors := errs\<rparr>"
    using assms c e by (auto simp: nfsiosnoop_main_def g nfsiosnoop_init_def Let_def split: if_splits)
  have cmds: "no_cmd_filter_set g \<Longrightarrow> cmds k \<noteq> None \<longleftrightarrow> k \<in> set (no_cmd_filter g)" for k
    using allow_loop_ok [of "nss_update_cmd sys" "no_cmd_filter g" Map.empty r1 cmds k] c r
    by (simp add: nsnoop_update_allowlist_cmds_def)
  have errs: "no_err_filter_set g \<Longrightarrow> errs k \<noteq> None \<longleftrightarrow> k \<in> word_of_int ` set (no_err_filter g)" for k
    using allow_loop_ok [of "nss_update_err sys" "map word_of_int (no_err_filter g)" Map.empty r2 errs k] e r
    by (simp add: nsnoop_update_allowlist_errors_def)
  note en = nfsiosnoop_select_enables [of sys, unfolded sel]
  have "dom (nsnoop_allowlist_cmds s) = set (no_cmd_filter g)"
    using inv cmds c by (cases "no_cmd_filter_set g")
      (auto simp: s dom_def nsnoop_update_allowlist_cmds_def nsnoop_opts_inv_def)
  moreover have "dom (nsnoop_allowlist_errors s) = word_of_int ` set (no_err_filter g)"
    using inv errs e by (cases "no_err_filter_set g")
      (auto simp: s dom_def nsnoop_update_allowlist_errors_def nsnoop_opts_inv_def)
  moreover have "nsnoop_admits s err cmd =
              ((no_err_filter g = [] \<or> err \<in> word_of_int ` set (no_err_filter g)) \<and>
               (no_cmd_filter g = [] \<or> cmd \<in> set (no_cmd_filter g)))" for err cmd
    using inv cmds [of cmd] errs [of err]
    by (cases "no_cmd_filter_set g"; cases "no_err_filter_set g")
       (simp_all add: s nsnoop_admits_def nfsiosnoop_init_def nsnoop_fill_rodata_def nsnoop_opts_inv_def)
  ultimately show ?thesis
    using g en inv set by (auto simp: s nfsiosnoop_init_def nsnoop_opts_inv_def nsnoop_fill_rodata_def)
qed

lemma nfsiosnoop_main_ready:
  assumes "nfsiosnoop_main ok open_ok sys opts = Parsed (Waiting sk s)"
  shows "\<exists>g. argp_parse (nsnoop_parse_arg ok) opts nsnoop_opts_init = Parsed g \<and>
           enabled sk =
             {if nss_tracepoint_exists sys then
                if tracepoint_has_lazy_preempt (nss_formats sys) then P_trace_nfs4_xdr_status_lazy
                else P_trace_nfs4_xdr_status
              else if nss_fentry_can_attach sys then P_nsnoop_rpc_done_exit else P_nsnoop_rpc_done_kprobe} \<and>
           nsnoop_aodrb s = [] \<and> (no_cmd_filter g \<noteq> [] \<or> no_err_filter g \<noteq> []) \<and>
           set (no_err_filter g) \<subseteq> set nfs4_errors \<and> (\<forall>c \<in> set (no_cmd_filter g). c < 70) \<and>
           snoop_wakeup_data_size (nsnoop_rodata s) = ucast (no_wakeup_data_size g) \<and>
           (\<forall>err cmd. nsnoop_admits s err cmd =
              ((no_err_filter g = [] \<or> err \<in> word_of_int ` set (no_err_filter g)) \<and>
               (no_cmd_filter g = [] \<or> cmd \<in> set (no_cmd_filter g))))"
  using nfsiosnoop_main_state [OF assms] by (elim exE conjE) (intro exI conjI; assumption)

definition nsnoop_example_sys :: nsnoop_sys where
  "nsnoop_example_sys =
     \<lparr>nss_tracepoint_exists = True, nss_formats = [None, Some [''field: common_preempt_lazy_count'']],
      nss_fentry_can_attach = True, nss_load = 0, nss_update_cmd = (\<lambda>_. 0),
      nss_update_err = (\<lambda>_. 0), nss_attach = 0\<rparr>"

definition nsnoop_example_opts :: nsnoop_opts where
  "nsnoop_example_opts = nsnoop_opts_init\<lparr>no_err_filter_set := True, no_err_filter := [13]\<rparr>"

lemma nsnoop_example_parse:
  "argp_parse (nsnoop_parse_arg True) [(N_e, ''13'')] nsnoop_opts_init = Parsed nsnoop_example_opts"
  unfolding nsnoop_example_opts_def by code_simp

lemma nsnoop_example_select: "nfsiosnoop_select nsnoop_example_sys = sk \<Longrightarrow> enabled sk = {P_trace_nfs4_xdr_status_lazy}"
proof -
  assume sk: "nfsiosnoop_select nsnoop_example_sys = sk"
  have "tracepoint_has_lazy_preempt (nss_formats nsnoop_example_sys)"
    unfolding nsnoop_example_sys_def by code_simp
  then show ?thesis
    by (simp only: sk [symmetric] nfsiosnoop_select_enables) (simp add: nsnoop_example_sys_def)
qed

lemma nfsiosnoop_example_main:
  "\<exists>s. nfsiosnoop_main True True nsnoop_example_sys [(N_e, ''13'')] =
         Parsed (Waiting (nfsiosnoop_select nsnoop_example_sys) s)"
  by (simp only: nfsiosnoop_main_def nsnoop_example_parse bind_parsed.simps)
     (simp add: nsnoop_example_opts_def nsnoop_opts_init_def nsnoop_example_sys_def Let_def
        nsnoop_update_allowlist_cmds_def nsnoop_update_allowlist_errors_def bpf_map_update_elem_def)

text \<open>
  A list of known NFSv4 error codes written in decimal and separated by commas becomes
  exactly these codes in the error filter.
\<close>

theorem nfsiosnoop_err_list_roundtrip:
  assumes "\<forall>n \<in> set ns. int n \<in> set nfs4_errors" and "length ns \<le> MAX_ERROR_CODES"
  shows "nsnoop_parse_err_list True (commas (map dec ns)) [] = (int (length ns), map int ns)"
proof -
  have "CHR '','' \<notin> set (dec n)" for n
    using dec_digits [of n] by (auto simp: digit_val_def)
  then have "tokens (commas (map dec ns)) = map dec ns" by (intro tokens_commas) auto
  then show ?thesis
    using nsnoop_err_loop_decimal [OF assms(1), of "[]"] assms(2)
    by (simp add: nsnoop_parse_err_list_def)
qed

theorem nfsiosnoop_err_list_roundtrip_witness:
  "nsnoop_parse_err_list True (commas (map dec [10008, 13])) [] = (2, [10008, 13])"
  using nfsiosnoop_err_list_roundtrip [of "[10008, 13]"] by (simp add: nfs4_errors_def)

text \<open>
  The range check of an error code is made after the cut to \<open>int\<close>, so a number that is no
  NFSv4 error is accepted when its low 32 bits are one.
\<close>

theorem nfsiosnoop_err_code_wraps:
  assumes "code \<in> set nfs4_errors" and "k < 2 ^ 30"
  shows "nsnoop_err_loop [dec (nat code + k * 2 ^ 32)] [] = (True, [code])"
proof -
  have c: "0 < code" "code < 2 ^ 31" "validate_err_code code"
    using assms(1) nfs4_errors_positive by (auto simp: validate_iff)
  let ?n = "nat code + k * 2 ^ 32"
  have "?n < 2 ^ 63" using assms(2) c by auto
  then have st: "strtol 10 (dec ?n) = \<lparr>num_val = int ?n, num_end = [], num_erange = False\<rparr>"
    using strtol_dec [of "[]" ?n] by simp
  have "to_int (int ?n) = code"
  proof -
    have "take_bit 32 (int ?n) = take_bit 32 code"
      using c by (simp add: take_bit_eq_mod)
    then have "signed_take_bit 31 (int ?n) = signed_take_bit 31 code"
      by (simp add: signed_take_bit_eq_iff_take_bit_eq)
    also have "\<dots> = code" using c by (intro signed_take_bit_int_eq_self) auto
    finally show ?thesis by (simp add: to_int_def)
  qed
  with st c show ?thesis by (simp add: Let_def)
qed

theorem nfsiosnoop_err_code_wraps_witness:
  "4294967297 \<notin> set nfs4_errors \<and> nsnoop_err_loop [dec 4294967297] [] = (True, [1])"
  using nfsiosnoop_err_code_wraps [of 1 1] by (simp add: nfs4_errors_def)

end
