(* ===== verification/Smbiosnoop_Bpf.thy ===== *)
theory Smbiosnoop_Bpf
  imports Smb_Common
begin

text \<open>
  The BPF side of smbiosnoop (\<open>src/src/bpf/smbiosnoop.bpf.c\<close>): failed SMB commands, seen by
  the \<open>smb3_cmd_err\<close> tracepoint, are filtered by status and command and put into the ring buffer.
\<close>

section \<open>Program\<close>

record smbiosnoop_state =
  ssnoop_rodata :: iosnoop_rodata
  ssnoop_allowlist_errors :: "u32 \<Rightarrow> u8 option"
  ssnoop_allowlist_cmds :: "u16 \<Rightarrow> u8 option"
  ssnoop_aodrb :: aod_ring

definition smbiosnoop_get_flags :: "iosnoop_rodata \<Rightarrow> event bpf_env \<Rightarrow> nat \<Rightarrow> u64" where
  "smbiosnoop_get_flags ro e i =
     (if snoop_wakeup_data_size ro = 0 then 0
      else let size = rb_avail e i
           in if sint size \<ge> sint (snoop_wakeup_data_size ro)
              then BPF_RB_FORCE_WAKEUP else BPF_RB_NO_WAKEUP)"

definition smbiosnoop_trace_smb3_cmd_err ::
    "event bpf_env \<Rightarrow> (nat \<Rightarrow> u8) \<Rightarrow> smbiosnoop_state \<Rightarrow> smbiosnoop_state" where [probe_defs]:
  "smbiosnoop_trace_smb3_cmd_err e ctx s =
     (let a = view_smb3_cmd_err_args ctx;
          ro = ssnoop_rodata s;
          status = er_status a;
          command = er_cmd a
      in if status = 0 then s
         else if filter_errors ro \<noteq> 0 \<and> ssnoop_allowlist_errors s status = None then s
         else if filter_cmds ro \<noteq> 0 \<and> ssnoop_allowlist_cmds s command = None then s
         else if \<not> rb_reserve e (smbiosnoop_get_flags ro e 0) then s
         else let ev = (rb_mem e)\<lparr>ev_pid := ucast (drop_bit 32 (pid_tgid e)),
                         ev_cmd_end_time_ns := ktime e 0,
                         ev_metric := set_metric_retval status (ev_metric (rb_mem e)),
                         ev_rqst_id := er_mid a,
                         ev_command := command,
                         ev_tool := SMBIOSNOOP,
                         ev_task := comm e\<rparr>
              in s\<lparr>ssnoop_aodrb := ssnoop_aodrb s @ [(smbiosnoop_get_flags ro e 1, ev)]\<rparr>)"

section \<open>Specification\<close>

definition ssnoop_admits :: "smbiosnoop_state \<Rightarrow> u32 \<Rightarrow> u16 \<Rightarrow> bool" where
  "ssnoop_admits s status cmd \<longleftrightarrow>
     (filter_errors (ssnoop_rodata s) = 0 \<or> ssnoop_allowlist_errors s status \<noteq> None) \<and>
     (filter_cmds (ssnoop_rodata s) = 0 \<or> ssnoop_allowlist_cmds s cmd \<noteq> None)"

definition smbiosnoop_init :: "iosnoop_rodata \<Rightarrow> smbiosnoop_state" where
  "smbiosnoop_init ro =
     \<lparr>ssnoop_rodata = ro, ssnoop_allowlist_errors = Map.empty, ssnoop_allowlist_cmds = Map.empty,
      ssnoop_aodrb = []\<rparr>"

lemma smbiosnoop_get_flags_wakeup:
  "smbiosnoop_get_flags ro e i = wakeup_flags (snoop_wakeup_data_size ro) (rb_avail e i)"
  by (simp add: smbiosnoop_get_flags_def wakeup_flags_def Let_def)

section \<open>Properties\<close>

text \<open>
  Smbiosnoop reports exactly the failed commands its filters admit: a traced command puts at
  most one record into the ring buffer, with its status, command and message id, and does so iff
  the status is an error, status and command are on their allow lists (where a list was given)
  and a record can be reserved.
\<close>

theorem smbiosnoop_reports_iff_admitted:
  "let a = view_smb3_cmd_err_args ctx
   in if er_status a \<noteq> 0 \<and> ssnoop_admits s (er_status a) (er_cmd a) \<and>
         rb_reserve e (wakeup_flags (snoop_wakeup_data_size (ssnoop_rodata s)) (rb_avail e 0))
      then \<exists>f ev. ssnoop_aodrb (smbiosnoop_trace_smb3_cmd_err e ctx s) = ssnoop_aodrb s @ [(f, ev)] \<and>
             metric_retval (ev_metric ev) = er_status a \<and> ev_command ev = er_cmd a \<and>
             ev_rqst_id ev = er_mid a \<and> ev_tool ev = SMBIOSNOOP \<and> ev_cmd_end_time_ns ev = ktime e 0
      else smbiosnoop_trace_smb3_cmd_err e ctx s = s"
  by (auto simp: smbiosnoop_trace_smb3_cmd_err_def Let_def ssnoop_admits_def
      smbiosnoop_get_flags_wakeup metric_retval_set)

text \<open>
  With a non-zero wake-up size smbiosnoop never reports anything: it passes the wake-up flag,
  which is then never zero, to \<open>bpf_ringbuf_reserve\<close>, whose flags argument must be zero.
\<close>

theorem smbiosnoop_wakeup_size_silences:
  assumes "reserve_wants_no_flags e" and "snoop_wakeup_data_size (ssnoop_rodata s) \<noteq> 0"
  shows "smbiosnoop_trace_smb3_cmd_err e ctx s = s"
proof -
  have "\<not> rb_reserve e (wakeup_flags (snoop_wakeup_data_size (ssnoop_rodata s)) a)" for a
    using assms wakeup_flags_zero by (simp add: reserve_wants_no_flags_def)
  then show ?thesis
    by (simp add: smbiosnoop_trace_smb3_cmd_err_def Let_def smbiosnoop_get_flags_wakeup)
qed

theorem smbiosnoop_wakeup_size_silences_witness:
  "smbiosnoop_trace_smb3_cmd_err (aod_example_env 7 0) (\<lambda>_. 1)
     (smbiosnoop_init \<lparr>snoop_wakeup_data_size = 256, filter_errors = 0, filter_cmds = 0\<rparr>) =
   smbiosnoop_init \<lparr>snoop_wakeup_data_size = 256, filter_errors = 0, filter_cmds = 0\<rparr>"
  using smbiosnoop_wakeup_size_silences [of "aod_example_env 7 0"
      "smbiosnoop_init \<lparr>snoop_wakeup_data_size = 256, filter_errors = 0, filter_cmds = 0\<rparr>" "\<lambda>_. 1"]
  by (simp add: smbiosnoop_init_def aod_example_env_def reserve_wants_no_flags_def)

end
