(* ===== verification/Smbiosnoop_Loader.thy ===== *)
theory Smbiosnoop_Loader
  imports Smbiosnoop_Bpf Loader_Common
begin

text \<open>
  The loader of smbiosnoop (\<open>src/src/user/smbiosnoop.c\<close>): its filters and \<open>main\<close>. Unlike the
  other tools it rejects a list with an invalid entry. The arrays with their counts are the lists
  of the entries in use.
\<close>

section \<open>Code\<close>

record ssnoop_opts =
  sso_wakeup_data_size :: u64
  sso_cmd_filter :: "u16 list"
  sso_cmd_filter_set :: bool
  sso_err_filter :: "u32 list"
  sso_err_filter_set :: bool
  sso_verbose :: bool

definition ssnoop_opts_init :: ssnoop_opts where
  "ssnoop_opts_init =
     \<lparr>sso_wakeup_data_size = 0, sso_cmd_filter = [], sso_cmd_filter_set = False, sso_err_filter = [],
      sso_err_filter_set = False, sso_verbose = False\<rparr>"

text \<open>The loops over the tokens: \<open>None\<close> is the return of -1.\<close>

fun ssnoop_cmd_loop :: "string list \<Rightarrow> u16 list \<Rightarrow> u16 list option" where
  "ssnoop_cmd_loop [] f = Some f"
| "ssnoop_cmd_loop (token # ts) f =
     (let r = strtol 0 token; command = num_val r
      in if num_erange r \<or> num_end r \<noteq> [] \<or> command < 0 \<or> 20 \<le> command then None
         else if 20 \<le> length f then None
         else ssnoop_cmd_loop ts (f @ [word_of_int command]))"

definition ssnoop_parse_cmd_list :: "bool \<Rightarrow> string \<Rightarrow> u16 list \<Rightarrow> u16 list option" where
  "ssnoop_parse_cmd_list dup_ok arg f = (if \<not> dup_ok then None else ssnoop_cmd_loop (tokens arg) f)"

fun ssnoop_err_loop :: "string list \<Rightarrow> u32 list \<Rightarrow> u32 list option" where
  "ssnoop_err_loop [] f = Some f"
| "ssnoop_err_loop (token # ts) f =
     (let r = strtoull 0 token; status = num_val r
      in if num_erange r \<or> num_end r \<noteq> [] \<or> status = 0 \<or> 4294967295 < status then None
         else if 256 \<le> length f then None
         else ssnoop_err_loop ts (f @ [word_of_int status]))"

definition ssnoop_parse_err_list :: "bool \<Rightarrow> string \<Rightarrow> u32 list \<Rightarrow> u32 list option" where
  "ssnoop_parse_err_list dup_ok arg f = (if \<not> dup_ok then None else ssnoop_err_loop (tokens arg) f)"

definition ssnoop_parse_arg :: "bool \<Rightarrow> snoop_opt \<Rightarrow> string \<Rightarrow> ssnoop_opts \<Rightarrow> ssnoop_opts parsed" where
  "ssnoop_parse_arg dup_ok key arg g =
     (case key of
        N_w \<Rightarrow> let r = strtoull 10 arg
               in if num_erange r then Usage_exit
                  else Parsed (g\<lparr>sso_wakeup_data_size := word_of_int (num_val r)\<rparr>)
      | N_c \<Rightarrow> (case ssnoop_parse_cmd_list dup_ok arg (sso_cmd_filter g) of
                 None \<Rightarrow> Usage_exit
               | Some f \<Rightarrow> if f = [] then Usage_exit
                           else Parsed (g\<lparr>sso_cmd_filter_set := True, sso_cmd_filter := f\<rparr>))
      | N_e \<Rightarrow> (case ssnoop_parse_err_list dup_ok arg (sso_err_filter g) of
                 None \<Rightarrow> Usage_exit
               | Some f \<Rightarrow> if f = [] then Usage_exit
                           else Parsed (g\<lparr>sso_err_filter_set := True, sso_err_filter := f\<rparr>))
      | N_h \<Rightarrow> Help_exit
      | N_v \<Rightarrow> Parsed (g\<lparr>sso_verbose := True\<rparr>)
      | N_other \<Rightarrow> Parse_error)"

definition ssnoop_update_allowlist_cmds ::
    "(u16 \<Rightarrow> int) \<Rightarrow> ssnoop_opts \<Rightarrow> (u16 \<Rightarrow> u8 option) \<Rightarrow> int \<times> (u16 \<Rightarrow> u8 option)" where
  "ssnoop_update_allowlist_cmds rc g m = allow_loop rc (sso_cmd_filter g) m"

definition ssnoop_update_allowlist_errors ::
    "(u32 \<Rightarrow> int) \<Rightarrow> ssnoop_opts \<Rightarrow> (u32 \<Rightarrow> u8 option) \<Rightarrow> int \<times> (u32 \<Rightarrow> u8 option)" where
  "ssnoop_update_allowlist_errors rc g m = allow_loop rc (sso_err_filter g) m"

record ssnoop_sys =
  sss_load :: int
  sss_update_cmd :: "u16 \<Rightarrow> int"
  sss_update_err :: "u32 \<Rightarrow> int"
  sss_attach :: int

datatype ssnoop_prog = P_ssnoop_trace_smb3_cmd_err

definition ssnoop_fill_rodata :: "ssnoop_opts \<Rightarrow> iosnoop_rodata" where
  "ssnoop_fill_rodata g =
     \<lparr>snoop_wakeup_data_size = ucast (sso_wakeup_data_size g),
      filter_errors = (if sso_err_filter_set g then 1 else 0),
      filter_cmds = (if sso_cmd_filter_set g then 1 else 0)\<rparr>"

definition smbiosnoop_main ::
    "bool \<Rightarrow> bool \<Rightarrow> ssnoop_sys \<Rightarrow> (snoop_opt \<times> string) list \<Rightarrow>
     (ssnoop_prog, smbiosnoop_state) main_result parsed" where
  "smbiosnoop_main dup_ok open_ok sys opts =
     bind_parsed (argp_parse (ssnoop_parse_arg dup_ok) opts ssnoop_opts_init)
       (\<lambda>g. Parsed
         (if \<not> sso_cmd_filter_set g \<and> \<not> sso_err_filter_set g then Exit 1
          else if \<not> open_ok then Exit 1
          else let s = smbiosnoop_init (ssnoop_fill_rodata g);
                   err = sss_load sys
               in if err \<noteq> 0 then Exit (exit_status err)
                  else let (r, cmds) = ssnoop_update_allowlist_cmds (sss_update_cmd sys) g (ssnoop_allowlist_cmds s)
                       in if r < 0 then Exit (exit_status (- 1))
                          else let (r, errs) = ssnoop_update_allowlist_errors (sss_update_err sys) g
                                                 (ssnoop_allowlist_errors s)
                               in if r < 0 then Exit (exit_status (- 1))
                                  else let err = sss_attach sys
                                       in if err \<noteq> 0 then Exit (exit_status err)
                                          else Waiting skeleton_open
                                                 (s\<lparr>ssnoop_allowlist_cmds := cmds,
                                                    ssnoop_allowlist_errors := errs\<rparr>)))"

section \<open>Specification\<close>

definition ssnoop_opts_inv :: "ssnoop_opts \<Rightarrow> bool" where
  "ssnoop_opts_inv g \<longleftrightarrow>
     length (sso_cmd_filter g) \<le> MAX_SMB_COMMANDS \<and> (\<forall>c \<in> set (sso_cmd_filter g). c < 20) \<and>
     length (sso_err_filter g) \<le> MAX_SMB_STATUS_CODES \<and> 0 \<notin> set (sso_err_filter g) \<and>
     (sso_cmd_filter_set g = (sso_cmd_filter g \<noteq> [])) \<and> (sso_err_filter_set g = (sso_err_filter g \<noteq> []))"

section \<open>Facts\<close>

lemma ssnoop_cmd_loop_values:
  "ssnoop_cmd_loop ts f = Some f' \<Longrightarrow>
   f' = f @ map (\<lambda>t. word_of_int (num_val (strtol 0 t))) ts \<and>
   (\<forall>t \<in> set ts. num_end (strtol 0 t) = [] \<and> 0 \<le> num_val (strtol 0 t) \<and> num_val (strtol 0 t) < 20) \<and>
   (ts \<noteq> [] \<longrightarrow> length f' \<le> 20)"
proof (induction ts arbitrary: f)
  case Nil
  then show ?case by simp
next
  case (Cons t ts)
  then have ok: "num_end (strtol 0 t) = []" "0 \<le> num_val (strtol 0 t)" "num_val (strtol 0 t) < 20"
    and len: "length f < 20"
    and run: "ssnoop_cmd_loop ts (f @ [word_of_int (num_val (strtol 0 t))]) = Some f'"
    by (auto simp: Let_def split: if_splits)
  from Cons.IH [OF run] ok len show ?case by (cases ts) auto
qed

lemma ssnoop_err_loop_values:
  "ssnoop_err_loop ts f = Some f' \<Longrightarrow>
   f' = f @ map (\<lambda>t. word_of_int (num_val (strtoull 0 t))) ts \<and>
   (\<forall>t \<in> set ts. num_end (strtoull 0 t) = [] \<and> num_val (strtoull 0 t) \<noteq> 0 \<and>
                  num_val (strtoull 0 t) \<le> 4294967295) \<and>
   (ts \<noteq> [] \<longrightarrow> length f' \<le> 256)"
proof (induction ts arbitrary: f)
  case Nil
  then show ?case by simp
next
  case (Cons t ts)
  then have ok: "num_end (strtoull 0 t) = []" "num_val (strtoull 0 t) \<noteq> 0"
      "num_val (strtoull 0 t) \<le> 4294967295"
    and len: "length f < 256"
    and run: "ssnoop_err_loop ts (f @ [word_of_int (num_val (strtoull 0 t))]) = Some f'"
    by (auto simp: Let_def split: if_splits)
  from Cons.IH [OF run] ok len show ?case by (cases ts) auto
qed

lemma strtoull_nonneg: "0 \<le> num_val (strtoull b t)"
  by (simp add: strtoull_def split: option.splits)

lemma ssnoop_cmd_small:
  "0 \<le> i \<Longrightarrow> i < 20 \<Longrightarrow> (word_of_int i :: u16) < 20"
  by (simp add: word_less_def uint_word_of_int)

lemma ssnoop_err_nonzero:
  "0 \<le> i \<Longrightarrow> i \<noteq> 0 \<Longrightarrow> i \<le> 4294967295 \<Longrightarrow> (word_of_int i :: u32) \<noteq> 0"
  by (simp add: word_of_int_eq_0_iff) (use zdvd_not_zless in fastforce)

lemma ssnoop_opts_inv_step:
  assumes "ssnoop_opts_inv g" and "ssnoop_parse_arg ok key arg g = Parsed g'"
  shows "ssnoop_opts_inv g'"
proof (cases key)
  case N_c
  then obtain f where f: "ssnoop_cmd_loop (tokens arg) (sso_cmd_filter g) = Some f" "f \<noteq> []"
    and g': "g' = g\<lparr>sso_cmd_filter_set := True, sso_cmd_filter := f\<rparr>"
    using assms(2) by (auto simp: ssnoop_parse_arg_def ssnoop_parse_cmd_list_def split: option.splits if_splits)
  have "\<forall>c \<in> set f. c < 20"
    using ssnoop_cmd_loop_values [OF f(1)] assms(1) ssnoop_cmd_small by (auto simp: ssnoop_opts_inv_def)
  moreover have "length f \<le> 20"
    using ssnoop_cmd_loop_values [OF f(1)] assms(1) by (cases "tokens arg = []") (auto simp: ssnoop_opts_inv_def)
  ultimately show ?thesis using assms(1) f(2) by (simp add: g' ssnoop_opts_inv_def)
next
  case N_e
  then obtain f where f: "ssnoop_err_loop (tokens arg) (sso_err_filter g) = Some f" "f \<noteq> []"
    and g': "g' = g\<lparr>sso_err_filter_set := True, sso_err_filter := f\<rparr>"
    using assms(2) by (auto simp: ssnoop_parse_arg_def ssnoop_parse_err_list_def split: option.splits if_splits)
  have "0 \<notin> set f"
    using ssnoop_err_loop_values [OF f(1)] assms(1) ssnoop_err_nonzero strtoull_nonneg
    by (fastforce simp: ssnoop_opts_inv_def)
  moreover have "length f \<le> 256"
    using ssnoop_err_loop_values [OF f(1)] assms(1) by (cases "tokens arg = []") (auto simp: ssnoop_opts_inv_def)
  ultimately show ?thesis using assms(1) f(2) by (simp add: g' ssnoop_opts_inv_def)
qed (use assms in \<open>auto simp: ssnoop_parse_arg_def ssnoop_opts_inv_def Let_def split: if_splits\<close>)

lemma ssnoop_opts_inv_parse:
  "ssnoop_opts_inv g \<Longrightarrow> argp_parse (ssnoop_parse_arg ok) opts g = Parsed g' \<Longrightarrow> ssnoop_opts_inv g'"
proof (induction opts arbitrary: g)
  case Nil
  then show ?case by simp
next
  case (Cons opt opts)
  obtain k arg where "opt = (k, arg)" by (cases opt)
  with Cons show ?case
    by (cases "ssnoop_parse_arg ok k arg g") (auto dest: ssnoop_opts_inv_step)
qed

section \<open>Properties\<close>

text \<open>
  C36: smbiosnoop takes a list only when it is well formed from the first token to the last: every
  command is a complete number in decimal, octal or hexadecimal and below the number of commands,
  every status a complete number from 1 to 2^32 - 1; the filter then gains exactly these values in
  order, and never more than its array holds.
\<close>

theorem smbiosnoop_lists_strict:
  assumes "ssnoop_parse_cmd_list True arg f = Some f'" and "ssnoop_parse_err_list True arg' e = Some e'"
    and "length f \<le> MAX_SMB_COMMANDS" and "length e \<le> MAX_SMB_STATUS_CODES"
  shows "f' = f @ map (\<lambda>t. word_of_int (num_val (strtol 0 t))) (tokens arg) \<and>
         (\<forall>t \<in> set (tokens arg). num_end (strtol 0 t) = [] \<and>
           0 \<le> num_val (strtol 0 t) \<and> num_val (strtol 0 t) < int MAX_SMB_COMMANDS) \<and>
         length f' \<le> MAX_SMB_COMMANDS \<and>
         e' = e @ map (\<lambda>t. word_of_int (num_val (strtoull 0 t))) (tokens arg') \<and>
         (\<forall>t \<in> set (tokens arg'). num_end (strtoull 0 t) = [] \<and>
           0 < num_val (strtoull 0 t) \<and> num_val (strtoull 0 t) < 2 ^ 32) \<and>
         length e' \<le> MAX_SMB_STATUS_CODES"
proof -
  have c: "ssnoop_cmd_loop (tokens arg) f = Some f'" and er: "ssnoop_err_loop (tokens arg') e = Some e'"
    using assms(1,2) by (simp_all add: ssnoop_parse_cmd_list_def ssnoop_parse_err_list_def)
  note c' = ssnoop_cmd_loop_values [OF c] and e' = ssnoop_err_loop_values [OF er]
  have "length f' \<le> MAX_SMB_COMMANDS" using c' assms(3) by (cases "tokens arg = []") auto
  moreover have "length e' \<le> MAX_SMB_STATUS_CODES" using e' assms(4) by (cases "tokens arg' = []") auto
  moreover have "\<forall>t \<in> set (tokens arg'). num_end (strtoull 0 t) = [] \<and>
           0 < num_val (strtoull 0 t) \<and> num_val (strtoull 0 t) < 2 ^ 32"
  proof
    fix t assume "t \<in> set (tokens arg')"
    then show "num_end (strtoull 0 t) = [] \<and> 0 < num_val (strtoull 0 t) \<and> num_val (strtoull 0 t) < 2 ^ 32"
      using e' strtoull_nonneg [of 0 t] by force
  qed
  ultimately show ?thesis using c' e' by simp
qed

lemma ssnoop_examples:
  "tokens ''8,0x9'' = [''8'', ''0x9'']" "tokens ''0x16'' = [''0x16'']"
  "strtol 0 ''8'' = \<lparr>num_val = 8, num_end = [], num_erange = False\<rparr>"
  "strtol 0 ''0x9'' = \<lparr>num_val = 9, num_end = [], num_erange = False\<rparr>"
  "strtoull 0 ''0x16'' = \<lparr>num_val = 22, num_end = [], num_erange = False\<rparr>"
  by (simp_all add: tokens_def strtol_def strtoull_def scan_signed_def scan_prefixed_def
      scan_number_def split_sign_def isspace_def digit_val_def)

theorem smbiosnoop_lists_strict_witness:
  "ssnoop_parse_cmd_list True ''8,0x9'' [] = Some [8, 9] \<and> length [8, 9 :: u16] \<le> 20"
proof -
  have c: "ssnoop_parse_cmd_list True ''8,0x9'' [] = Some [8, 9]"
    and e: "ssnoop_parse_err_list True ''0x16'' [] = Some [22]"
    by (simp_all add: ssnoop_parse_cmd_list_def ssnoop_parse_err_list_def ssnoop_examples Let_def)
  from smbiosnoop_lists_strict [OF c e] c show ?thesis by (simp add: ssnoop_examples)
qed

text \<open>
  When smbiosnoop reaches its wait loop a list was given, the ring buffer is empty, and the
  BPF side admits exactly the statuses and commands of the lists that were given; status 0 is on
  no list.
\<close>

lemma smbiosnoop_main_state:
  assumes "smbiosnoop_main ok open_ok sys opts = Parsed (Waiting sk s)"
  shows "\<exists>g. argp_parse (ssnoop_parse_arg ok) opts ssnoop_opts_init = Parsed g \<and>
           ssnoop_aodrb s = [] \<and> (sso_cmd_filter g \<noteq> [] \<or> sso_err_filter g \<noteq> []) \<and>
           0 \<notin> set (sso_err_filter g) \<and>
           snoop_wakeup_data_size (ssnoop_rodata s) = ucast (sso_wakeup_data_size g) \<and>
           (\<forall>status cmd. ssnoop_admits s status cmd =
              ((sso_err_filter g = [] \<or> status \<in> set (sso_err_filter g)) \<and>
               (sso_cmd_filter g = [] \<or> cmd \<in> set (sso_cmd_filter g)))) \<and>
           dom (ssnoop_allowlist_cmds s) = set (sso_cmd_filter g) \<and>
           dom (ssnoop_allowlist_errors s) = set (sso_err_filter g) \<and> ssnoop_opts_inv g"
proof -
  obtain g where g: "argp_parse (ssnoop_parse_arg ok) opts ssnoop_opts_init = Parsed g"
    using assms by (cases "argp_parse (ssnoop_parse_arg ok) opts ssnoop_opts_init")
      (auto simp: smbiosnoop_main_def)
  have "ssnoop_opts_inv ssnoop_opts_init" by (simp add: ssnoop_opts_inv_def ssnoop_opts_init_def)
  then have inv: "ssnoop_opts_inv g" using g by (rule ssnoop_opts_inv_parse)
  obtain r1 cmds where c: "allow_loop (sss_update_cmd sys) (sso_cmd_filter g) Map.empty = (r1, cmds)"
    by (cases "allow_loop (sss_update_cmd sys) (sso_cmd_filter g) Map.empty")
  obtain r2 errs where e: "allow_loop (sss_update_err sys) (sso_err_filter g) Map.empty = (r2, errs)"
    by (cases "allow_loop (sss_update_err sys) (sso_err_filter g) Map.empty")
  have set: "sso_cmd_filter_set g \<or> sso_err_filter_set g" and r: "\<not> r1 < 0" "\<not> r2 < 0"
    and s: "s = (smbiosnoop_init (ssnoop_fill_rodata g))\<lparr>ssnoop_allowlist_cmds := cmds,
                  ssnoop_allowlist_errors := errs\<rparr>"
    using assms c e
    by (auto simp: smbiosnoop_main_def g smbiosnoop_init_def ssnoop_update_allowlist_cmds_def
        ssnoop_update_allowlist_errors_def Let_def split: if_splits)
  have cmds: "cmds k \<noteq> None \<longleftrightarrow> k \<in> set (sso_cmd_filter g)" for k
    using allow_loop_ok [OF c r(1)] by simp
  have errs: "errs k \<noteq> None \<longleftrightarrow> k \<in> set (sso_err_filter g)" for k
    using allow_loop_ok [OF e r(2)] by simp
  have "dom (ssnoop_allowlist_cmds s) = set (sso_cmd_filter g)" "dom (ssnoop_allowlist_errors s) = set (sso_err_filter g)"
    using cmds errs by (auto simp: s dom_def)
  moreover have "ssnoop_admits s status cmd =
              ((sso_err_filter g = [] \<or> status \<in> set (sso_err_filter g)) \<and>
               (sso_cmd_filter g = [] \<or> cmd \<in> set (sso_cmd_filter g)))" for status cmd
    using inv cmds errs
    by (simp add: s ssnoop_admits_def smbiosnoop_init_def ssnoop_fill_rodata_def ssnoop_opts_inv_def)
  ultimately show ?thesis
    using g inv set by (auto simp: s smbiosnoop_init_def ssnoop_opts_inv_def ssnoop_fill_rodata_def)
qed

lemma smbiosnoop_main_ready:
  assumes "smbiosnoop_main ok open_ok sys opts = Parsed (Waiting sk s)"
  shows "\<exists>g. argp_parse (ssnoop_parse_arg ok) opts ssnoop_opts_init = Parsed g \<and>
           ssnoop_aodrb s = [] \<and> (sso_cmd_filter g \<noteq> [] \<or> sso_err_filter g \<noteq> []) \<and>
           0 \<notin> set (sso_err_filter g) \<and>
           snoop_wakeup_data_size (ssnoop_rodata s) = ucast (sso_wakeup_data_size g) \<and>
           (\<forall>status cmd. ssnoop_admits s status cmd =
              ((sso_err_filter g = [] \<or> status \<in> set (sso_err_filter g)) \<and>
               (sso_cmd_filter g = [] \<or> cmd \<in> set (sso_cmd_filter g))))"
  using smbiosnoop_main_state [OF assms] by (elim exE conjE) (intro exI conjI; assumption)

definition ssnoop_example_sys :: ssnoop_sys where
  "ssnoop_example_sys = \<lparr>sss_load = 0, sss_update_cmd = (\<lambda>_. 0), sss_update_err = (\<lambda>_. 0), sss_attach = 0\<rparr>"

definition ssnoop_example_opts :: ssnoop_opts where
  "ssnoop_example_opts = ssnoop_opts_init\<lparr>sso_err_filter_set := True, sso_err_filter := [0x16]\<rparr>"

lemma ssnoop_example_parse:
  "argp_parse (ssnoop_parse_arg True) [(N_e, ''0x16'')] ssnoop_opts_init = Parsed ssnoop_example_opts"
  by (simp add: ssnoop_parse_arg_def ssnoop_parse_err_list_def ssnoop_opts_init_def ssnoop_examples
      ssnoop_example_opts_def Let_def)

lemma smbiosnoop_example_main:
  "\<exists>sk s. smbiosnoop_main True True ssnoop_example_sys [(N_e, ''0x16'')] = Parsed (Waiting sk s)"
  by (simp only: smbiosnoop_main_def ssnoop_example_parse bind_parsed.simps)
     (simp add: ssnoop_example_opts_def ssnoop_opts_init_def ssnoop_example_sys_def Let_def
        ssnoop_update_allowlist_cmds_def ssnoop_update_allowlist_errors_def bpf_map_update_elem_def)

end
