(* ===== verification/Tool_Runs.thy ===== *)
theory Tool_Runs
  imports Smbslower_Loader Nfsslower_Loader Nfsiosnoop_Loader
    Smbiosnoop_Loader Ringbuf_Shim
begin

text \<open>
  Runs of the tools as a whole: the state a loader leaves and any sequence of runs of the BPF
  programs from there. Two interfaces carry the proofs. A \<open>ring_writer\<close> is a tool seen from the ring
  buffer: it only appends, and what it appends is acceptable as long as its invariant holds. A
  \<open>hit_reporter\<close> is a tool that decides about each hit on the spot, without pending operations; with
  a fixed configuration it is a \<open>ring_writer\<close>.
\<close>

section \<open>Interfaces\<close>

locale ring_writer =
  fixes step :: "'s \<Rightarrow> 's \<Rightarrow> bool"
    and ring :: "'s \<Rightarrow> aod_ring"
    and inv :: "'s \<Rightarrow> bool"
    and ok :: "event \<Rightarrow> bool"
  assumes inv_step: "step s t \<Longrightarrow> inv s \<Longrightarrow> inv t"
    and step_appends: "step s t \<Longrightarrow> \<exists>new. ring t = ring s @ new"
    and inv_ok: "inv s \<Longrightarrow> ev \<in> snd ` set (ring s) \<Longrightarrow> ok ev"
    and ok_task: "ok ev \<Longrightarrow> length (ev_task ev) = 16"
begin

lemma inv_run: "step\<^sup>*\<^sup>* s t \<Longrightarrow> inv s \<Longrightarrow> inv t"
  by (induction rule: rtranclp_induct) (auto intro: inv_step)

lemma run_appends: "step\<^sup>*\<^sup>* s t \<Longrightarrow> \<exists>new. ring t = ring s @ new"
proof (induction rule: rtranclp_induct)
  case (step t u)
  then show ?case using step_appends by (metis append.assoc)
qed simp

lemma run_ok: "step\<^sup>*\<^sup>* s t \<Longrightarrow> inv s \<Longrightarrow> \<forall>ev \<in> snd ` set (ring t). ok ev"
  using inv_run inv_ok by blast

lemma step_new_ok: "step s t \<Longrightarrow> inv s \<Longrightarrow> ring t = ring s @ new \<Longrightarrow> ev \<in> snd ` set new \<Longrightarrow> ok ev"
  using inv_step inv_ok by fastforce

end

locale hit_reporter =
  fixes handle :: "'h \<Rightarrow> 's \<Rightarrow> 's"
    and ring :: "'s \<Rightarrow> aod_ring"
    and set_ring :: "aod_ring \<Rightarrow> 's \<Rightarrow> 's"
    and wanted :: "'s \<Rightarrow> 'h \<Rightarrow> bool"
    and report :: "'h \<Rightarrow> event"
  assumes handle_eq: "\<exists>fs. handle h s = set_ring (ring s @ map (\<lambda>f. (f, report h)) fs) s \<and>
                           length fs = (if wanted s h then 1 else 0)"
    and ring_set: "ring (set_ring r s) = r"
    and wanted_set: "wanted (set_ring r s) h = wanted s h"
begin

lemma handle_records: "map snd (ring (handle h s)) = map snd (ring s) @ (if wanted s h then [report h] else [])"
proof -
  obtain fs where "handle h s = set_ring (ring s @ map (\<lambda>f. (f, report h)) fs) s"
    and "length fs = (if wanted s h then 1 else 0)"
    using handle_eq by blast
  then show ?thesis by (cases fs) (auto simp: ring_set split: if_splits)
qed

lemma wanted_handle: "wanted (handle h s) h' = wanted s h'"
  using handle_eq [of h s] wanted_set by auto

lemma handle_appends: "\<exists>new. ring (handle h s) = ring s @ new"
  using handle_eq [of h s] ring_set by auto

lemma run_records:
  "map snd (ring (fold handle hits s)) = map snd (ring s) @ map report (filter (wanted s) hits)"
  by (induction hits arbitrary: s) (auto simp: handle_records wanted_handle cong: filter_cong)

end

text \<open>A reporter that starts in \<open>s0\<close> and gets hits of the kind \<open>good\<close>.\<close>

locale configured_reporter = hit_reporter handle ring set_ring wanted report
  for handle :: "'h \<Rightarrow> 's \<Rightarrow> 's" and ring and set_ring and wanted and report +
  fixes s0 :: 's and good :: "'h \<Rightarrow> bool"
  assumes good_task: "good h \<Longrightarrow> length (ev_task (report h)) = 16"
begin

definition writes :: "'s \<Rightarrow> 's \<Rightarrow> bool" where
  "writes s t \<longleftrightarrow> (\<exists>h. good h \<and> t = handle h s)"

definition hit_ok :: "event \<Rightarrow> bool" where
  "hit_ok ev \<longleftrightarrow> (\<exists>h. good h \<and> wanted s0 h \<and> ev = report h)"

definition configured :: "'s \<Rightarrow> bool" where
  "configured s \<longleftrightarrow> (\<forall>h. wanted s h = wanted s0 h) \<and> (\<forall>ev \<in> snd ` set (ring s). hit_ok ev)"

end

sublocale configured_reporter < writer: ring_writer writes ring configured hit_ok
proof
  fix s t assume "writes s t" and inv: "configured s"
  then obtain h where h: "good h" "t = handle h s" by (auto simp: writes_def)
  have "snd ` set (ring t) = snd ` set (ring s) \<union> (if wanted s h then {report h} else {})"
    using arg_cong [OF handle_records [of h s], of set] h by simp
  then show "configured t"
    using inv h unfolding configured_def hit_ok_def by (auto simp: wanted_handle simp del: image_iff)
next
  show "\<exists>new. ring t = ring s @ new" if "writes s t" for s t
    using that handle_appends by (auto simp: writes_def)
  show "hit_ok ev" if "configured s" "ev \<in> snd ` set (ring s)" for s ev
    using that by (auto simp: configured_def)
  show "length (ev_task ev) = 16" if "hit_ok ev" for ev
    using that good_task by (auto simp: hit_ok_def)
qed

section \<open>smbslower\<close>

text \<open>
  One run of any program of smbslower. \<open>bpf_get_current_comm\<close> fills 16 bytes.
\<close>

inductive smbslower_step :: "smbslower_state \<Rightarrow> smbslower_state \<Rightarrow> bool" where
  smb_alloc: "smbslower_step s (smbslower_alloc i s)"
| smb_release: "length (comm e) = 16 \<Longrightarrow> smbslower_step s (smbslower_release (v, km, e, p) s)"
| smb_begin: "smbslower_step s (smb_trace_begin i s)"
| smb_end: "length (comm e) = 16 \<Longrightarrow> smbslower_step s (smb_trace_end (w, e, ctx) s)"

inductive_cases smbslower_stepE: "smbslower_step s t"

text \<open>Every pending request and every record is on no deny list; a record is slow enough.\<close>

definition slow_record_ok :: "slower_rodata \<Rightarrow> (u16 \<Rightarrow> u8 option) \<Rightarrow> u8 \<Rightarrow> event \<Rightarrow> bool" where
  "slow_record_ok ro deny tool ev \<longleftrightarrow>
     deny (ev_command ev) = None \<and> min_lat_ns ro \<le> ev_metric ev \<and> ev_tool ev = tool \<and>
     length (ev_task ev) = 16"

definition smbslower_inv :: "slower_rodata \<Rightarrow> (u16 \<Rightarrow> u8 option) \<Rightarrow> smbslower_state \<Rightarrow> bool" where
  "smbslower_inv ro deny s \<longleftrightarrow>
     smb_rodata s = ro \<and> smb_denylist s = deny \<and>
     (\<forall>p pe. smb_temp s p = Some pe \<longrightarrow> deny (smbcommand pe) = None) \<and>
     (\<forall>k pe. smb_trace_temp s k = Some pe \<longrightarrow> deny (smbcommand pe) = None) \<and>
     (\<forall>ev \<in> snd ` set (smb_aodrb s). slow_record_ok ro deny SMBSLOWER ev)"

lemma smb_record_ok:
  assumes "deny cmd = None" and "\<not> lat < min_lat_ns ro" and "length (comm e) = 16"
  shows "slow_record_ok ro deny SMBSLOWER (smb_record e lat mid cmd)"
  using assms by (simp add: slow_record_ok_def smb_record_def)

lemma smbslower_exit_trace [simp]: "smb_trace_temp (smbslower_probe_exit e p s) = smb_trace_temp s"
  by (simp add: smbslower_probe_exit_def Let_def split: option.splits)

lemma complete_trace_temp [simp]: "smb_temp (complete_trace_event e k s) = smb_temp s"
  by (simp add: complete_trace_event_def Let_def split: option.splits)

lemma trace_begin_temp [simp]: "smb_temp (smb_trace_begin i s) = smb_temp s"
  by (cases i) (simp add: probe_defs Let_def split: option.splits)

lemma smbslower_inv_step:
  assumes "smbslower_step s t" and inv: "smbslower_inv ro deny s"
  shows "smbslower_inv ro deny t"
  using assms(1)
proof cases
  case (smb_alloc i)
  then show ?thesis using inv
    by (cases i) (auto simp: smbslower_inv_def smbslower_alloc_temp)
next
  case (smb_release e v km p)
  then show ?thesis using inv
    by (auto simp: smbslower_inv_def smbslower_release_eq smbslower_exit_aodrb intro!: smb_record_ok
        split: option.splits if_splits)
next
  case (smb_begin i)
  then show ?thesis using inv
    by (cases i) (auto simp: smbslower_inv_def smb_trace_begin_temp simp del: smb_trace_begin.simps
        split: if_splits)
next
  case (smb_end e w ctx)
  then show ?thesis using inv
    by (auto simp: smbslower_inv_def smb_trace_end_eq complete_trace_aodrb intro!: smb_record_ok
        split: option.splits if_splits)
qed

interpretation smb_writer: ring_writer smbslower_step smb_aodrb "smbslower_inv ro deny"
    "slow_record_ok ro deny SMBSLOWER" for ro deny
proof
  show "\<exists>new. smb_aodrb t = smb_aodrb s @ new" if "smbslower_step s t" for s t
    using that
    by cases (auto simp: smbslower_release_eq smbslower_exit_aodrb smb_trace_end_eq complete_trace_aodrb
        split_paired_all simp del: smb_trace_begin.simps)
qed (erule (1) smbslower_inv_step, auto simp: smbslower_inv_def slow_record_ok_def)

section \<open>nfsslower\<close>

text \<open>
  The slot a run of the exit program finds reused was filled by a run of an entry program, so with a
  command that is not denied.
\<close>

inductive nfsslower_step :: "nfsslower_state \<Rightarrow> nfsslower_state \<Rightarrow> bool" where
  nfs_enter: "nfsslower_step s (nfsslower_enter i s)"
| nfs_leave: "length (comm e) = 16 \<Longrightarrow>
     (case reused of None \<Rightarrow> True | Some pe \<Rightarrow> nslow_denylist s (nfscommand pe) = None) \<Longrightarrow>
     nfsslower_step s (nfsslower_leave (h, km, e, reused, task) s)"

inductive_cases nfsslower_stepE: "nfsslower_step s t"

definition nfsslower_inv :: "slower_rodata \<Rightarrow> (u16 \<Rightarrow> u8 option) \<Rightarrow> nfsslower_state \<Rightarrow> bool" where
  "nfsslower_inv ro deny s \<longleftrightarrow>
     nslow_rodata s = ro \<and> nslow_denylist s = deny \<and>
     (\<forall>p pe. nslow_temp s p = Some pe \<longrightarrow> deny (nfscommand pe) = None) \<and>
     (\<forall>ev \<in> snd ` set (nslow_aodrb s). slow_record_ok ro deny NFSSLOWER ev)"

lemma nslow_record_ok:
  assumes "deny cmd = None" and "\<not> lat < min_lat_ns ro" and "length (comm e) = 16"
  shows "slow_record_ok ro deny NFSSLOWER (nslow_record km e task lat cmd)"
  using assms by (simp add: slow_record_ok_def nslow_record_def)

lemma nfsslower_inv_step:
  assumes "nfsslower_step s t" and inv: "nfsslower_inv ro deny s"
  shows "nfsslower_inv ro deny t"
  using assms(1)
proof cases
  case (nfs_enter i)
  then show ?thesis using inv
    by (cases i) (auto simp: nfsslower_inv_def nfsslower_enter_eq nfsslower_entry_temp split: if_splits)
next
  case (nfs_leave e reused h km task)
  then show ?thesis using inv
    by (auto simp: nfsslower_inv_def nfsslower_leave_eq nfsslower_exit_aodrb intro!: nslow_record_ok
        split: option.splits if_splits)
qed

interpretation nfs_writer: ring_writer nfsslower_step nslow_aodrb "nfsslower_inv ro deny"
    "slow_record_ok ro deny NFSSLOWER" for ro deny
proof
  show "\<exists>new. nslow_aodrb t = nslow_aodrb s @ new" if "nfsslower_step s t" for s t
    using that
    by cases (auto simp: nfsslower_enter_eq nfsslower_leave_eq nfsslower_exit_aodrb split_paired_all)
qed (erule (1) nfsslower_inv_step, auto simp: nfsslower_inv_def slow_record_ok_def)

section \<open>smbiosnoop\<close>

text \<open>A sequence of hits of the tracepoint, and the record each one is to give.\<close>

type_synonym trace_hit = "event bpf_env \<times> (nat \<Rightarrow> u8)"

definition smbiosnoop_run :: "trace_hit list \<Rightarrow> smbiosnoop_state \<Rightarrow> smbiosnoop_state" where
  "smbiosnoop_run hits s = fold (\<lambda>(e, ctx). smbiosnoop_trace_smb3_cmd_err e ctx) hits s"

definition ssnoop_record :: "trace_hit \<Rightarrow> event" where
  "ssnoop_record hit =
     (case hit of (e, ctx) \<Rightarrow>
        (rb_mem e)\<lparr>ev_pid := ucast (drop_bit 32 (pid_tgid e)), ev_cmd_end_time_ns := ktime e 0,
           ev_metric := set_metric_retval (er_status (view_smb3_cmd_err_args ctx)) (ev_metric (rb_mem e)),
           ev_rqst_id := er_mid (view_smb3_cmd_err_args ctx),
           ev_command := er_cmd (view_smb3_cmd_err_args ctx), ev_tool := SMBIOSNOOP, ev_task := comm e\<rparr>)"

definition ssnoop_wanted :: "smbiosnoop_state \<Rightarrow> trace_hit \<Rightarrow> bool" where
  "ssnoop_wanted s hit \<longleftrightarrow>
     (case hit of (e, ctx) \<Rightarrow>
        let a = view_smb3_cmd_err_args ctx
        in er_status a \<noteq> 0 \<and> ssnoop_admits s (er_status a) (er_cmd a) \<and>
           rb_reserve e (wakeup_flags (snoop_wakeup_data_size (ssnoop_rodata s)) (rb_avail e 0)))"

lemma ssnoop_step:
  "\<exists>fs. smbiosnoop_trace_smb3_cmd_err e ctx s =
          s\<lparr>ssnoop_aodrb := ssnoop_aodrb s @ map (\<lambda>f. (f, ssnoop_record (e, ctx))) fs\<rparr> \<and>
        length fs = (if ssnoop_wanted s (e, ctx) then 1 else 0)"
  by (rule exI [of _ "if ssnoop_wanted s (e, ctx)
        then [smbiosnoop_get_flags (ssnoop_rodata s) e 1] else []"])
     (auto simp: smbiosnoop_trace_smb3_cmd_err_def Let_def ssnoop_admits_def ssnoop_wanted_def
        ssnoop_record_def smbiosnoop_get_flags_wakeup)

lemma ssnoop_wanted_aodrb [simp]: "ssnoop_wanted (s\<lparr>ssnoop_aodrb := x\<rparr>) hit = ssnoop_wanted s hit"
  by (simp add: ssnoop_wanted_def ssnoop_admits_def)

definition ssnoop_good :: "trace_hit \<Rightarrow> bool" where
  "ssnoop_good hit \<longleftrightarrow> length (comm (fst hit)) = 16"

interpretation ssnoop_reporter: configured_reporter
    "\<lambda>(e, ctx). smbiosnoop_trace_smb3_cmd_err e ctx" ssnoop_aodrb "\<lambda>r s. s\<lparr>ssnoop_aodrb := r\<rparr>"
    ssnoop_wanted ssnoop_record s0 ssnoop_good for s0
proof
  fix hit :: trace_hit and s
  obtain e ctx where "hit = (e, ctx)" by (cases hit)
  then show "\<exists>fs. (case hit of (e, ctx) \<Rightarrow> smbiosnoop_trace_smb3_cmd_err e ctx) s =
          s\<lparr>ssnoop_aodrb := ssnoop_aodrb s @ map (\<lambda>f. (f, ssnoop_record hit)) fs\<rparr> \<and>
        length fs = (if ssnoop_wanted s hit then 1 else 0)"
    using ssnoop_step by simp
qed (auto simp: ssnoop_record_def ssnoop_good_def split: prod.splits)

lemma smbiosnoop_run_records:
  "map snd (ssnoop_aodrb (smbiosnoop_run hits s)) =
     map snd (ssnoop_aodrb s) @ map ssnoop_record (filter (ssnoop_wanted s) hits)"
  unfolding smbiosnoop_run_def by (rule ssnoop_reporter.run_records)

section \<open>nfsiosnoop\<close>

text \<open>One hit of whatever the enabled program is attached to: a trace record, or an \<open>rpc_task\<close>.\<close>

type_synonym nfs_hit = "nfs_mem \<times> event bpf_env \<times> (nat \<Rightarrow> u8) \<times> ptr"

fun nfsiosnoop_hit :: "nsnoop_prog \<Rightarrow> nfs_hit \<Rightarrow> nfsiosnoop_state \<Rightarrow> nfsiosnoop_state" where
  "nfsiosnoop_hit P_trace_nfs4_xdr_status (km, e, ctx, task) s = trace_nfs4_xdr_status e ctx s"
| "nfsiosnoop_hit P_trace_nfs4_xdr_status_lazy (km, e, ctx, task) s = trace_nfs4_xdr_status_lazy e ctx s"
| "nfsiosnoop_hit P_nsnoop_rpc_done_exit (km, e, ctx, task) s = nfsiosnoop_rpc_done_exit km e task s"
| "nfsiosnoop_hit P_nsnoop_rpc_done_kprobe (km, e, ctx, task) s = nfsiosnoop_rpc_done_kprobe km e task s"

definition nfsiosnoop_run :: "nsnoop_prog \<Rightarrow> nfs_hit list \<Rightarrow> nfsiosnoop_state \<Rightarrow> nfsiosnoop_state" where
  "nfsiosnoop_run p hits s = fold (nfsiosnoop_hit p) hits s"

text \<open>What each program takes from a hit: transaction id, command, error, and whether it failed.\<close>

fun nfs_seen :: "nsnoop_prog \<Rightarrow> nfs_hit \<Rightarrow> u64 \<times> u16 \<times> s32 \<times> bool" where
  "nfs_seen P_trace_nfs4_xdr_status (km, e, ctx, task) =
     (let a = view_nfs4_xdr_status_args ctx in (ucast (xs_xid a), ucast (xs_op a), ucast (xs_error a), xs_error a \<noteq> 0))"
| "nfs_seen P_trace_nfs4_xdr_status_lazy (km, e, ctx, task) =
     (let a = view_nfs4_xdr_status_lazy_args ctx in (ucast (xl_xid a), ucast (xl_op a), ucast (xl_error a), xl_error a \<noteq> 0))"
| "nfs_seen _ (km, e, ctx, task) =
     (let status = task_tk_status km task
      in (ucast (bpf_ntohl km (rqst_rq_xid km (task_tk_rqstp km task))),
          ucast (proc_p_statidx km (task_rpc_proc km task)),
          (if sint status < 0 then - status else status), status \<noteq> 0))"

definition nfs_hit_record :: "nsnoop_prog \<Rightarrow> nfs_hit \<Rightarrow> event" where
  "nfs_hit_record p hit =
     (case hit of (km, e, ctx, task) \<Rightarrow>
        case nfs_seen p hit of (xid, cmd, err, failed) \<Rightarrow> nsnoop_record e xid cmd err)"

definition nfs_hit_wanted :: "nsnoop_prog \<Rightarrow> nfsiosnoop_state \<Rightarrow> nfs_hit \<Rightarrow> bool" where
  "nfs_hit_wanted p s hit \<longleftrightarrow>
     (case hit of (km, e, ctx, task) \<Rightarrow>
        case nfs_seen p hit of (xid, cmd, err, failed) \<Rightarrow>
          failed \<and> nsnoop_admits s err cmd \<and>
          rb_reserve e (wakeup_flags (snoop_wakeup_data_size (nsnoop_rodata s)) (rb_avail e 0)))"

lemma nfs_hit_step:
  "\<exists>fs. nfsiosnoop_hit p hit s =
          s\<lparr>nsnoop_aodrb := nsnoop_aodrb s @ map (\<lambda>f. (f, nfs_hit_record p hit)) fs\<rparr> \<and>
        length fs = (if nfs_hit_wanted p s hit then 1 else 0)"
proof -
  obtain km e ctx task where hit: "hit = (km, e, ctx, task)" by (cases hit)
  show ?thesis
    by (rule exI [of _ "if nfs_hit_wanted p s hit
          then [wakeup_flags (snoop_wakeup_data_size (nsnoop_rodata s)) (rb_avail e 1)] else []"])
       (cases p; simp add: hit nfs_hit_wanted_def nfs_hit_record_def trace_nfs4_xdr_status_def
          trace_nfs4_xdr_status_lazy_def emit_xdr_status_eq nfsiosnoop_rpc_done_exit_def
          nfsiosnoop_rpc_done_kprobe_def nfsiosnoop_probe_entry_eq Let_def)
qed

lemma nfs_hit_wanted_aodrb [simp]: "nfs_hit_wanted p (s\<lparr>nsnoop_aodrb := x\<rparr>) hit = nfs_hit_wanted p s hit"
  by (cases hit) (simp add: nfs_hit_wanted_def nsnoop_admits_def)

definition nfs_hit_good :: "nfs_hit \<Rightarrow> bool" where
  "nfs_hit_good hit \<longleftrightarrow> (case hit of (km, e, ctx, task) \<Rightarrow> length (comm e) = 16)"

interpretation nsnoop_reporter: configured_reporter
    "nfsiosnoop_hit p" nsnoop_aodrb "\<lambda>r s. s\<lparr>nsnoop_aodrb := r\<rparr>" "nfs_hit_wanted p" "nfs_hit_record p"
    s0 nfs_hit_good for p s0
  by unfold_locales
     (use nfs_hit_step in \<open>auto simp: nfs_hit_record_def nsnoop_record_def nfs_hit_good_def
        split: prod.splits\<close>)

lemma nfsiosnoop_run_records:
  "map snd (nsnoop_aodrb (nfsiosnoop_run p hits s)) =
     map snd (nsnoop_aodrb s) @ map (nfs_hit_record p) (filter (nfs_hit_wanted p s) hits)"
  unfolding nfsiosnoop_run_def by (rule nsnoop_reporter.run_records)

section \<open>A concrete run\<close>

text \<open>A request of 20 milliseconds, seen by the function probes of smbslower.\<close>

definition example_smb_run :: "smbslower_state \<Rightarrow> smbslower_state" where
  "example_smb_run s =
     smbslower_release (P_mid_release_single_direct_fentry, cifs_example_mem, aod_example_env 20000100 0, 64)
       (smbslower_alloc (P_mid_alloc_fexit, cifs_example_mem, aod_example_env 100 0, 64) s)"

lemma example_smb_run_steps: "smbslower_step\<^sup>*\<^sup>* s (example_smb_run s)"
proof -
  have "length (comm (aod_example_env 20000100 0)) = 16" by (simp add: aod_example_env_def zero_buf_def)
  then have "smbslower_step\<^sup>*\<^sup>* (smbslower_alloc (P_mid_alloc_fexit, cifs_example_mem, aod_example_env 100 0, 64) s)
      (example_smb_run s)"
    unfolding example_smb_run_def by (intro r_into_rtranclp smb_release)
  with smb_alloc show ?thesis by (rule converse_rtranclp_into_rtranclp)
qed

end
