(* ===== verification/Shared_Ring.thy ===== *)
theory Shared_Ring
  imports Tool_Runs Consumers "HOL-Library.Sublist"
begin

text \<open>
  The four tools of the network file systems at once, and the consumer that reads what they write:
  their loaders pin one ring buffer (\<open>aodrb\<close>, \<open>LIBBPF_PIN_BY_NAME\<close>), the programs of all of them append
  to it in any order, and the shim consumer takes batches from its head. \<open>smb_aodrb\<close> and its likes
  are what one tool has written; the records that nobody has read yet are \<open>m_ring\<close>.
\<close>

record machine =
  m_smb :: smbslower_state
  m_nfs :: nfsslower_state
  m_ssnoop :: smbiosnoop_state
  m_nsnoop :: nfsiosnoop_state
  m_ring :: ring
  m_ctx :: rb_context
  m_out :: "nat list list"

definition machine_of ::
    "smbslower_state \<Rightarrow> nfsslower_state \<Rightarrow> smbiosnoop_state \<Rightarrow> nfsiosnoop_state \<Rightarrow> rb_context \<Rightarrow> machine" where
  "machine_of s1 s2 s3 s4 ctx =
     \<lparr>m_smb = s1, m_nfs = s2, m_ssnoop = s3, m_nsnoop = s4, m_ring = [], m_ctx = ctx, m_out = []\<rparr>"

text \<open>What a tool appended to its ring, in the order of the records, arrives in the shared one.\<close>

definition publish :: "event list \<Rightarrow> machine \<Rightarrow> machine" where
  "publish new m = m\<lparr>m_ring := m_ring m @ map encode_event new\<rparr>"

text \<open>One step, with the events it wrote; \<open>p\<close> is the program that nfsiosnoop has enabled, whichever it is.\<close>

inductive shared_step ::
    "(u64 \<Rightarrow> string) \<Rightarrow> nsnoop_prog \<Rightarrow> machine \<Rightarrow> event list \<Rightarrow> machine \<Rightarrow> bool" for np_ms p where
  by_smbslower: "smbslower_step (m_smb m) t \<Longrightarrow> smb_aodrb t = smb_aodrb (m_smb m) @ new \<Longrightarrow>
     shared_step np_ms p m (map snd new) (publish (map snd new) (m\<lparr>m_smb := t\<rparr>))"
| by_nfsslower: "nfsslower_step (m_nfs m) t \<Longrightarrow> nslow_aodrb t = nslow_aodrb (m_nfs m) @ new \<Longrightarrow>
     shared_step np_ms p m (map snd new) (publish (map snd new) (m\<lparr>m_nfs := t\<rparr>))"
| by_smbiosnoop: "length (comm e) = 16 \<Longrightarrow> t = smbiosnoop_trace_smb3_cmd_err e ctx (m_ssnoop m) \<Longrightarrow>
     ssnoop_aodrb t = ssnoop_aodrb (m_ssnoop m) @ new \<Longrightarrow>
     shared_step np_ms p m (map snd new) (publish (map snd new) (m\<lparr>m_ssnoop := t\<rparr>))"
| by_nfsiosnoop: "length (comm e) = 16 \<Longrightarrow> t = nfsiosnoop_hit p (km, e, ctx, task) (m_nsnoop m) \<Longrightarrow>
     nsnoop_aodrb t = nsnoop_aodrb (m_nsnoop m) @ new \<Longrightarrow>
     shared_step np_ms p m (map snd new) (publish (map snd new) (m\<lparr>m_nsnoop := t\<rparr>))"
| by_consumer: "polls_in_order poll \<Longrightarrow> length buf = 2048 * 48 \<Longrightarrow>
     shim_round np_ms poll buf (m_ctx m) (m_ring m) = (count, lines, ctx', rest) \<Longrightarrow>
     shared_step np_ms p m [] (m\<lparr>m_ring := rest, m_ctx := ctx', m_out := m_out m @ lines\<rparr>)"

inductive_cases shared_stepE: "shared_step np_ms p m log m'"

text \<open>A run, with all events that were written, in order.\<close>

inductive shared_run ::
    "(u64 \<Rightarrow> string) \<Rightarrow> nsnoop_prog \<Rightarrow> machine \<Rightarrow> event list \<Rightarrow> machine \<Rightarrow> bool" for np_ms p where
  run_start: "shared_run np_ms p m [] m"
| run_step: "shared_run np_ms p m log m1 \<Longrightarrow> shared_step np_ms p m1 new m2 \<Longrightarrow> shared_run np_ms p m (log @ new) m2"

text \<open>Every tool can always go on: what it appends is determined by its own step.\<close>

lemma smbslower_goes_on:
  assumes "smbslower_step (m_smb m) t"
  shows "\<exists>new. shared_step np_ms p m new (publish new (m\<lparr>m_smb := t\<rparr>))"
  using smb_writer.step_appends [OF assms] by_smbslower [OF assms] by blast

section \<open>The specification\<close>

text \<open>What the options of the four tools ask for, told from the event alone.\<close>

definition event_selected ::
    "slower_opts \<Rightarrow> slower_opts \<Rightarrow> ssnoop_opts \<Rightarrow> nsnoop_opts \<Rightarrow> event \<Rightarrow> bool" where
  "event_selected g1 g2 g3 g4 e \<longleftrightarrow>
     (if ev_tool e = SMBSLOWER then
        unat (ev_command e) \<notin> denied 20 g1 \<and> so_min_lat_ms g1 * 1000000 \<le> ev_metric e
      else if ev_tool e = NFSSLOWER then
        unat (ev_command e) \<notin> denied 70 g2 \<and> so_min_lat_ms g2 * 1000000 \<le> ev_metric e
      else if ev_tool e = SMBIOSNOOP then
        metric_retval (ev_metric e) \<noteq> 0 \<and>
        (sso_err_filter g3 = [] \<or> metric_retval (ev_metric e) \<in> set (sso_err_filter g3)) \<and>
        (sso_cmd_filter g3 = [] \<or> ev_command e \<in> set (sso_cmd_filter g3))
      else
        ev_tool e = NFSIOSNOOP \<and>
        (no_err_filter g4 = [] \<or> metric_retval (ev_metric e) \<in> word_of_int ` set (no_err_filter g4)) \<and>
        (no_cmd_filter g4 = [] \<or> ev_command e \<in> set (no_cmd_filter g4)))"

text \<open>What each tool writes, given the state its loader left.\<close>

definition written_ok ::
    "smbslower_state \<Rightarrow> nfsslower_state \<Rightarrow> smbiosnoop_state \<Rightarrow> nfsiosnoop_state \<Rightarrow> nsnoop_prog \<Rightarrow> event \<Rightarrow> bool" where
  "written_ok s1 s2 s3 s4 p e \<longleftrightarrow>
     slow_record_ok (smb_rodata s1) (smb_denylist s1) SMBSLOWER e \<or>
     slow_record_ok (nslow_rodata s2) (nslow_denylist s2) NFSSLOWER e \<or>
     ssnoop_reporter.hit_ok s3 e \<or> nsnoop_reporter.hit_ok p s4 e"

text \<open>The invariant: each tool keeps its own, and the consumer has the ring in order.\<close>

definition tools_inv ::
    "smbslower_state \<Rightarrow> nfsslower_state \<Rightarrow> smbiosnoop_state \<Rightarrow> nfsiosnoop_state \<Rightarrow> nsnoop_prog \<Rightarrow> machine \<Rightarrow> bool" where
  "tools_inv s1 s2 s3 s4 p m \<longleftrightarrow>
     smbslower_inv (smb_rodata s1) (smb_denylist s1) (m_smb m) \<and>
     nfsslower_inv (nslow_rodata s2) (nslow_denylist s2) (m_nfs m) \<and>
     ssnoop_reporter.configured s3 (m_ssnoop m) \<and> nsnoop_reporter.configured p s4 (m_nsnoop m)"

definition consumed :: "(u64 \<Rightarrow> string) \<Rightarrow> event list \<Rightarrow> machine \<Rightarrow> bool" where
  "consumed np_ms log m \<longleftrightarrow>
     \<not> rbc_fault (m_ctx m) \<and>
     (\<exists>taken unread printed. log = taken @ unread \<and> subseq printed taken \<and>
        m_ring m = map encode_event unread \<and>
        m_out m = map (\<lambda>e. shim_line np_ms (shim_item_of (encode_event e))) printed)"

section \<open>Facts\<close>

lemma publish_sel [simp]:
  "m_smb (publish new m) = m_smb m" "m_nfs (publish new m) = m_nfs m" "m_ssnoop (publish new m) = m_ssnoop m"
  "m_nsnoop (publish new m) = m_nsnoop m" "m_ring (publish new m) = m_ring m @ map encode_event new"
  "m_ctx (publish new m) = m_ctx m" "m_out (publish new m) = m_out m"
  by (simp_all add: publish_def)

lemma ssnoop_writes:
  "length (comm e) = 16 \<Longrightarrow> ssnoop_reporter.writes s (smbiosnoop_trace_smb3_cmd_err e ctx s)"
  by (auto simp: ssnoop_reporter.writes_def ssnoop_good_def)

lemma nsnoop_writes:
  "length (comm e) = 16 \<Longrightarrow> nsnoop_reporter.writes p s (nfsiosnoop_hit p (km, e, ctx, task) s)"
  unfolding nsnoop_reporter.writes_def nfs_hit_good_def by auto

lemma written_task: "written_ok s1 s2 s3 s4 p e \<Longrightarrow> length (ev_task e) = 16"
  unfolding written_ok_def
  using smb_writer.ok_task nfs_writer.ok_task ssnoop_reporter.writer.ok_task nsnoop_reporter.writer.ok_task
  by blast

lemma tools_inv_step:
  assumes "shared_step np_ms p m new m'" and inv: "tools_inv s1 s2 s3 s4 p m"
  shows "tools_inv s1 s2 s3 s4 p m' \<and> (\<forall>e \<in> set new. written_ok s1 s2 s3 s4 p e)"
  using assms(1)
proof cases
  case (by_smbslower t new)
  with smb_writer.inv_step smb_writer.step_new_ok inv show ?thesis
    by (fastforce simp: tools_inv_def written_ok_def)
next
  case (by_nfsslower t new)
  with nfs_writer.inv_step nfs_writer.step_new_ok inv show ?thesis
    by (fastforce simp: tools_inv_def written_ok_def)
next
  case (by_smbiosnoop e t ctx new)
  with ssnoop_writes ssnoop_reporter.writer.inv_step ssnoop_reporter.writer.step_new_ok inv show ?thesis
    by (fastforce simp: tools_inv_def written_ok_def)
next
  case (by_nfsiosnoop e t km ctx task new)
  with nsnoop_writes nsnoop_reporter.writer.inv_step nsnoop_reporter.writer.step_new_ok inv show ?thesis
    by (fastforce simp: tools_inv_def written_ok_def)
qed (use inv in \<open>simp_all add: tools_inv_def\<close>)

lemma consumed_publish: "consumed np_ms log m \<Longrightarrow> m_ring m' = m_ring m @ map encode_event new \<Longrightarrow>
    m_ctx m' = m_ctx m \<Longrightarrow> m_out m' = m_out m \<Longrightarrow> consumed np_ms (log @ new) m'"
  unfolding consumed_def by (metis append.assoc map_append)

lemma consumed_step:
  assumes "shared_step np_ms p m new m'" and "consumed np_ms log m" and "\<forall>e \<in> set log. length (ev_task e) = 16"
  shows "consumed np_ms (log @ new) m'"
  using assms(1)
proof cases
  case (by_consumer poll buf count lines ctx' rest)
  from assms(2) obtain taken unread printed where log: "log = taken @ unread" "subseq printed taken"
      "m_ring m = map encode_event unread"
      "m_out m = map (\<lambda>e. shim_line np_ms (shim_item_of (encode_event e))) printed"
    and ctx: "\<not> rbc_fault (m_ctx m)"
    by (auto simp: consumed_def)
  have run: "shim_round np_ms poll buf (m_ctx m) (map encode_event unread) = (count, lines, ctx', rest)"
    using by_consumer log(3) by simp
  obtain k n where kn: "k \<le> n" "n \<le> length unread" "rest = map encode_event (drop n unread)"
      "lines = map (\<lambda>e. shim_line np_ms (shim_item_of (encode_event e))) (take k unread)" "\<not> rbc_fault ctx'"
    by (rule shim_round_prefix [OF by_consumer(3,4) ctx _ run]) (use assms(3) log(1) in auto)
  have "prefix (take k unread) (take n unread)"
    using kn(1) take_is_prefix [of k "take n unread"] by (simp add: min_absorb1)
  then have "subseq (printed @ take k unread) (taken @ take n unread)"
    by (rule list_emb_append_mono [OF log(2) prefix_imp_subseq])
  moreover have "log @ new = (taken @ take n unread) @ drop n unread" using log(1) by_consumer(1) by simp
  ultimately show ?thesis
    using kn log(4) by_consumer(2) unfolding consumed_def
    by (intro conjI exI [of _ "taken @ take n unread"] exI [of _ "drop n unread"]
        exI [of _ "printed @ take k unread"]) simp_all
qed (use assms(2) in \<open>auto intro: consumed_publish\<close>)

lemma shared_run_inv:
  assumes "shared_run np_ms p m log m'" and "tools_inv s1 s2 s3 s4 p m" and "consumed np_ms [] m"
  shows "tools_inv s1 s2 s3 s4 p m' \<and> (\<forall>e \<in> set log. written_ok s1 s2 s3 s4 p e) \<and> consumed np_ms log m'"
  using assms
proof (induction rule: shared_run.induct)
  case (run_step m log m1 new m2)
  then have inv: "tools_inv s1 s2 s3 s4 p m1" "\<forall>e \<in> set log. written_ok s1 s2 s3 s4 p e" "consumed np_ms log m1"
    by auto
  have "\<forall>e \<in> set log. length (ev_task e) = 16" using inv(2) written_task by blast
  with tools_inv_step [OF run_step.hyps(2) inv(1)] consumed_step [OF run_step.hyps(2) inv(3)] inv(2)
  show ?case by auto
qed simp

lemma ssnoop_hit_selected:
  assumes "ssnoop_reporter.hit_ok s e"
    and "\<forall>status cmd. ssnoop_admits s status cmd =
              ((sso_err_filter g = [] \<or> status \<in> set (sso_err_filter g)) \<and>
               (sso_cmd_filter g = [] \<or> cmd \<in> set (sso_cmd_filter g)))"
  shows "event_selected g1 g2 g g4 e"
  using assms
  by (auto simp: ssnoop_reporter.hit_ok_def ssnoop_wanted_def ssnoop_record_def event_selected_def
      metric_retval_set Let_def split: prod.splits)

lemma nsnoop_hit_selected:
  assumes "nsnoop_reporter.hit_ok p s e"
    and "\<forall>err cmd. nsnoop_admits s err cmd =
              ((no_err_filter g = [] \<or> err \<in> word_of_int ` set (no_err_filter g)) \<and>
               (no_cmd_filter g = [] \<or> cmd \<in> set (no_cmd_filter g)))"
  shows "event_selected g1 g2 g3 g e"
proof -
  obtain km en ctx task where e: "nfs_hit_wanted p s (km, en, ctx, task)" "e = nfs_hit_record p (km, en, ctx, task)"
    using assms(1) unfolding nsnoop_reporter.hit_ok_def by auto
  obtain xid cmd err failed where "nfs_seen p (km, en, ctx, task) = (xid, cmd, err, failed)"
    by (metis prod_cases4)
  with e assms(2) show ?thesis
    by (simp add: nfs_hit_wanted_def nfs_hit_record_def nsnoop_record_def event_selected_def metric_retval_set)
qed

lemma slow_record_selected:
  "slow_record_ok ro deny SMBSLOWER e \<Longrightarrow> min_lat_ns ro = so_min_lat_ms g1 * 1000000 \<Longrightarrow>
     (\<forall>cmd. deny cmd \<noteq> None \<longleftrightarrow> unat cmd \<in> denied 20 g1) \<Longrightarrow> event_selected g1 g2 g3 g4 e"
  "slow_record_ok ro deny NFSSLOWER e \<Longrightarrow> min_lat_ns ro = so_min_lat_ms g2 * 1000000 \<Longrightarrow>
     (\<forall>cmd. deny cmd \<noteq> None \<longleftrightarrow> unat cmd \<in> denied 70 g2) \<Longrightarrow> event_selected g1 g2 g3 g4 e"
  by (auto simp: slow_record_ok_def event_selected_def dest: spec [where x = "ev_command e"])

lemma polled_subseq: "subseq (polled es) es"
proof (induction es rule: polled.induct)
  case (1 es)
  show ?case
  proof (cases "es = []")
    case True
    then show ?thesis by (simp add: polled_short)
  next
    case False
    have "subseq (take MAX_BATCH es) (take (MAX_BATCH + 1) es)"
      by (rule prefix_imp_subseq) (metis min.absorb1 le_add1 take_is_prefix take_take)
    from list_emb_append_mono [OF this 1 [OF False]] False show ?thesis
      by (simp add: polled.simps [of es])
  qed
qed

text \<open>With enough further iterations, in which nothing new comes in, the consumer works off what is left.\<close>

lemma shared_machine_drains:
  assumes start: "tools_inv s1 s2 s3 s4 p m0" and none: "consumed np_ms [] m0"
    and run: "shared_run np_ms p m0 log m"
    and rounds: "\<forall>r \<in> set rounds. \<not> rd_exiting r \<and> polls_all (rd_poll r) \<and> length (rd_buf r) = 2048 * 48 \<and> rd_new r = []"
      "length (m_ring m) \<le> 2049 * length rounds"
  shows "\<exists>unread ctx'. m_ring m = map encode_event unread \<and> suffix unread log \<and>
    shim_loop np_ms rounds (m_ctx m) (m_ring m) =
      (False, map (\<lambda>e. shim_line np_ms (shim_item_of (encode_event e))) (polled unread), ctx', []) \<and>
    length unread \<le> length (polled unread) + length unread div 2049"
proof -
  from shared_run_inv [OF run start none]
  have log: "\<forall>e \<in> set log. length (ev_task e) = 16" and "consumed np_ms log m"
    using written_task by blast+
  then obtain taken unread where unread: "log = taken @ unread" "m_ring m = map encode_event unread"
    and ctx: "\<not> rbc_fault (m_ctx m)"
    by (auto simp: consumed_def)
  have "\<forall>e \<in> set unread. length (ev_task e) = 16" using log unread(1) by simp
  from shim_loop_drains [OF rounds(1) this ctx] rounds(2) unread length_polled [of unread] show ?thesis
    by (auto simp: suffix_def)
qed

text \<open>The state the four loaders leave: the invariants hold, and what may be written is what was asked for.\<close>

lemma four_loaders_ready:
  assumes main: "smbslower_main ok1 open1 present runs world opts1 = Parsed (Waiting sk1 s1)"
      "nfsslower_main ok2 open2 sys2 opts2 = Parsed (Waiting sk2 s2)"
      "smbiosnoop_main ok3 open3 sys3 opts3 = Parsed (Waiting sk3 s3)"
      "nfsiosnoop_main ok4 open4 sys4 opts4 = Parsed (Waiting sk4 s4)"
  obtains g1 g2 g3 g4 where "argp_parse (slower_parse_arg 20 ok1) opts1 (slower_opts_init 20) = Parsed g1"
    "argp_parse (nfsslower_parse_arg ok2) opts2 nfsslower_opts_init = Parsed g2"
    "argp_parse (ssnoop_parse_arg ok3) opts3 ssnoop_opts_init = Parsed g3"
    "argp_parse (nsnoop_parse_arg ok4) opts4 nsnoop_opts_init = Parsed g4"
    "tools_inv s1 s2 s3 s4 p (machine_of s1 s2 s3 s4 ctx)"
    "\<forall>e. written_ok s1 s2 s3 s4 p e \<longrightarrow> event_selected g1 g2 g3 g4 e"
proof -
  from smbslower_main_ready [OF main(1)] obtain g1
    where g1: "argp_parse (slower_parse_arg 20 ok1) opts1 (slower_opts_init 20) = Parsed g1"
      "min_lat_ns (smb_rodata s1) = so_min_lat_ms g1 * 1000000"
      "\<forall>cmd. smb_denylist s1 cmd \<noteq> None \<longleftrightarrow> unat cmd \<in> denied 20 g1"
      "smb_temp s1 = Map.empty" "smb_trace_temp s1 = Map.empty" "smb_aodrb s1 = []"
    by blast
  from nfsslower_main_ready [OF main(2)] obtain g2
    where g2: "argp_parse (nfsslower_parse_arg ok2) opts2 nfsslower_opts_init = Parsed g2"
      "min_lat_ns (nslow_rodata s2) = so_min_lat_ms g2 * 1000000"
      "\<forall>cmd. nslow_denylist s2 cmd \<noteq> None \<longleftrightarrow> unat cmd \<in> denied 70 g2"
      "nslow_temp s2 = Map.empty" "nslow_aodrb s2 = []"
    by blast
  from smbiosnoop_main_ready [OF main(3)] obtain g3
    where g3: "argp_parse (ssnoop_parse_arg ok3) opts3 ssnoop_opts_init = Parsed g3" "ssnoop_aodrb s3 = []"
      "\<forall>status cmd. ssnoop_admits s3 status cmd =
              ((sso_err_filter g3 = [] \<or> status \<in> set (sso_err_filter g3)) \<and>
               (sso_cmd_filter g3 = [] \<or> cmd \<in> set (sso_cmd_filter g3)))"
    by blast
  from nfsiosnoop_main_ready [OF main(4)] obtain g4
    where g4: "argp_parse (nsnoop_parse_arg ok4) opts4 nsnoop_opts_init = Parsed g4" "nsnoop_aodrb s4 = []"
      "\<forall>err cmd. nsnoop_admits s4 err cmd =
              ((no_err_filter g4 = [] \<or> err \<in> word_of_int ` set (no_err_filter g4)) \<and>
               (no_cmd_filter g4 = [] \<or> cmd \<in> set (no_cmd_filter g4)))"
    by blast
  have "tools_inv s1 s2 s3 s4 p (machine_of s1 s2 s3 s4 ctx)"
    using g1(4-6) g2(4-5) g3(2) g4(2)
    by (simp add: tools_inv_def machine_of_def smbslower_inv_def nfsslower_inv_def
        ssnoop_reporter.configured_def nsnoop_reporter.configured_def)
  moreover have "event_selected g1 g2 g3 g4 e" if "written_ok s1 s2 s3 s4 p e" for e
    using that ssnoop_hit_selected [OF _ g3(3)] nsnoop_hit_selected [OF _ g4(3)]
      slow_record_selected(1) [OF _ g1(2,3)] slow_record_selected(2) [OF _ g2(2,3)]
    unfolding written_ok_def by blast
  ultimately show thesis by (intro that [OF g1(1) g2(1) g3(1) g4(1)]) blast+
qed

section \<open>Properties\<close>

text \<open>
  C4: four tools and one ring buffer. Once the loaders of smbslower, nfsslower, smbiosnoop and
  nfsiosnoop wait, whatever runs of their programs happen, in whatever order, and however the consumer
  polls in between: every event that was written is one that the options of its tool ask for, the
  printed lines are those of a part of these events, in the order they were written and none twice,
  and the events after that part wait in the ring.
\<close>

theorem shared_ring_delivers_selected:
  assumes main: "smbslower_main ok1 open1 present runs world opts1 = Parsed (Waiting sk1 s1)"
      "nfsslower_main ok2 open2 sys2 opts2 = Parsed (Waiting sk2 s2)"
      "smbiosnoop_main ok3 open3 sys3 opts3 = Parsed (Waiting sk3 s3)"
      "nfsiosnoop_main ok4 open4 sys4 opts4 = Parsed (Waiting sk4 s4)"
    and "\<not> rbc_fault ctx"
    and run: "shared_run np_ms p (machine_of s1 s2 s3 s4 ctx) log m"
  shows "\<exists>g1 g2 g3 g4. argp_parse (slower_parse_arg 20 ok1) opts1 (slower_opts_init 20) = Parsed g1 \<and>
    argp_parse (nfsslower_parse_arg ok2) opts2 nfsslower_opts_init = Parsed g2 \<and>
    argp_parse (ssnoop_parse_arg ok3) opts3 ssnoop_opts_init = Parsed g3 \<and>
    argp_parse (nsnoop_parse_arg ok4) opts4 nsnoop_opts_init = Parsed g4 \<and>
    (\<forall>e \<in> set log. event_selected g1 g2 g3 g4 e) \<and>
    (\<exists>taken unread printed. log = taken @ unread \<and> subseq printed taken \<and>
       m_ring m = map encode_event unread \<and>
       m_out m = map (\<lambda>e. shim_line np_ms (shim_item_of (encode_event e))) printed)"
proof -
  obtain g1 g2 g3 g4 where parsed: "argp_parse (slower_parse_arg 20 ok1) opts1 (slower_opts_init 20) = Parsed g1"
      "argp_parse (nfsslower_parse_arg ok2) opts2 nfsslower_opts_init = Parsed g2"
      "argp_parse (ssnoop_parse_arg ok3) opts3 ssnoop_opts_init = Parsed g3"
      "argp_parse (nsnoop_parse_arg ok4) opts4 nsnoop_opts_init = Parsed g4"
    and start: "tools_inv s1 s2 s3 s4 p (machine_of s1 s2 s3 s4 ctx)"
    and selected: "\<forall>e. written_ok s1 s2 s3 s4 p e \<longrightarrow> event_selected g1 g2 g3 g4 e"
    by (rule four_loaders_ready [OF main])
  have "consumed np_ms [] (machine_of s1 s2 s3 s4 ctx)"
    using assms(5) by (simp add: consumed_def machine_of_def)
  with shared_run_inv [OF run start] selected parsed show ?thesis unfolding consumed_def by blast
qed

text \<open>
  Whatever the four tools have written and whatever the consumer has read so far, it works off what
  is left: with enough iterations, in which nothing new comes in, the ring is empty, and each event
  that was left has been printed, in order, but at most one in 2049.
\<close>

theorem shared_ring_drains:
  assumes main: "smbslower_main ok1 open1 present runs world opts1 = Parsed (Waiting sk1 s1)"
      "nfsslower_main ok2 open2 sys2 opts2 = Parsed (Waiting sk2 s2)"
      "smbiosnoop_main ok3 open3 sys3 opts3 = Parsed (Waiting sk3 s3)"
      "nfsiosnoop_main ok4 open4 sys4 opts4 = Parsed (Waiting sk4 s4)"
    and "\<not> rbc_fault ctx"
    and run: "shared_run np_ms p (machine_of s1 s2 s3 s4 ctx) log m"
    and rounds: "\<forall>r \<in> set rounds. \<not> rd_exiting r \<and> polls_all (rd_poll r) \<and> length (rd_buf r) = 2048 * 48 \<and> rd_new r = []"
      "length (m_ring m) \<le> 2049 * length rounds"
  shows "\<exists>unread ctx'. m_ring m = map encode_event unread \<and> suffix unread log \<and>
    shim_loop np_ms rounds (m_ctx m) (m_ring m) =
      (False, map (\<lambda>e. shim_line np_ms (shim_item_of (encode_event e))) (polled unread), ctx', []) \<and>
    length unread \<le> length (polled unread) + length unread div 2049"
  by (rule shared_machine_drains [OF four_loaders_ready [OF main] _ run rounds])
     (use assms(5) in \<open>simp_all add: consumed_def machine_of_def\<close>)

section \<open>Witness\<close>

text \<open>
  A request of 20 milliseconds, seen by the function probes of smbslower while nothing else happens,
  and then a poll.
\<close>

definition example_slow_event :: event where
  "example_slow_event = \<lparr>ev_pid = 0, ev_command = 8, ev_tool = 0, ev_cmd_end_time_ns = 20000100,
     ev_rqst_id = 64, ev_metric = 20000000, ev_task = zero_buf 16\<rparr>"

lemma example_written:
  fixes s2 s3 s4
  defines "s1 \<equiv> smbslower_init \<lparr>min_lat_ns = 10000000, slower_wakeup_data_size = 0\<rparr> Map.empty"
  shows "\<exists>m. shared_run np_ms p (machine_of s1 s2 s3 s4 example_ctx) [example_slow_event] m \<and>
    m_ring m = map encode_event [example_slow_event] \<and> m_ctx m = example_ctx \<and> m_out m = []"
proof -
  let ?m0 = "machine_of s1 s2 s3 s4 example_ctx"
  define t1 where "t1 = smbslower_alloc (P_mid_alloc_fexit, cifs_example_mem, aod_example_env 100 0, 64) s1"
  define t2 where "t2 = smbslower_release (P_mid_release_single_direct_fentry, cifs_example_mem, aod_example_env 20000100 0, 64) t1"
  have "smb_aodrb t1 = smb_aodrb s1 @ []"
    by (simp add: t1_def del: smbslower_alloc.simps)
  moreover have "smbslower_step s1 t1" unfolding t1_def by (rule smb_alloc)
  ultimately have a: "shared_step np_ms p ?m0 [] (publish [] (?m0\<lparr>m_smb := t1\<rparr>))"
    using by_smbslower [of ?m0 t1 "[]"] by (simp add: machine_of_def)
  let ?m1 = "publish [] (?m0\<lparr>m_smb := t1\<rparr>)"
  have len: "length (comm (aod_example_env 20000100 0)) = 16" by (simp add: aod_example_env_def zero_buf_def)
  have step: "smbslower_step (m_smb ?m1) t2" by (simp add: t2_def smb_release [OF len] del: smbslower_release.simps)
  have empty: "smb_aodrb t1 = []" by (simp add: t1_def s1_def smbslower_init_def del: smbslower_alloc.simps)
  have ev: "map snd (smb_aodrb t2) = [example_slow_event]"
    by (simp add: t2_def t1_def s1_def smbslower_release_eq smbslower_exit_aodrb smbslower_alloc_temp
      smbslower_init_def aod_example_env_def cifs_example_mem_def smb_record_def example_slow_event_def
      del: smbslower_alloc.simps)
  have b: "shared_step np_ms p ?m1 [example_slow_event] (publish [example_slow_event] (?m1\<lparr>m_smb := t2\<rparr>))"
    using by_smbslower [OF step, of "smb_aodrb t2" np_ms p] empty ev by simp
  let ?m2 = "publish [example_slow_event] (?m1\<lparr>m_smb := t2\<rparr>)"
  from run_step [OF run_step [OF run_start a] b] show ?thesis
    by (intro exI conjI) (simp, simp_all add: machine_of_def)
qed

lemma example_shared_run:
  fixes s2 s3 s4
  defines "s1 \<equiv> smbslower_init \<lparr>min_lat_ns = 10000000, slower_wakeup_data_size = 0\<rparr> Map.empty"
  shows "\<exists>m. shared_run np_ms p (machine_of s1 s2 s3 s4 example_ctx) [example_slow_event] m \<and>
    m_out m = [shim_line np_ms (shim_item_of (encode_event example_slow_event))]"
proof -
  obtain m where run: "shared_run np_ms p (machine_of s1 s2 s3 s4 example_ctx) [example_slow_event] m"
    and m: "m_ring m = map encode_event [example_slow_event]" "m_ctx m = example_ctx" "m_out m = []"
    using example_written unfolding s1_def by blast
  obtain ctx' where "shim_round np_ms example_poll (replicate (2048 * 48) 0) example_ctx (map encode_event [example_slow_event]) =
      (int (min 2048 (length [example_slow_event])),
       map (\<lambda>e. shim_line np_ms (shim_item_of (encode_event e))) (take 2048 [example_slow_event]), ctx',
       map encode_event (drop (2048 + 1) [example_slow_event]))"
    by (rule shim_round_all [OF example_polls_all, of "replicate (2048 * 48) 0" example_ctx "[example_slow_event]"])
       (simp_all add: example_ctx_def example_slow_event_def zero_buf_def)
  then have "shared_step np_ms p m [] (m\<lparr>m_ring := [], m_ctx := ctx',
      m_out := m_out m @ [shim_line np_ms (shim_item_of (encode_event example_slow_event))]\<rparr>)"
    by (intro by_consumer [OF example_poll_in_order, of "replicate (2048 * 48) 0"]) (simp_all only: m length_replicate, simp)
  from run_step [OF run this] show ?thesis
    by (intro exI conjI) (simp, simp add: m)
qed

text \<open>The four tools started as in the examples of their loaders.\<close>

lemma example_mains:
  obtains sk1 sk2 s2 sk3 s3 sk4 s4 where
    "smbslower_main True True True [] (\<lambda>_. smb_example_sys 1) [(K_skip, [])] =
       Parsed (Waiting sk1 (smbslower_init \<lparr>min_lat_ns = 10000000, slower_wakeup_data_size = 0\<rparr> Map.empty))"
    "nfsslower_main True True nfs_example_sys [] = Parsed (Waiting sk2 s2)"
    "smbiosnoop_main True True ssnoop_example_sys [(N_e, ''0x16'')] = Parsed (Waiting sk3 s3)"
    "nfsiosnoop_main True True nsnoop_example_sys [(N_e, ''13'')] = Parsed (Waiting sk4 s4)"
  using smbslower_example_main nfsslower_example_main smbiosnoop_example_main nfsiosnoop_example_main by blast

theorem shared_ring_delivers_selected_witness:
  "\<exists>sk1 s1 sk2 s2 sk3 s3 sk4 s4 m.
     smbslower_main True True True [] (\<lambda>_. smb_example_sys 1) [(K_skip, [])] = Parsed (Waiting sk1 s1) \<and>
     nfsslower_main True True nfs_example_sys [] = Parsed (Waiting sk2 s2) \<and>
     smbiosnoop_main True True ssnoop_example_sys [(N_e, ''0x16'')] = Parsed (Waiting sk3 s3) \<and>
     nfsiosnoop_main True True nsnoop_example_sys [(N_e, ''13'')] = Parsed (Waiting sk4 s4) \<and>
     shared_run example_ms P_trace_nfs4_xdr_status_lazy (machine_of s1 s2 s3 s4 example_ctx) [example_slow_event] m \<and>
     m_out m = [shim_line example_ms (shim_item_of (encode_event example_slow_event))] \<and>
     (\<exists>g2 g3 g4. event_selected ((slower_opts_init 20)\<lparr>so_skip_tracepoints := True\<rparr>) g2 g3 g4 example_slow_event)"
proof -
  let ?s1 = "smbslower_init \<lparr>min_lat_ns = 10000000, slower_wakeup_data_size = 0\<rparr> Map.empty"
  obtain sk1 sk2 s2 sk3 s3 sk4 s4 where main1: "smbslower_main True True True [] (\<lambda>_. smb_example_sys 1) [(K_skip, [])] = Parsed (Waiting sk1 ?s1)"
    and main2: "nfsslower_main True True nfs_example_sys [] = Parsed (Waiting sk2 s2)"
    and main3: "smbiosnoop_main True True ssnoop_example_sys [(N_e, ''0x16'')] = Parsed (Waiting sk3 s3)"
    and main4: "nfsiosnoop_main True True nsnoop_example_sys [(N_e, ''13'')] = Parsed (Waiting sk4 s4)"
    by (rule example_mains)
  obtain m where run: "shared_run example_ms P_trace_nfs4_xdr_status_lazy (machine_of ?s1 s2 s3 s4 example_ctx) [example_slow_event] m"
    and out: "m_out m = [shim_line example_ms (shim_item_of (encode_event example_slow_event))]"
    using example_shared_run by blast
  have "\<not> rbc_fault example_ctx" by (simp add: example_ctx_def)
  from shared_ring_delivers_selected [OF main1 main2 main3 main4 this run]
  obtain g1 g2 g3 g4 where "argp_parse (slower_parse_arg 20 True) [(K_skip, [])] (slower_opts_init 20) = Parsed g1"
    and "event_selected g1 g2 g3 g4 example_slow_event"
    by auto
  then have "event_selected ((slower_opts_init 20)\<lparr>so_skip_tracepoints := True\<rparr>) g2 g3 g4 example_slow_event"
    by (simp add: slower_parse_arg_def)
  with main1 main2 main3 main4 run out show ?thesis by blast
qed

theorem shared_ring_drains_witness:
  "\<exists>s1 s2 s3 s4 m ctx'.
     shared_run example_ms P_trace_nfs4_xdr_status_lazy (machine_of s1 s2 s3 s4 example_ctx) [example_slow_event] m \<and>
     shim_loop example_ms [example_round []] (m_ctx m) (m_ring m) =
       (False, [shim_line example_ms (shim_item_of (encode_event example_slow_event))], ctx', [])"
proof -
  let ?s1 = "smbslower_init \<lparr>min_lat_ns = 10000000, slower_wakeup_data_size = 0\<rparr> Map.empty"
  obtain sk1 sk2 s2 sk3 s3 sk4 s4 where main1: "smbslower_main True True True [] (\<lambda>_. smb_example_sys 1) [(K_skip, [])] = Parsed (Waiting sk1 ?s1)"
    and main2: "nfsslower_main True True nfs_example_sys [] = Parsed (Waiting sk2 s2)"
    and main3: "smbiosnoop_main True True ssnoop_example_sys [(N_e, ''0x16'')] = Parsed (Waiting sk3 s3)"
    and main4: "nfsiosnoop_main True True nsnoop_example_sys [(N_e, ''13'')] = Parsed (Waiting sk4 s4)"
    by (rule example_mains)
  obtain m where run: "shared_run example_ms P_trace_nfs4_xdr_status_lazy (machine_of ?s1 s2 s3 s4 example_ctx) [example_slow_event] m"
    and ring: "m_ring m = map encode_event [example_slow_event]"
    using example_written by blast
  have ctx: "\<not> rbc_fault example_ctx" by (simp add: example_ctx_def)
  have rounds: "\<forall>r \<in> set [example_round []]. \<not> rd_exiting r \<and> polls_all (rd_poll r) \<and>
      length (rd_buf r) = 2048 * 48 \<and> rd_new r = []" "length (m_ring m) \<le> 2049 * length [example_round []]"
    by (simp_all add: example_round_def example_polls_all ring)
  from shared_ring_drains [OF main1 main2 main3 main4 ctx run rounds]
  obtain unread ctx' where "m_ring m = map encode_event unread" "suffix unread [example_slow_event]"
    and loop: "shim_loop example_ms [example_round []] (m_ctx m) (m_ring m) =
      (False, map (\<lambda>e. shim_line example_ms (shim_item_of (encode_event e))) (polled unread), ctx', [])"
    by blast
  then have "length unread = 1" using ring by (metis length_map length_Cons list.size(3) One_nat_def)
  with \<open>suffix unread [example_slow_event]\<close> have "unread = [example_slow_event]"
    by (cases unread) (auto simp: suffix_def Cons_eq_append_conv)
  with loop have "shim_loop example_ms [example_round []] (m_ctx m) (m_ring m) =
      (False, [shim_line example_ms (shim_item_of (encode_event example_slow_event))], ctx', [])"
    by (simp add: polled_short del: shim_loop.simps)
  with run show ?thesis by blast
qed

end
