(* ===== verification/Map_Capacity.thy ===== *)
theory Map_Capacity
  imports Ioslower_Bpf Iosnoop_Bpf Nfsslower_Bpf Smbslower_Bpf
begin

text \<open>
  The tables of pending operations are hash maps with a \<open>max_entries\<close>, and the kernel refuses to insert a new key
  into a full one. What that means for the five tables, whichever calls the traced threads make.
\<close>

section \<open>Sizes\<close>

definition op_start_max_entries :: nat where "op_start_max_entries = 4096"

definition op_state_max_entries :: nat where "op_state_max_entries = 4096"

definition MAX_ENTRIES :: nat where "MAX_ENTRIES = 2048"

definition smb_temp_max_entries :: nat where "smb_temp_max_entries = MAX_ENTRIES * 24"

definition smb_trace_temp_max_entries :: nat where "smb_trace_temp_max_entries = MAX_ENTRIES * 24"

definition nslow_temp_max_entries :: nat where "nslow_temp_max_entries = MAX_ENTRIES * 24"

section \<open>A kernel that keeps the size of a map\<close>

text \<open>\<open>bpf_map_update_elem\<close> on a hash map fails for a new key when the map holds \<open>cap\<close> keys already.\<close>

definition refuses_when_full :: "nat \<Rightarrow> ('k \<rightharpoonup> 'v) \<Rightarrow> 'k \<Rightarrow> int \<Rightarrow> bool" where
  "refuses_when_full cap m k rc \<longleftrightarrow> (m k = None \<and> cap \<le> card (dom m) \<longrightarrow> rc < 0)"

text \<open>All inserts of a list of calls; \<open>rc\<close> is the outcome that an entry program sees.\<close>

fun keeps_capacity ::
    "nat \<Rightarrow> ('s \<Rightarrow> 'k \<Rightarrow> 'v option) \<Rightarrow> ('i \<Rightarrow> 's \<Rightarrow> 's) \<Rightarrow> ('o \<Rightarrow> 's \<Rightarrow> 's) \<Rightarrow> ('i \<Rightarrow> 'k) \<Rightarrow> ('i \<Rightarrow> int) \<Rightarrow>
     ('i, 'o) probe_call list \<Rightarrow> 's \<Rightarrow> bool" where
  "keeps_capacity cap pend ent lev kin rc [] s = True"
| "keeps_capacity cap pend ent lev kin rc (Enter i # cs) s =
     (refuses_when_full cap (pend s) (kin i) (rc i) \<and> keeps_capacity cap pend ent lev kin rc cs (ent i s))"
| "keeps_capacity cap pend ent lev kin rc (Leave x # cs) s = keeps_capacity cap pend ent lev kin rc cs (lev x s)"

section \<open>Interface: a table whose entry program respects a refused insert\<close>

locale bounded_probe_table = probe_table +
  fixes rc :: "'c \<Rightarrow> int"
  assumes refused: "rc i < 0 \<Longrightarrow> pending (enter i s) = pending s"
begin

lemma enter_fits:
  assumes "refuses_when_full cap (pending s) (key_in i) (rc i)"
    and "finite (dom (pending s)) \<and> card (dom (pending s)) \<le> cap"
  shows "finite (dom (pending (enter i s))) \<and> card (dom (pending (enter i s))) \<le> cap"
proof (cases "rc i < 0")
  case True
  then show ?thesis using assms(2) by (simp add: refused)
next
  case False
  have sub: "dom (pending (enter i s)) \<subseteq> insert (key_in i) (dom (pending s))" by (rule enter_dom)
  moreover have "card (insert (key_in i) (dom (pending s))) \<le> cap"
    using False assms by (auto simp: refuses_when_full_def card_insert_if)
  moreover have "finite (insert (key_in i) (dom (pending s)))" using assms(2) by simp
  ultimately show ?thesis using card_mono finite_subset by (metis order_trans)
qed

text \<open>The table never holds more than its capacity.\<close>

lemma run_fits:
  assumes "keeps_capacity cap pending enter leave key_in rc cs s"
    and "finite (dom (pending s)) \<and> card (dom (pending s)) \<le> cap"
  shows "finite (dom (pending (probe_run enter leave cs s))) \<and>
    card (dom (pending (probe_run enter leave cs s))) \<le> cap"
  using assms
proof (induction cs arbitrary: s)
  case (Cons d cs)
  show ?case
  proof (cases d)
    case (Enter i)
    with Cons.prems have "refuses_when_full cap (pending s) (key_in i) (rc i)" by simp
    from enter_fits [OF this Cons.prems(2)] show ?thesis using Cons.IH Cons.prems(1) Enter by simp
  next
    case (Leave x)
    have "card (dom (pending (leave x s))) \<le> card (dom (pending s))"
      using Cons.prems(2) by (auto simp: leave_pending intro: card_mono)
    then have "finite (dom (pending (leave x s))) \<and> card (dom (pending (leave x s))) \<le> cap"
      using Cons.prems(2) by (simp add: leave_pending)
    with Cons.IH [OF _ this] Cons.prems(1) Leave show ?thesis by simp
  qed
qed simp

text \<open>
  A full table hides everything else: calls that do not end one of the operations in it neither change it nor
  report anything.
\<close>

lemma full_run_idle:
  assumes "keeps_capacity cap pending enter leave key_in rc cs s" and "cap \<le> card (dom (pending s))"
    and "\<forall>d \<in> set cs. call_key key_in key_out d \<notin> dom (pending s)"
  shows "pending (probe_run enter leave cs s) = pending s \<and> emitted (probe_run enter leave cs s) = emitted s"
  using assms
proof (induction cs arbitrary: s)
  case (Cons d cs)
  show ?case
  proof (cases d)
    case (Enter i)
    then have "rc i < 0" using Cons.prems by (auto simp: refuses_when_full_def)
    from refused [OF this] have "pending (enter i s) = pending s" .
    then show ?thesis using Cons.IH [of "enter i s"] Cons.prems Enter by (simp add: enter_emitted)
  next
    case (Leave x)
    then have none: "pending s (key_out x) = None" using Cons.prems by auto
    then have "pending (leave x s) = pending s" by (auto simp: leave_pending)
    then show ?thesis using Cons.IH [of "leave x s"] Cons.prems Leave leave_idle [OF none] by simp
  qed
qed simp

end

section \<open>The five tables\<close>

text \<open>What \<open>bpf_map_update_elem\<close> says to the entry programs.\<close>

definition slow_rc :: "slow_in \<Rightarrow> int" where "slow_rc = (\<lambda>(h, km, e, x). update_rc e)"

definition snoop_rc :: "snoop_in \<Rightarrow> int" where "snoop_rc = (\<lambda>(h, km, e, x). update_rc e)"

definition nslow_rc :: "nslow_in \<Rightarrow> int" where "nslow_rc = (\<lambda>(h, km, e, task). update_rc e)"

definition smb_rc :: "smb_in \<Rightarrow> int" where "smb_rc = (\<lambda>(p, km, e, mid). update_rc e)"

definition smbt_rc :: "smbt_in \<Rightarrow> int" where "smbt_rc = (\<lambda>(e, ctx). update_rc e)"

lemma update_refused: "rc < 0 \<Longrightarrow> snd (bpf_map_update_elem rc flag k v m) = m"
  by (simp add: bpf_map_update_elem_def)

lemma ioslower_entry_refused:
  assumes "update_rc e < 0"
  shows "op_start (ioslower_entry h km e x s) = op_start s"
proof -
  have "ioslower_start_or_drop e tid st s = s" for tid st s
    using assms by (simp add: ioslower_start_or_drop_def update_refused)
  then show ?thesis by (cases x; cases h) (simp_all add: probe_defs Let_def split: option.splits)
qed

lemma iosnoop_entry_refused:
  assumes "update_rc e < 0" and "iosnoop_entry h km e x s = Some t"
  shows "op_state t = op_state s"
proof -
  have "iosnoop_submit_or_drop e tid op s = s" for tid op s
    using assms(1) by (simp add: iosnoop_submit_or_drop_def Let_def update_refused)
  then show ?thesis
    using assms(2) by (cases x; cases h) (auto simp: probe_defs Let_def split: Option.bind_splits option.splits prod.splits if_splits)
qed

interpretation slow_bounded: bounded_probe_table "op_start :: ioslower_state \<Rightarrow> _" "slow_events :: ioslower_state \<Rightarrow> _"
    ioslower_enter ioslower_leave slow_key_in slow_key_out slow_rc
proof
  fix i and s :: ioslower_state
  assume "slow_rc i < 0"
  then show "op_start (ioslower_enter i s) = op_start s"
    by (cases i) (simp add: slow_rc_def ioslower_enter_def ioslower_entry_refused)
qed

interpretation snoop_bounded: bounded_probe_table "op_state :: iosnoop_state \<Rightarrow> _" "snoop_events :: iosnoop_state \<Rightarrow> _"
    iosnoop_enter iosnoop_leave snoop_key_in snoop_key_out snoop_rc
proof
  fix i and s :: iosnoop_state
  assume rc: "snoop_rc i < 0"
  obtain h km e x where i: "i = (h, km, e, x)" by (cases i)
  obtain t where "iosnoop_entry h km e x s = Some t" using iosnoop_entry_effect by blast
  with rc show "op_state (iosnoop_enter i s) = op_state s"
    using iosnoop_entry_refused by (simp add: i snoop_rc_def iosnoop_enter_def)
qed

interpretation nslow_bounded: bounded_probe_table "nslow_temp :: nfsslower_state \<Rightarrow> _" "nslow_aodrb :: nfsslower_state \<Rightarrow> _"
    nfsslower_enter nfsslower_leave nslow_key_in nslow_key_out nslow_rc
proof
  fix i :: nslow_in and s :: nfsslower_state
  assume "nslow_rc i < 0"
  then show "nslow_temp (nfsslower_enter i s) = nslow_temp s"
    by (cases i) (auto simp: nslow_rc_def nfsslower_enter_eq nfsslower_entry_temp)
qed

interpretation smb_bounded: bounded_probe_table "smb_temp :: smbslower_state \<Rightarrow> _" "smb_aodrb :: smbslower_state \<Rightarrow> _"
    smbslower_alloc smbslower_release smb_key_in smb_key_out smb_rc
proof
  fix i :: smb_in and s :: smbslower_state
  assume "smb_rc i < 0"
  then show "smb_temp (smbslower_alloc i s) = smb_temp s"
    by (cases i) (auto simp: smb_rc_def smbslower_alloc_temp simp del: smbslower_alloc.simps)
qed

interpretation smbt_bounded: bounded_probe_table "smb_trace_temp :: smbslower_state \<Rightarrow> _" "smb_aodrb :: smbslower_state \<Rightarrow> _"
    smb_trace_begin smb_trace_end smbt_key_in smbt_key_out smbt_rc
proof
  fix i :: smbt_in and s :: smbslower_state
  assume "smbt_rc i < 0"
  then show "smb_trace_temp (smb_trace_begin i s) = smb_trace_temp s"
    by (cases i) (auto simp: smbt_rc_def smb_trace_begin_temp simp del: smb_trace_begin.simps)
qed

section \<open>Properties\<close>


text \<open>
  C23: a full table makes ioslower and iosnoop blind. While 4096 operations are pending, such as calls blocked in the
  kernel, whatever other threads do, no record of it is written: an operation that finds no room
  is dropped at its entry, without a trace in the output.
\<close>

theorem full_table_reports_nothing:
  assumes "keeps_capacity op_start_max_entries op_start ioslower_enter ioslower_leave slow_key_in slow_rc cs1 s1"
    and "card (dom (op_start s1)) = 4096"
    and "\<forall>d \<in> set cs1. call_key slow_key_in slow_key_out d \<notin> dom (op_start s1)"
    and "keeps_capacity op_state_max_entries op_state iosnoop_enter iosnoop_leave snoop_key_in snoop_rc cs2 s2"
    and "card (dom (op_state s2)) = 4096"
    and "\<forall>d \<in> set cs2. call_key snoop_key_in snoop_key_out d \<notin> dom (op_state s2)"
  shows "slow_events (probe_run ioslower_enter ioslower_leave cs1 s1) = slow_events s1 \<and>
    op_start (probe_run ioslower_enter ioslower_leave cs1 s1) = op_start s1 \<and>
    snoop_events (probe_run iosnoop_enter iosnoop_leave cs2 s2) = snoop_events s2 \<and>
    op_state (probe_run iosnoop_enter iosnoop_leave cs2 s2) = op_state s2"
  using slow_bounded.full_run_idle [OF assms(1) _ assms(3)] snoop_bounded.full_run_idle [OF assms(4) _ assms(6)] assms(2,5)
  by (simp add: op_start_max_entries_def op_state_max_entries_def)

section \<open>Witnesses\<close>


text \<open>4096 operations under different keys.\<close>

definition filled :: "(nat \<Rightarrow> 'k) \<Rightarrow> 'v \<Rightarrow> ('k \<rightharpoonup> 'v)" where
  "filled f v = (\<lambda>k. if k \<in> f ` {..<4096} then Some v else None)"

lemma card_filled: "inj_on f {..<4096} \<Longrightarrow> card (dom (filled f v)) = 4096"
  by (simp add: filled_def dom_def card_image)

lemma dom_filled: "k \<in> dom (filled f v) \<longleftrightarrow> k \<in> f ` {..<4096}"
  by (simp add: filled_def dom_def)

lemma small_word_inj: "inj_on (of_nat :: nat \<Rightarrow> u64) {..<4096}"
proof (rule inj_on_inverseI)
  fix n :: nat assume "n \<in> {..<4096}"
  then show "unat (of_nat n :: u64) = n" by (simp add: unat_of_nat take_bit_nat_eq_self)
qed

lemma large_word_new: "(5000 :: u64) \<notin> of_nat ` {..<4096}"
proof
  assume "(5000 :: u64) \<in> of_nat ` {..<4096}"
  then obtain n :: nat where "n < 4096" "(5000 :: u64) = of_nat n" by auto
  then have "unat (5000 :: u64) = n" by (simp only: unat_of_nat) (simp add: take_bit_nat_eq_self)
  with \<open>n < 4096\<close> show False by simp
qed

text \<open>Another thread opens a file and the insert is refused.\<close>

theorem full_table_reports_nothing_witness:
  "slow_events (probe_run ioslower_enter ioslower_leave
     [Enter (Fentry, example_mem, (slow_example_env 1000 5000)\<lparr>update_rc := - 7\<rparr>, E_open None 0),
      Leave (Fentry, slow_example_env 90000000 5000, X_open 0)]
     (ioslower_init\<lparr>op_start := filled of_nat start_t_zero\<rparr>)) = [] \<and>
   snoop_events (probe_run iosnoop_enter iosnoop_leave
     [Enter (Fentry, example_mem, (snoop_example_env 1000 5000)\<lparr>update_rc := - 7\<rparr>, E_open None 0),
      Leave (Fentry, snoop_example_env 2000 5000, X_open 0)]
     (iosnoop_init\<lparr>op_state := filled (\<lambda>i. snoop_key (of_nat i) SC_OPEN) op_ctx_zero\<rparr>)) = []"
proof -
  let ?cs1 = "[Enter (Fentry, example_mem, (slow_example_env 1000 5000)\<lparr>update_rc := - 7\<rparr>, E_open None 0),
      Leave (Fentry, slow_example_env 90000000 5000, X_open 0)] :: (slow_in, slow_out) probe_call list"
  let ?cs2 = "[Enter (Fentry, example_mem, (snoop_example_env 1000 5000)\<lparr>update_rc := - 7\<rparr>, E_open None 0),
      Leave (Fentry, snoop_example_env 2000 5000, X_open 0)] :: (snoop_in, snoop_out) probe_call list"
  let ?s1 = "ioslower_init\<lparr>op_start := filled of_nat start_t_zero\<rparr>"
  let ?s2 = "iosnoop_init\<lparr>op_state := filled (\<lambda>i. snoop_key (of_nat i) SC_OPEN) op_ctx_zero\<rparr>"
  have kept1: "keeps_capacity op_start_max_entries op_start ioslower_enter ioslower_leave slow_key_in slow_rc ?cs1 ?s1"
    by (simp add: refuses_when_full_def slow_rc_def)
  have kept2: "keeps_capacity op_state_max_entries op_state iosnoop_enter iosnoop_leave snoop_key_in snoop_rc ?cs2 ?s2"
    by (simp add: refuses_when_full_def snoop_rc_def)
  have inj: "inj_on (\<lambda>i. snoop_key (of_nat i) SC_OPEN) {..<4096}"
    using small_word_inj by (auto simp: inj_on_def snoop_key_def)
  have new: "snoop_key 5000 SC_OPEN \<notin> (\<lambda>i. snoop_key (of_nat i) SC_OPEN) ` {..<4096}"
    using large_word_new by (auto simp: snoop_key_def)
  have other1: "\<forall>d \<in> set ?cs1. call_key slow_key_in slow_key_out d \<notin> dom (op_start ?s1)"
    by (simp add: slow_key_in_def slow_key_out_def dom_filled large_word_new slow_example_env_def)
  have other2: "\<forall>d \<in> set ?cs2. call_key snoop_key_in snoop_key_out d \<notin> dom (op_state ?s2)"
    using new by (simp add: snoop_key_in_def snoop_key_out_def dom_filled snoop_example_env_def)
  have full: "card (dom (op_start ?s1)) = 4096" "card (dom (op_state ?s2)) = 4096"
    by (simp_all add: card_filled [OF small_word_inj] card_filled [OF inj])
  have none: "slow_events ?s1 = []" "snoop_events ?s2 = []" by (simp_all add: ioslower_init_def iosnoop_init_def)
  from full_table_reports_nothing [OF kept1 full(1) other1 kept2 full(2) other2] show ?thesis
    unfolding none by (elim conjE) (intro conjI)
qed

end
