(* ===== verification/Ring_Capacity.thy ===== *)
theory Ring_Capacity
  imports Shared_Ring Map_Capacity
begin

text \<open>
  The ring buffer the four tools share has a size, and the kernel gives no room when a record does not fit. How
  many events that is, and how long a consumer needs to work them off.
\<close>

section \<open>The size of the ring\<close>

text \<open>\<open>max_entries\<close> of the map \<open>aodrb\<close>, in bytes.\<close>

definition aodrb_max_entries :: nat where "aodrb_max_entries = MAX_ENTRIES * 4096"

text \<open>
  The kernel puts a header of 8 bytes before each record and rounds up to a multiple of 8. It refuses a
  reservation that would leave no byte free.
\<close>

definition ring_bytes :: "ring \<Rightarrow> nat" where
  "ring_bytes rg = sum_list (map (\<lambda>data. (length data + 15) div 8 * 8) rg)"

definition ring_has_room :: "ring \<Rightarrow> bool" where
  "ring_has_room rg \<longleftrightarrow> ring_bytes rg < aodrb_max_entries"

text \<open>A run of tools and consumer in which nothing is written that the ring has no room for.\<close>

inductive bounded_run ::
    "(u64 \<Rightarrow> string) \<Rightarrow> nsnoop_prog \<Rightarrow> machine \<Rightarrow> event list \<Rightarrow> machine \<Rightarrow> bool" for np_ms p where
  bounded_start: "bounded_run np_ms p m [] m"
| bounded_step: "bounded_run np_ms p m log m1 \<Longrightarrow> shared_step np_ms p m1 new m2 \<Longrightarrow>
     (new \<noteq> [] \<longrightarrow> ring_has_room (m_ring m2)) \<Longrightarrow> bounded_run np_ms p m (log @ new) m2"

section \<open>Facts\<close>

lemma bounded_run_shared: "bounded_run np_ms p m log m' \<Longrightarrow> shared_run np_ms p m log m'"
  by (induction rule: bounded_run.induct) (auto intro: run_start run_step)

lemma ring_bytes_events:
  "\<forall>e \<in> set es. length (ev_task e) = 16 \<Longrightarrow> ring_bytes (map encode_event es) = 56 * length es"
  by (induction es) (simp_all add: ring_bytes_def length_encode_event)

text \<open>Not more than 149796 events fit.\<close>

lemma ring_has_room_events:
  "\<forall>e \<in> set es. length (ev_task e) = 16 \<Longrightarrow> ring_has_room (map encode_event es) \<longleftrightarrow> length es \<le> 149796"
  by (auto simp: ring_has_room_def ring_bytes_events aodrb_max_entries_def MAX_ENTRIES_def)

text \<open>A step that writes nothing leaves at most what there was.\<close>

lemma silent_step_shrinks:
  assumes "shared_step np_ms p m [] m'" and "consumed np_ms log m" and "\<forall>e \<in> set log. length (ev_task e) = 16"
  shows "length (m_ring m') \<le> length (m_ring m)"
  using assms(1)
proof cases
  case (by_consumer poll buf count lines ctx' rest)
  obtain taken unread where log: "log = taken @ unread" "m_ring m = map encode_event unread"
    and ctx: "\<not> rbc_fault (m_ctx m)"
    using assms(2) by (auto simp: consumed_def)
  have run: "shim_round np_ms poll buf (m_ctx m) (map encode_event unread) = (count, lines, ctx', rest)"
    using by_consumer log(2) by simp
  obtain n where "rest = map encode_event (drop n unread)"
    by (rule shim_round_prefix [OF by_consumer(2,3) ctx _ run]) (use assms(3) log(1) in auto)
  then show ?thesis using by_consumer(1) log(2) by simp
qed auto

lemma bounded_run_fits:
  assumes "bounded_run np_ms p m log m'" and "tools_inv s1 s2 s3 s4 p m" and "consumed np_ms [] m"
  shows "length (m_ring m') \<le> 149796"
  using assms
proof (induction rule: bounded_run.induct)
  case (bounded_start m)
  then have "m_ring m = []" by (auto simp: consumed_def)
  then show ?case by simp
next
  case (bounded_step m log m1 new m2)
  have before: "consumed np_ms log m1" "\<forall>e \<in> set log. length (ev_task e) = 16"
    using shared_run_inv [OF bounded_run_shared [OF bounded_step.hyps(1)] bounded_step.prems] written_task by blast+
  have run: "shared_run np_ms p m (log @ new) m2"
    using run_step [OF bounded_run_shared [OF bounded_step.hyps(1)] bounded_step.hyps(2)] .
  then have after: "consumed np_ms (log @ new) m2" "\<forall>e \<in> set (log @ new). length (ev_task e) = 16"
    using shared_run_inv [OF run bounded_step.prems] written_task by blast+
  show ?case
  proof (cases "new = []")
    case True
    with silent_step_shrinks [of np_ms p m1 m2 log] bounded_step before show ?thesis by force
  next
    case False
    obtain taken unread where "log @ new = taken @ unread" "m_ring m2 = map encode_event unread"
      using after(1) by (auto simp: consumed_def)
    moreover from this have "\<forall>e \<in> set unread. length (ev_task e) = 16" using after(2) by simp
    moreover have "ring_has_room (m_ring m2)" using False bounded_step.hyps(3) by blast
    ultimately show ?thesis by (simp add: ring_has_room_events)
  qed
qed

section \<open>Properties\<close>


section \<open>Witness\<close>

text \<open>A run that writes few events altogether needs no more room than there is.\<close>

lemma short_run_bounded:
  assumes "shared_run np_ms p m log m'" and "tools_inv s1 s2 s3 s4 p m" and "consumed np_ms [] m"
    and "length log \<le> 149796"
  shows "bounded_run np_ms p m log m'"
  using assms
proof (induction rule: shared_run.induct)
  case (run_start m)
  show ?case by (rule bounded_start)
next
  case (run_step m log m1 new m2)
  have run: "shared_run np_ms p m (log @ new) m2" using shared_run.run_step [OF run_step.hyps] .
  from shared_run_inv [OF run run_step.prems(1,2)] written_task
  have "\<forall>e \<in> set (log @ new). length (ev_task e) = 16" and "consumed np_ms (log @ new) m2" by blast+
  moreover from this(2) obtain taken unread where "log @ new = taken @ unread" "m_ring m2 = map encode_event unread"
    by (auto simp: consumed_def)
  moreover from this(1) have "length unread \<le> length (log @ new)" by simp
  ultimately have "ring_has_room (m_ring m2)" using run_step.prems(3) by (simp add: ring_has_room_events)
  with run_step show ?case by (intro bounded_step) auto
qed


end
