(* ===== verification/Io_Capacity.thy ===== *)
theory Io_Capacity
  imports Io_Main Ring_Capacity
begin

text \<open>
  The ring buffers of ioslower and iosnoop have a size, and their user programs empty them with every poll. How
  many operations may end between two polls before a record is lost.
\<close>

section \<open>Sizes\<close>

definition slow_events_max_entries :: nat where "slow_events_max_entries = 256 * 1024"

definition snoop_events_max_entries :: nat where "snoop_events_max_entries = 4 * 1024 * 1024"

text \<open>Whether one more record fits beside those that nobody has read yet.\<close>

definition slow_ring_fits :: "ioslower_event list \<Rightarrow> bool" where
  "slow_ring_fits unread \<longleftrightarrow> ring_bytes (map encode_slow_event unread) + 320 < slow_events_max_entries"

definition snoop_ring_fits :: "iosnoop_event list \<Rightarrow> bool" where
  "snoop_ring_fits unread \<longleftrightarrow> ring_bytes (map encode_snoop_event unread) + 568 < snoop_events_max_entries"

section \<open>A kernel that reserves whenever there is room\<close>

text \<open>
  \<open>fits\<close> is about the unread records, those after the first \<open>base\<close>; \<open>room\<close> is what an exit program is told when
  it asks for a record.
\<close>

fun reserves_when_fits ::
    "('e list \<Rightarrow> bool) \<Rightarrow> ('s \<Rightarrow> 'e list) \<Rightarrow> ('i \<Rightarrow> 's \<Rightarrow> 's) \<Rightarrow> ('o \<Rightarrow> 's \<Rightarrow> 's) \<Rightarrow> ('o \<Rightarrow> bool) \<Rightarrow> nat \<Rightarrow>
     ('i, 'o) probe_call list \<Rightarrow> 's \<Rightarrow> bool" where
  "reserves_when_fits fits emit ent lev room base [] s = True"
| "reserves_when_fits fits emit ent lev room base (Enter i # cs) s =
     reserves_when_fits fits emit ent lev room base cs (ent i s)"
| "reserves_when_fits fits emit ent lev room base (Leave x # cs) s =
     ((fits (drop base (emit s)) \<longrightarrow> room x) \<and> reserves_when_fits fits emit ent lev room base cs (lev x s))"

text \<open>The same over turns, after each of which everything has been read.\<close>

fun turns_reserve ::
    "('e list \<Rightarrow> bool) \<Rightarrow> ('s \<Rightarrow> 'e list) \<Rightarrow> ('i \<Rightarrow> 's \<Rightarrow> 's) \<Rightarrow> ('o \<Rightarrow> 's \<Rightarrow> 's) \<Rightarrow> ('o \<Rightarrow> bool) \<Rightarrow> nat \<Rightarrow>
     ('i, 'o) probe_call list list \<Rightarrow> 's \<Rightarrow> bool" where
  "turns_reserve fits emit ent lev room base [] s = True"
| "turns_reserve fits emit ent lev room base (cs # css) s =
     (reserves_when_fits fits emit ent lev room base cs s \<and>
      turns_reserve fits emit ent lev room (length (emit (probe_run ent lev cs s))) css (probe_run ent lev cs s))"

text \<open>At most \<open>cap\<close> operations end in each turn; \<open>backlog\<close> records are there at the beginning.\<close>

definition leaves :: "('i, 'o) probe_call list \<Rightarrow> nat" where
  "leaves cs = length (filter (\<lambda>d. \<not> is_enter d) cs)"

fun turns_short :: "nat \<Rightarrow> nat \<Rightarrow> ('i, 'o) probe_call list list \<Rightarrow> bool" where
  "turns_short cap backlog [] = True"
| "turns_short cap backlog (cs # css) = (backlog + leaves cs \<le> cap \<and> turns_short cap 0 css)"

fun ideal_call :: "('o \<Rightarrow> 'o) \<Rightarrow> ('i, 'o) probe_call \<Rightarrow> ('i, 'o) probe_call" where
  "ideal_call f (Enter i) = Enter i"
| "ideal_call f (Leave x) = Leave (f x)"

section \<open>Interface: exit programs that need a record\<close>

text \<open>\<open>ideal\<close> is the same call with a ring that always has room; it makes no difference where there was room.\<close>

locale reserving_programs = probe_table +
  fixes room :: "'d \<Rightarrow> bool" and ideal :: "'d \<Rightarrow> 'd"
  assumes leave_ideal: "room x \<Longrightarrow> leave (ideal x) s = leave x s"
begin

lemma all_reserved:
  assumes "reserves_when_fits fits emitted enter leave room base cs s"
    and "\<And>xs. length xs < cap \<Longrightarrow> set xs \<subseteq> set (emitted (probe_run enter leave cs s)) \<Longrightarrow> fits xs"
    and "length (emitted s) - base + leaves cs \<le> cap"
  shows "\<forall>x. Leave x \<in> set cs \<longrightarrow> room x"
  using assms
proof (induction cs arbitrary: s)
  case (Cons d cs)
  show ?case
  proof (cases d)
    case (Enter i)
    with Cons.IH [of "enter i s"] Cons.prems show ?thesis by (simp add: enter_emitted leaves_def)
  next
    case (Leave x)
    obtain es where es: "emitted (leave x s) = emitted s @ es" "length es \<le> 1" using leave_emitted by blast
    have "length (drop base (emitted s)) < cap" using Cons.prems(3) Leave by (simp add: leaves_def)
    moreover have "set (drop base (emitted s)) \<subseteq> set (emitted (probe_run enter leave (d # cs) s))"
      using run_only_appends [of cs "leave x s"] es Leave by (auto dest: in_set_dropD)
    ultimately have "room x" using Cons.prems(1,2) Leave by simp
    moreover have "\<forall>y. Leave y \<in> set cs \<longrightarrow> room y"
      by (rule Cons.IH [of "leave x s"]) (use Cons.prems Leave es in \<open>auto simp: leaves_def\<close>)
    ultimately show ?thesis using Leave by simp
  qed
qed simp

lemma all_turns_reserved:
  assumes "turns_reserve fits emitted enter leave room base css s"
    and "\<And>xs. length xs < cap \<Longrightarrow> set xs \<subseteq> set (emitted (probe_run enter leave (concat css) s)) \<Longrightarrow> fits xs"
    and "turns_short cap (length (emitted s) - base) css"
  shows "\<forall>x. Leave x \<in> set (concat css) \<longrightarrow> room x"
  using assms
proof (induction css arbitrary: base s)
  case (Cons cs css)
  let ?s = "probe_run enter leave cs s"
  have "set (emitted ?s) \<subseteq> set (emitted (probe_run enter leave (concat (cs # css)) s))"
    using run_only_appends [of "concat css" ?s] by (auto simp: probe_run_append)
  with Cons.prems have "\<forall>x. Leave x \<in> set cs \<longrightarrow> room x"
    by (intro all_reserved [of fits base cs s cap]) auto
  moreover have "\<forall>x. Leave x \<in> set (concat css) \<longrightarrow> room x"
    by (rule Cons.IH [of "length (emitted ?s)" ?s]) (use Cons.prems in \<open>auto simp: probe_run_append\<close>)
  ultimately show ?case by auto
qed simp

lemma ideal_run:
  assumes "\<forall>x. Leave x \<in> set cs \<longrightarrow> room x"
  shows "probe_run enter leave (map (ideal_call ideal) cs) s = probe_run enter leave cs s"
  using assms
proof (induction cs arbitrary: s)
  case (Cons d cs)
  then show ?case by (cases d) (simp_all add: leave_ideal)
qed simp

end

definition slow_room :: "slow_out \<Rightarrow> bool" where "slow_room = (\<lambda>(h, e, y). rb_reserve e 0)"

definition slow_ideal :: "slow_out \<Rightarrow> slow_out" where
  "slow_ideal = (\<lambda>(h, e, y). (h, e\<lparr>rb_reserve := \<lambda>_. True\<rparr>, y))"

definition snoop_room :: "snoop_out \<Rightarrow> bool" where "snoop_room = (\<lambda>(h, e, y). rb_reserve e 0)"

definition snoop_ideal :: "snoop_out \<Rightarrow> snoop_out" where
  "snoop_ideal = (\<lambda>(h, e, y). (h, e\<lparr>rb_reserve := \<lambda>_. True\<rparr>, y))"

interpretation slow_reserving: reserving_programs "op_start :: ioslower_state \<Rightarrow> _" "slow_events :: ioslower_state \<Rightarrow> _"
    ioslower_enter ioslower_leave slow_key_in slow_key_out slow_room slow_ideal
proof
  fix x and s :: ioslower_state
  assume room: "slow_room x"
  obtain h e y where x: "x = (h, e, y)" by (cases x)
  let ?e = "e\<lparr>rb_reserve := \<lambda>_. True\<rparr>"
  have "ioslower_emit_event ?e i st d r t = ioslower_emit_event e i st d r t" for i st d r t
    using room by (simp add: ioslower_emit_event_def slow_room_def x Let_def split: option.split)
  then have "ioslower_finish_event ?e tid r t = ioslower_finish_event e tid r t" for tid r t
    by (simp add: ioslower_finish_event_def Let_def split: option.split)
  then show "ioslower_leave (slow_ideal x) s = ioslower_leave x s"
    by (cases y; cases h) (simp_all add: ioslower_leave_def slow_ideal_def x probe_defs Let_def cong: option.case_cong)
qed

interpretation snoop_reserving: reserving_programs "op_state :: iosnoop_state \<Rightarrow> _" "snoop_events :: iosnoop_state \<Rightarrow> _"
    iosnoop_enter iosnoop_leave snoop_key_in snoop_key_out snoop_room snoop_ideal
proof
  fix x and s :: iosnoop_state
  assume room: "snoop_room x"
  obtain h e y where x: "x = (h, e, y)" by (cases x)
  let ?e = "e\<lparr>rb_reserve := \<lambda>_. True\<rparr>"
  have "iosnoop_emit_event ?e op r t = iosnoop_emit_event e op r t" for op r t
    using room by (simp add: iosnoop_emit_event_def snoop_room_def x Let_def)
  then have "iosnoop_finish_event ?e tid ty r t = iosnoop_finish_event e tid ty r t" for tid ty r t
    by (simp add: iosnoop_finish_event_def Let_def split: option.split)
  then show "iosnoop_leave (snoop_ideal x) s = iosnoop_leave x s"
    by (cases y; cases h) (simp_all add: iosnoop_leave_def snoop_ideal_def x probe_defs Let_def cong: option.case_cong)
qed

section \<open>How many records fit\<close>

lemma slow_ring_fits_819:
  assumes "length xs < 819" and "\<forall>ev \<in> set xs. length (se_comm ev) = 16 \<and> length (se_fname ev) = 256"
  shows "slow_ring_fits xs"
proof -
  have "ring_bytes (map encode_slow_event xs) = 320 * length xs"
    using assms(2) by (induction xs) (simp_all add: ring_bytes_def length_encode_slow)
  with assms(1) show ?thesis by (simp add: slow_ring_fits_def slow_events_max_entries_def)
qed

lemma snoop_ring_fits_7384:
  assumes "length xs < 7384"
    and "\<forall>ev \<in> set xs. length (ne_comm ev) = 16 \<and> length (ne_fname ev) = 256 \<and> length (ne_args ev) = 256"
  shows "snoop_ring_fits xs"
proof -
  have "ring_bytes (map encode_snoop_event xs) = 568 * length xs"
    using assms(2) by (induction xs) (simp_all add: ring_bytes_def length_encode_snoop)
  with assms(1) show ?thesis by (simp add: snoop_ring_fits_def snoop_events_max_entries_def)
qed

section \<open>Property\<close>

text \<open>
  C24: ioslower prints what it would print with a ring without end, as long as not more than 819 operations end
  between two polls. The kernel is only trusted to give room for a record of 312 bytes when the records not yet
  read leave it in 256 KiB, and every poll reads them all. (\<open>bpf_get_current_comm\<close> fills the 16 bytes of a task
  name.)
\<close>

theorem ioslower_loses_nothing:
  assumes "ioslower_read_options dup_ok argv = Parsed opts" and "io_open sys"
    and "ioslower_setup sys window opts = Inr (err, sk, s)"
    and "session_ends (io_duration opts \<noteq> 0) turns ends status"
    and "turns_reserve slow_ring_fits slow_events ioslower_enter ioslower_leave slow_room 0 (map it_calls turns) s"
    and "turns_short 819 (length (slow_events s)) (map it_calls turns)"
    and "s' = probe_run ioslower_enter ioslower_leave (turn_calls turns) s"
    and "\<forall>ev \<in> set (slow_events s'). length (se_comm ev) = 16"
    and "ideal = probe_run ioslower_enter ioslower_leave (map (ideal_call slow_ideal) (turn_calls turns)) s"
  shows "ioslower_program dup_ok clock sys window (turns @ ends) argv =
      Parsed (Some status, io_setup_output sys (io_mount_path opts) @ ioslower_banner (io_min_us opts) @
                map (slow_line clock) (slow_events ideal))"
proof -
  have names: "\<forall>ev \<in> set (slow_events s'). length (se_fname ev) = 256"
    unfolding assms(7) by (rule ioslower_record_names [OF assms(3)])
  have "\<forall>x. Leave x \<in> set (turn_calls turns) \<longrightarrow> slow_room x"
    unfolding turn_calls_def
    by (rule slow_reserving.all_turns_reserved [OF assms(5)])
       (use assms(6,7,8) names in \<open>auto simp: turn_calls_def intro!: slow_ring_fits_819\<close>)
  then have "ideal = s'"
    using slow_reserving.ideal_run [of "turn_calls turns" s] by (simp add: assms(7,9))
  with ioslower_program_output [OF assms(1,2,3,4,7,8)] show ?thesis by simp
qed

text \<open>Iosnoop writes the same records as with a ring without end, as long as not more than 7384 operations end
  between two polls.\<close>

theorem iosnoop_ring_suffices:
  assumes "iosnoop_setup sys opts = Inr (err, sk, s)"
    and "turns_reserve snoop_ring_fits snoop_events iosnoop_enter iosnoop_leave snoop_room 0 (map it_calls turns) s"
    and "turns_short 7384 (length (snoop_events s)) (map it_calls turns)"
    and "t = probe_run iosnoop_enter iosnoop_leave (turn_calls turns) s"
    and "\<forall>ev \<in> set (snoop_events t). length (ne_comm ev) = 16"
  shows "probe_run iosnoop_enter iosnoop_leave (map (ideal_call snoop_ideal) (turn_calls turns)) s = t"
proof -
  have "iosnoop_step\<^sup>*\<^sup>* s t" unfolding assms(4) by (rule iosnoop_run_steps)
  note lengths = snoop_reachable_lengths [OF assms(1) this]
  have "\<forall>x. Leave x \<in> set (turn_calls turns) \<longrightarrow> snoop_room x"
    unfolding turn_calls_def
    by (rule snoop_reserving.all_turns_reserved [OF assms(2)])
       (use assms(3,4,5) lengths in \<open>auto simp: turn_calls_def intro!: snoop_ring_fits_7384\<close>)
  from snoop_reserving.ideal_run [OF this, of s] show ?thesis by (simp add: assms(4))
qed

text \<open>One operation, on a ring that is told to have room.\<close>

lemma slow_example_room:
  "\<forall>x. Leave x \<in> set (turn_calls slow_example_turns) \<longrightarrow> slow_room x"
  by (simp add: slow_example_turns_def turn_calls_def example_turn_def slow_room_def slow_example_env_def)

theorem ioslower_loses_nothing_witness:
  "\<exists>ev. ioslower_program True (\<lambda>_. ''12:00:00'') example_io_sys [] (slow_example_turns @ example_interrupt) [''--mount=/mnt''] =
     Parsed (Some 1, io_setup_output example_io_sys (Some ''/mnt'') @ ioslower_banner 10000 @
                [slow_line (\<lambda>_. ''12:00:00'') ev])"
proof -
  let ?calls = "turn_calls slow_example_turns"
  define t where "t = probe_run ioslower_enter ioslower_leave ?calls slow_example_started"
  define ideal where
    "ideal = probe_run ioslower_enter ioslower_leave (map (ideal_call slow_ideal) ?calls) slow_example_started"
  have same: "ideal = t" unfolding ideal_def t_def by (rule slow_reserving.ideal_run [OF slow_example_room])
  obtain ev where ev: "slow_events t = [ev]" "length (se_comm ev) = 16" using slow_example_record unfolding t_def by blast
  then have comm: "\<forall>e \<in> set (slow_events t). length (se_comm e) = 16" by simp
  have reserve: "turns_reserve slow_ring_fits slow_events ioslower_enter ioslower_leave slow_room 0
      (map it_calls slow_example_turns) slow_example_started"
    by (simp add: slow_example_turns_def example_turn_def slow_room_def slow_example_env_def)
  have short: "turns_short 819 (length (slow_events slow_example_started)) (map it_calls slow_example_turns)"
    by (simp add: slow_example_turns_def example_turn_def leaves_def slow_example_session(5))
  obtain err sk where "ioslower_setup example_io_sys [] example_io_opts = Inr (err, sk, slow_example_started)"
    using slow_example_session(3) by blast
  from ioslower_loses_nothing [OF slow_example_session(1,2) this slow_example_session(4) reserve short t_def comm ideal_def]
  show ?thesis using ev(1) same slow_example_session(6,7) by auto
qed

end
