(* ===== verification/Tool_Commands.thy ===== *)
theory Tool_Commands
  imports Command_Line Tool_Runs Smbslower_Loader Nfsslower_Loader
    Smbiosnoop_Loader Nfsiosnoop_Loader
begin

text \<open>
  The tools from the words of their command lines: what smbslower and nfsslower report when they are started with a
  list of commands and a minimum latency, and what becomes of the command lines the README shows.
\<close>

section \<open>A list of commands and a minimum latency\<close>

lemma denied_filter:
  assumes "opts_inv maxc g"
  shows "so_include_mode g \<and> \<not> so_exclude_mode g \<Longrightarrow> denied maxc g = {c. c < maxc \<and> c \<notin> filter_set g}"
    and "so_exclude_mode g \<and> \<not> so_include_mode g \<Longrightarrow> denied maxc g = filter_set g"
  using assms by (auto simp: denied_def opts_inv_def filter_set_def)

text \<open>What the two options mean; \<open>key\<close> is \<open>-c\<close> or \<open>-x\<close>.\<close>

lemma list_and_latency:
  assumes "\<forall>n \<in> set ns. n < maxc" and "length ns \<le> maxc" and "maxc \<le> 2 ^ 16" and "ms < 2 ^ 63"
    and key: "key = K_c \<or> key = K_x"
    and parse: "argp_parse (slower_parse_arg maxc ok) [(key, commas (map dec ns)), (K_m, dec ms)] (slower_opts_init maxc) = Parsed g"
  shows "so_min_lat_ms g = of_nat ms" and "denied maxc g = (if key = K_c then {c. c < maxc \<and> c \<notin> set ns} else set ns)"
proof -
  obtain g1 where g1: "slower_parse_arg maxc ok key (commas (map dec ns)) (slower_opts_init maxc) = Parsed g1"
    and g: "slower_parse_arg maxc ok K_m (dec ms) g1 = Parsed g"
    using parse by (cases "slower_parse_arg maxc ok key (commas (map dec ns)) (slower_opts_init maxc)")
      (auto split: parsed.splits elim: bind_parsed.elims)
  have num: "strtol 10 (dec ms) = \<lparr>num_val = int ms, num_end = [], num_erange = False\<rparr>"
    using strtol_dec [of "[]" ms] assms(4) by simp
  then show "so_min_lat_ms g = of_nat ms" using g by (auto simp: slower_parse_arg_def Let_def)
  have g': "g = g1\<lparr>so_min_lat_ms := of_nat ms\<rparr>" using g num by (simp add: slower_parse_arg_def Let_def)
  have ok: "ok" using g1 key by (auto simp: slower_parse_arg_def parse_cmd_list_def slower_opts_init_def Let_def split: if_splits)
  have len: "length (tokens (commas (map dec ns))) \<le> maxc" using assms(2) by (simp add: tokens_decs)
  note listed = listed_commas [OF assms(1,3)]
  have inv: "opts_inv maxc g1" by (rule opts_inv_step [OF opts_inv_init g1])
  have same: "denied maxc g = denied maxc g1" by (simp add: g' denied_def filter_set_def)
  show "denied maxc g = (if key = K_c then {c. c < maxc \<and> c \<notin> set ns} else set ns)"
    using key
  proof
    assume k: "key = K_c"
    from denylist_of_single(1) [OF len, of g1] g1 have "so_include_mode g1 \<and> \<not> so_exclude_mode g1 \<and> filter_set g1 = set ns"
      by (simp add: k ok listed)
    with denied_filter(1) [OF inv] k same show ?thesis by simp
  next
    assume k: "key = K_x"
    from denylist_of_single(2) [OF len, of g1] g1 have "so_exclude_mode g1 \<and> \<not> so_include_mode g1 \<and> filter_set g1 = set ns"
      by (simp add: k ok listed)
    with denied_filter(2) [OF inv] k same show ?thesis by simp
  qed
qed

lemma two_options:
  assumes "tab \<in> set tool_tables" and "option_written tab op1 a1 ws1" and "option_written tab op2 a2 ws2"
  shows "on_command_line tab key_of arg_key run (ws1 @ ws2) = run [(key_of (opt_key op1), a1), (key_of (opt_key op2), a2)]"
proof -
  have "table_ok tab" using assms(1) tool_tables_ok by (simp add: list_all_iff)
  from options_written_split [OF _ this, of "[(op1, a1, ws1), (op2, a2, ws2)]"] assms(2,3) show ?thesis
    by (simp add: on_command_line_def)
qed

text \<open>Milliseconds to nanoseconds without overflow.\<close>

lemma ms_to_ns:
  assumes "ms * 1000000 < 2 ^ 64" and "of_nat ms * 1000000 \<le> (x :: u64)"
  shows "ms * 1000000 \<le> unat x"
proof -
  have "unat (of_nat (ms * 1000000) :: u64) = ms * 1000000"
    using assms(1) by (subst unsigned_of_nat) (simp add: take_bit_nat_eq_self)
  moreover have "of_nat (ms * 1000000) \<le> x" using assms(2) by simp
  ultimately show ?thesis by (metis word_le_nat_alt)
qed

section \<open>Properties\<close>

text \<open>
  C6: smbslower started with a list of commands after \<open>-c\<close> or \<open>-x\<close> and a minimum latency in milliseconds, however
  the two options are written, reports, whatever requests its programs then see and in whatever order, only
  requests that took at least that long, and with \<open>-x\<close> none of the listed commands, with \<open>-c\<close> none of the other
  commands of the protocol.
\<close>

theorem smbslower_command_reports:
  assumes "\<forall>n \<in> set ns. n < 20" and "length ns \<le> 20" and "ms * 1000000 < 2 ^ 64"
    and "option_written smbslower_options sel (commas (map dec ns)) ws1"
    and "opt_key sel = CHR ''c'' \<or> opt_key sel = CHR ''x''"
    and "option_written smbslower_options lat (dec ms) ws2" and "opt_key lat = CHR ''m''"
    and "on_command_line smbslower_options smbslower_key K_other (smbslower_main ok open_ok present runs world) (ws1 @ ws2) =
           Parsed (Waiting sk s)"
    and "smbslower_step\<^sup>*\<^sup>* s t"
  shows "\<forall>(f, ev) \<in> set (smb_aodrb t). ms * 1000000 \<le> unat (ev_metric ev) \<and>
    (if opt_key sel = CHR ''c'' then unat (ev_command ev) \<in> set ns \<or> 20 \<le> unat (ev_command ev)
     else unat (ev_command ev) \<notin> set ns)"
proof -
  let ?key = "smbslower_key (opt_key sel)"
  have key: "?key = K_c \<or> ?key = K_x" "?key = K_c \<longleftrightarrow> opt_key sel = CHR ''c''" "smbslower_key (opt_key lat) = K_m"
    using assms(5,7) by (auto simp: smbslower_key_def)
  have tab: "smbslower_options \<in> set tool_tables" by (simp add: tool_tables_def)
  have main: "smbslower_main ok open_ok present runs world [(?key, commas (map dec ns)), (K_m, dec ms)] = Parsed (Waiting sk s)"
    using assms(8) unfolding two_options [OF tab assms(4,6)] key(3) .
  from smbslower_main_ready [OF this] obtain g
    where g: "argp_parse (slower_parse_arg 20 ok) [(?key, commas (map dec ns)), (K_m, dec ms)] (slower_opts_init 20) = Parsed g"
      "min_lat_ns (smb_rodata s) = so_min_lat_ms g * 1000000"
      "\<forall>cmd. smb_denylist s cmd \<noteq> None \<longleftrightarrow> unat cmd \<in> denied 20 g"
      "smb_temp s = Map.empty" "smb_trace_temp s = Map.empty" "smb_aodrb s = []"
    by blast
  have small: "ms < 2 ^ 63" using assms(3) by simp
  note means = list_and_latency [OF assms(1,2) _ small key(1) g(1), simplified]
  have "smbslower_inv (smb_rodata s) (smb_denylist s) s" by (simp add: smbslower_inv_def g(4-6))
  note ok = smb_writer.run_ok [OF assms(9) this]
  have "ms * 1000000 \<le> unat (ev_metric ev) \<and> unat (ev_command ev) \<notin> denied 20 g" if "(f, ev) \<in> set (smb_aodrb t)" for f ev
  proof -
    have "slow_record_ok (smb_rodata s) (smb_denylist s) SMBSLOWER ev" using ok that by force
    with g(2) spec [OF g(3), of "ev_command ev"] means(1) ms_to_ns [OF assms(3), of "ev_metric ev"] show ?thesis
      by (simp add: slow_record_ok_def)
  qed
  then show ?thesis unfolding means(2) key(2) by fastforce
qed

text \<open>The same for nfsslower, whose protocol has 70 commands.\<close>

theorem nfsslower_command_reports:
  assumes "\<forall>n \<in> set ns. n < 70" and "length ns \<le> 70" and "ms * 1000000 < 2 ^ 64"
    and "option_written nfsslower_options sel (commas (map dec ns)) ws1"
    and "opt_key sel = CHR ''c'' \<or> opt_key sel = CHR ''x''"
    and "option_written nfsslower_options lat (dec ms) ws2" and "opt_key lat = CHR ''m''"
    and "on_command_line nfsslower_options nfsslower_key K_other (nfsslower_main ok open_ok sys) (ws1 @ ws2) =
           Parsed (Waiting sk s)"
    and "nfsslower_step\<^sup>*\<^sup>* s t"
  shows "\<forall>(f, ev) \<in> set (nslow_aodrb t). ms * 1000000 \<le> unat (ev_metric ev) \<and>
    (if opt_key sel = CHR ''c'' then unat (ev_command ev) \<in> set ns \<or> 70 \<le> unat (ev_command ev)
     else unat (ev_command ev) \<notin> set ns)"
proof -
  let ?key = "nfsslower_key (opt_key sel)"
  have key: "?key = K_c \<or> ?key = K_x" "?key = K_c \<longleftrightarrow> opt_key sel = CHR ''c''" "nfsslower_key (opt_key lat) = K_m"
    using assms(5,7) by (auto simp: nfsslower_key_def)
  have tab: "nfsslower_options \<in> set tool_tables" by (simp add: tool_tables_def)
  have main: "nfsslower_main ok open_ok sys [(?key, commas (map dec ns)), (K_m, dec ms)] = Parsed (Waiting sk s)"
    using assms(8) unfolding two_options [OF tab assms(4,6)] key(3) .
  from nfsslower_main_ready [OF this] obtain g
    where g: "argp_parse (nfsslower_parse_arg ok) [(?key, commas (map dec ns)), (K_m, dec ms)] nfsslower_opts_init = Parsed g"
      "min_lat_ns (nslow_rodata s) = so_min_lat_ms g * 1000000"
      "\<forall>cmd. nslow_denylist s cmd \<noteq> None \<longleftrightarrow> unat cmd \<in> denied 70 g"
      "nslow_temp s = Map.empty" "nslow_aodrb s = []"
    by blast
  have parse: "argp_parse (slower_parse_arg 70 ok) [(?key, commas (map dec ns)), (K_m, dec ms)] (slower_opts_init 70) = Parsed g"
    using nfsslower_parse_shared [OF g(1)] by (simp add: nfsslower_opts_init_def)
  have small: "ms < 2 ^ 63" using assms(3) by simp
  note means = list_and_latency [OF assms(1,2) _ small key(1) parse, simplified]
  have "nfsslower_inv (nslow_rodata s) (nslow_denylist s) s" by (simp add: nfsslower_inv_def g(4,5))
  note ok = nfs_writer.run_ok [OF assms(9) this]
  have "ms * 1000000 \<le> unat (ev_metric ev) \<and> unat (ev_command ev) \<notin> denied 70 g" if "(f, ev) \<in> set (nslow_aodrb t)" for f ev
  proof -
    have "slow_record_ok (nslow_rodata s) (nslow_denylist s) NFSSLOWER ev" using ok that by force
    with g(2) spec [OF g(3), of "ev_command ev"] means(1) ms_to_ns [OF assms(3), of "ev_metric ev"] show ?thesis
      by (simp add: slow_record_ok_def)
  qed
  then show ?thesis unfolding means(2) key(2) by fastforce
qed

text \<open>
  Command lines of the README that no tool accepts: \<open>-d\<close> of smbslower, nfsslower and nfsiosnoop, \<open>-v 4\<close>
  of nfsslower and \<open>-e BAD_STATEID\<close> of nfsiosnoop end the tool before it starts.
\<close>

theorem readme_options_rejected:
  "on_command_line smbslower_options smbslower_key K_other (smbslower_main ok open_ok present runs world) [''-d'', ''30''] = Parse_error \<and>
   on_command_line nfsslower_options nfsslower_key K_other (nfsslower_main ok open_ok nsys) [''-d'', ''30''] = Parse_error \<and>
   on_command_line nfsiosnoop_options nfsiosnoop_key N_other (nfsiosnoop_main ok open_ok isys) [''-d'', ''30''] = Parse_error \<and>
   on_command_line nfsslower_options nfsslower_key K_other (nfsslower_main ok open_ok nsys) [''-v'', ''4''] = Parse_error \<and>
   on_command_line nfsiosnoop_options nfsiosnoop_key N_other (nfsiosnoop_main ok open_ok isys) [''-e'', ''BAD_STATEID''] = Usage_exit"
proof -
  have d: "argv_split smbslower_options [''-d'', ''30''] = ([], [], Argv_bad)"
      "argv_split nfsslower_options [''-d'', ''30''] = ([], [], Argv_bad)"
      "argv_split nfsiosnoop_options [''-d'', ''30''] = ([], [], Argv_bad)"
    by code_simp+
  have v: "argv_split nfsslower_options [''-v'', ''4''] = ([(CHR ''v'', [])], [''4''], Argv_done)" by code_simp
  have e: "argv_split nfsiosnoop_options [''-e'', ''BAD_STATEID''] = ([(CHR ''e'', ''BAD_STATEID'')], [], Argv_done)"
    by code_simp
  have bad: "nsnoop_parse_arg ok N_e ''BAD_STATEID'' nsnoop_opts_init = Usage_exit"
    by (cases ok) (simp only:, code_simp)+
  have keys: "nfsslower_key CHR ''v'' = K_v" "nfsiosnoop_key CHR ''e'' = N_e"
    by (simp_all add: nfsslower_key_def nfsiosnoop_key_def)
  show ?thesis
    by (simp add: on_command_line_def d v e keys bad smbslower_main_def nfsslower_main_def nfsiosnoop_main_def
        nfsslower_parse_arg_def slower_parse_arg_def)
qed

section \<open>Witness\<close>

text \<open>\<open>smbslower -c 8,9 --min=10\<close>, and a read request of 20 milliseconds.\<close>

lemma smb_example_command_main:
  "\<exists>sk s. smbslower_main True True True [] (\<lambda>_. smb_example_sys 1) [(K_c, ''8,9''), (K_m, ''10'')] = Parsed (Waiting sk s)"
proof -
  define g where "g = (slower_opts_init 20)\<lparr>so_include_mode := True, so_cmd_filter := (replicate 20 0)[8 := 1, 9 := 1], so_min_lat_ms := 10\<rparr>"
  have parse: "argp_parse (slower_parse_arg 20 True) [(K_c, ''8,9''), (K_m, ''10'')] (slower_opts_init 20) = Parsed g"
    unfolding g_def by code_simp
  have select: "smbslower_select (smb_example_sys 1) False = smbslower_select (smb_example_sys 1) True"
  proof -
    have "use_tracepoints (smb_example_sys 1) skip = False" for skip
      by (simp add: use_tracepoints_def smb_example_sys_def)
    then show ?thesis by (simp only: smbslower_select_def)
  qed
  obtain sk where sk: "smbslower_select (smb_example_sys 1) True = Inr sk" using smb_example_select by blast
  have "snd (slower_update_denylist_map 20 (\<lambda>_. 0) g Map.empty) = snd (slower_update_denylist_map 20 (\<lambda>_. 0) g Map.empty) \<and>
      fst (slower_update_denylist_map 20 (\<lambda>_. 0) g Map.empty) = 0"
    by (simp add: slower_update_denylist_map_def upt_rec slower_opts_init_def g_def Let_def bpf_map_update_elem_def)
  moreover have "sys_update (smb_example_sys 1) = (\<lambda>_. 0)" "sys_load (smb_example_sys 1) = 0" "sys_attach (smb_example_sys 1) = 0"
      "\<not> so_skip_tracepoints g"
    by (simp_all add: smb_example_sys_def g_def slower_opts_init_def)
  ultimately have "smbslower_main True True True [] (\<lambda>_. smb_example_sys 1) [(K_c, ''8,9''), (K_m, ''10'')] =
      Parsed (Waiting sk (smbslower_init (slower_fill_rodata g) (snd (slower_update_denylist_map 20 (\<lambda>_. 0) g Map.empty))))"
    by (simp only: smbslower_main_def parse bind_parsed.simps)
       (simp add: select sk smbslower_start_def Let_def case_prod_unfold)
  then show ?thesis by blast
qed

theorem smbslower_command_reports_witness:
  "\<exists>sk s t f ev. on_command_line smbslower_options smbslower_key K_other
       (smbslower_main True True True [] (\<lambda>_. smb_example_sys 1)) [''-c'', ''8,9'', ''--min=10''] = Parsed (Waiting sk s) \<and>
     smbslower_step\<^sup>*\<^sup>* s t \<and> smb_aodrb t = [(f, ev)] \<and> 10000000 \<le> unat (ev_metric ev) \<and>
     (unat (ev_command ev) \<in> {8, 9} \<or> 20 \<le> unat (ev_command ev))"
proof -
  let ?c = "\<lparr>opt_name = Some ''include-cmds'', opt_key = CHR ''c'', opt_arg = True\<rparr>"
  let ?m = "\<lparr>opt_name = Some ''min'', opt_key = CHR ''m'', opt_arg = True\<rparr>"
  have shown: "commas (map dec [8, 9]) = ''8,9''" "dec 10 = ''10''" by code_simp+
  have c: "option_written smbslower_options ?c (commas (map dec [8, 9])) [''-c'', ''8,9'']"
    unfolding shown using short_next [of ?c smbslower_options "''8,9''"] by (simp add: smbslower_options_def is_short_def)
  have m: "option_written smbslower_options ?m (dec 10) [''--min=10'']"
    unfolding shown using long_equals [of ?m smbslower_options "''min''" "''10''"] by (simp add: smbslower_options_def)
  obtain sk s where main: "smbslower_main True True True [] (\<lambda>_. smb_example_sys 1) [(K_c, ''8,9''), (K_m, ''10'')] = Parsed (Waiting sk s)"
    using smb_example_command_main by blast
  have cmd: "on_command_line smbslower_options smbslower_key K_other (smbslower_main True True True [] (\<lambda>_. smb_example_sys 1))
      ([''-c'', ''8,9''] @ [''--min=10'']) = Parsed (Waiting sk s)"
  proof -
    have tab: "smbslower_options \<in> set tool_tables" by (simp add: tool_tables_def)
    have "smbslower_key CHR ''c'' = K_c" "smbslower_key CHR ''m'' = K_m"
      by (simp_all add: smbslower_key_def)
    then show ?thesis using two_options [OF tab c m, of smbslower_key K_other
        "smbslower_main True True True [] (\<lambda>_. smb_example_sys 1)"] main unfolding shown
      by (simp only: argp_option.simps)
  qed
  have g: "argp_parse (slower_parse_arg 20 True) [(K_c, commas (map dec [8, 9])), (K_m, dec 10)] (slower_opts_init 20) = Parsed g \<Longrightarrow>
      so_min_lat_ms g = 10 \<and> 8 \<notin> denied 20 g" for g
    using list_and_latency [of "[8, 9]" 20 10 K_c True g] by simp
  from smbslower_main_ready [OF main] obtain h
    where h: "argp_parse (slower_parse_arg 20 True) [(K_c, ''8,9''), (K_m, ''10'')] (slower_opts_init 20) = Parsed h"
      "min_lat_ns (smb_rodata s) = so_min_lat_ms h * 1000000"
      "\<forall>cmd. smb_denylist s cmd \<noteq> None \<longleftrightarrow> unat cmd \<in> denied 20 h" "smb_temp s = Map.empty" "smb_aodrb s = []"
    by blast
  with g [unfolded shown, OF h(1)] spec [OF h(3), of 8]
  have s: "smb_denylist s 8 = None" "min_lat_ns (smb_rodata s) = 10000000" "smb_temp s = Map.empty" "smb_aodrb s = []"
    by simp_all
  have "\<exists>f ev. smb_aodrb (example_smb_run s) = [(f, ev)]"
    using s by (simp add: example_smb_run_def smbslower_release_eq smbslower_exit_aodrb smbslower_alloc_temp
        aod_example_env_def cifs_example_mem_def del: smbslower_alloc.simps)
  then obtain f ev where ev: "smb_aodrb (example_smb_run s) = [(f, ev)]" by blast
  from smbslower_command_reports [OF _ _ _ c _ m _ cmd example_smb_run_steps] ev
  have "10000000 \<le> unat (ev_metric ev) \<and> (unat (ev_command ev) \<in> {8, 9} \<or> 20 \<le> unat (ev_command ev))" by simp
  with cmd ev example_smb_run_steps show ?thesis by auto
qed

end
