(* ===== verification/Operation_Types.thy ===== *)
theory Operation_Types
  imports Ioslower_User Iosnoop_User
begin

text \<open>
  The numbers of the operations. ioslower and iosnoop each declare them twice, for the BPF programs that write
  records and for the user program that prints their names; nothing but the equality of these declarations
  makes the names right. The tables here are the \<open>#define\<close>s of the four files.
\<close>

section \<open>The declarations\<close>

definition ioslower_bpf_types :: "(string \<times> int) list" where
  "ioslower_bpf_types =
     [(''SC_OPEN'', 1), (''SC_OPENAT'', 2), (''SC_READ'', 3), (''SC_WRITE'', 4),
      (''SC_CLOSE'', 5), (''SC_STAT'', 6), (''SC_LSTAT'', 7), (''SC_FSTAT'', 8),
      (''SC_MKDIR'', 9), (''SC_MKDIRAT'', 10), (''SC_RMDIR'', 11), (''SC_UNLINK'', 12),
      (''SC_UNLINKAT'', 13), (''SC_RENAME'', 14), (''SC_RENAMEAT'', 15), (''SC_RENAMEAT2'', 16),
      (''SC_MOUNT'', 17), (''SC_UMOUNT2'', 18), (''SC_CHMOD'', 19), (''SC_FCHMOD'', 20),
      (''SC_CHOWN'', 21), (''SC_FCHOWN'', 22), (''SC_TRUNCATE'', 23), (''SC_FTRUNCATE'', 24),
      (''SC_LINK'', 25), (''SC_LINKAT'', 26), (''SC_SYMLINK'', 27), (''SC_SYMLINKAT'', 28),
      (''SC_READLINK'', 29), (''SC_READLINKAT'', 30), (''SC_PREAD64'', 31), (''SC_PWRITE64'', 32),
      (''SC_READV'', 33), (''SC_WRITEV'', 34), (''SC_PREADV'', 35), (''SC_PWRITEV'', 36),
      (''SC_MMAP'', 45), (''SC_MUNMAP'', 47), (''SC_CREATE'', 48), (''SC_FALLOCATE'', 49),
      (''SC_GETDENTS'', 50), (''SC_LOCK_FCNTL'', 51), (''SC_LOCK_FLOCK'', 52)]"

definition iosnoop_bpf_types :: "(string \<times> int) list" where
  "iosnoop_bpf_types =
     [(''IO_OPEN'', 1), (''IO_OPENAT'', 2), (''IO_READ'', 3), (''IO_WRITE'', 4),
      (''IO_CLOSE'', 5), (''IO_STAT'', 6), (''IO_LSTAT'', 7), (''IO_FSTAT'', 8),
      (''IO_MKDIR'', 9), (''IO_MKDIRAT'', 10), (''IO_RMDIR'', 11), (''IO_UNLINK'', 12),
      (''IO_UNLINKAT'', 13), (''IO_RENAME'', 14), (''IO_RENAMEAT'', 15), (''IO_RENAMEAT2'', 16),
      (''IO_MOUNT'', 17), (''IO_UMOUNT2'', 18), (''IO_CHMOD'', 19), (''IO_FCHMOD'', 20),
      (''IO_CHOWN'', 21), (''IO_FCHOWN'', 22), (''IO_TRUNCATE'', 23), (''IO_FTRUNCATE'', 24),
      (''IO_LINK'', 25), (''IO_LINKAT'', 26), (''IO_SYMLINK'', 27), (''IO_SYMLINKAT'', 28),
      (''IO_READLINK'', 29), (''IO_READLINKAT'', 30), (''IO_PREAD64'', 31), (''IO_PWRITE64'', 32),
      (''IO_READV'', 33), (''IO_WRITEV'', 34), (''IO_PREADV'', 35), (''IO_PWRITEV'', 36),
      (''IO_MMAP'', 45), (''IO_MUNMAP'', 47), (''IO_CREATE'', 48), (''IO_FALLOCATE'', 49),
      (''IO_GETDENTS'', 50), (''IO_LOCK_FCNTL'', 51), (''IO_LOCK_FLOCK'', 52)]"

definition ioslower_types :: "(string \<times> int) list" where
  "ioslower_types =
     [(''SC_OPEN'', 1), (''SC_OPENAT'', 2), (''SC_READ'', 3), (''SC_WRITE'', 4),
      (''SC_CLOSE'', 5), (''SC_STAT'', 6), (''SC_LSTAT'', 7), (''SC_FSTAT'', 8),
      (''SC_MKDIR'', 9), (''SC_MKDIRAT'', 10), (''SC_RMDIR'', 11), (''SC_UNLINK'', 12),
      (''SC_UNLINKAT'', 13), (''SC_RENAME'', 14), (''SC_RENAMEAT'', 15), (''SC_RENAMEAT2'', 16),
      (''SC_MOUNT'', 17), (''SC_UMOUNT2'', 18), (''SC_CHMOD'', 19), (''SC_FCHMOD'', 20),
      (''SC_CHOWN'', 21), (''SC_FCHOWN'', 22), (''SC_TRUNCATE'', 23), (''SC_FTRUNCATE'', 24),
      (''SC_LINK'', 25), (''SC_LINKAT'', 26), (''SC_SYMLINK'', 27), (''SC_SYMLINKAT'', 28),
      (''SC_READLINK'', 29), (''SC_READLINKAT'', 30), (''SC_PREAD64'', 31), (''SC_PWRITE64'', 32),
      (''SC_READV'', 33), (''SC_WRITEV'', 34), (''SC_PREADV'', 35), (''SC_PWRITEV'', 36),
      (''SC_URING_ENTER'', 37), (''SC_URING_SETUP'', 38), (''SC_URING_REGISTER'', 39), (''SC_SETUP'', 40),
      (''SC_SUBMIT'', 41), (''SC_GETEVENTS'', 42), (''SC_CANCEL'', 43), (''SC_DESTROY'', 44),
      (''SC_MMAP'', 45), (''SC_MMAP2'', 46), (''SC_MUNMAP'', 47), (''SC_CREATE'', 48),
      (''SC_FALLOCATE'', 49), (''SC_GETDENTS'', 50), (''SC_LOCK_FCNTL'', 51), (''SC_LOCK_FLOCK'', 52)]"

definition iosnoop_types :: "(string \<times> int) list" where
  "iosnoop_types =
     [(''IO_OPEN'', 1), (''IO_OPENAT'', 2), (''IO_READ'', 3), (''IO_WRITE'', 4),
      (''IO_CLOSE'', 5), (''IO_STAT'', 6), (''IO_LSTAT'', 7), (''IO_FSTAT'', 8),
      (''IO_MKDIR'', 9), (''IO_MKDIRAT'', 10), (''IO_RMDIR'', 11), (''IO_UNLINK'', 12),
      (''IO_UNLINKAT'', 13), (''IO_RENAME'', 14), (''IO_RENAMEAT'', 15), (''IO_RENAMEAT2'', 16),
      (''IO_MOUNT'', 17), (''IO_UMOUNT2'', 18), (''IO_CHMOD'', 19), (''IO_FCHMOD'', 20),
      (''IO_CHOWN'', 21), (''IO_FCHOWN'', 22), (''IO_TRUNCATE'', 23), (''IO_FTRUNCATE'', 24),
      (''IO_LINK'', 25), (''IO_LINKAT'', 26), (''IO_SYMLINK'', 27), (''IO_SYMLINKAT'', 28),
      (''IO_READLINK'', 29), (''IO_READLINKAT'', 30), (''IO_PREAD64'', 31), (''IO_PWRITE64'', 32),
      (''IO_READV'', 33), (''IO_WRITEV'', 34), (''IO_PREADV'', 35), (''IO_PWRITEV'', 36),
      (''IO_URING_ENTER'', 37), (''IO_URING_SETUP'', 38), (''IO_URING_REGISTER'', 39), (''IO_SETUP'', 40),
      (''IO_SUBMIT'', 41), (''IO_GETEVENTS'', 42), (''IO_CANCEL'', 43), (''IO_DESTROY'', 44),
      (''IO_MMAP'', 45), (''IO_MMAP2'', 46), (''IO_MUNMAP'', 47), (''IO_CREATE'', 48),
      (''IO_FALLOCATE'', 49), (''IO_GETDENTS'', 50), (''IO_LOCK_FCNTL'', 51), (''IO_LOCK_FLOCK'', 52)]"

section \<open>Names\<close>

definition lower :: "char \<Rightarrow> char" where
  "lower c =
     (case map_of (zip ''ABCDEFGHIJKLMNOPQRSTUVWXYZ'' ''abcdefghijklmnopqrstuvwxyz'') c of None \<Rightarrow> c | Some d \<Rightarrow> d)"

section \<open>Facts\<close>

lemma bpf_types_parts:
  "ioslower_bpf_types = take 36 ioslower_types @ take 1 (drop 44 ioslower_types) @ drop 46 ioslower_types"
  "iosnoop_bpf_types = take 36 iosnoop_types @ take 1 (drop 44 iosnoop_types) @ drop 46 iosnoop_types"
  by (simp_all add: ioslower_bpf_types_def iosnoop_bpf_types_def ioslower_types_def iosnoop_types_def)

lemma numbers_in_order:
  "map snd ioslower_types = map fst syscall_names" "map snd iosnoop_types = map fst io_type_names"
  "map fst syscall_names = map fst io_type_names"
  by (simp_all add: ioslower_types_def iosnoop_types_def syscall_names_def io_type_names_def)

lemma numbers_upto: "map fst io_type_names = [1..52]"
  by (simp add: io_type_names_def upto.simps)

lemma names_match:
  "list_all2 (\<lambda>(n, k) name. name \<in> {n, drop 3 n}) iosnoop_types (map snd io_type_names)"
  "list_all2 (\<lambda>(n, k) name. name \<in> {map lower (drop 3 n), ''io_'' @ map lower (drop 3 n)}) ioslower_types (map snd syscall_names)"
  "map snd syscall_names = map (map lower) (map snd io_type_names)"
  "distinct (map snd io_type_names)"
  by code_simp+

lemma lookup_keys:
  "distinct (map fst xs) \<Longrightarrow>
     map (\<lambda>k. case map_of xs k of Some n \<Rightarrow> n | None \<Rightarrow> d) (map fst xs) = map snd xs"
  by (auto intro!: map_cong)

lemma printed_names:
  "map syscall_name [1..52] = map snd syscall_names" "map io_type_str [1..52] = map snd io_type_names"
proof -
  have keys: "map fst syscall_names = [1..52]" "map fst io_type_names = [1..52]"
    using numbers_upto numbers_in_order(3) by simp_all
  then show "map syscall_name [1..52] = map snd syscall_names"
    using lookup_keys [of syscall_names "''UNKNOWN''"] by (simp add: syscall_name_def [abs_def])
  show "map io_type_str [1..52] = map snd io_type_names"
    using lookup_keys [of io_type_names "''UNKNOWN''"] keys by (simp add: io_type_str_def [abs_def])
qed

lemma declared_numbers:
  "map snd ioslower_bpf_types = [1, 2, 3, 4, 5, 6, 7, 8, 9, 10, 11, 12, 13, 14, 15, 16, 17, 18, 19, 20, 21, 22, 23, 24, 25, 26, 27, 28, 29, 30, 31, 32, 33, 34, 35, 36, 45, 47, 48, 49, 50, 51, 52]"
  "map snd iosnoop_bpf_types = [1, 2, 3, 4, 5, 6, 7, 8, 9, 10, 11, 12, 13, 14, 15, 16, 17, 18, 19, 20, 21, 22, 23, 24, 25, 26, 27, 28, 29, 30, 31, 32, 33, 34, 35, 36, 45, 47, 48, 49, 50, 51, 52]"
  by (simp_all add: ioslower_bpf_types_def iosnoop_bpf_types_def)

lemma recorded_declared:
  "uint (entry_type x) \<in> snd ` set ioslower_bpf_types" "uint (entry_type x) \<in> snd ` set iosnoop_bpf_types"
  unfolding set_map [symmetric] declared_numbers by (cases x; simp)+

section \<open>Properties\<close>

text \<open>
  C37: the names ioslower and iosnoop print are those of the operations the BPF programs recorded. Each number a BPF
  program can write is declared there and, with the same name, in the user program; the user programs know the
  numbers 1 to 52, print for each its declared name (in small letters in ioslower, and with \<open>IO_\<close> for
  the calls of libaio), the same name in both tools, and no name for two numbers.
\<close>

theorem operation_names_agree:
  "(\<forall>d \<in> set ioslower_bpf_types. d \<in> set ioslower_types) \<and> (\<forall>d \<in> set iosnoop_bpf_types. d \<in> set iosnoop_types) \<and>
   (\<forall>x. uint (entry_type x) \<in> snd ` set ioslower_bpf_types \<and> uint (entry_type x) \<in> snd ` set iosnoop_bpf_types) \<and>
   snd ` set ioslower_types = {1..52} \<and> snd ` set iosnoop_types = {1..52} \<and>
   (\<forall>(n, k) \<in> set iosnoop_types. io_type_str k \<in> {n, drop 3 n}) \<and>
   (\<forall>(n, k) \<in> set ioslower_types. syscall_name k \<in> {map lower (drop 3 n), ''io_'' @ map lower (drop 3 n)}) \<and>
   (\<forall>k \<in> {1..52}. syscall_name k = map lower (io_type_str k)) \<and> inj_on io_type_str {1..52}"
proof (intro conjI)
  have numbers: "map snd ioslower_types = [1..52]" "map snd iosnoop_types = [1..52]"
    using numbers_in_order numbers_upto by simp_all
  show "snd ` set ioslower_types = {1..52}" "snd ` set iosnoop_types = {1..52}"
    unfolding set_map [symmetric] numbers by (rule set_upto)+
  show "\<forall>d \<in> set ioslower_bpf_types. d \<in> set ioslower_types" "\<forall>d \<in> set iosnoop_bpf_types. d \<in> set iosnoop_types"
    unfolding bpf_types_parts by (auto dest: in_set_takeD in_set_dropD)
  show "\<forall>x. uint (entry_type x) \<in> snd ` set ioslower_bpf_types \<and> uint (entry_type x) \<in> snd ` set iosnoop_bpf_types"
    using recorded_declared by blast
  have "map snd io_type_names = map (\<lambda>(n, k). io_type_str k) iosnoop_types"
    unfolding printed_names(2) [symmetric] numbers(2) [symmetric] by (simp add: case_prod_unfold)
  from names_match(1) [unfolded this] show "\<forall>(n, k) \<in> set iosnoop_types. io_type_str k \<in> {n, drop 3 n}"
    by (simp add: list_all2_map2 list_all2_same case_prod_unfold)
  have "map snd syscall_names = map (\<lambda>(n, k). syscall_name k) ioslower_types"
    unfolding printed_names(1) [symmetric] numbers(1) [symmetric] by (simp add: case_prod_unfold)
  from names_match(2) [unfolded this]
  show "\<forall>(n, k) \<in> set ioslower_types. syscall_name k \<in> {map lower (drop 3 n), ''io_'' @ map lower (drop 3 n)}"
    by (simp add: list_all2_map2 list_all2_same case_prod_unfold)
  have "map syscall_name [1..52] = map (\<lambda>k. map lower (io_type_str k)) [1..52]"
    using names_match(3) unfolding printed_names [symmetric] by simp
  then show "\<forall>k \<in> {1..52}. syscall_name k = map lower (io_type_str k)" by (simp only: map_eq_conv set_upto)
  have "distinct (map io_type_str [1..52])" using names_match(4) unfolding printed_names(2) .
  then show "inj_on io_type_str {1..52}" by (simp only: distinct_map set_upto)
qed

section \<open>Witness\<close>

text \<open>A read, declared in the BPF program and printed by both tools.\<close>

theorem operation_names_agree_witness:
  "(''IO_READ'', 3) \<in> set iosnoop_bpf_types \<and> (''IO_READ'', 3) \<in> set iosnoop_types \<and>
   io_type_str 3 \<in> {''IO_READ'', ''READ''} \<and> syscall_name 3 = map lower (io_type_str 3)"
proof -
  have bpf: "(''IO_READ'', 3) \<in> set iosnoop_bpf_types" by (simp add: iosnoop_bpf_types_def)
  note agree = operation_names_agree
  from bspec [OF conjunct1 [OF conjunct2 [OF agree]] bpf] have user: "(''IO_READ'', 3) \<in> set iosnoop_types" .
  have "io_type_str 3 \<in> {''IO_READ'', drop 3 ''IO_READ''}" "syscall_name 3 = map lower (io_type_str 3)"
    using agree user by fastforce+
  with bpf user show ?thesis by simp
qed

end
