(* ===== verification/Spec2Isabelle.thy ===== *)
theory Spec2Isabelle
  imports Io_Capacity Tool_Commands Operation_Types
begin

text \<open>
  Six tools that watch file system activity of a Linux machine, and what they share.

  \<^bold>\<open>The program.\<close> Each tool is a pair: BPF programs that the kernel runs when a function or a
  tracepoint is hit (\<open>src/src/bpf/*.bpf.c\<close>), and a user program that parses options, chooses which of
  the BPF programs the running kernel can load, fills their maps, attaches them and waits
  (\<open>src/src/user/*.c\<close>). ioslower and iosnoop follow calls of the VFS layer and print a line for each
  record themselves. nfsslower, nfsiosnoop, smbslower and smbiosnoop write records of one format into
  one pinned ring buffer, which consumers read through \<open>src/src/ringbuf_shim.c\<close> or libbpf
  (\<open>src/src/common/shim_consumer.py\<close>, \<open>src/src/common/sample_consumer.py\<close>). All loaders ask
  \<open>src/src/common/trace_helpers.c\<close> what the kernel supports.

  \<^bold>\<open>Theories.\<close>
  \<^item> \<open>Aod_Prelude\<close>: words, C strings in buffers, decimal text, the collections of simplification rules.
  \<^item> \<open>Bpf_Runtime\<close>: what the programs use of the kernel (maps, ring buffer, clock, reads of kernel
    memory) as an environment record \<open>bpf_env\<close>, and the contracts: \<open>keyed_store\<close> (a dictionary with
    failing inserts), \<open>probe_table\<close> and \<open>first_entry_table\<close> (entry and exit programs around a table of
    pending operations). A run is a list of calls (\<open>probe_run\<close>), so every interleaving of threads is
    covered.
  \<^item> \<open>Vfs_Probes\<close>: the hooked VFS functions with their arguments, shared by ioslower and iosnoop.
  \<^item> \<open>Ioslower_Bpf\<close> and \<open>Iosnoop_Text\<close>, \<open>Iosnoop_Bpf\<close>: one definition for each helper and each
    program, named as in the code with the tool's name in front; \<open>*_entry\<close> and \<open>*_exit\<close> dispatch a
    call to the program of either family. The text building of iosnoop is an option: \<open>None\<close> is a store
    outside the buffer, and no program ever gives it.
  \<^item> \<open>Aod_Event\<close>: the shared record (\<open>aod_diag.h\<close>), byte orders and raw tracepoint records.
    \<open>Nfs_Common\<close>, \<open>Nfsslower_Bpf\<close>, \<open>Nfsiosnoop_Bpf\<close>, \<open>Smb_Common\<close>, \<open>Smbslower_Bpf\<close>,
    \<open>Smbiosnoop_Bpf\<close>: the programs of the four tools.
  \<^item> \<open>C_Library\<close>: \<open>strtol\<close>, \<open>strtoull\<close>, \<open>atoi\<close>, \<open>strtok\<close>, \<open>bsearch\<close> as the loaders use them.
    \<open>Loader_Common\<close>: option parsing, exit statuses, the skeleton with autoload and autoattach.
    \<open>Slower_Options\<close>: the command lists and the deny map of smbslower and nfsslower.
    \<open>Smbslower_Loader\<close>, \<open>Nfsslower_Loader\<close>, \<open>Nfsiosnoop_Loader\<close>, \<open>Smbiosnoop_Loader\<close>: the four user
    programs up to the wait loop. The answers of the system are a record for each loader.
  \<^item> \<open>Trace_Helpers\<close>: the questions to the kernel; open descriptors are state. \<open>Vfs_Loader\<close>: the choice
    between fentry and kprobe programs over the tables of names and sections of both objects.
  \<^item> \<open>Io_User\<close>, \<open>Ioslower_User\<close>, \<open>Iosnoop_User\<close>: the user programs of ioslower and iosnoop.
    \<open>Io_Records\<close>: the bytes of their records, and the poll loop with the callback that prints a line
    for what libbpf delivers. \<open>Io_Main\<close>: the two complete programs, from the words of the command line to
    the exit status and everything on standard output, with the BPF programs running beside the poll loop;
    the contract \<open>appending_programs\<close> is what the loop needs of them. \<open>Operation_Types\<close>: the four
    declarations of the operation numbers and the names printed for them.
  \<^item> \<open>Command_Line\<close>: the option tables of the six tools, and how argp splits a command line by such a
    table into the options that the parsers above get. \<open>Tool_Commands\<close>: smbslower and nfsslower from their
    command lines to their records, and the command lines of the README.
  \<^item> \<open>Ringbuf_Shim\<close>: the shim, with libbpf's poll as a parameter that is only known to deliver records
    in order until the callback refuses one (\<open>polls_in_order\<close>).
  \<^item> \<open>Consumers\<close>: the two Python consumers: the layouts they declare for the record, the line they
    print, their polling loops, \<open>--detach\<close> and their \<open>main\<close>.
  \<^item> \<open>Tool_Runs\<close>: a loader's state and any sequence of runs of its programs. The contract
    \<open>ring_writer\<close> is what the ring buffer sees of a tool; \<open>configured_reporter\<close>, a tool that decides
    about each hit on the spot, is one. All four tools of the network file systems are instances.
  \<^item> \<open>Shared_Ring\<close>: these four tools, their one ring buffer and the shim consumer as one step relation.
    \<open>Map_Capacity\<close>: the tables of pending operations with their \<open>max_entries\<close>; the contract
    \<open>bounded_probe_table\<close> extends \<open>probe_table\<close> by an entry program that respects a refused insert, and
    all five tables are instances. \<open>Ring_Capacity\<close>: the shared ring with its size. \<open>Io_Capacity\<close>: the
    rings of ioslower and iosnoop with theirs; the contract \<open>reserving_programs\<close> says what an exit program
    makes of a refused reservation.
    This theory: properties from options to records and consumers.

  \<^bold>\<open>What the lemmas show.\<close> For each tool: an operation is reported exactly once with the right
  contents, iff the filters, the threshold and the room in the ring buffer allow it, under every
  interleaving with other calls; invariants of all reachable states; the two program families of a VFS
  tool have the same effect; the loader enables matching programs and fills the maps with exactly what
  the options ask for; lists of commands and errors survive printing and parsing; the shim stays in its
  buffer and hands on the records unchanged; both consumers print the same lines, in order and none
  twice, also when all tools write at once; the maps the loaders fill never overflow. Both VFS tools print,
  for their whole session and however it ends, exactly the lines of what was recorded; an option means the
  same however it is written; the operation numbers of the BPF and the user programs agree; the tables of
  pending operations and the shared ring stay within their sizes, and a full table hides what finds no room
  in it; as long as the polls keep up with the operations, ioslower and iosnoop lose no record. The
  concrete surprises of the code are theorems too: nested calls of one thread hide each other in ioslower,
  latencies are cut to 32 bits, a wake-up size silences the two snoop tools, descriptors leak in the shim.

  \<^bold>\<open>Bounds.\<close> All integers have the width of the code as words; \<open>int\<close> stands for the C types \<open>int\<close> and
  \<open>long\<close> where the code only compares, with the cuts between them written out (\<open>to_int\<close>). There is no
  fuel: every loop of the code is a structural recursion or a function with a termination proof; the
  poll loop consumes the list of its rounds, and \<open>None\<close> means that it has not ended within them. The
  tables of pending operations hold 4096 operations (ioslower, iosnoop) or 49152 requests, and the shared
  ring 149796 events of 56 bytes with their headers; 74 iterations of a consumer that takes 2049 events at
  a time are enough for them. The rings of ioslower and iosnoop hold 819 and 7384 records. That the kernel
  refuses what does not fit is a hypothesis (\<open>keeps_capacity\<close>, \<open>ring_has_room\<close>), and that it accepts what
  fits is another (\<open>turns_reserve\<close>); without it the other results hold for every outcome of an insert
  or a reservation.

  \<^bold>\<open>Not modelled.\<close> The generated headers \<open>src/src/common/x86/*.h\<close> only declare kernel types; the
  programs' reads of kernel memory are the readers in \<open>kernel_mem\<close>, \<open>nfs_mem\<close> and \<open>cifs_mem\<close>, which
  give 0 where a read faults. The BPF verifier, the kernel and libbpf are parameters. Two programs do
  not interleave inside one run, with one exception: the exit program of nfsslower, which reads a map
  slot it has freed, gets what another processor has put there. What the tools write to standard
  error, the help texts of argp, the text of the clock and the tests are left out; of argp's own options those
  its manual does not name are left out too. The text of a latency in the consumers (\<open>'.2f'\<close> of a
  floating point quotient) is a parameter. The padding byte of a record is 0 in \<open>encode_event\<close>; no
  reader looks at it.
\<close>

section \<open>Properties of whole tools\<close>

text \<open>
  C3: from its command line to its consumer, smbslower reports only what the options ask for. Once
  the tool waits, whatever runs of its programs happen, every event that a reader polls out of the
  ring buffer through the shim is one of the records, in order, of a command the options do not deny
  and with at least the minimum latency.
\<close>

theorem smbslower_consumer_reads_selected:
  assumes main: "smbslower_main ok open_ok present runs world opts = Parsed (Waiting sk s)"
    and run: "smbslower_step\<^sup>*\<^sup>* s t"
    and poll: "polls_in_order poll" "0 \<le> capacity" "nat capacity * sizeof_event \<le> length buf"
      "\<not> rbc_fault ctx"
      "rb_poll_into poll ctx buf capacity timeout (map encode_event (map snd (smb_aodrb t))) = (ret, ctx', rest)"
      "i < nat ret"
  shows "\<exists>g. argp_parse (slower_parse_arg 20 ok) opts (slower_opts_init 20) = Parsed g \<and>
           (let ev = decode_event (take 48 (drop (i * 48) (ext_buf ctx')))
            in i < length (smb_aodrb t) \<and> ev = snd (smb_aodrb t ! i) \<and>
               unat (ev_command ev) \<notin> denied 20 g \<and> so_min_lat_ms g * 1000000 \<le> ev_metric ev \<and>
               ev_tool ev = SMBSLOWER)"
proof -
  obtain g where g: "argp_parse (slower_parse_arg 20 ok) opts (slower_opts_init 20) = Parsed g"
    and lat: "min_lat_ns (smb_rodata s) = so_min_lat_ms g * 1000000"
    and deny: "\<forall>cmd. smb_denylist s cmd \<noteq> None \<longleftrightarrow> unat cmd \<in> denied 20 g"
    and empty: "smb_temp s = Map.empty" "smb_trace_temp s = Map.empty" "smb_aodrb s = []"
    using smbslower_main_ready [OF main] by blast
  have "smbslower_inv (smb_rodata s) (smb_denylist s) t"
    by (rule smb_writer.inv_run [OF run]) (simp add: smbslower_inv_def empty)
  then have ok: "slow_record_ok (smb_rodata s) (smb_denylist s) SMBSLOWER ev" if "ev \<in> set (map snd (smb_aodrb t))" for ev
    using that by (auto simp: smbslower_inv_def)
  then have "\<forall>ev \<in> set (map snd (smb_aodrb t)). length (ev_task ev) = 16"
    by (simp add: slow_record_ok_def)
  from poll_yields_events [OF poll(1-4) this poll(5,6)]
  have i: "i < length (smb_aodrb t)"
    and ev: "decode_event (take 48 (drop (i * 48) (ext_buf ctx'))) = snd (smb_aodrb t ! i)"
    by auto
  have "slow_record_ok (smb_rodata s) (smb_denylist s) SMBSLOWER (snd (smb_aodrb t ! i))"
    using i by (intro ok) simp
  then show ?thesis
    using g lat spec [OF deny, of "ev_command (snd (smb_aodrb t ! i))"] i by (simp add: ev slow_record_ok_def Let_def)
qed

text \<open>
  Nfsslower reports only what the options ask for. Once the tool waits, whatever runs of its
  programs happen, and also when the slot of a finished request is reused before its command is
  read, every record is of a command the options do not deny and has at least the minimum latency.
\<close>

theorem nfsslower_reports_selected:
  assumes main: "nfsslower_main ok open_ok sys opts = Parsed (Waiting sk s)"
    and run: "nfsslower_step\<^sup>*\<^sup>* s t"
  shows "\<exists>g. argp_parse (nfsslower_parse_arg ok) opts nfsslower_opts_init = Parsed g \<and>
           (\<forall>(f, ev) \<in> set (nslow_aodrb t).
              unat (ev_command ev) \<notin> denied 70 g \<and> so_min_lat_ms g * 1000000 \<le> ev_metric ev \<and>
              ev_tool ev = NFSSLOWER)"
proof -
  obtain g where g: "argp_parse (nfsslower_parse_arg ok) opts nfsslower_opts_init = Parsed g"
    and lat: "min_lat_ns (nslow_rodata s) = so_min_lat_ms g * 1000000"
    and deny: "\<forall>cmd. nslow_denylist s cmd \<noteq> None \<longleftrightarrow> unat cmd \<in> denied 70 g"
    and empty: "nslow_temp s = Map.empty" "nslow_aodrb s = []"
    using nfsslower_main_ready [OF main] by blast
  have "nfsslower_inv (nslow_rodata s) (nslow_denylist s) t"
    by (rule nfs_writer.inv_run [OF run]) (simp add: nfsslower_inv_def empty)
  then show ?thesis using g lat deny by (force simp: nfsslower_inv_def slow_record_ok_def)
qed

text \<open>
  C11: smbiosnoop reports exactly the failures its options ask for. Once the tool waits, after any
  sequence of hits of the tracepoint the ring buffer holds, in order, one record for each hit whose
  status is an error on the list of statuses (any error without such a list) and whose command is
  on the list of commands (any command without one), and for which the buffer had room.
\<close>

theorem smbiosnoop_reports_exactly:
  assumes main: "smbiosnoop_main ok open_ok sys opts = Parsed (Waiting sk s)"
  shows "\<exists>g. argp_parse (ssnoop_parse_arg ok) opts ssnoop_opts_init = Parsed g \<and>
           map snd (ssnoop_aodrb (smbiosnoop_run hits s)) =
             map ssnoop_record (filter (\<lambda>(e, ctx).
               let a = view_smb3_cmd_err_args ctx
               in er_status a \<noteq> 0 \<and> (sso_err_filter g = [] \<or> er_status a \<in> set (sso_err_filter g)) \<and>
                  (sso_cmd_filter g = [] \<or> er_cmd a \<in> set (sso_cmd_filter g)) \<and>
                  rb_reserve e (wakeup_flags (ucast (sso_wakeup_data_size g)) (rb_avail e 0))) hits)"
proof -
  obtain g where g: "argp_parse (ssnoop_parse_arg ok) opts ssnoop_opts_init = Parsed g"
    and empty: "ssnoop_aodrb s = []"
    and size: "snoop_wakeup_data_size (ssnoop_rodata s) = ucast (sso_wakeup_data_size g)"
    and admits: "\<forall>status cmd. ssnoop_admits s status cmd =
              ((sso_err_filter g = [] \<or> status \<in> set (sso_err_filter g)) \<and>
               (sso_cmd_filter g = [] \<or> cmd \<in> set (sso_cmd_filter g)))"
    using smbiosnoop_main_ready [OF main] by blast
  show ?thesis
    by (rule exI [of _ g])
       (auto simp: g smbiosnoop_run_records empty ssnoop_wanted_def size admits Let_def
          intro!: arg_cong [where f = "map ssnoop_record"] filter_cong)
qed

text \<open>
  C12: nfsiosnoop enables one program and reports exactly the failures its options ask for. Once the
  tool waits, after any sequence of hits of that program the ring buffer holds, in order, one record
  for each hit that failed with an error on the list of errors (any error without such a list), with
  a command on the list of commands (any command without one), and for which the buffer had room.
\<close>

theorem nfsiosnoop_reports_exactly:
  assumes main: "nfsiosnoop_main ok open_ok sys opts = Parsed (Waiting sk s)"
  shows "\<exists>g p. argp_parse (nsnoop_parse_arg ok) opts nsnoop_opts_init = Parsed g \<and> enabled sk = {p} \<and>
           map snd (nsnoop_aodrb (nfsiosnoop_run p hits s)) =
             map (nfs_hit_record p) (filter (\<lambda>hit.
               case (hit, nfs_seen p hit) of ((km, e, ctx, task), (xid, cmd, err, failed)) \<Rightarrow>
                 failed \<and> (no_err_filter g = [] \<or> err \<in> word_of_int ` set (no_err_filter g)) \<and>
                 (no_cmd_filter g = [] \<or> cmd \<in> set (no_cmd_filter g)) \<and>
                 rb_reserve e (wakeup_flags (ucast (no_wakeup_data_size g)) (rb_avail e 0))) hits)"
proof -
  obtain g where g: "argp_parse (nsnoop_parse_arg ok) opts nsnoop_opts_init = Parsed g"
    and "enabled sk =
             {if nss_tracepoint_exists sys then
                if tracepoint_has_lazy_preempt (nss_formats sys) then P_trace_nfs4_xdr_status_lazy
                else P_trace_nfs4_xdr_status
              else if nss_fentry_can_attach sys then P_nsnoop_rpc_done_exit else P_nsnoop_rpc_done_kprobe}"
    and empty: "nsnoop_aodrb s = []"
    and size: "snoop_wakeup_data_size (nsnoop_rodata s) = ucast (no_wakeup_data_size g)"
    and admits: "\<forall>err cmd. nsnoop_admits s err cmd =
              ((no_err_filter g = [] \<or> err \<in> word_of_int ` set (no_err_filter g)) \<and>
               (no_cmd_filter g = [] \<or> cmd \<in> set (no_cmd_filter g)))"
    using nfsiosnoop_main_ready [OF main] by blast
  then obtain p where p: "enabled sk = {p}" by blast
  show ?thesis
    by (rule exI [of _ g], rule exI [of _ p])
       (auto simp: g p nfsiosnoop_run_records empty nfs_hit_wanted_def size admits
          intro!: arg_cong [where f = "map (nfs_hit_record p)"] filter_cong split: prod.splits)
qed

section \<open>Map sizes\<close>

lemma card_small_keys: "card {w :: 'a::len word. unat w < n} \<le> n"
proof -
  have "{w :: 'a word. unat w < n} \<subseteq> of_nat ` {..<n}"
    by (force simp: image_iff intro: bexI [of _ "unat w" for w])
  then have "card {w :: 'a word. unat w < n} \<le> card (of_nat ` {..<n} :: 'a word set)" by (intro card_mono) auto
  also have "\<dots> \<le> n" using card_image_le [of "{..<n}" of_nat] by simp
  finally show ?thesis .
qed

lemma card_denied:
  assumes "\<forall>cmd :: u16. deny cmd \<noteq> None \<longleftrightarrow> unat cmd \<in> denied n g"
  shows "card (dom deny) \<le> n"
proof -
  have "dom deny \<subseteq> {w. unat w < n}" using assms by (auto simp: denied_def)
  then have "card (dom deny) \<le> card {w :: u16. unat w < n}" by (intro card_mono) auto
  then show ?thesis using card_small_keys [of n, where 'a = 16] by linarith
qed

text \<open>
  C35: the maps that the loaders fill before they wait never hold more keys than their
  \<open>max_entries\<close> (the numbers of commands, statuses and error codes), whatever the options were, so no
  option that the parsers accept makes an insertion fail for lack of room.
\<close>

theorem loader_maps_fit:
  assumes "smbslower_main ok1 open1 present runs world opts1 = Parsed (Waiting sk1 s1)"
    and "nfsslower_main ok2 open2 sys2 opts2 = Parsed (Waiting sk2 s2)"
    and "smbiosnoop_main ok3 open3 sys3 opts3 = Parsed (Waiting sk3 s3)"
    and "nfsiosnoop_main ok4 open4 sys4 opts4 = Parsed (Waiting sk4 s4)"
  shows "card (dom (smb_denylist s1)) \<le> MAX_SMB_COMMANDS \<and> card (dom (nslow_denylist s2)) \<le> MAX_NFS_COMMANDS \<and>
    card (dom (ssnoop_allowlist_cmds s3)) \<le> MAX_SMB_COMMANDS \<and>
    card (dom (ssnoop_allowlist_errors s3)) \<le> MAX_SMB_STATUS_CODES \<and>
    card (dom (nsnoop_allowlist_cmds s4)) \<le> MAX_NFS_COMMANDS \<and>
    card (dom (nsnoop_allowlist_errors s4)) \<le> MAX_ERROR_CODES"
proof (intro conjI)
  show "card (dom (smb_denylist s1)) \<le> MAX_SMB_COMMANDS"
    using smbslower_main_ready [OF assms(1)] card_denied by blast
  show "card (dom (nslow_denylist s2)) \<le> MAX_NFS_COMMANDS"
    using nfsslower_main_ready [OF assms(2)] card_denied by blast
  obtain g where g: "dom (ssnoop_allowlist_cmds s3) = set (sso_cmd_filter g)"
      "dom (ssnoop_allowlist_errors s3) = set (sso_err_filter g)" "ssnoop_opts_inv g"
    using smbiosnoop_main_state [OF assms(3)] by (elim exE conjE) (rule that)
  show "card (dom (ssnoop_allowlist_cmds s3)) \<le> MAX_SMB_COMMANDS"
    using g card_length [of "sso_cmd_filter g"] by (simp add: ssnoop_opts_inv_def)
  show "card (dom (ssnoop_allowlist_errors s3)) \<le> MAX_SMB_STATUS_CODES"
    using g card_length [of "sso_err_filter g"] by (simp add: ssnoop_opts_inv_def)
  obtain h where h: "dom (nsnoop_allowlist_cmds s4) = set (no_cmd_filter h)"
      "dom (nsnoop_allowlist_errors s4) = word_of_int ` set (no_err_filter h)" "nsnoop_opts_inv h"
    using nfsiosnoop_main_state [OF assms(4)] by (elim exE conjE) (rule that)
  show "card (dom (nsnoop_allowlist_cmds s4)) \<le> MAX_NFS_COMMANDS"
    using h card_length [of "no_cmd_filter h"] by (simp add: nsnoop_opts_inv_def)
  show "card (dom (nsnoop_allowlist_errors s4)) \<le> MAX_ERROR_CODES"
    using h card_length [of "map (word_of_int :: int \<Rightarrow> s32) (no_err_filter h)"] by (simp add: nsnoop_opts_inv_def)
qed

section \<open>Concrete runs\<close>

text \<open>The record of the example.\<close>

lemma example_smb_run_ring:
  "map snd (smb_aodrb (example_smb_run
     (smbslower_init \<lparr>min_lat_ns = 10000000, slower_wakeup_data_size = 0\<rparr> Map.empty))) = [example_slow_event]"
  by (simp add: example_smb_run_def smbslower_release_eq smbslower_exit_aodrb smbslower_alloc_temp
      smbslower_init_def aod_example_env_def cifs_example_mem_def smb_record_def example_slow_event_def
      del: smbslower_alloc.simps)

theorem smbslower_consumer_reads_selected_witness:
  "\<exists>sk s t ctx'. smbslower_main True True True [] (\<lambda>_. smb_example_sys 1) [(K_skip, [])] = Parsed (Waiting sk s) \<and>
     smbslower_step\<^sup>*\<^sup>* s t \<and>
     rb_poll_into example_poll example_ctx (replicate 48 0) 1 0 (map encode_event (map snd (smb_aodrb t))) =
       (1, ctx', []) \<and>
     10000000 \<le> ev_metric (decode_event (take 48 (ext_buf ctx')))"
proof -
  let ?s = "smbslower_init \<lparr>min_lat_ns = 10000000, slower_wakeup_data_size = 0\<rparr> Map.empty"
  let ?t = "example_smb_run ?s"
  obtain sk where main: "smbslower_main True True True [] (\<lambda>_. smb_example_sys 1) [(K_skip, [])] = Parsed (Waiting sk ?s)"
    using smbslower_example_main by blast
  have len: "length (encode_event example_slow_event) = 48"
    by (simp add: length_encode_event example_slow_event_def zero_buf_def)
  obtain ctx' where poll: "rb_poll_into example_poll example_ctx (replicate 48 0) 1 0
      (map encode_event (map snd (smb_aodrb ?t))) = (1, ctx', [])"
    unfolding example_smb_run_ring
    by (simp add: rb_poll_into_def example_poll_def example_ctx_def copy_event_def buf_write_def
        sizeof_event_def len Let_def)
  have ok: "argp_parse (slower_parse_arg 20 True) [(K_skip, [])] (slower_opts_init 20) = Parsed g \<Longrightarrow>
      so_min_lat_ms g = 10" for g
    by (auto simp: slower_parse_arg_def slower_opts_init_def)
  have "10000000 \<le> ev_metric (decode_event (take 48 (drop (0 * 48) (ext_buf ctx'))))"
    using smbslower_consumer_reads_selected [OF main example_smb_run_steps example_poll_in_order _ _ _ poll, of 0] ok
    by (auto simp: sizeof_event_def example_ctx_def Let_def)
  with main poll example_smb_run_steps show ?thesis by auto
qed

text \<open>A request of nfsslower.\<close>

theorem nfsslower_reports_selected_witness:
  "\<exists>s t. nfsslower_main True True nfs_example_sys [] = Parsed (Waiting (nfsslower_select nfs_example_sys) s) \<and>
     nfsslower_step\<^sup>*\<^sup>* s t \<and> length (nslow_aodrb t) = 1 \<and>
     (\<forall>(f, ev) \<in> set (nslow_aodrb t). 10000000 \<le> ev_metric ev)"
proof -
  let ?s = "nfsslower_init \<lparr>min_lat_ns = 10000000, slower_wakeup_data_size = 0\<rparr> Map.empty"
  let ?s1 = "nfsslower_enter (Kprobe, nfs_example_mem, aod_example_env 100 0, 5) ?s"
  let ?t = "nfsslower_leave (Kprobe, nfs_example_mem, aod_example_env 20000100 0, None, 5) ?s1"
  have "nfsslower_step ?s1 ?t" by (rule nfs_leave) (simp_all add: aod_example_env_def zero_buf_def)
  then have run: "nfsslower_step\<^sup>*\<^sup>* ?s ?t"
    using nfs_enter by (meson converse_rtranclp_into_rtranclp r_into_rtranclp)
  have one: "length (nslow_aodrb ?t) = 1"
    by (simp add: nfsslower_leave_eq nfsslower_enter_eq nfsslower_exit_aodrb nfsslower_entry_temp
        nfsslower_init_def aod_example_env_def)
  have ok: "argp_parse (nfsslower_parse_arg True) [] nfsslower_opts_init = Parsed g \<Longrightarrow> so_min_lat_ms g = 10" for g
    by (auto simp: nfsslower_opts_init_def slower_opts_init_def)
  have "\<forall>(f, ev) \<in> set (nslow_aodrb ?t). 10000000 \<le> ev_metric ev"
    using nfsslower_reports_selected [OF nfsslower_example_main run] ok by fastforce
  with nfsslower_example_main run one show ?thesis by blast
qed

text \<open>Two failed commands, of which one has the status asked for.\<close>

definition example_smb_hit :: "u8 \<Rightarrow> trace_hit" where
  "example_smb_hit status = (aod_example_env 7 0, \<lambda>i. if i = 40 then status else 0)"

lemma er_status_example:
  "er_status (view_smb3_cmd_err_args (\<lambda>i. if i = 40 then 0x16 else 0)) = 0x16"
  "er_status (view_smb3_cmd_err_args (\<lambda>i. if i = 40 then 0x17 else 0)) = 0x17"
  by (simp_all add: view_smb3_cmd_err_args_def raw_u32_def raw_u16_def)

theorem smbiosnoop_reports_exactly_witness:
  "\<exists>sk s. smbiosnoop_main True True ssnoop_example_sys [(N_e, ''0x16'')] = Parsed (Waiting sk s) \<and>
     map snd (ssnoop_aodrb (smbiosnoop_run [example_smb_hit 0x17, example_smb_hit 0x16] s)) =
       [ssnoop_record (example_smb_hit 0x16)]"
proof -
  obtain sk s where main: "smbiosnoop_main True True ssnoop_example_sys [(N_e, ''0x16'')] = Parsed (Waiting sk s)"
    using smbiosnoop_example_main by blast
  show ?thesis
    using smbiosnoop_reports_exactly [OF main, of "[example_smb_hit 0x17, example_smb_hit 0x16]"] main
    unfolding ssnoop_example_parse example_smb_hit_def
    by (simp add: er_status_example ssnoop_example_opts_def ssnoop_opts_init_def Let_def
        aod_example_env_def wakeup_flags_def)
qed

text \<open>Two failed requests of NFS, of which one has the error asked for.\<close>

definition example_nfs_hit :: "u64 \<Rightarrow> nfs_hit" where
  "example_nfs_hit err = (nfs_example_mem, aod_example_env 7 0, lazy_ctx 99 18 err (\<lambda>_. 0), 5)"

theorem nfsiosnoop_reports_exactly_witness:
  "\<exists>sk s. nfsiosnoop_main True True nsnoop_example_sys [(N_e, ''13'')] = Parsed (Waiting sk s) \<and>
     map snd (nsnoop_aodrb (nfsiosnoop_run P_trace_nfs4_xdr_status_lazy [example_nfs_hit 14, example_nfs_hit 13] s)) =
       [nfs_hit_record P_trace_nfs4_xdr_status_lazy (example_nfs_hit 13)]"
proof -
  obtain s where main: "nfsiosnoop_main True True nsnoop_example_sys [(N_e, ''13'')] =
      Parsed (Waiting (nfsiosnoop_select nsnoop_example_sys) s)"
    using nfsiosnoop_example_main by blast
  have filters: "no_err_filter nsnoop_example_opts = [13]" "no_cmd_filter nsnoop_example_opts = []"
      "no_wakeup_data_size nsnoop_example_opts = 0"
    by (simp_all add: nsnoop_example_opts_def nsnoop_opts_init_def)
  have env: "rb_reserve (aod_example_env 7 0) (wakeup_flags 0 a)" for a
    by (simp add: aod_example_env_def wakeup_flags_def)
  have seen: "nfs_seen P_trace_nfs4_xdr_status_lazy (example_nfs_hit err) = (99, 18, ucast err, err \<noteq> 0)" for err
    by (simp add: example_nfs_hit_def view_lazy Let_def)
  obtain g p where "argp_parse (nsnoop_parse_arg True) [(N_e, ''13'')] nsnoop_opts_init = Parsed g"
    and p: "enabled (nfsiosnoop_select nsnoop_example_sys) = {p}"
    and records: "map snd (nsnoop_aodrb (nfsiosnoop_run p [example_nfs_hit 14, example_nfs_hit 13] s)) =
      map (nfs_hit_record p) (filter (\<lambda>hit.
        case (hit, nfs_seen p hit) of ((km, e, ctx, task), (xid, cmd, err, failed)) \<Rightarrow>
          failed \<and> (no_err_filter g = [] \<or> err \<in> word_of_int ` set (no_err_filter g)) \<and>
          (no_cmd_filter g = [] \<or> cmd \<in> set (no_cmd_filter g)) \<and>
          rb_reserve e (wakeup_flags (ucast (no_wakeup_data_size g)) (rb_avail e 0)))
        [example_nfs_hit 14, example_nfs_hit 13])"
    using nfsiosnoop_reports_exactly [OF main] by blast
  then have "g = nsnoop_example_opts" "p = P_trace_nfs4_xdr_status_lazy"
    using nsnoop_example_parse nsnoop_example_select [OF refl] by simp_all
  with records main seen [of 13] seen [of 14] show ?thesis
    by (simp add: filters env) (simp add: example_nfs_hit_def env)
qed

text \<open>The four tools started as in the examples.\<close>

theorem loader_maps_fit_witness:
  "\<exists>sk1 s1 sk2 s2 sk3 s3 sk4 s4.
     smbslower_main True True True [] (\<lambda>_. smb_example_sys 1) [(K_skip, [])] = Parsed (Waiting sk1 s1) \<and>
     nfsslower_main True True nfs_example_sys [] = Parsed (Waiting sk2 s2) \<and>
     smbiosnoop_main True True ssnoop_example_sys [(N_e, ''0x16'')] = Parsed (Waiting sk3 s3) \<and>
     nfsiosnoop_main True True nsnoop_example_sys [(N_e, ''13'')] = Parsed (Waiting sk4 s4) \<and>
     card (dom (ssnoop_allowlist_errors s3)) \<le> 256 \<and> card (dom (nsnoop_allowlist_errors s4)) \<le> 113"
proof -
  obtain sk1 sk2 s2 sk3 s3 sk4 s4 where main1: "smbslower_main True True True [] (\<lambda>_. smb_example_sys 1) [(K_skip, [])] =
      Parsed (Waiting sk1 (smbslower_init \<lparr>min_lat_ns = 10000000, slower_wakeup_data_size = 0\<rparr> Map.empty))"
    and main2: "nfsslower_main True True nfs_example_sys [] = Parsed (Waiting sk2 s2)"
    and main3: "smbiosnoop_main True True ssnoop_example_sys [(N_e, ''0x16'')] = Parsed (Waiting sk3 s3)"
    and main4: "nfsiosnoop_main True True nsnoop_example_sys [(N_e, ''13'')] = Parsed (Waiting sk4 s4)"
    by (rule example_mains)
  from loader_maps_fit [OF main1 main2 main3 main4]
  have "card (dom (ssnoop_allowlist_errors s3)) \<le> 256 \<and> card (dom (nsnoop_allowlist_errors s4)) \<le> 113" by simp
  with main1 main2 main3 main4 show ?thesis by blast
qed

end
